(* ===== verification/Prelude.thy ===== *)
theory Prelude
  imports Main "HOL-Library.AList"
begin

text \<open>
  Shared vocabulary of the development.

  \<^item> The type of dictionaries: a Python \<open>dict\<close> keeps insertion order, so it is an association
    list; \<open>dict_get\<close>, \<open>dict_set\<close>, \<open>dict_pop\<close> and \<open>dict_merge\<close> are \<open>d.get(k)\<close>, \<open>d[k] = v\<close>,
    \<open>d.pop(k, None)\<close> and \<open>d.update(e)\<close>.
  \<^item> Results: an operation that may raise returns \<open>error + value\<close>; sequencing is
    written with \<open>bind_result\<close>.
  \<^item> \<open>named_theorems\<close> collections: \<open>dict_simps\<close> (the lookup laws of dictionaries),
    \<open>text_simps\<close> (laws of the string operations of the theory Py\_Text), \<open>fail_closed\<close>
    (a guard that fails denies the request).
\<close>

named_theorems dict_simps "lookup laws of Python dictionaries"
named_theorems text_simps "laws of the Python string operations"
named_theorems fail_closed "failed guards deny"

subsection \<open>Dictionaries\<close>

type_synonym ('k, 'v) dict = "('k \<times> 'v) list"

definition dict_get :: "('k, 'v) dict \<Rightarrow> 'k \<Rightarrow> 'v option" where
  "dict_get d k = map_of d k"

definition dict_has :: "('k, 'v) dict \<Rightarrow> 'k \<Rightarrow> bool" where
  "dict_has d k \<longleftrightarrow> map_of d k \<noteq> None"

definition dict_set :: "('k, 'v) dict \<Rightarrow> 'k \<Rightarrow> 'v \<Rightarrow> ('k, 'v) dict" where
  "dict_set d k v = AList.update k v d"

definition dict_pop :: "('k, 'v) dict \<Rightarrow> 'k \<Rightarrow> ('k, 'v) dict" where
  "dict_pop d k = AList.delete k d"

fun dict_merge :: "('k, 'v) dict \<Rightarrow> ('k, 'v) dict \<Rightarrow> ('k, 'v) dict" where
  "dict_merge d [] = d"
| "dict_merge d ((k, v) # e) = dict_merge (dict_set d k v) e"

text \<open>\<open>d.setdefault(k, []).append(x)\<close>\<close>

definition dict_push :: "('k, 'v list) dict \<Rightarrow> 'k \<Rightarrow> 'v \<Rightarrow> ('k, 'v list) dict" where
  "dict_push d k x = dict_set d k ((case dict_get d k of None \<Rightarrow> [] | Some xs \<Rightarrow> xs) @ [x])"

definition dict_ok :: "('k, 'v) dict \<Rightarrow> bool" where
  "dict_ok d \<longleftrightarrow> distinct (map fst d)"

lemma dict_get_empty [simp, dict_simps]: "dict_get [] k = None"
  by (simp add: dict_get_def)

lemma dict_get_Cons [simp, dict_simps]:
  "dict_get ((k', v) # d) k = (if k = k' then Some v else dict_get d k)"
  by (simp add: dict_get_def)

lemma dict_has_iff: "dict_has d k \<longleftrightarrow> dict_get d k \<noteq> None"
  by (simp add: dict_has_def dict_get_def)

lemma dict_get_set [simp, dict_simps]:
  "dict_get (dict_set d k v) k' = (if k' = k then Some v else dict_get d k')"
  by (simp add: dict_get_def dict_set_def update_conv')

lemma dict_get_pop [simp, dict_simps]:
  "dict_get (dict_pop d k) k' = (if k' = k then None else dict_get d k')"
  by (simp add: dict_get_def dict_pop_def delete_conv')

lemma dict_get_in_set: "dict_get d k = Some v \<Longrightarrow> (k, v) \<in> set d"
  by (simp add: dict_get_def map_of_SomeD)

lemma dict_get_iff_in_set: "dict_ok d \<Longrightarrow> dict_get d k = Some v \<longleftrightarrow> (k, v) \<in> set d"
  by (simp add: dict_get_def dict_ok_def)

lemma dict_ok_set [simp]: "dict_ok d \<Longrightarrow> dict_ok (dict_set d k v)"
  by (simp add: dict_ok_def dict_set_def distinct_update)

lemma dict_ok_pop [simp]: "dict_ok d \<Longrightarrow> dict_ok (dict_pop d k)"
  by (simp add: dict_ok_def dict_pop_def distinct_delete)

lemma dict_ok_empty [simp]: "dict_ok []"
  by (simp add: dict_ok_def)

lemma dict_ok_merge [simp]: "dict_ok d \<Longrightarrow> dict_ok (dict_merge d e)"
  by (induction d e rule: dict_merge.induct) auto

text \<open>After \<open>d.update(e)\<close> a key of \<open>e\<close> has the last value \<open>e\<close> gives it, any other key keeps its own.\<close>

lemma dict_get_merge:
  "dict_get (dict_merge d e) k = (case dict_get (rev e) k of Some v \<Rightarrow> Some v | None \<Rightarrow> dict_get d k)"
  by (induction d e rule: dict_merge.induct)
    (auto simp: dict_get_def map_add_def dict_set_def update_conv' split: option.splits)

lemma set_dict_set_subset: "set (dict_set d k v) \<subseteq> insert (k, v) (set d)"
  unfolding dict_set_def by (induction d) auto

lemma set_dict_merge_subset: "set (dict_merge d e) \<subseteq> set d \<union> set e"
  by (induction d e rule: dict_merge.induct) (use set_dict_set_subset in fastforce)+

lemma dict_get_push [simp, dict_simps]:
  "dict_get (dict_push d k x) k' =
     (if k' = k then Some ((case dict_get d k of None \<Rightarrow> [] | Some xs \<Rightarrow> xs) @ [x]) else dict_get d k')"
  by (simp add: dict_push_def)

lemma dict_keys_set [simp, dict_simps]: "set (map fst (dict_set d k v)) = insert k (set (map fst d))"
  unfolding dict_set_def by (induction d) auto

lemma dict_keys_push [simp, dict_simps]: "set (map fst (dict_push d k x)) = insert k (set (map fst d))"
  unfolding dict_push_def by (rule dict_keys_set)

lemma dict_values_push [simp, dict_simps]:
  "set (concat (map snd (dict_push d k x))) = insert x (set (concat (map snd d)))"
  unfolding dict_push_def dict_set_def dict_get_def by (induction d) auto

lemma dict_ok_push [simp]: "dict_ok d \<Longrightarrow> dict_ok (dict_push d k x)"
  by (simp add: dict_push_def)

subsection \<open>Results\<close>

fun bind_result :: "'e + 'a \<Rightarrow> ('a \<Rightarrow> 'e + 'b) \<Rightarrow> 'e + 'b" where
  "bind_result (Inl e) f = Inl e"
| "bind_result (Inr x) f = f x"

lemma bind_result_Inr [simp]:
  "bind_result r f = Inr y \<longleftrightarrow> (\<exists>x. r = Inr x \<and> f x = Inr y)"
  by (cases r) auto

lemma bind_result_Inl:
  "bind_result r f = Inl e \<longleftrightarrow> r = Inl e \<or> (\<exists>x. r = Inr x \<and> f x = Inl e)"
  by (cases r) auto

text \<open>An early exit: a guard that raises before the rest.\<close>

lemma guard_Inr: "(if b then Inl e else r) = Inr x \<longleftrightarrow> \<not> b \<and> r = Inr x"
  by simp

fun result_map :: "('a \<Rightarrow> 'e + 'b) \<Rightarrow> 'a list \<Rightarrow> 'e + 'b list" where
  "result_map f [] = Inr []"
| "result_map f (x # xs) = bind_result (f x) (\<lambda>y. bind_result (result_map f xs) (\<lambda>ys. Inr (y # ys)))"

text \<open>\<open>result_map\<close> is a loop that appends one result per element and stops at the first exception.\<close>

lemma result_map_Inr_iff:
  "result_map f xs = Inr ys \<longleftrightarrow> list_all2 (\<lambda>x y. f x = Inr y) xs ys"
proof (induction xs arbitrary: ys)
  case Nil
  show ?case by auto
next
  case (Cons x xs)
  show ?case
    by (cases ys) (auto simp: Cons.IH)
qed

lemma result_map_in_set:
  assumes "result_map f xs = Inr ys" and "y \<in> set ys"
  shows "\<exists>x \<in> set xs. f x = Inr y"
using assms by (induction xs arbitrary: ys) auto

lemma list_all_concat: "list_all P (concat xss) \<longleftrightarrow> list_all (list_all P) xss"
  by (induction xss) auto

end
