(* ===== verification/Py_Text.thy ===== *)
theory Py_Text
  imports Prelude "HOL-Library.Char_ord" "HOL-Library.List_Lexorder" "HOL-Library.Sublist"
begin

text \<open>
  The operations of Python's \<open>str\<close> that the services use. A text is a \<open>string\<close> of code points
  below 256. On those code points \<open>is_space\<close>, \<open>is_word\<close>, \<open>is_alnum\<close> and \<open>py_lower\<close> are
  Python's \<open>str.isspace\<close>, \<open>\\w\<close>, \<open>str.isalnum\<close> and \<open>str.lower\<close>; \<open>py_upper\<close> is \<open>str.upper\<close>
  except that the micro sign and the y with diaeresis, whose capitals lie above 255, stay.
\<close>

definition py_ord :: "char \<Rightarrow> nat" where
  "py_ord c = of_char c"

definition is_space :: "char \<Rightarrow> bool" where
  "is_space c \<longleftrightarrow> (let n = py_ord c in 9 \<le> n \<and> n \<le> 13 \<or> 28 \<le> n \<and> n \<le> 32 \<or> n = 133 \<or> n = 160)"

definition is_digit :: "char \<Rightarrow> bool" where
  "is_digit c \<longleftrightarrow> 48 \<le> py_ord c \<and> py_ord c \<le> 57"

definition is_ascii_alpha :: "char \<Rightarrow> bool" where
  "is_ascii_alpha c \<longleftrightarrow> (let n = py_ord c in 65 \<le> n \<and> n \<le> 90 \<or> 97 \<le> n \<and> n \<le> 122)"

definition is_alnum :: "char \<Rightarrow> bool" where
  "is_alnum c \<longleftrightarrow> is_ascii_alpha c \<or> is_digit c \<or>
     (let n = py_ord c in n \<in> {170, 178, 179, 181, 185, 186, 188, 189, 190} \<or>
        192 \<le> n \<and> n \<noteq> 215 \<and> n \<noteq> 247)"

definition is_word :: "char \<Rightarrow> bool" where
  "is_word c \<longleftrightarrow> is_alnum c \<or> c = CHR ''_''"

definition lower_char :: "char \<Rightarrow> char" where
  "lower_char c = (let n = py_ord c in
     if 65 \<le> n \<and> n \<le> 90 \<or> 192 \<le> n \<and> n \<le> 222 \<and> n \<noteq> 215 then char_of (n + 32) else c)"

definition upper_char :: "char \<Rightarrow> string" where
  "upper_char c = (let n = py_ord c in
     if n = 223 then ''SS''
     else if 97 \<le> n \<and> n \<le> 122 \<or> 224 \<le> n \<and> n \<le> 254 \<and> n \<noteq> 247 then [char_of (n - 32)] else [c])"

definition py_lower :: "string \<Rightarrow> string" where
  "py_lower s = map lower_char s"

definition py_upper :: "string \<Rightarrow> string" where
  "py_upper s = concat (map upper_char s)"

definition lstrip_by :: "(char \<Rightarrow> bool) \<Rightarrow> string \<Rightarrow> string" where
  "lstrip_by p s = dropWhile p s"

definition rstrip_by :: "(char \<Rightarrow> bool) \<Rightarrow> string \<Rightarrow> string" where
  "rstrip_by p s = rev (dropWhile p (rev s))"

definition strip_by :: "(char \<Rightarrow> bool) \<Rightarrow> string \<Rightarrow> string" where
  "strip_by p s = rstrip_by p (lstrip_by p s)"

definition py_strip :: "string \<Rightarrow> string" where
  "py_strip s = strip_by is_space s"

fun split_on :: "char \<Rightarrow> string \<Rightarrow> string list" where
  "split_on c [] = [[]]"
| "split_on c (x # xs) =
     (if x = c then [] # split_on c xs
      else (case split_on c xs of [] \<Rightarrow> [[x]] | y # ys \<Rightarrow> (x # y) # ys))"

fun join :: "string \<Rightarrow> string list \<Rightarrow> string" where
  "join sep [] = []"
| "join sep [x] = x"
| "join sep (x # y # ys) = x @ sep @ join sep (y # ys)"

text \<open>\<open>partition_on c s\<close> is \<open>s.partition(c)\<close>: the text before the first \<open>c\<close>, whether there is one,
  and the text after it.\<close>

fun partition_on :: "char \<Rightarrow> string \<Rightarrow> string \<times> bool \<times> string" where
  "partition_on c [] = ([], False, [])"
| "partition_on c (x # xs) =
     (if x = c then ([], True, xs)
      else (case partition_on c xs of (a, b, r) \<Rightarrow> (x # a, b, r)))"

fun str_contains :: "string \<Rightarrow> string \<Rightarrow> bool" where
  "str_contains p [] \<longleftrightarrow> p = []"
| "str_contains p (c # cs) \<longleftrightarrow> prefix p (c # cs) \<or> str_contains p cs"

fun replace_char :: "char \<Rightarrow> string \<Rightarrow> string \<Rightarrow> string" where
  "replace_char c r [] = []"
| "replace_char c r (x # xs) = (if x = c then r else [x]) @ replace_char c r xs"

text \<open>\<open>s.replace(old, new)\<close> for a non-empty \<open>old\<close>\<close>

fun replace_all :: "string \<Rightarrow> string \<Rightarrow> string \<Rightarrow> string" where
  "replace_all old new [] = []"
| "replace_all old new (c # cs) =
     (if old \<noteq> [] \<and> take (length old) (c # cs) = old
      then new @ replace_all old new (drop (length old) (c # cs))
      else c # replace_all old new cs)"

fun split_words :: "string \<Rightarrow> string \<Rightarrow> string list" where
  "split_words acc [] = (if acc = [] then [] else [rev acc])"
| "split_words acc (c # cs) =
     (if is_space c then (if acc = [] then split_words [] cs else rev acc # split_words [] cs)
      else split_words (c # acc) cs)"

fun digits_of :: "nat \<Rightarrow> string" where
  "digits_of n = (if n < 10 then [char_of (48 + n)] else digits_of (n div 10) @ [char_of (48 + n mod 10)])"

declare digits_of.simps [simp del]

definition nat_str :: "nat \<Rightarrow> string" where
  "nat_str n = digits_of n"

definition int_str :: "int \<Rightarrow> string" where
  "int_str i = (if i < 0 then CHR ''-'' # nat_str (nat (- i)) else nat_str (nat i))"

subsection \<open>Laws\<close>

lemma py_ord_char_of [simp]: "n < 256 \<Longrightarrow> py_ord (char_of n) = n"
  by (simp add: py_ord_def)

lemma py_ord_less [simp]: "py_ord c < 256"
  unfolding py_ord_def by (rule nat_of_char_less_256)

lemma lower_char_idem [simp]: "lower_char (lower_char c) = lower_char c"
proof -
  have "py_ord c < 256" by simp
  then show ?thesis
    by (auto simp: lower_char_def Let_def)
qed

lemma py_lower_idem [simp, text_simps]: "py_lower (py_lower s) = py_lower s"
  by (simp add: py_lower_def)

lemma py_lower_Nil [simp]: "py_lower [] = []"
  by (simp add: py_lower_def)

lemma length_py_lower [simp]: "length (py_lower s) = length s"
  by (simp add: py_lower_def)

lemma py_strip_Nil [simp, text_simps]: "py_strip [] = []"
  by (simp add: py_strip_def strip_by_def rstrip_by_def lstrip_by_def)

lemma split_on_not_Nil [simp]: "split_on c s \<noteq> []"
  by (induction s) (auto split: list.splits)

lemma split_on_no_sep: "x \<in> set (split_on c s) \<Longrightarrow> c \<notin> set x"
  by (induction s arbitrary: x) (auto split: if_splits list.splits)

lemma join_split_on: "join [c] (split_on c s) = s"
proof (induction s)
  case Nil
  show ?case by simp
next
  case (Cons x s)
  obtain y ys where eq: "split_on c s = y # ys"
    by (cases "split_on c s") auto
  show ?case
    using Cons eq by (cases ys) auto
qed

lemma split_on_absent: "c \<notin> set s \<Longrightarrow> split_on c s = [s]"
  by (induction s) auto

lemma split_on_append_sep:
  "c \<notin> set x \<Longrightarrow> split_on c (x @ c # r) = x # split_on c r"
  by (induction x) auto

lemma split_on_join:
  "xs \<noteq> [] \<Longrightarrow> \<forall>x \<in> set xs. c \<notin> set x \<Longrightarrow> split_on c (join [c] xs) = xs"
proof (induction xs)
  case (Cons x xs)
  then show ?case
    by (cases xs) (auto simp: split_on_absent split_on_append_sep)
qed simp

lemma py_ord_inject [simp]: "py_ord c = py_ord d \<longleftrightarrow> c = d"
  by (simp add: py_ord_def)

lemma is_word_not_space: "is_word c \<Longrightarrow> \<not> is_space c"
  by (cases "py_ord c = 95") (auto simp: is_word_def is_alnum_def is_ascii_alpha_def is_digit_def is_space_def Let_def py_ord_def)

lemma is_word_lower: "is_word c \<Longrightarrow> is_word (lower_char c)"
proof -
  have us: "py_ord CHR ''_'' = 95"
    by (simp add: py_ord_def)
  have "py_ord c < 256" by simp
  then show "is_word c \<Longrightarrow> is_word (lower_char c)"
    unfolding is_word_def py_ord_inject[symmetric] us lower_char_def is_alnum_def is_ascii_alpha_def is_digit_def Let_def
    by auto
qed

lemma is_word_not_dot: "is_word c \<Longrightarrow> c \<noteq> CHR ''.''"
  by (auto simp: is_word_def is_alnum_def is_ascii_alpha_def is_digit_def Let_def py_ord_def)

lemma dropWhile_none: "\<forall>c \<in> set s. \<not> p c \<Longrightarrow> dropWhile p s = s"
  by (cases s) auto

lemma strip_by_none: "\<forall>c \<in> set s. \<not> p c \<Longrightarrow> strip_by p s = s"
  by (simp add: strip_by_def lstrip_by_def rstrip_by_def dropWhile_none)

lemma dropWhile_ends: "dropWhile p s = [] \<or> \<not> p (hd (dropWhile p s))"
  using hd_dropWhile by blast

lemma strip_by_idem: "strip_by p (strip_by p s) = strip_by p s"
proof -
  define u v where "u = dropWhile p s" and "v = rev (dropWhile p (rev u))"
  have "prefix v u"
    unfolding v_def by (metis suffix_dropWhile suffix_to_prefix rev_rev_ident)
  then have "v = [] \<or> \<not> p (hd v)"
    using dropWhile_ends[of p s] unfolding u_def prefix_def by (metis append_is_Nil_conv hd_append2)
  then have "dropWhile p v = v"
    by (cases v) auto
  moreover have "dropWhile p (rev v) = rev v"
    unfolding v_def using dropWhile_ends[of p "rev u"] by (metis dropWhile_idem rev_rev_ident)
  ultimately show ?thesis
    by (simp add: strip_by_def lstrip_by_def rstrip_by_def u_def[symmetric] v_def[symmetric])
qed

lemma py_strip_idem [simp, text_simps]: "py_strip (py_strip s) = py_strip s"
  by (simp add: py_strip_def strip_by_idem)

lemma replace_char_absent: "c \<notin> set s \<Longrightarrow> replace_char c r s = s"
  by (induction s) auto

lemma replace_all_absent:
  assumes "c \<in> set old" and "c \<notin> set s"
  shows "replace_all old new s = s"
  using assms(2)
proof (induction s)
  case (Cons d s)
  have "take (length old) (d # s) \<noteq> old"
    using assms(1) Cons.prems in_set_takeD by metis
  then show ?case
    using Cons by simp
qed simp

end
