(* ===== verification/Py_Regex.thy ===== *)
theory Py_Regex
  imports Py_Text
begin

text \<open>
  The part of Python's \<open>re\<close> module that the services use, as a backtracking matcher. A position in
  the text is the text before it (reversed), the text after it and the groups captured so far;
  \<open>rx_match\<close> lists the positions a pattern can end at in the order the engine tries them, so the
  head of the list is the match that \<open>re\<close> reports. A repetition stops at an empty iteration.
  \<open>rx_ci\<close> is a literal under \<open>re.IGNORECASE\<close>.
\<close>

datatype rx =
    Rx_Eps
  | Rx_Cls "char \<Rightarrow> bool"
  | Rx_Seq rx rx
  | Rx_Alt rx rx
  | Rx_Star bool rx
  | Rx_Group rx
  | Rx_Boundary
  | Rx_Start
  | Rx_End
  | Rx_EndAbs
  | Rx_Look bool rx

record rx_pos =
  rp_before :: string
  rp_after :: string
  rp_groups :: "string list"

definition boundary_at :: "rx_pos \<Rightarrow> bool" where
  "boundary_at p =
     ((case rp_before p of [] \<Rightarrow> False | c # _ \<Rightarrow> is_word c) \<noteq>
      (case rp_after p of [] \<Rightarrow> False | c # _ \<Rightarrow> is_word c))"

definition consumed :: "rx_pos \<Rightarrow> rx_pos \<Rightarrow> string" where
  "consumed p q = rev (take (length (rp_before q) - length (rp_before p)) (rp_before q))"

function rx_match :: "rx \<Rightarrow> rx_pos \<Rightarrow> rx_pos list" where
  "rx_match Rx_Eps p = [p]"
| "rx_match (Rx_Cls f) p =
     (case rp_after p of
        [] \<Rightarrow> []
      | c # cs \<Rightarrow> if f c then [p\<lparr>rp_before := c # rp_before p, rp_after := cs\<rparr>] else [])"
| "rx_match (Rx_Seq r s) p = concat (map (rx_match s) (rx_match r p))"
| "rx_match (Rx_Alt r s) p = rx_match r p @ rx_match s p"
| "rx_match (Rx_Star greedy r) p =
     (let more = concat (map (\<lambda>q. if length (rp_after q) < length (rp_after p)
                                  then rx_match (Rx_Star greedy r) q else []) (rx_match r p))
      in if greedy then more @ [p] else p # more)"
| "rx_match (Rx_Group r) p =
     map (\<lambda>q. q\<lparr>rp_groups := rp_groups q @ [consumed p q]\<rparr>) (rx_match r p)"
| "rx_match Rx_Boundary p = (if boundary_at p then [p] else [])"
| "rx_match Rx_Start p = (if rp_before p = [] then [p] else [])"
| "rx_match Rx_End p = (if rp_after p = [] \<or> rp_after p = [CHR 0x0A] then [p] else [])"
| "rx_match Rx_EndAbs p = (if rp_after p = [] then [p] else [])"
| "rx_match (Rx_Look positive r) p = (if (rx_match r p \<noteq> []) = positive then [p] else [])"
  by pat_completeness auto
termination
  by (relation "measures [\<lambda>(r, p). size r, \<lambda>(r, p). length (rp_after p)]") auto

lemmas rx_star_unfold = rx_match.simps(5)

declare rx_match.simps(5) [simp del]

definition rx_cat :: "rx list \<Rightarrow> rx" where
  "rx_cat rs = foldr Rx_Seq rs Rx_Eps"

definition rx_lit :: "string \<Rightarrow> rx" where
  "rx_lit s = rx_cat (map (\<lambda>c. Rx_Cls ((=) c)) s)"

definition rx_ci :: "string \<Rightarrow> rx" where
  "rx_ci s = rx_cat (map (\<lambda>c. Rx_Cls (\<lambda>d. lower_char d = lower_char c)) s)"

definition rx_any_of :: "rx list \<Rightarrow> rx" where
  "rx_any_of rs = (case rs of [] \<Rightarrow> Rx_Cls (\<lambda>_. False) | r # rs \<Rightarrow> foldl Rx_Alt r rs)"

definition rx_star :: "(char \<Rightarrow> bool) \<Rightarrow> rx" where
  "rx_star f = Rx_Star True (Rx_Cls f)"

definition rx_plus :: "(char \<Rightarrow> bool) \<Rightarrow> rx" where
  "rx_plus f = Rx_Seq (Rx_Cls f) (rx_star f)"

definition rx_opt :: "rx \<Rightarrow> rx" where
  "rx_opt r = Rx_Alt r Rx_Eps"

definition rx_lazy_any :: rx where
  "rx_lazy_any = Rx_Star False (Rx_Cls (\<lambda>_. True))"

definition rx_start :: "string \<Rightarrow> rx_pos" where
  "rx_start s = \<lparr>rp_before = [], rp_after = s, rp_groups = []\<rparr>"

definition step_pos :: "rx_pos \<Rightarrow> rx_pos" where
  "step_pos p = (case rp_after p of [] \<Rightarrow> p
     | c # cs \<Rightarrow> p\<lparr>rp_before := c # rp_before p, rp_after := cs\<rparr>)"

text \<open>\<open>rx_find\<close> is the scan of \<open>re.search\<close>: the first start, from the left, at which the pattern
  matches, with the end the engine reports. \<open>rx_findall\<close> goes on from that end (one character later
  after an empty match).\<close>

function rx_find :: "rx \<Rightarrow> rx_pos \<Rightarrow> (rx_pos \<times> rx_pos) option" where
  "rx_find r p =
     (case rx_match r p of
        q # _ \<Rightarrow> Some (p, q)
      | [] \<Rightarrow> if rp_after p = [] then None else rx_find r (step_pos p))"
  by pat_completeness auto
termination
  by (relation "measure (\<lambda>(r, p). length (rp_after p))")
    (auto simp: step_pos_def split: list.splits)

declare rx_find.simps [simp del]

definition rx_search :: "rx \<Rightarrow> string \<Rightarrow> (rx_pos \<times> rx_pos) option" where
  "rx_search r s = rx_find r (rx_start s)"

definition rx_matches :: "rx \<Rightarrow> string \<Rightarrow> bool" where
  "rx_matches r s \<longleftrightarrow> rx_match r (rx_start s) \<noteq> []"

definition rx_fullmatch :: "rx \<Rightarrow> string \<Rightarrow> bool" where
  "rx_fullmatch r s \<longleftrightarrow> rx_matches (Rx_Seq r Rx_EndAbs) s"

definition rx_found :: "rx \<Rightarrow> string \<Rightarrow> bool" where
  "rx_found r s \<longleftrightarrow> rx_search r s \<noteq> None"

text \<open>The successive non-overlapping matches; the fuel is the number of starts left.\<close>

fun rx_scan :: "nat \<Rightarrow> rx \<Rightarrow> rx_pos \<Rightarrow> (rx_pos \<times> rx_pos) list" where
  "rx_scan 0 r p = []"
| "rx_scan (Suc n) r p =
     (case rx_find r p of
        None \<Rightarrow> []
      | Some (a, b) \<Rightarrow>
          (a, b) # (if rp_after b = [] then []
                    else rx_scan n r ((if consumed a b = [] then step_pos b else b)\<lparr>rp_groups := []\<rparr>)))"

definition rx_finditer :: "rx \<Rightarrow> string \<Rightarrow> (rx_pos \<times> rx_pos) list" where
  "rx_finditer r s = rx_scan (Suc (length s)) r (rx_start s)"

definition matched :: "rx_pos \<times> rx_pos \<Rightarrow> string" where
  "matched m = consumed (fst m) (snd m)"

definition group1 :: "rx_pos \<times> rx_pos \<Rightarrow> string" where
  "group1 m = (case rp_groups (snd m) of [] \<Rightarrow> [] | g # _ \<Rightarrow> g)"

definition rx_findall :: "rx \<Rightarrow> string \<Rightarrow> string list" where
  "rx_findall r s = map matched (rx_finditer r s)"

definition before_match :: "rx_pos \<times> rx_pos \<Rightarrow> string" where
  "before_match m = rev (rp_before (fst m))"

text \<open>\<open>re.sub\<close> with a constant replacement: the text between the matches, with the replacement for
  each match.\<close>

fun rx_sub_parts :: "string \<Rightarrow> string \<Rightarrow> nat \<Rightarrow> (rx_pos \<times> rx_pos) list \<Rightarrow> string" where
  "rx_sub_parts repl s i [] = drop i s"
| "rx_sub_parts repl s i (m # ms) =
     take (length (rp_before (fst m)) - i) (drop i s) @ repl @
     rx_sub_parts repl s (length (rp_before (snd m))) ms"

definition rx_sub :: "rx \<Rightarrow> string \<Rightarrow> string \<Rightarrow> string" where
  "rx_sub r repl s = rx_sub_parts repl s 0 (rx_finditer r s)"

subsection \<open>Laws\<close>

definition whole :: "rx_pos \<Rightarrow> string" where
  "whole p = rev (rp_before p) @ rp_after p"

text \<open>A match consumes a piece of the text: what it took, followed by what is left, is the text that
  was there.\<close>

definition extends :: "rx_pos \<Rightarrow> rx_pos \<Rightarrow> bool" where
  "extends p q \<longleftrightarrow> (\<exists>w. rp_before q = rev w @ rp_before p \<and> rp_after p = w @ rp_after q)"

lemma extends_refl [simp, intro]: "extends p p"
  by (simp add: extends_def)

lemma extends_trans: "extends p q \<Longrightarrow> extends q r \<Longrightarrow> extends p r"
  by (fastforce simp: extends_def)

lemma extends_groups [simp]: "extends p (q\<lparr>rp_groups := g\<rparr>) = extends p q"
  by (simp add: extends_def)

lemma extends_groups_left [simp]: "extends (p\<lparr>rp_groups := g\<rparr>) q = extends p q"
  by (simp add: extends_def)

lemma rx_match_extends: "q \<in> set (rx_match r p) \<Longrightarrow> extends p q"
proof (induction r p arbitrary: q rule: rx_match.induct)
  case (2 f p)
  then show ?case
    by (auto simp: extends_def split: list.splits if_splits)
next
  case (3 r s p)
  then show ?case
    by (auto intro: extends_trans)
next
  case (5 greedy r p)
  have "q = p \<or> (\<exists>q1 \<in> set (rx_match r p). length (rp_after q1) < length (rp_after p) \<and>
      q \<in> set (rx_match (Rx_Star greedy r) q1))"
    using 5(3) by (subst (asm) rx_star_unfold) (auto simp: Let_def split: if_splits)
  then show ?case
    using 5(1,2) extends_trans extends_refl by blast
qed (auto split: if_splits)

lemma extends_consumed: "extends p q \<Longrightarrow> rp_after p = consumed p q @ rp_after q"
  by (auto simp: extends_def consumed_def)

lemma extends_whole: "extends p q \<Longrightarrow> whole q = whole p"
  by (auto simp: extends_def whole_def)

lemma extends_step: "extends p (step_pos p)"
  by (auto simp: step_pos_def extends_def split: list.splits)

lemma rx_find_extends:
  "rx_find r p = Some (a, b) \<Longrightarrow> extends p a \<and> extends a b"
proof (induction r p rule: rx_find.induct)
  case (1 r p)
  show ?case
  proof (cases "rx_match r p")
    case Nil
    with 1 show ?thesis
      by (subst (asm) (2) rx_find.simps) (auto split: if_splits intro: extends_trans extends_step)
  next
    case (Cons q qs)
    with 1(2) have "a = p" "b = q"
      by (auto simp: rx_find.simps)
    moreover have "extends p q"
      using Cons by (intro rx_match_extends[of q r]) simp
    ultimately show ?thesis
      by simp
  qed
qed

lemma rx_search_infix:
  assumes "rx_search r s = Some m"
  shows "s = before_match m @ matched m @ rp_after (snd m)"
proof -
  obtain a b where m: "m = (a, b)"
    by (cases m)
  then have ex: "extends (rx_start s) a" "extends a b"
    using assms rx_find_extends[of r "rx_start s" a b] by (auto simp: rx_search_def)
  have "whole a = whole (rx_start s)"
    using ex(1) by (rule extends_whole)
  then show ?thesis
    using extends_consumed[OF ex(2)] m
    by (simp add: whole_def before_match_def matched_def rx_start_def)
qed

lemma rx_match_cls_iff:
  "rx_match (Rx_Cls f) p \<noteq> [] \<longleftrightarrow> (\<exists>c cs. rp_after p = c # cs \<and> f c)"
  by (auto split: list.splits)

lemma rx_star_step:
  "rx_match (rx_star f) p =
     (case rp_after p of
        [] \<Rightarrow> [p]
      | c # cs \<Rightarrow> (if f c then rx_match (rx_star f) (p\<lparr>rp_before := c # rp_before p, rp_after := cs\<rparr>) else []) @ [p])"
  unfolding rx_star_def by (subst rx_star_unfold) (auto simp: Let_def split: list.split)

text \<open>A maximal run: a greedy star of one class takes the longest prefix first.\<close>

lemma rx_star_hd:
  "hd (rx_match (rx_star f) p) =
     p\<lparr>rp_before := rev (takeWhile f (rp_after p)) @ rp_before p, rp_after := dropWhile f (rp_after p)\<rparr>
   \<and> rx_match (rx_star f) p \<noteq> []"
proof (induction "rp_after p" arbitrary: p)
  case Nil
  then show ?case
    by (simp add: rx_star_step Nil[symmetric])
next
  case (Cons c cs)
  let ?q = "p\<lparr>rp_before := c # rp_before p, rp_after := cs\<rparr>"
  have eq: "rp_after p = c # cs"
    using Cons(2) by simp
  show ?case
  proof (cases "f c")
    case True
    then have "rx_match (rx_star f) p = rx_match (rx_star f) ?q @ [p]"
      by (simp add: rx_star_step eq)
    then show ?thesis
      using Cons(1)[of ?q] True by (simp add: eq hd_append)
  next
    case False
    then show ?thesis
      by (simp add: rx_star_step eq)
  qed
qed

lemma rx_star_end_iff:
  "(\<exists>q \<in> set (rx_match (rx_star f) p). rp_after q = []) \<longleftrightarrow> (\<forall>c \<in> set (rp_after p). f c)"
proof (induction "rp_after p" arbitrary: p)
  case Nil
  then show ?case
    by (simp add: rx_star_step Nil[symmetric])
next
  case (Cons c cs)
  have eq: "rp_after p = c # cs"
    using Cons(2) by simp
  show ?case
    using Cons(1)[of "p\<lparr>rp_before := c # rp_before p, rp_after := cs\<rparr>"]
    by (auto simp: rx_star_step[of f p] eq)
qed

lemma rx_seq_hd:
  assumes "rx_match r p \<noteq> []" and "rx_match s (hd (rx_match r p)) \<noteq> []"
  shows "rx_match (Rx_Seq r s) p \<noteq> [] \<and> hd (rx_match (Rx_Seq r s) p) = hd (rx_match s (hd (rx_match r p)))"
  using assms by (cases "rx_match r p") auto

lemma rx_plus_hd:
  assumes "rp_after p = c # cs" and "f c"
  shows "rx_match (rx_plus f) p \<noteq> [] \<and> hd (rx_match (rx_plus f) p) =
     p\<lparr>rp_before := rev (takeWhile f (rp_after p)) @ rp_before p, rp_after := dropWhile f (rp_after p)\<rparr>"
proof -
  let ?q = "p\<lparr>rp_before := c # rp_before p, rp_after := cs\<rparr>"
  have m: "rx_match (Rx_Cls f) p = [?q]"
    using assms by simp
  have "rx_match (rx_plus f) p \<noteq> [] \<and> hd (rx_match (rx_plus f) p) = hd (rx_match (rx_star f) ?q)"
    using rx_seq_hd[of "Rx_Cls f" p "rx_star f"] rx_star_hd[of f ?q] m by (simp add: rx_plus_def)
  then show ?thesis
    using rx_star_hd[of f ?q] assms by simp
qed

end
