(* ===== verification/Sql_Ast.thy ===== *)
theory Sql_Ast
  imports Py_Regex
begin

text \<open>
  Parsed statements as the services see them. The parsers (sqlglot, sqlparse) are not part of the
  repository: parsing is a parameter, and a parsed statement is a value of one of the two types below.

  \<^item> \<open>node\<close> is a sqlglot expression: the names of its class and superclasses, the text properties the
    code reads (\<open>name\<close>, \<open>alias_or_name\<close>, \<open>db\<close>, \<open>catalog\<close>, \<open>table\<close>), and its children, each with
    the name of the argument that holds it.
  \<^item> \<open>sp_statement\<close> is a sqlparse statement: its type, its leaf tokens and its top-level tokens.

  The rest of the theory is sql\_query\_api/repositories/sql\_validators/ast\_analyzer.py.
\<close>

subsection \<open>Syntax trees\<close>

record node_text =
  nt_name :: string
  nt_alias_or_name :: string
  nt_db :: string
  nt_catalog :: string
  nt_table :: string

datatype node = Node (nd_types: "string list") (nd_text: node_text) (nd_args: "(string \<times> node) list")

abbreviation nd_name :: "node \<Rightarrow> string" where
  "nd_name n \<equiv> nt_name (nd_text n)"

definition isinstance :: "node \<Rightarrow> string \<Rightarrow> bool" where
  "isinstance n c \<longleftrightarrow> c \<in> set (nd_types n)"

definition children :: "node \<Rightarrow> node list" where
  "children n = map snd (nd_args n)"

definition args_of :: "node \<Rightarrow> string \<Rightarrow> node list" where
  "args_of n arg = map snd (filter (\<lambda>(a, _). a = arg) (nd_args n))"

definition arg_of :: "node \<Rightarrow> string \<Rightarrow> node option" where
  "arg_of n arg = (case args_of n arg of [] \<Rightarrow> None | c # _ \<Rightarrow> Some c)"

lemma size_child [termination_simp]: "(a, c) \<in> set args \<Longrightarrow> size c < Suc (size_list (size_prod (\<lambda>_. 0) size) args)"
  by (induction args) auto

fun node_count :: "node \<Rightarrow> nat" where
  "node_count (Node ts tx args) = Suc (sum_list (map (\<lambda>(a, c). node_count c) args))"

text \<open>\<open>walk()\<close> and \<open>find_all(C)\<close> go breadth-first.\<close>

function bfs :: "node list \<Rightarrow> node list" where
  "bfs [] = []"
| "bfs (n # ns) = n # bfs (ns @ children n)"
  by pat_completeness auto

lemma node_count_children: "node_count n = Suc (sum_list (map node_count (children n)))"
  by (cases n) (simp add: children_def comp_def case_prod_unfold)

termination bfs
  by (relation "measure (\<lambda>ns. sum_list (map node_count ns))") (auto simp: node_count_children[of n for n])

definition walk :: "node \<Rightarrow> node list" where
  "walk n = bfs [n]"

definition find_all :: "node \<Rightarrow> string \<Rightarrow> node list" where
  "find_all n c = filter (\<lambda>m. isinstance m c) (walk n)"

text \<open>The nodes of a tree, without the order.\<close>

fun subnodes :: "node \<Rightarrow> node set" where
  "subnodes (Node ts tx args) = insert (Node ts tx args) (\<Union>(a, c) \<in> set args. subnodes c)"

lemma subnodes_children: "subnodes n = insert n (\<Union>c \<in> set (children n). subnodes c)"
  by (cases n) (simp add: children_def case_prod_unfold)

lemma set_bfs: "set (bfs ns) = (\<Union>n \<in> set ns. subnodes n)"
proof (induction ns rule: bfs.induct)
  case (2 n ns)
  have "set (bfs (n # ns)) = insert n (\<Union> (subnodes ` set (children n))) \<union> (\<Union>m \<in> set ns. subnodes m)"
    using 2 by auto
  then show ?case
    unfolding subnodes_children[of n, symmetric] by simp
qed simp

lemma set_walk: "set (walk n) = subnodes n"
  unfolding walk_def set_bfs by simp

lemma set_find_all: "set (find_all n c) = {m \<in> subnodes n. isinstance m c}"
  by (simp add: find_all_def set_walk)

subsection \<open>Token streams\<close>

type_synonym ttype = "string list"

record sp_leaf =
  lf_ttype :: ttype
  lf_value :: string

datatype sp_name = Sp_Name (sp_parent: "string option") (sp_real: "string option")

datatype sp_token =
    Sp_Leaf ttype string
  | Sp_Identifier sp_name
  | Sp_Identifier_List "sp_name list"
  | Sp_Function string
  | Sp_Other

record sp_statement =
  ss_type :: string
  ss_leaves :: "sp_leaf list"
  ss_tokens :: "sp_token list"

text \<open>\<open>parse\<close> is \<open>sqlglot.parse\<close> (in the PostgreSQL dialect, and in the default one), \<open>parse_one\<close> is
  \<open>sqlglot.parse_one\<close> and \<open>sp_parse\<close> is \<open>sqlparse.parse\<close>; \<open>None\<close> is an exception.\<close>

record sql_parsers =
  lib_parse :: "string \<Rightarrow> node option list option"
  lib_parse_default :: "string \<Rightarrow> node option list option"
  lib_parse_one :: "string \<Rightarrow> node option"
  lib_sp_parse :: "string \<Rightarrow> sp_statement list option"

subsection \<open>Analyzer\<close>

definition FORBIDDEN_FUNCTIONS :: "string list" where
  "FORBIDDEN_FUNCTIONS =
     [''pg_read_file'', ''pg_read_binary_file'', ''pg_write_file'', ''pg_write_binary_file'', ''pg_file_write'',
      ''pg_file_rename'', ''pg_file_unlink'', ''pg_execute_server_program'', ''pg_terminate_backend'',
      ''pg_cancel_backend'', ''pg_sleep'', ''pg_sleep_for'', ''pg_sleep_until'', ''pg_advisory_lock'',
      ''pg_advisory_lock_shared'', ''pg_try_advisory_lock'', ''pg_try_advisory_lock_shared'',
      ''pg_advisory_xact_lock'', ''pg_advisory_xact_lock_shared'', ''dblink'', ''dblink_exec'',
      ''dblink_connect'', ''dblink_open'', ''dblink_fetch'', ''dblink_close'', ''dblink_disconnect'',
      ''lo_import'', ''lo_export'', ''lo_create'', ''lo_unlink'', ''lo_from_bytea'', ''lo_put'',
      ''lo_truncate'', ''query_to_xml'', ''table_to_xml'', ''cursor_to_xml'', ''copy'']"

definition MUTATION_EXPRESSION_TYPES :: "string list" where
  "MUTATION_EXPRESSION_TYPES =
     [''Insert'', ''Update'', ''Delete'', ''Drop'', ''Create'', ''Alter'', ''Command'', ''TruncateTable'',
      ''Merge'', ''Into'']"

definition normalize_function_name :: "string option \<Rightarrow> string" where
  "normalize_function_name name =
     (case name of
        None \<Rightarrow> []
      | Some s \<Rightarrow> if s = [] then []
          else py_lower (py_strip (last (split_on CHR ''.''
            (filter (\<lambda>c. c \<notin> {CHR 0x22, CHR 0x60, CHR 0x27}) s)))))"

definition somes :: "'a option list \<Rightarrow> 'a list" where
  "somes xs = concat (map (\<lambda>x. case x of None \<Rightarrow> [] | Some y \<Rightarrow> [y]) xs)"

definition parse_statements :: "sql_parsers \<Rightarrow> string \<Rightarrow> node list" where
  "parse_statements lib sql =
     (if sql = [] \<or> py_strip sql = [] then []
      else (case lib_parse lib sql of
              Some xs \<Rightarrow> somes xs
            | None \<Rightarrow> (case lib_parse_default lib sql of Some xs \<Rightarrow> somes xs | None \<Rightarrow> [])))"

definition is_single_statement :: "sql_parsers \<Rightarrow> string \<Rightarrow> bool" where
  "is_single_statement lib sql \<longleftrightarrow> length (parse_statements lib sql) = 1"

definition node_read_only :: "node \<Rightarrow> bool" where
  "node_read_only n \<longleftrightarrow>
     \<not> list_ex (isinstance n) MUTATION_EXPRESSION_TYPES \<and> \<not> isinstance n ''Lock'' \<and>
     ((isinstance n ''Anonymous'' \<or> isinstance n ''Func'') \<longrightarrow>
        normalize_function_name (Some (nd_name n)) \<notin> set FORBIDDEN_FUNCTIONS)"

definition is_strictly_read_only :: "sql_parsers \<Rightarrow> string \<Rightarrow> bool" where
  "is_strictly_read_only lib sql \<longleftrightarrow>
     (case parse_statements lib sql of
        [root] \<Rightarrow> isinstance root ''Query'' \<and> list_all node_read_only (walk root)
      | _ \<Rightarrow> False)"

text \<open>Append without duplicates, as the code builds its list of tables.\<close>

definition add_new :: "string list \<Rightarrow> string \<Rightarrow> string list" where
  "add_new xs x = (if x \<in> set xs then xs else xs @ [x])"

definition extract_tables :: "sql_parsers \<Rightarrow> string \<Rightarrow> string list" where
  "extract_tables lib sql =
     (case parse_statements lib sql of
        [] \<Rightarrow> []
      | root # _ \<Rightarrow>
          let ctes = map (\<lambda>c. py_lower (nt_alias_or_name (nd_text c))) (find_all root ''CTE'')
          in foldl (\<lambda>acc t. let x = py_lower (nd_name t) in
               if x \<noteq> [] \<and> x \<notin> set ctes then add_new acc x else acc) [] (find_all root ''Table''))"

definition column_names :: "node \<Rightarrow> string set" where
  "column_names root = set (filter (\<lambda>c. c \<noteq> []) (map (\<lambda>c. py_lower (nd_name c)) (find_all root ''Column'')))"

definition extract_referenced_columns :: "sql_parsers \<Rightarrow> string \<Rightarrow> string set" where
  "extract_referenced_columns lib sql =
     (case parse_statements lib sql of
        [] \<Rightarrow> {}
      | root # _ \<Rightarrow>
          if isinstance root ''Select'' \<and> list_ex (\<lambda>s. isinstance s ''Star'') (args_of root ''expressions'')
          then {''*''} else column_names root)"

definition dict_add :: "(string, string set) dict \<Rightarrow> string \<Rightarrow> string \<Rightarrow> (string, string set) dict" where
  "dict_add d k x = dict_set d k (insert x (case dict_get d k of None \<Rightarrow> {} | Some S \<Rightarrow> S))"

definition or_star :: "string \<Rightarrow> string" where
  "or_star s = (if s = [] then ''*'' else s)"

definition add_column :: "(string, string set) dict \<Rightarrow> node \<Rightarrow> (string, string set) dict" where
  "add_column d c = dict_add d (py_lower (or_star (nt_table (nd_text c)))) (py_lower (nd_name c))"

definition add_projection :: "(string, string set) dict \<Rightarrow> node \<Rightarrow> (string, string set) dict" where
  "add_projection d s =
     (if isinstance s ''Star'' then dict_add d ''*'' ''*''
      else if isinstance s ''Column'' then add_column d s
      else if isinstance s ''Alias'' then
        foldl add_column d (case arg_of s ''this'' of None \<Rightarrow> [] | Some i \<Rightarrow> find_all i ''Column'')
      else foldl add_column d (find_all s ''Column''))"

definition extract_selected_columns_by_table :: "sql_parsers \<Rightarrow> string \<Rightarrow> (string, string set) dict" where
  "extract_selected_columns_by_table lib sql =
     (case parse_statements lib sql of
        [] \<Rightarrow> []
      | root # _ \<Rightarrow>
          if isinstance root ''Select'' then foldl add_projection [] (args_of root ''expressions'') else [])"

subsection \<open>Lemmas\<close>

lemma set_add_new [simp]: "set (add_new xs x) = insert x (set xs)"
  by (auto simp: add_new_def)

lemma distinct_add_new [simp]: "distinct xs \<Longrightarrow> distinct (add_new xs x)"
  by (simp add: add_new_def)

lemma extract_tables_fold:
  "set (foldl (\<lambda>acc t. let x = py_lower (nd_name t) in
      if x \<noteq> [] \<and> x \<notin> C then add_new acc x else acc) acc ts) =
   set acc \<union> {x. \<exists>t \<in> set ts. x = py_lower (nd_name t) \<and> x \<noteq> [] \<and> x \<notin> C}"
  by (induction ts arbitrary: acc) (auto simp: Let_def)

lemma extract_tables_distinct: "distinct (extract_tables lib sql)"
proof -
  have "distinct acc \<Longrightarrow> distinct (foldl (\<lambda>acc t. let x = py_lower (nd_name t) in
      if x \<noteq> [] \<and> x \<notin> C then add_new acc x else acc) acc ts)" for C acc ts
    by (induction ts arbitrary: acc) (auto simp: Let_def)
  then show ?thesis
    by (simp add: extract_tables_def Let_def split: list.splits)
qed

text \<open>A table name is reported exactly when the first statement has a table node with that name which no
  common table expression of the statement defines.\<close>

lemma extract_tables_iff:
  assumes "parse_statements lib sql = root # rest"
  shows "x \<in> set (extract_tables lib sql) \<longleftrightarrow>
     x \<noteq> [] \<and> (\<exists>t \<in> subnodes root. isinstance t ''Table'' \<and> py_lower (nd_name t) = x) \<and>
     (\<forall>c \<in> subnodes root. isinstance c ''CTE'' \<longrightarrow> py_lower (nt_alias_or_name (nd_text c)) \<noteq> x)"
proof -
  have "set (extract_tables lib sql) = {x. \<exists>t \<in> set (find_all root ''Table''). x = py_lower (nd_name t) \<and> x \<noteq> [] \<and>
      x \<notin> set (map (\<lambda>c. py_lower (nt_alias_or_name (nd_text c))) (find_all root ''CTE''))}"
    using assms extract_tables_fold[where acc = "[]"] by (simp add: extract_tables_def Let_def)
  then show ?thesis
    by (auto simp: set_find_all image_iff)
qed

lemma strictly_read_only_nodes:
  assumes "is_strictly_read_only lib sql"
  shows "\<exists>root. parse_statements lib sql = [root] \<and> isinstance root ''Query'' \<and> (\<forall>n \<in> subnodes root. node_read_only n)"
  using assms by (auto simp: is_strictly_read_only_def set_walk list_all_iff split: list.splits)

end
