(* ===== verification/Py_Json.thy ===== *)
theory Py_Json
  imports Py_Text Complex_Main
begin

text \<open>
  Decoded JSON documents as the services receive them (token claims, policy documents, decisions of
  the policy sidecar, configuration files), with the dynamic operations Python offers on them:
  truthiness, \<open>a or b\<close>, \<open>d.get(k)\<close>, iteration and \<open>str(x)\<close>. A float is a real number. The text of a
  float or of a container is library formatting that no decision depends on, so \<open>py_str\<close> takes it
  as the parameter \<open>rep\<close>.
\<close>

datatype json =
    JNull
  | JBool bool
  | JInt int
  | JFloat real
  | JStr string
  | JArr "json list"
  | JObj "(string \<times> json) list"

type_synonym obj = "(string, json) dict"

datatype exn =
    TypeError
  | ValueError string
  | AttributeError string
  | PermissionError string
  | RuntimeError string
  | LibraryError string
  | ForbiddenSql string
  | SqlExecution string

fun truthy :: "json \<Rightarrow> bool" where
  "truthy JNull = False"
| "truthy (JBool b) = b"
| "truthy (JInt i) = (i \<noteq> 0)"
| "truthy (JFloat r) = (r \<noteq> 0)"
| "truthy (JStr s) = (s \<noteq> [])"
| "truthy (JArr xs) = (xs \<noteq> [])"
| "truthy (JObj d) = (d \<noteq> [])"

definition py_or :: "json \<Rightarrow> json \<Rightarrow> json" where
  "py_or a b = (if truthy a then a else b)"

definition obj_get :: "obj \<Rightarrow> string \<Rightarrow> json" where
  "obj_get d k = (case dict_get d k of None \<Rightarrow> JNull | Some v \<Rightarrow> v)"

definition obj_get_or :: "obj \<Rightarrow> string \<Rightarrow> json \<Rightarrow> json" where
  "obj_get_or d k v0 = (case dict_get d k of None \<Rightarrow> v0 | Some v \<Rightarrow> v)"

fun is_str :: "json \<Rightarrow> bool" where
  "is_str (JStr _) = True"
| "is_str _ = False"

fun str_of :: "json \<Rightarrow> string option" where
  "str_of (JStr s) = Some s"
| "str_of _ = None"

text \<open>\<open>for x in v\<close>: a list yields its elements, an object its keys, a string its characters; anything
  else raises \<open>TypeError\<close>.\<close>

fun py_iter :: "json \<Rightarrow> exn + json list" where
  "py_iter (JArr xs) = Inr xs"
| "py_iter (JObj d) = Inr (map (\<lambda>(k, _). JStr k) d)"
| "py_iter (JStr s) = Inr (map (\<lambda>c. JStr [c]) s)"
| "py_iter _ = Inl TypeError"

fun py_str :: "(json \<Rightarrow> string) \<Rightarrow> json \<Rightarrow> string" where
  "py_str rep (JStr s) = s"
| "py_str rep JNull = ''None''"
| "py_str rep (JBool b) = (if b then ''True'' else ''False'')"
| "py_str rep (JInt i) = int_str i"
| "py_str rep v = rep v"

text \<open>\<open>x.get(k)\<close> on a value that may not be a dictionary.\<close>

fun py_get :: "json \<Rightarrow> string \<Rightarrow> exn + json" where
  "py_get (JObj d) k = Inr (obj_get d k)"
| "py_get _ k = Inl (AttributeError ''get'')"

lemma obj_get_Nil [simp]: "obj_get [] k = JNull"
  by (simp add: obj_get_def)

lemma obj_get_Cons [simp]: "obj_get ((k', v) # d) k = (if k = k' then v else obj_get d k)"
  by (simp add: obj_get_def)

lemma is_str_iff: "is_str v \<longleftrightarrow> (\<exists>s. v = JStr s)"
  by (cases v) auto

lemma str_of_Some [simp]: "str_of v = Some s \<longleftrightarrow> v = JStr s"
  by (cases v) auto

lemma truthy_obj_get: "truthy (obj_get d k) \<Longrightarrow> \<exists>v. dict_get d k = Some v \<and> truthy v"
  by (auto simp: obj_get_def split: option.splits)

end
