(* ===== verification/Sql_Safety.thy ===== *)
theory Sql_Safety
  imports Sql_Ast Py_Json
begin

text \<open>
  The safety gate in front of every statement: sql\_cleaner.py (\<open>clean_sql\<close>), the rules of
  rules/sql\_rules.py and rules/advanced\_sql\_rules.py, and sql\_safety\_checker.py, all under
  sql\_query\_api/repositories/sql\_validators/. An exception of a parser rejects the statement, so a
  parser's \<open>None\<close> is \<open>False\<close> here.
\<close>

subsection \<open>Cleaning\<close>

definition strip_code_fences :: "string \<Rightarrow> string" where
  "strip_code_fences sql =
     (if prefix ''```'' sql then
        py_strip (join [CHR 0x0A] (filter (\<lambda>l. \<not> prefix ''```'' (py_strip l)) (split_on CHR 0x0A sql)))
      else sql)"

definition strip_sql_label :: "string \<Rightarrow> string" where
  "strip_sql_label sql =
     (if prefix ''SQL:'' (py_upper sql) \<or> prefix ''SQL '' (py_upper sql) then py_strip (drop 4 sql) else sql)"

definition with_prefix :: "string \<Rightarrow> bool" where
  "with_prefix s \<longleftrightarrow> rx_matches (Rx_Seq (rx_ci ''WITH'') Rx_Boundary) s"

definition is_query_start :: "string \<Rightarrow> bool" where
  "is_query_start s \<longleftrightarrow> prefix ''SELECT'' s \<or> with_prefix s"

definition fix_truncation :: "string \<Rightarrow> string" where
  "fix_truncation sql = (if prefix ''ELECT'' (py_strip (py_upper sql)) then CHR ''S'' # sql else sql)"

definition clean_sql :: "string \<Rightarrow> exn + string" where
  "clean_sql raw =
     (if raw = [] then Inl (ValueError ''SQL query cannot be empty'')
      else
        let sql = fix_truncation (strip_sql_label (py_strip (strip_code_fences (py_strip raw))));
            up = py_strip (py_upper sql);
            first = (case split_words [] sql of [] \<Rightarrow> [] | w # _ \<Rightarrow> w)
        in if prefix ''SELECT'' up then Inr (py_strip sql)
           else if split_words [] sql \<noteq> [] \<and> py_upper first = ''ELECT'' then
             (let sql2 = ''SELECT '' @ join '' '' (tl (split_words [] sql)) in
              if is_query_start (py_strip (py_upper sql2)) then Inr (py_strip sql2)
              else Inl (ValueError ''SQL query failed safety validation: does not start with SELECT after cleaning''))
           else if with_prefix up then Inr (py_strip sql)
           else Inl (ValueError ''SQL query failed safety validation: must start with SELECT after cleaning''))"

subsection \<open>Rules\<close>

type_synonym sql_rule = "sql_parsers \<Rightarrow> sp_statement \<Rightarrow> string \<Rightarrow> bool"

definition any_token :: "sp_statement \<Rightarrow> (sp_leaf \<Rightarrow> bool) \<Rightarrow> bool" where
  "any_token stmt p \<longleftrightarrow> list_ex p (ss_leaves stmt)"

definition single_statement_rule :: sql_rule where
  "single_statement_rule lib stmt raw \<longleftrightarrow>
     (case lib_sp_parse lib raw of None \<Rightarrow> False | Some ss \<Rightarrow> length ss = 1)"

definition must_be_select_rule :: sql_rule where
  "must_be_select_rule lib stmt raw \<longleftrightarrow>
     (let ty = py_upper (ss_type stmt) in
      ty = ''SELECT'' \<or>
      ty = ''UNKNOWN'' \<and> rx_found (rx_cat [Rx_Boundary, rx_ci ''SELECT'', Rx_Boundary]) raw)"

definition no_comment_rule :: sql_rule where
  "no_comment_rule lib stmt raw \<longleftrightarrow>
     \<not> any_token stmt (\<lambda>t. lf_ttype t \<in>
         {[''Comment''], [''Comment'', ''Single''], [''Comment'', ''Multiline'']})"

definition no_with_cte_rule :: sql_rule where
  "no_with_cte_rule lib stmt raw \<longleftrightarrow> True"

definition no_subquery_rule :: sql_rule where
  "no_subquery_rule lib stmt raw \<longleftrightarrow> True"

definition no_union_or_set_ops_rule :: sql_rule where
  "no_union_or_set_ops_rule lib stmt raw \<longleftrightarrow> True"

definition keyword_like :: "ttype \<Rightarrow> bool" where
  "keyword_like ty \<longleftrightarrow>
     ty \<in> {[''Keyword'', ''DDL''], [''Keyword'', ''DML''], [''Keyword''], [''Keyword'', ''DCL'']} \<or>
     (ty \<noteq> [] \<and> last ty = ''DCL'')"

definition no_forbidden_keywords_rule :: "string list \<Rightarrow> sql_rule" where
  "no_forbidden_keywords_rule forbidden lib stmt raw \<longleftrightarrow>
     \<not> any_token stmt (\<lambda>t. keyword_like (lf_ttype t) \<and> py_lower (lf_value t) \<in> set (map py_lower forbidden))"

definition class_name :: "node \<Rightarrow> string" where
  "class_name n = (case nd_types n of [] \<Rightarrow> [] | c # _ \<Rightarrow> c)"

definition expression_suffix :: rx where
  "expression_suffix = rx_lit ''Expression''"

definition allowed_node_types_rule :: "string list \<Rightarrow> sql_rule" where
  "allowed_node_types_rule allowed lib stmt raw \<longleftrightarrow>
     (case lib_parse_one lib raw of
        None \<Rightarrow> False
      | Some t \<Rightarrow> list_all (\<lambda>n. py_lower (rx_sub expression_suffix [] (class_name n)) \<in> set (map py_lower allowed)) (walk t))"

definition forbidden_functions_rule :: "string list \<Rightarrow> sql_rule" where
  "forbidden_functions_rule forbidden lib stmt raw \<longleftrightarrow>
     (case lib_parse_one lib raw of
        None \<Rightarrow> False
      | Some t \<Rightarrow> list_all (\<lambda>n. isinstance n ''Func'' \<longrightarrow>
          normalize_function_name (Some (nd_name n)) \<notin> set (map py_lower forbidden)) (walk t))"

definition table_parts :: "node \<Rightarrow> string list" where
  "table_parts n =
     map (\<lambda>p. py_lower (py_strip (filter (\<lambda>c. c \<notin> {CHR 0x22, CHR 0x60}) p)))
       (filter (\<lambda>p. p \<noteq> []) [nt_catalog (nd_text n), nt_db (nd_text n), nd_name n])"

definition table_forbidden :: "string list \<Rightarrow> node \<Rightarrow> bool" where
  "table_forbidden pfxs n \<longleftrightarrow>
     (let parts = table_parts n in
      parts \<noteq> [] \<and>
      list_ex (\<lambda>p. prefix p (join ''.'' parts) \<or> prefix p (last parts)) pfxs)"

definition forbidden_table_rule :: "string list \<Rightarrow> sql_rule" where
  "forbidden_table_rule pfxs lib stmt raw \<longleftrightarrow>
     (case lib_parse_one lib raw of
        None \<Rightarrow> False
      | Some t \<Rightarrow> list_all (\<lambda>n. isinstance n ''Table'' \<longrightarrow> \<not> table_forbidden (map py_lower pfxs) n) (walk t))"

subsection \<open>Checker\<close>

record safety_checker =
  sk_max_query_length :: nat
  sk_table_allowlist :: "string set"
  sk_column_allowlist :: "(string, string set) dict"

definition FORBIDDEN_KEYWORDS :: "string list" where
  "FORBIDDEN_KEYWORDS =
     [''delete'', ''insert'', ''update'', ''drop'', ''create'', ''alter'', ''commit'', ''rollback'', ''truncate'',
      ''grant'', ''revoke'', ''merge'', ''call'', ''execute'', ''copy'']"

definition checker_rules :: "sql_rule list" where
  "checker_rules =
     [single_statement_rule, must_be_select_rule, no_comment_rule, no_forbidden_keywords_rule FORBIDDEN_KEYWORDS,
      forbidden_functions_rule FORBIDDEN_FUNCTIONS, forbidden_table_rule [''pg_'', ''information_schema'']]"

definition checker_init :: "nat \<Rightarrow> string set \<Rightarrow> (string, string set) dict \<Rightarrow> safety_checker" where
  "checker_init max_len tables columns =
     \<lparr>sk_max_query_length = max_len, sk_table_allowlist = py_lower ` tables,
      sk_column_allowlist = dict_merge [] (map (\<lambda>(t, cs). (py_lower t, py_lower ` cs)) columns)\<rparr>"

fun is_keyword_in :: "string list \<Rightarrow> sp_token \<Rightarrow> bool" where
  "is_keyword_in ks (Sp_Leaf ty v) \<longleftrightarrow> prefix [''Keyword''] ty \<and> py_upper v \<in> set ks"
| "is_keyword_in ks _ \<longleftrightarrow> False"

fun token_names :: "sp_token \<Rightarrow> sp_name list" where
  "token_names (Sp_Identifier n) = [n]"
| "token_names (Sp_Identifier_List ns) = ns"
| "token_names _ = []"

definition real_name :: "sp_name \<Rightarrow> string" where
  "real_name n = (case sp_real n of None \<Rightarrow> [] | Some r \<Rightarrow> r)"

definition parent_or_star :: "sp_name \<Rightarrow> string" where
  "parent_or_star n = or_star (case sp_parent n of None \<Rightarrow> [] | Some p \<Rightarrow> p)"

fun scan_table_names :: "bool \<Rightarrow> sp_token list \<Rightarrow> string set" where
  "scan_table_names in_from [] = {}"
| "scan_table_names in_from (t # ts) =
     (if is_keyword_in [''FROM'', ''JOIN''] t then scan_table_names True ts
      else if in_from \<and> is_keyword_in [''WHERE'', ''GROUP'', ''HAVING'', ''ORDER'', ''LIMIT'', ''UNION'', ''INTERSECT'', ''EXCEPT''] t
        then {}
      else if \<not> in_from then scan_table_names in_from ts
      else set (map py_lower (filter (\<lambda>r. r \<noteq> []) (map real_name (token_names t)))) \<union> scan_table_names in_from ts)"

definition select_list_ends :: "string list" where
  "select_list_ends = [''FROM'', ''WHERE'', ''GROUP'', ''HAVING'', ''ORDER'', ''LIMIT'', ''UNION'', ''INTERSECT'',
     ''EXCEPT'', ''JOIN'', ''LEFT'', ''RIGHT'', ''FULL'', ''OUTER'', ''INNER'', ''CROSS'']"

definition add_sp_name :: "(string, string set) dict \<Rightarrow> sp_name \<Rightarrow> (string, string set) dict" where
  "add_sp_name d n =
     (if real_name n \<noteq> [] then dict_add d (py_lower (parent_or_star n)) (py_lower (real_name n)) else d)"

fun scan_selected_columns :: "bool \<Rightarrow> (string, string set) dict \<Rightarrow> sp_token list \<Rightarrow> (string, string set) dict" where
  "scan_selected_columns in_select d [] = d"
| "scan_selected_columns in_select d (t # ts) =
     (if is_keyword_in [''SELECT''] t then scan_selected_columns True d ts
      else if in_select \<and> is_keyword_in select_list_ends t then d
      else if \<not> in_select then scan_selected_columns in_select d ts
      else scan_selected_columns in_select
        (case t of
           Sp_Function s \<Rightarrow> if CHR ''*'' \<in> set s then dict_add d ''*'' ''*'' else d
         | _ \<Rightarrow> foldl add_sp_name d (token_names t)) ts)"

definition tables_for_allowlist :: "sql_parsers \<Rightarrow> sp_statement \<Rightarrow> string \<Rightarrow> string set" where
  "tables_for_allowlist lib stmt raw =
     (let ast = set (extract_tables lib raw) in if ast \<noteq> {} then ast else scan_table_names False (ss_tokens stmt))"

definition columns_for_allowlist :: "sql_parsers \<Rightarrow> sp_statement \<Rightarrow> string \<Rightarrow> (string, string set) dict" where
  "columns_for_allowlist lib stmt raw =
     (let ast = extract_selected_columns_by_table lib raw in
      if ast \<noteq> [] then ast else scan_selected_columns False [] (ss_tokens stmt))"

definition requested_columns :: "(string, string set) dict \<Rightarrow> string \<Rightarrow> string set" where
  "requested_columns selected table =
     \<Union> (set (map snd (filter (\<lambda>(t, _). t = ''*'' \<or> t = table) selected)))"

definition enforces_allowlist :: "safety_checker \<Rightarrow> sql_parsers \<Rightarrow> sp_statement \<Rightarrow> string \<Rightarrow> bool" where
  "enforces_allowlist sk lib stmt raw \<longleftrightarrow>
     (if sk_table_allowlist sk = {} \<and> sk_column_allowlist sk = [] then True
      else
        let tables = tables_for_allowlist lib stmt raw in
        (sk_table_allowlist sk \<noteq> {} \<longrightarrow> tables \<subseteq> sk_table_allowlist sk) \<and>
        (sk_column_allowlist sk \<noteq> [] \<longrightarrow>
           (let selected = columns_for_allowlist lib stmt raw in
            list_all (\<lambda>(t, cs). ''*'' \<notin> cs) selected \<and>
            list_all (\<lambda>(t, allowed). t \<in> tables \<longrightarrow> requested_columns selected t \<subseteq> allowed)
              (sk_column_allowlist sk))))"

definition mutation_words :: "string list" where
  "mutation_words = [''delete'', ''insert'', ''update'', ''drop'', ''create'', ''alter'', ''commit'', ''rollback'',
     ''truncate'', ''grant'', ''revoke'', ''merge'', ''call'', ''execute'']"

definition contains_forbidden_mutation :: "sp_statement \<Rightarrow> bool" where
  "contains_forbidden_mutation stmt \<longleftrightarrow>
     any_token stmt (\<lambda>t. keyword_like (lf_ttype t) \<and> py_lower (py_strip (lf_value t)) \<in> set mutation_words)"

definition is_safe_select_query :: "safety_checker \<Rightarrow> sql_parsers \<Rightarrow> string \<Rightarrow> bool" where
  "is_safe_select_query sk lib query \<longleftrightarrow>
     query \<noteq> [] \<and> py_strip query \<noteq> [] \<and> CHR 0x00 \<notin> set query \<and> length query \<le> sk_max_query_length sk \<and>
     (case lib_sp_parse lib query of
        Some (stmt # _) \<Rightarrow>
          list_all (\<lambda>rule. rule lib stmt query) checker_rules \<and>
          \<not> contains_forbidden_mutation stmt \<and>
          is_strictly_read_only lib query \<and>
          enforces_allowlist sk lib stmt query
      | _ \<Rightarrow> False)"

definition clean_and_validate_sql :: "safety_checker \<Rightarrow> sql_parsers \<Rightarrow> string \<Rightarrow> exn + string" where
  "clean_and_validate_sql sk lib sql =
     bind_result (clean_sql sql) (\<lambda>cleaned.
       if is_safe_select_query sk lib cleaned then Inr cleaned
       else Inl (ValueError ''SQL query failed safety validation. Only simple SELECT statements are allowed.''))"

subsection \<open>Properties\<close>

lemma is_safe_cases:
  assumes "is_safe_select_query sk lib q"
  obtains stmt where "lib_sp_parse lib q = Some [stmt]"
    and "\<forall>rule \<in> set checker_rules. rule lib stmt q"
    and "\<not> contains_forbidden_mutation stmt" and "is_strictly_read_only lib q" and "enforces_allowlist sk lib stmt q"
    and "length q \<le> sk_max_query_length sk" and "CHR 0x00 \<notin> set q"
proof -
  obtain stmt rest where p: "lib_sp_parse lib q = Some (stmt # rest)"
    and r: "list_all (\<lambda>rule. rule lib stmt q) checker_rules"
    using assms by (auto simp: is_safe_select_query_def split: option.splits list.splits)
  have "single_statement_rule lib stmt q"
    using r by (simp add: checker_rules_def)
  with p have "rest = []"
    by (simp add: single_statement_rule_def)
  with p r show ?thesis
    using assms that[of stmt] by (auto simp: is_safe_select_query_def list_all_iff)
qed


lemma clean_sql_start: "clean_sql raw = Inr s \<Longrightarrow> \<exists>t. s = py_strip t \<and> is_query_start (py_strip (py_upper t))"
  by (auto simp: clean_sql_def Let_def is_query_start_def split: if_splits)

lemma clean_sql_error: "clean_sql raw = Inl e \<Longrightarrow> \<exists>m. e = ValueError m"
  by (auto simp: clean_sql_def Let_def split: if_splits)

text \<open>The combined entry point returns only statements that pass the gate and begin with SELECT or
  WITH; everything else is a \<open>ValueError\<close>, never another exception.\<close>

theorem clean_and_validate_gate:
  "(case clean_and_validate_sql sk lib raw of
      Inr s \<Rightarrow> is_safe_select_query sk lib s \<and> (\<exists>t. s = py_strip t \<and> is_query_start (py_strip (py_upper t)))
    | Inl e \<Rightarrow> (\<exists>m. e = ValueError m))"
  by (cases "clean_sql raw")
    (auto simp: clean_and_validate_sql_def dest: clean_sql_start clean_sql_error)

subsection \<open>Concrete statements\<close>

definition mk_text :: "string \<Rightarrow> string \<Rightarrow> node_text" where
  "mk_text name table = \<lparr>nt_name = name, nt_alias_or_name = name, nt_db = [], nt_catalog = [], nt_table = table\<rparr>"

definition mk_column :: "string \<Rightarrow> string \<Rightarrow> node" where
  "mk_column table name = Node [''Column'', ''Condition'', ''Expression''] (mk_text name table) []"

definition mk_table :: "string \<Rightarrow> string \<Rightarrow> node" where
  "mk_table name alias =
     Node [''Table'', ''Expression''] ((mk_text name [])\<lparr>nt_alias_or_name := alias\<rparr>) []"

definition mk_select :: "node list \<Rightarrow> node \<Rightarrow> node" where
  "mk_select cols table =
     Node [''Select'', ''Query'', ''Expression''] (mk_text [] [])
       (map (\<lambda>c. (''expressions'', c)) cols @ [(''from_'', Node [''From'', ''Expression''] (mk_text [] []) [(''this'', table)])])"

definition sql_parsers_for :: "string \<Rightarrow> node \<Rightarrow> sql_parsers" where
  "sql_parsers_for q tree =
     \<lparr>lib_parse = (\<lambda>s. if s = q then Some [Some tree] else None), lib_parse_default = (\<lambda>s. None),
      lib_parse_one = (\<lambda>s. if s = q then Some tree else None),
      lib_sp_parse = (\<lambda>s. if s = q then Some [\<lparr>ss_type = ''SELECT'', ss_leaves = [\<lparr>lf_ttype = [''Keyword'', ''DML''], lf_value = ''SELECT''\<rparr>],
         ss_tokens = []\<rparr>] else None)\<rparr>"

definition album_query :: string where
  "album_query = ''SELECT a.secret FROM album a''"

definition album_tree :: node where
  "album_tree = mk_select [mk_column ''a'' ''secret''] (mk_table ''album'' ''a'')"

definition album_parsers :: sql_parsers where
  "album_parsers = sql_parsers_for album_query album_tree"


text \<open>The column allowlist is keyed by table names but the columns of a query by the qualifier that
  is written: with \<open>album\<close> restricted to \<open>title\<close>, a query that gives the table an alias and reads
  \<open>secret\<close> through it is accepted, while the same read through the table's name is rejected.\<close>

theorem column_allowlist_alias_bypass:
  "is_safe_select_query (checker_init 10000 {} [(''album'', {''title''})]) album_parsers album_query \<and>
   \<not> is_safe_select_query (checker_init 10000 {} [(''album'', {''title''})])
      (sql_parsers_for ''SELECT album.secret FROM album'' (mk_select [mk_column ''album'' ''secret''] (mk_table ''album'' ''album'')))
      ''SELECT album.secret FROM album''"
  by code_simp

text \<open>The cleaner's documentation says that it does not repair SQL; it completes a truncated keyword.\<close>

theorem clean_sql_repairs:
  "clean_sql ''ELECT 1 FROM t'' = Inr ''SELECT 1 FROM t''"
  by code_simp

end
