(* ===== verification/Secrets.thy ===== *)
theory Secrets
  imports Py_Json
begin

text \<open>
  shared/shared\_secrets/secrets.py: where a service finds a configuration value. The process
  environment is a dictionary, the file system a function from paths to what reading them gives. A
  secret is the stripped environment variable, else the stripped text of the file that
  \<open>NAME_FILE\<close> names, else the default or \<open>MissingSecretError\<close>.
\<close>

datatype file_read = File_Text string | File_Missing | File_OSError

record os_state =
  os_env :: "(string, string) dict"
  os_files :: "string \<Rightarrow> file_read"

definition getenv :: "os_state \<Rightarrow> string \<Rightarrow> string \<Rightarrow> string" where
  "getenv os name dflt = (case dict_get (os_env os) name of None \<Rightarrow> dflt | Some v \<Rightarrow> v)"

definition is_environment_production :: "os_state \<Rightarrow> bool" where
  "is_environment_production os \<longleftrightarrow>
     py_lower (getenv os ''ENVIRONMENT'' ''production'') \<in> {''production'', ''prod''}"

definition truthy_spellings :: "string list" where
  "truthy_spellings = [''true'', ''1'', ''yes'']"

definition env_says_yes :: "os_state \<Rightarrow> string \<Rightarrow> bool" where
  "env_says_yes os name \<longleftrightarrow> py_lower (py_strip (getenv os name [])) \<in> set truthy_spellings"

definition is_ci :: "os_state \<Rightarrow> bool" where
  "is_ci os \<longleftrightarrow> env_says_yes os ''GITHUB_ACTIONS'' \<or>
     (\<exists>name \<in> set [''CI'', ''CONTINUOUS_INTEGRATION'', ''BUILD_NUMBER'']. env_says_yes os name)"

definition source_file :: "os_state \<Rightarrow> string \<Rightarrow> string option" where
  "source_file os name =
     (let path = py_strip (getenv os (name @ ''_FILE'') []) in
      if path = [] then None else if str_contains ''..'' path then None else Some path)"

definition read_file :: "os_state \<Rightarrow> string \<Rightarrow> exn + string" where
  "read_file os path =
     (case os_files os path of
        File_Text t \<Rightarrow> Inr t
      | File_Missing \<Rightarrow> Inr []
      | File_OSError \<Rightarrow> Inl (RuntimeError ''Unable to read secret file''))"

definition read_file_secret :: "os_state \<Rightarrow> string \<Rightarrow> exn + string" where
  "read_file_secret os path = bind_result (read_file os path) (\<lambda>t. Inr (py_strip t))"

definition read_secret :: "os_state \<Rightarrow> string \<Rightarrow> bool \<Rightarrow> string \<Rightarrow> exn + string" where
  "read_secret os name required dflt =
     (let missing = (if required then Inl (RuntimeError ''MissingSecretError'') else Inr dflt);
          from_file =
            (case source_file os name of
               None \<Rightarrow> missing
             | Some path \<Rightarrow> bind_result (read_file os path)
                 (\<lambda>content. if content \<noteq> [] \<and> py_strip content \<noteq> [] then Inr (py_strip content) else missing))
      in (case dict_get (os_env os) name of
            None \<Rightarrow> from_file
          | Some v \<Rightarrow> if py_strip v \<noteq> [] then Inr (py_strip v) else from_file))"

subsection \<open>Lemmas\<close>

lemma production_by_default:
  "dict_get (os_env os) ''ENVIRONMENT'' = None \<Longrightarrow> is_environment_production os"
  by (simp add: is_environment_production_def getenv_def py_lower_def lower_char_def py_ord_def)

lemma env_says_yes_set:
  "env_says_yes os n \<Longrightarrow> \<exists>v. dict_get (os_env os) n = Some v \<and> py_lower (py_strip v) \<in> set truthy_spellings"
  by (cases "dict_get (os_env os) n") (simp_all add: env_says_yes_def getenv_def truthy_spellings_def)

lemma is_ci_needs_truthy:
  "is_ci os \<Longrightarrow> \<exists>name v. dict_get (os_env os) name = Some v \<and> py_lower (py_strip v) \<in> set truthy_spellings"
  unfolding is_ci_def using env_says_yes_set by blast

text \<open>A required secret, when it is returned at all, is not blank; an optional one is the default
  exactly when no source has text.\<close>

definition secret_sources :: "os_state \<Rightarrow> string \<Rightarrow> string list" where
  "secret_sources os name =
     filter (\<lambda>s. s \<noteq> [])
       ((case dict_get (os_env os) name of None \<Rightarrow> [] | Some v \<Rightarrow> [py_strip v]) @
        (case source_file os name of
           None \<Rightarrow> []
         | Some path \<Rightarrow> (case os_files os path of File_Text t \<Rightarrow> [py_strip t] | _ \<Rightarrow> [])))"

lemma read_secret_first_source:
  "read_secret os name required dflt = Inr v \<Longrightarrow>
     v = (case secret_sources os name of [] \<Rightarrow> dflt | s # _ \<Rightarrow> s)"
  by (auto simp: read_secret_def secret_sources_def Let_def read_file_def
      split: option.splits if_splits file_read.splits)

lemma read_secret_required:
  "read_secret os name True dflt = Inr v \<Longrightarrow> v \<noteq> [] \<and> secret_sources os name \<noteq> []"
  by (auto simp: read_secret_def secret_sources_def Let_def read_file_def
      split: option.splits if_splits file_read.splits)

end
