(* ===== verification/Auth.thy ===== *)
theory Auth
  imports Secrets
begin

text \<open>
  sql\_query\_api/auth.py: the trusted principal, the mapping of validated token claims to it, the
  bearer token extraction and the token validation around the JWT library. The library's
  verification is the parameter \<open>decode\<close>: given the request the code makes (token, key set URL,
  algorithms, audience, issuer, leeway, required claims) it returns the verified claims, rejects the
  token with one of the exceptions the code catches, or fails in another way.
\<close>

definition TENANT_ID_CLAIM :: string where
  "TENANT_ID_CLAIM = ''https://app.secure-db-access-gateway.org/tenant_id''"

definition ROLES_CLAIM :: string where
  "ROLES_CLAIM = ''https://app.read-only-database-explorer.org/roles''"

subsection \<open>Principal\<close>

record principal =
  pr_user_id :: string
  pr_email :: string
  pr_org_id :: string
  pr_roles :: "string set"
  pr_attributes :: obj

definition role :: "principal \<Rightarrow> string" where
  "role p = (if ''admin'' \<in> pr_roles p then ''admin'' else ''viewer'')"

definition has_role :: "principal \<Rightarrow> string \<Rightarrow> bool" where
  "has_role p r \<longleftrightarrow> py_lower r \<in> pr_roles p"

definition has_any_role :: "principal \<Rightarrow> string set \<Rightarrow> bool" where
  "has_any_role p rs \<longleftrightarrow> pr_roles p \<inter> py_lower ` rs \<noteq> {}"

text \<open>
  \<open>getattr(principal, name, None) is None\<close>: a declared field, property or method of the class is
  found first and is never \<open>None\<close>; any other name falls back to \<open>__getattr__\<close>, the attributes
  mapping. (Names that Python itself reserves, like \<open>__class__\<close>, are not treated.)
\<close>

definition principal_members :: "string list" where
  "principal_members = [''user_id'', ''email'', ''org_id'', ''roles'', ''attributes'', ''role'',
     ''has_role'', ''has_any_role'']"

definition principal_getattr_is_none :: "principal \<Rightarrow> string \<Rightarrow> bool" where
  "principal_getattr_is_none p name \<longleftrightarrow>
     name \<notin> set principal_members \<and> obj_get (pr_attributes p) name = JNull"

subsection \<open>Bearer token\<close>

definition extract_bearer_token :: "string option \<Rightarrow> string option" where
  "extract_bearer_token header =
     (case header of
        None \<Rightarrow> None
      | Some h \<Rightarrow>
          (case partition_on CHR '' '' h of (scheme, _, token) \<Rightarrow>
             if py_lower scheme \<noteq> ''bearer'' \<or> token = [] then None else Some token))"

subsection \<open>Claims to principal\<close>

definition reserved_claims :: "string list" where
  "reserved_claims = [''sub'', ''email'', ''preferred_username'', ''roles'', TENANT_ID_CLAIM]"

definition non_blank :: "json \<Rightarrow> bool" where
  "non_blank v \<longleftrightarrow> (case str_of v of None \<Rightarrow> False | Some s \<Rightarrow> py_strip s \<noteq> [])"

definition normalized_roles :: "(json \<Rightarrow> string) \<Rightarrow> obj \<Rightarrow> exn + string set" where
  "normalized_roles rep claims =
     (let roles = py_or (obj_get claims ''roles'') (py_or (obj_get claims ROLES_CLAIM) (JArr []));
          roles = (if is_str roles then JArr [roles] else roles)
      in bind_result (py_iter roles)
           (\<lambda>rs. Inr ((\<lambda>r. py_lower (py_str rep r)) ` {r \<in> set rs. py_strip (py_str rep r) \<noteq> []})))"

definition build_principal_from_claims ::
    "(json \<Rightarrow> string) \<Rightarrow> obj option \<Rightarrow> exn + principal option" where
  "build_principal_from_claims rep claims_opt =
     (case claims_opt of
        None \<Rightarrow> Inr None
      | Some claims \<Rightarrow>
          if claims = [] then Inr None
          else bind_result (normalized_roles rep claims) (\<lambda>roles.
            let user_id = obj_get claims ''sub'';
                email = py_or (obj_get claims ''email'')
                          (py_or (obj_get claims ''preferred_username'') user_id);
                org_id = obj_get claims TENANT_ID_CLAIM
            in (if list_all non_blank [user_id, email, org_id] then
                  (case (str_of user_id, str_of email, str_of org_id) of
                     (Some u, Some e, Some g) \<Rightarrow>
                       Inr (Some \<lparr>pr_user_id = u, pr_email = e, pr_org_id = g, pr_roles = roles,
                         pr_attributes = filter (\<lambda>(k, _). k \<notin> set reserved_claims) claims\<rparr>)
                   | _ \<Rightarrow> Inr None)
                else Inr None)))"

subsection \<open>Token validation\<close>

record auth_config =
  cfg_domain :: string
  cfg_audience :: string
  cfg_issuer :: string

record jwt_request =
  jr_token :: string
  jr_jwks_url :: string
  jr_algorithms :: "string list"
  jr_audience :: string
  jr_issuer :: string
  jr_leeway :: nat
  jr_require :: "string list"

datatype jwt_outcome = Jwt_Claims obj | Jwt_Rejected | Jwt_Failed string

definition jwks_url :: "auth_config \<Rightarrow> string" where
  "jwks_url cfg = ''https://'' @ cfg_domain cfg @ ''/.well-known/jwks.json''"

text \<open>The cached key client: the state is the URL the cached client was made for.\<close>

definition get_jwks_client :: "auth_config \<Rightarrow> string option \<Rightarrow> string \<times> string option" where
  "get_jwks_client cfg cached =
     (let url = jwks_url cfg in
      case cached of
        None \<Rightarrow> (url, Some url)
      | Some u \<Rightarrow> if u \<noteq> url then (url, Some url) else (u, cached))"

definition expected_scopes :: "string list" where
  "expected_scopes = [''openid'', ''profile'', ''email'']"

definition scope_ok :: "obj \<Rightarrow> bool" where
  "scope_ok claims \<longleftrightarrow>
     (case py_or (obj_get claims ''scope'') (obj_get claims ''scp'') of
        JNull \<Rightarrow> True
      | JStr s \<Rightarrow> s = [] \<or> (\<exists>w \<in> set (split_words [] s). w \<in> set expected_scopes)
      | _ \<Rightarrow> False)"

definition jwt_request_for :: "auth_config \<Rightarrow> string \<Rightarrow> string \<Rightarrow> jwt_request" where
  "jwt_request_for cfg url token =
     \<lparr>jr_token = token, jr_jwks_url = url, jr_algorithms = [''RS256''],
      jr_audience = cfg_audience cfg,
      jr_issuer = (if cfg_issuer cfg \<noteq> [] then cfg_issuer cfg else ''https://'' @ cfg_domain cfg @ ''/''),
      jr_leeway = 2, jr_require = [''exp'', ''iss'', ''aud'', ''sub'']\<rparr>"

definition validate_access_token ::
    "(jwt_request \<Rightarrow> jwt_outcome) \<Rightarrow> auth_config \<Rightarrow> string option \<Rightarrow> string option
      \<Rightarrow> (exn + obj option) \<times> string option" where
  "validate_access_token decode cfg cached token_opt =
     (case token_opt of
        None \<Rightarrow> (Inr None, cached)
      | Some token \<Rightarrow>
          if token = [] \<or> cfg_domain cfg = [] \<or> cfg_audience cfg = [] then (Inr None, cached)
          else (case get_jwks_client cfg cached of (url, cached') \<Rightarrow>
            ((case decode (jwt_request_for cfg url token) of
                Jwt_Rejected \<Rightarrow> Inr None
              | Jwt_Failed m \<Rightarrow> Inl (LibraryError m)
              | Jwt_Claims claims \<Rightarrow> if scope_ok claims then Inr (Some claims) else Inr None), cached')))"

text \<open>The configuration is read once, at import time. The audience has a legacy variable; the issuer
  defaults to the domain's URL.\<close>

definition auth_config_from_environment :: "os_state \<Rightarrow> exn + auth_config" where
  "auth_config_from_environment os =
     (let required = is_environment_production os \<and> \<not> is_ci os;
          legacy = getenv os ''AUTH0_API_AUDIENCE'' []
      in bind_result (read_secret os ''AUTH0_DOMAIN'' required []) (\<lambda>domain.
         bind_result (read_secret os ''AUTH0_AUDIENCE'' (required \<and> legacy = []) []) (\<lambda>audience.
           let issuer = getenv os ''AUTH0_ISSUER'' [] in
           Inr \<lparr>cfg_domain = domain, cfg_audience = (if audience = [] then legacy else audience),
              cfg_issuer = (if issuer \<noteq> [] then issuer
                            else if domain \<noteq> [] then ''https://'' @ domain @ ''/'' else [])\<rparr>)))"

subsection \<open>Lemmas\<close>

lemma auth_config_production:
  assumes "auth_config_from_environment os = Inr cfg" and "is_environment_production os" and "\<not> is_ci os"
  shows "cfg_domain cfg \<noteq> [] \<and> cfg_audience cfg \<noteq> []"
  using assms by (auto simp: auth_config_from_environment_def Let_def dest!: read_secret_required split: if_splits)

lemma non_blank_iff: "non_blank v \<longleftrightarrow> (\<exists>s. v = JStr s \<and> py_strip s \<noteq> [])"
  by (cases v) (auto simp: non_blank_def)

lemma normalized_roles_lower:
  "normalized_roles rep claims = Inr rs \<Longrightarrow> r \<in> rs \<Longrightarrow> py_lower r = r"
  by (auto simp: normalized_roles_def Let_def)

text \<open>The principal a set of claims gives, field by field.\<close>

lemma build_principal_Some:
  assumes "build_principal_from_claims rep (Some claims) = Inr (Some p)"
  shows "obj_get claims ''sub'' = JStr (pr_user_id p)"
    and "obj_get claims TENANT_ID_CLAIM = JStr (pr_org_id p)"
    and "py_strip (pr_user_id p) \<noteq> []" and "py_strip (pr_email p) \<noteq> []"
    and "py_strip (pr_org_id p) \<noteq> []"
    and "normalized_roles rep claims = Inr (pr_roles p)"
    and "pr_attributes p = filter (\<lambda>(k, _). k \<notin> set reserved_claims) claims"
  using assms
  by (auto simp: build_principal_from_claims_def Let_def non_blank_iff split: if_splits)

lemma build_principal_email:
  assumes "build_principal_from_claims rep (Some claims) = Inr (Some p)"
  shows "py_or (obj_get claims ''email'') (py_or (obj_get claims ''preferred_username'')
     (obj_get claims ''sub'')) = JStr (pr_email p)"
  using assms
  by (auto simp: build_principal_from_claims_def Let_def non_blank_iff split: if_splits)

lemma build_principal_attributes_get:
  assumes "build_principal_from_claims rep (Some claims) = Inr (Some p)" and "k \<in> set reserved_claims"
  shows "dict_get (pr_attributes p) k = None"
  using build_principal_Some(7)[OF assms(1)] assms(2)
  by (auto simp: dict_get_def map_of_eq_None_iff)

lemma validate_access_token_Some:
  assumes "validate_access_token decode cfg cached tok = (Inr (Some claims), cached')"
  shows "\<exists>t. tok = Some t \<and> t \<noteq> [] \<and>
     decode (jwt_request_for cfg (jwks_url cfg) t) = Jwt_Claims claims \<and> scope_ok claims"
  using assms
  by (auto simp: validate_access_token_def get_jwks_client_def Let_def
      split: option.splits if_splits jwt_outcome.splits)

end
