(* ===== verification/Rotated_Creds.thy ===== *)
theory Rotated_Creds
  imports Secrets
begin

text \<open>
  sql\_query\_api/config/rotated\_creds.py: credentials that a sidecar writes as one JSON file per
  tenant and role, loaded through a cache. Reading a required field of the document raises
  \<open>KeyError\<close>, which the loader turns into "no credentials"; a document that is not an object raises
  \<open>TypeError\<close>, which it does not catch. The last part of the theory proves that the name of the file
  does not determine tenant and role.
\<close>

record rotated_credentials =
  rc_tenant_id :: json
  rc_role_name :: json
  rc_database :: json
  rc_username :: json
  rc_password :: json
  rc_rotated_at :: json
  rc_host :: json
  rc_port :: json

record cred_loader =
  ld_dir :: string
  ld_cache :: "(string, rotated_credentials) dict"

definition loader_init :: "string \<Rightarrow> cred_loader" where
  "loader_init dir = \<lparr>ld_dir = dir, ld_cache = []\<rparr>"

definition cred_key :: "string \<Rightarrow> string \<Rightarrow> string" where
  "cred_key tenant_id role_name = tenant_id @ ''_'' @ role_name"

definition cred_path :: "cred_loader \<Rightarrow> string \<Rightarrow> string \<Rightarrow> string" where
  "cred_path ld tenant_id role_name = ld_dir ld @ ''/'' @ cred_key tenant_id role_name @ ''.json''"

definition cred_fields :: "string list" where
  "cred_fields = [''tenant_id'', ''role_name'', ''database'', ''username'', ''password'', ''rotated_at'', ''host'', ''port'']"

definition creds_of_obj :: "obj \<Rightarrow> rotated_credentials option" where
  "creds_of_obj d =
     (if list_all (dict_has d) cred_fields then
        Some \<lparr>rc_tenant_id = obj_get d ''tenant_id'', rc_role_name = obj_get d ''role_name'',
          rc_database = obj_get d ''database'', rc_username = obj_get d ''username'',
          rc_password = obj_get d ''password'', rc_rotated_at = obj_get d ''rotated_at'',
          rc_host = obj_get d ''host'', rc_port = obj_get d ''port''\<rparr>
      else None)"

definition load_cred_file ::
    "(string \<Rightarrow> json option) \<Rightarrow> os_state \<Rightarrow> cred_loader \<Rightarrow> string \<Rightarrow> string \<Rightarrow> exn + rotated_credentials option" where
  "load_cred_file loads os ld tenant_id role_name =
     (case os_files os (cred_path ld tenant_id role_name) of
        File_Text t \<Rightarrow>
          (case loads t of
             None \<Rightarrow> Inr None
           | Some (JObj d) \<Rightarrow> Inr (creds_of_obj d)
           | Some _ \<Rightarrow> Inl TypeError)
      | _ \<Rightarrow> Inr None)"

definition get_credentials ::
    "(string \<Rightarrow> json option) \<Rightarrow> os_state \<Rightarrow> cred_loader \<Rightarrow> string \<Rightarrow> string
      \<Rightarrow> (exn + rotated_credentials) \<times> cred_loader" where
  "get_credentials loads os ld tenant_id role_name =
     (case dict_get (ld_cache ld) (cred_key tenant_id role_name) of
        Some c \<Rightarrow> (Inr c, ld)
      | None \<Rightarrow>
          (case load_cred_file loads os ld tenant_id role_name of
             Inl e \<Rightarrow> (Inl e, ld)
           | Inr None \<Rightarrow> (Inl (LibraryError ''FileNotFoundError''), ld)
           | Inr (Some c) \<Rightarrow>
               (Inr c, ld\<lparr>ld_cache := dict_set (ld_cache ld) (cred_key tenant_id role_name) c\<rparr>)))"

definition invalidate_cache :: "cred_loader \<Rightarrow> string \<Rightarrow> string \<Rightarrow> cred_loader" where
  "invalidate_cache ld tenant_id role_name =
     ld\<lparr>ld_cache := dict_pop (ld_cache ld) (cred_key tenant_id role_name)\<rparr>"

definition get_credential_loader :: "os_state \<Rightarrow> cred_loader" where
  "get_credential_loader os = loader_init (getenv os ''CREDS_DIR'' ''/creds'')"

subsection \<open>The cache\<close>

text \<open>A store of credentials by key: what the resolver relies on.\<close>

locale credential_cache =
  fixes look :: "'s \<Rightarrow> 'k \<Rightarrow> (exn + 'v) \<times> 's"
    and drop_key :: "'s \<Rightarrow> 'k \<Rightarrow> 's"
    and peek :: "'s \<Rightarrow> 'k \<Rightarrow> 'v option"
  assumes look_hit: "peek s k = Some v \<Longrightarrow> look s k = (Inr v, s)"
    and look_store: "look s k = (Inr v, s') \<Longrightarrow> peek s' k = Some v"
    and look_other: "look s k = (r, s') \<Longrightarrow> k' \<noteq> k \<Longrightarrow> peek s' k' = peek s k'"
    and drop_peek: "peek (drop_key s k) k' = (if k' = k then None else peek s k')"
begin

lemma look_twice:
  assumes "look s k = (Inr v, s')"
  shows "look s' k = (Inr v, s')"
  by (rule look_hit[OF look_store[OF assms]])

lemma look_after_drop_other:
  assumes "look s k = (Inr v, s')" and "k' \<noteq> k"
  shows "look (drop_key s' k') k = (Inr v, drop_key s' k')"
  using look_store[OF assms(1)] assms(2) by (intro look_hit) (simp add: drop_peek)

end

definition look_key :: "(string \<Rightarrow> exn + rotated_credentials option) \<Rightarrow> cred_loader \<Rightarrow> string \<Rightarrow> (exn + rotated_credentials) \<times> cred_loader" where
  "look_key load ld k =
     (case dict_get (ld_cache ld) k of
        Some c \<Rightarrow> (Inr c, ld)
      | None \<Rightarrow>
          (case load k of
             Inl e \<Rightarrow> (Inl e, ld)
           | Inr None \<Rightarrow> (Inl (LibraryError ''FileNotFoundError''), ld)
           | Inr (Some c) \<Rightarrow> (Inr c, ld\<lparr>ld_cache := dict_set (ld_cache ld) k c\<rparr>)))"

interpretation cred_cache: credential_cache "look_key load"
  "\<lambda>ld k. ld\<lparr>ld_cache := dict_pop (ld_cache ld) k\<rparr>" "\<lambda>ld. dict_get (ld_cache ld)" for load
  by unfold_locales (auto simp: look_key_def split: option.splits sum.splits)

lemma get_credentials_look_key:
  "get_credentials loads os ld tenant_id role_name =
     look_key (\<lambda>_. load_cred_file loads os ld tenant_id role_name) ld (cred_key tenant_id role_name)"
  by (simp add: get_credentials_def look_key_def)

text \<open>Credentials are stable until the cache is invalidated: once loaded, later calls return the
  same credentials without reading the file, whatever the file says by then.\<close>

theorem credentials_stable_until_invalidated:
  assumes "get_credentials loads os ld t r = (Inr c, ld')"
  shows "get_credentials loads2 os2 ld' t r = (Inr c, ld')"
  using assms cred_cache.look_hit[OF cred_cache.look_store]
  unfolding get_credentials_look_key by blast

text \<open>Tenant and role are joined with an underscore, which both may contain, and the document is
  not checked against the request: two different tenants can be served the same credential file and
  the same cache entry.\<close>

theorem credential_key_collision:
  "cred_key ''acme_eu'' ''reader'' = cred_key ''acme'' ''eu_reader'' \<and>
   cred_path ld ''acme_eu'' ''reader'' = cred_path ld ''acme'' ''eu_reader'' \<and>
   fst (get_credentials loads os ld ''acme_eu'' ''reader'') = fst (get_credentials loads os ld ''acme'' ''eu_reader'')"
proof -
  have k: "cred_key ''acme_eu'' ''reader'' = cred_key ''acme'' ''eu_reader''"
    by (simp add: cred_key_def)
  then have "load_cred_file loads os ld ''acme_eu'' ''reader'' = load_cred_file loads os ld ''acme'' ''eu_reader''"
    by (simp add: load_cred_file_def cred_path_def)
  with k have "get_credentials loads os ld ''acme_eu'' ''reader'' = get_credentials loads os ld ''acme'' ''eu_reader''"
    unfolding get_credentials_def by presburger
  with k show ?thesis
    by (simp add: cred_path_def)
qed

definition example_creds_doc :: json where
  "example_creds_doc = JObj (map (\<lambda>k. (k, JStr k)) cred_fields)"

lemma credentials_stable_until_invalidated_witness:
  "fst (get_credentials (\<lambda>_. None) \<lparr>os_env = [], os_files = \<lambda>_. File_Missing\<rparr>
     (snd (get_credentials (\<lambda>_. Some example_creds_doc) \<lparr>os_env = [], os_files = \<lambda>_. File_Text []\<rparr> (loader_init ''/creds'') ''acme'' ''ro''))
     ''acme'' ''ro'') \<noteq> Inl (LibraryError ''FileNotFoundError'')"
proof -
  let ?g = "get_credentials (\<lambda>_. Some example_creds_doc) \<lparr>os_env = [], os_files = \<lambda>_. File_Text []\<rparr> (loader_init ''/creds'') ''acme'' ''ro''"
  have "\<not> isl (fst ?g)"
    by code_simp
  then obtain c where "?g = (Inr c, snd ?g)"
    by (metis prod.collapse sum.collapse(2))
  from credentials_stable_until_invalidated[OF this] show ?thesis
    by simp
qed

end
