(* ===== verification/Py_Num.thy ===== *)
theory Py_Num
  imports Secrets
begin

text \<open>
  Numbers in texts: Python's \<open>int(x)\<close> and \<open>float(x)\<close> on configuration values, numbers read from the
  process environment, and the decimal rendering of integers with its round trip. \<open>parse_float\<close> is
  \<open>float(text)\<close>.
\<close>

subsection \<open>Parsing\<close>

text \<open>\<open>int(x)\<close>: an optional sign and digits that single underscores may separate, with blanks around;
  a float is truncated.\<close>

fun digits_value :: "bool \<Rightarrow> nat \<Rightarrow> string \<Rightarrow> nat option" where
  "digits_value after_digit acc [] = (if after_digit then Some acc else None)"
| "digits_value after_digit acc (c # cs) =
     (if is_digit c then digits_value True (acc * 10 + (py_ord c - 48)) cs
      else if c = CHR ''_'' \<and> after_digit \<and> cs \<noteq> [] then digits_value False acc cs else None)"

definition int_of_text :: "string \<Rightarrow> int option" where
  "int_of_text s =
     (case py_strip s of
        [] \<Rightarrow> None
      | c # cs \<Rightarrow>
          if c = CHR ''-'' then map_option (\<lambda>n. - int n) (digits_value False 0 cs)
          else if c = CHR ''+'' then map_option int (digits_value False 0 cs)
          else map_option int (digits_value False 0 (c # cs)))"

fun py_int :: "json \<Rightarrow> exn + int" where
  "py_int (JInt i) = Inr i"
| "py_int (JBool b) = Inr (if b then 1 else 0)"
| "py_int (JFloat r) = Inr (if r < 0 then - \<lfloor>- r\<rfloor> else \<lfloor>r\<rfloor>)"
| "py_int (JStr s) = (case int_of_text s of None \<Rightarrow> Inl (ValueError ''invalid literal for int()'') | Some i \<Rightarrow> Inr i)"
| "py_int _ = Inl TypeError"

fun py_float :: "(string \<Rightarrow> real option) \<Rightarrow> json \<Rightarrow> exn + real" where
  "py_float parse_float (JInt i) = Inr (real_of_int i)"
| "py_float parse_float (JBool b) = Inr (if b then 1 else 0)"
| "py_float parse_float (JFloat r) = Inr r"
| "py_float parse_float (JStr s) = (case parse_float s of None \<Rightarrow> Inl (ValueError ''could not convert string to float'') | Some r \<Rightarrow> Inr r)"
| "py_float parse_float _ = Inl TypeError"

definition opt_number :: "(json \<Rightarrow> exn + 'a) \<Rightarrow> json \<Rightarrow> exn + 'a option" where
  "opt_number f v = (if v = JNull then Inr None else bind_result (f v) (\<lambda>x. Inr (Some x)))"

definition env_int :: "os_state \<Rightarrow> string \<Rightarrow> string \<Rightarrow> exn + int" where
  "env_int os name dflt = py_int (JStr (getenv os name dflt))"

definition env_float :: "(string \<Rightarrow> real option) \<Rightarrow> os_state \<Rightarrow> string \<Rightarrow> string \<Rightarrow> exn + real" where
  "env_float parse_float os name dflt = py_float parse_float (JStr (getenv os name dflt))"

definition truncate_real :: "real \<Rightarrow> int" where
  "truncate_real r = (if r < 0 then - \<lfloor>- r\<rfloor> else \<lfloor>r\<rfloor>)"

definition require_that :: "bool \<Rightarrow> string \<Rightarrow> exn + unit" where
  "require_that b msg = (if b then Inr () else Inl (ValueError msg))"

subsection \<open>Rendering and reading back\<close>

lemma is_digit_char [simp]: "n < 10 \<Longrightarrow> is_digit (char_of (48 + n))" "n < 10 \<Longrightarrow> py_ord (char_of (48 + n)) = 48 + n"
  by (simp_all add: is_digit_def)

lemma digits_of_digits: "list_all is_digit (digits_of n) \<and> digits_of n \<noteq> []"
proof (induction n rule: digits_of.induct)
  case (1 n)
  show ?case
    by (subst (1 2) digits_of.simps) (use 1 in auto)
qed

lemma digits_value_append:
  "list_all is_digit xs \<Longrightarrow> xs \<noteq> [] \<Longrightarrow> digits_value b acc xs = Some v \<Longrightarrow> digits_value b acc (xs @ ys) = digits_value True v ys"
proof (induction xs arbitrary: b acc)
  case (Cons x xs)
  then show ?case by (cases "xs = []") (simp_all del: distrib_right_numeral)
qed simp

lemma digits_value_digits_of: "digits_value b acc (digits_of n) = Some (acc * 10 ^ length (digits_of n) + n)"
proof (induction n arbitrary: b acc rule: digits_of.induct)
  case (1 n)
  show ?case
  proof (cases "n < 10")
    case True
    then show ?thesis by (simp add: digits_of.simps)
  next
    case False
    have m: "n mod 10 < 10" "10 * (n div 10) + n mod 10 = n"
      by simp_all
    have "digits_value b acc (digits_of (n div 10) @ [char_of (48 + n mod 10)]) =
        digits_value True (acc * 10 ^ length (digits_of (n div 10)) + n div 10) [char_of (48 + n mod 10)]"
      using digits_of_digits[of "n div 10"] 1[OF False, of b acc] by (intro digits_value_append) auto
    then show ?thesis
      using False m by (simp add: digits_of.simps[of n] algebra_simps)
  qed
qed

lemma is_digit_not_space: "is_digit c \<Longrightarrow> \<not> is_space c"
  by (auto simp: is_digit_def is_space_def Let_def)

lemma int_of_text_int_str [simp]: "int_of_text (int_str i) = Some i"
proof -
  have d: "list_all is_digit (digits_of n)" "digits_of n \<noteq> []" for n
    using digits_of_digits by auto
  have dash: "\<not> is_space CHR ''-''" "\<not> is_digit CHR ''-''" "\<not> is_digit CHR ''+''"
    by (simp_all add: is_space_def is_digit_def py_ord_def)
  have "\<forall>c \<in> set (int_str i). \<not> is_space c"
    using d(1) is_digit_not_space dash(1) by (auto simp: int_str_def nat_str_def list_all_iff)
  then have s: "py_strip (int_str i) = int_str i"
    unfolding py_strip_def by (rule strip_by_none)
  show ?thesis
  proof (cases "i < 0")
    case True
    then show ?thesis
      using s by (simp add: int_of_text_def int_str_def nat_str_def digits_value_digits_of)
  next
    case False
    obtain c cs where c: "digits_of (nat i) = c # cs"
      using d(2) by (meson list.exhaust)
    then have "is_digit c"
      using d(1)[of "nat i"] by simp
    then have "c \<noteq> CHR ''-''" "c \<noteq> CHR ''+''"
      using dash by auto
    then show ?thesis
      using s c False digits_value_digits_of[of False 0 "nat i"]
      by (simp add: int_of_text_def int_str_def nat_str_def)
  qed
qed

lemma env_int_int_str [simp]: "getenv os name dflt = int_str i \<Longrightarrow> env_int os name dflt = Inr i"
  by (simp add: env_int_def)

end
