(* ===== verification/Tenant.thy ===== *)
theory Tenant
  imports Auth Rotated_Creds Py_Regex Py_Num
begin

text \<open>
  sql\_query\_api/services/tenant\_database\_resolver.py: the server-owned bindings from an organisation
  and a logical database identifier to a database, the two configuration formats they are parsed
  from, and their resolution for a principal. Fields that the parsers copy without a check stay JSON
  values. \<open>parse_float\<close> is \<open>float(text)\<close>; \<open>loads\<close> is \<open>json.loads\<close>.
\<close>

subsection \<open>Bindings\<close>

record tenant_config =
  tc_org_id :: string
  tc_database_id :: string
  tc_credential_mode :: string
  tc_connection_string :: json
  tc_replica :: json
  tc_use_read_replica :: bool
  tc_role_name :: json
  tc_creds_dir :: json
  tc_host :: json
  tc_port :: int
  tc_db_name :: json
  tc_data_schema :: json
  tc_metadata_schema :: json
  tc_pool_size :: "int option"
  tc_max_overflow :: "int option"
  tc_pool_timeout :: "real option"
  tc_pool_recycle :: "int option"

text \<open>\<open>"://" in v\<close>\<close>

fun mentions_scheme :: "json \<Rightarrow> exn + bool" where
  "mentions_scheme (JStr s) = Inr (str_contains ''://'' s)"
| "mentions_scheme (JArr xs) = Inr (JStr ''://'' \<in> set xs)"
| "mentions_scheme (JObj d) = Inr (dict_has d ''://'')"
| "mentions_scheme _ = Inl TypeError"

text \<open>\<open>TenantDatabaseConfig.__init__\<close>, on the record of its arguments; \<open>use\<close> is the \<open>use_read_replica\<close>
  argument. The legacy branch resets the fields of the rotated mode. The class's
  \<open>__post_init__\<close> is \<open>post_init\<close>; the hand-written constructor does not call it.\<close>

definition tenant_config_init :: "tenant_config \<Rightarrow> bool option \<Rightarrow> exn + tenant_config" where
  "tenant_config_init args use =
     (let used = (case use of Some b \<Rightarrow> b | None \<Rightarrow> truthy (tc_replica args));
          cs = tc_connection_string args
      in bind_result (if cs = JNull then Inr False else mentions_scheme cs) (\<lambda>legacy.
           if legacy then
             Inr (args\<lparr>tc_credential_mode := ''static'', tc_use_read_replica := used, tc_role_name := JStr [],
                tc_host := JStr [], tc_port := 5432, tc_db_name := JStr []\<rparr>)
           else Inr (args\<lparr>tc_connection_string := py_or cs (JStr []), tc_use_read_replica := used\<rparr>)))"

definition database_id_char :: "char \<Rightarrow> bool" where
  "database_id_char c \<longleftrightarrow> is_ascii_alpha c \<or> is_digit c \<or> c \<in> {CHR ''_'', CHR ''.'', CHR ''-''}"

definition is_valid_database_id :: "string \<Rightarrow> bool" where
  "is_valid_database_id s \<longleftrightarrow>
     (case py_strip s of
        [] \<Rightarrow> False
      | c # cs \<Rightarrow> (is_ascii_alpha c \<or> is_digit c) \<and> length cs \<le> 127 \<and> list_all database_id_char cs)"

definition schema_name_ok :: "json \<Rightarrow> exn + bool" where
  "schema_name_ok v =
     (case v of
        JStr s \<Rightarrow> (let t = filter (\<lambda>c. c \<noteq> CHR ''_'') s in Inr (t \<noteq> [] \<and> list_all is_alnum t))
      | _ \<Rightarrow> Inl (AttributeError ''replace''))"

definition post_init :: "tenant_config \<Rightarrow> exn + unit" where
  "post_init c =
     bind_result (require_that (py_strip (tc_org_id c) \<noteq> []) ''org_id is required.'') (\<lambda>_.
     bind_result (require_that (py_strip (tc_database_id c) \<noteq> []) ''database_id is required.'') (\<lambda>_.
     bind_result (require_that (is_valid_database_id (tc_database_id c))
       ''Tenant database identifiers must be opaque logical identifiers.'') (\<lambda>_.
     bind_result (schema_name_ok (tc_data_schema c)) (\<lambda>ok1.
     bind_result (require_that ok1 ''Configured schema names must be valid identifiers.'') (\<lambda>_.
     bind_result (schema_name_ok (tc_metadata_schema c)) (\<lambda>ok2.
     bind_result (require_that ok2 ''Configured schema names must be valid identifiers.'') (\<lambda>_.
       if tc_credential_mode c = ''static'' then
         (case tc_connection_string c of
            JStr s \<Rightarrow> require_that (py_strip s \<noteq> []) ''Static mode requires connection_string.''
          | _ \<Rightarrow> Inl (AttributeError ''strip''))
       else if tc_credential_mode c = ''rotated'' then
         bind_result (require_that (truthy (tc_role_name c)) ''Rotated mode requires role_name.'') (\<lambda>_.
         bind_result (require_that (truthy (tc_host c)) ''Rotated mode requires host.'') (\<lambda>_.
         require_that (truthy (tc_db_name c)) ''Rotated mode requires db_name.''))
       else Inl (ValueError ''Unknown credential_mode''))))))))"

definition effective_target :: "tenant_config \<Rightarrow> string" where
  "effective_target c =
     (if tc_credential_mode c = ''static'' then
        (if tc_use_read_replica c \<and> truthy (tc_replica c) then ''replica'' else ''primary'')
      else ''rotated'')"

text \<open>\<open>effective_connection_string\<close>: a rotated binding makes a new loader for every read, so neither the
  loader's cache nor the binding's own directory, host, port and database name are used.\<close>

definition effective_connection_string ::
    "(json \<Rightarrow> string) \<Rightarrow> (string \<Rightarrow> json option) \<Rightarrow> os_state \<Rightarrow> tenant_config \<Rightarrow> exn + json" where
  "effective_connection_string rep loads os c =
     (if tc_credential_mode c = ''static'' then
        Inr (if tc_use_read_replica c \<and> truthy (tc_replica c) then tc_replica c else tc_connection_string c)
      else
        bind_result
          (fst (get_credentials loads os (get_credential_loader os) (tc_org_id c) (py_str rep (tc_role_name c))))
          (\<lambda>r. Inr (JStr (''postgresql+asyncpg://'' @ py_str rep (rc_username r) @ '':'' @ py_str rep (rc_password r) @
             ''@'' @ py_str rep (rc_host r) @ '':'' @ py_str rep (rc_port r) @ ''/'' @ py_str rep (rc_database r)))))"

subsection \<open>The configuration file format\<close>

definition as_obj :: "string \<Rightarrow> json \<Rightarrow> exn + obj" where
  "as_obj attr v = (case v of JObj d \<Rightarrow> Inr d | _ \<Rightarrow> Inl (AttributeError attr))"

definition pool_fields ::
    "(string \<Rightarrow> real option) \<Rightarrow> obj \<Rightarrow> exn + int option \<times> int option \<times> real option \<times> int option" where
  "pool_fields parse_float d =
     bind_result (opt_number py_int (obj_get d ''pool_size'')) (\<lambda>psize.
     bind_result (opt_number py_int (obj_get d ''max_overflow'')) (\<lambda>over.
     bind_result (opt_number (py_float parse_float) (obj_get d ''pool_timeout'')) (\<lambda>tmo.
     bind_result (opt_number py_int (obj_get d ''pool_recycle'')) (\<lambda>recy.
       Inr (psize, over, tmo, recy)))))"

definition base_args ::
    "string \<Rightarrow> string \<Rightarrow> string \<Rightarrow> json \<Rightarrow> json \<Rightarrow> int option \<times> int option \<times> real option \<times> int option \<Rightarrow> tenant_config" where
  "base_args org db mode data_schema metadata_schema pool =
     (case pool of (psize, over, tmo, recy) \<Rightarrow>
        \<lparr>tc_org_id = org, tc_database_id = db, tc_credential_mode = mode, tc_connection_string = JNull,
         tc_replica = JNull, tc_use_read_replica = False, tc_role_name = JStr [], tc_creds_dir = JStr ''/creds'',
         tc_host = JStr [], tc_port = 5432, tc_db_name = JStr [], tc_data_schema = data_schema,
         tc_metadata_schema = metadata_schema, tc_pool_size = psize, tc_max_overflow = over,
         tc_pool_timeout = tmo, tc_pool_recycle = recy\<rparr>)"

definition use_replica :: "json \<Rightarrow> json \<Rightarrow> bool" where
  "use_replica use replica \<longleftrightarrow> (if use = JNull \<and> truthy replica then True else truthy use)"

definition config_entry ::
    "(string \<Rightarrow> real option) \<Rightarrow> string \<Rightarrow> string \<times> json \<Rightarrow> exn + tenant_config" where
  "config_entry parse_float tenant_id db =
     (case db of (database_id, v) \<Rightarrow>
       bind_result (as_obj ''get'' v) (\<lambda>d.
       bind_result (pool_fields parse_float d) (\<lambda>pool.
       let mode = obj_get_or d ''credential_mode'' (JStr ''static'');
           args = (\<lambda>m. base_args tenant_id database_id m (obj_get_or d ''data_schema'' (JStr ''public''))
                    (obj_get_or d ''metadata_schema'' (JStr ''meta'')) pool)
       in if mode = JStr ''static'' then
            bind_result (require_that (truthy (obj_get d ''connection_string''))
                ''Static mode requires connection_string'') (\<lambda>_.
              let replica = obj_get d ''replica_connection_string'' in
              tenant_config_init
                ((args ''static'')\<lparr>tc_connection_string := obj_get d ''connection_string'', tc_replica := replica\<rparr>)
                (Some (use_replica (obj_get d ''use_read_replica'') replica)))
          else if mode = JStr ''rotated'' then
            bind_result (require_that (truthy (obj_get d ''role_name'')) ''Rotated mode requires role_name'') (\<lambda>_.
            bind_result (require_that (truthy (obj_get d ''host'')) ''Rotated mode requires host'') (\<lambda>_.
            bind_result (require_that (truthy (obj_get d ''db_name'')) ''Rotated mode requires db_name'') (\<lambda>_.
            bind_result (py_int (obj_get_or d ''port'' (JInt 5432))) (\<lambda>port.
              tenant_config_init
                ((args ''rotated'')\<lparr>tc_role_name := obj_get d ''role_name'', tc_host := obj_get d ''host'',
                   tc_port := port, tc_db_name := obj_get d ''db_name'',
                   tc_creds_dir := obj_get_or d ''creds_dir'' (JStr ''/creds'')\<rparr>) None))))
          else Inl (ValueError ''Unknown credential_mode''))))"

definition tenant_entries ::
    "(string \<Rightarrow> real option) \<Rightarrow> string \<times> json \<Rightarrow> exn + tenant_config list" where
  "tenant_entries parse_float tenant =
     (case tenant of (tenant_id, v) \<Rightarrow>
       bind_result (as_obj ''get'' v) (\<lambda>d.
       bind_result (as_obj ''items'' (obj_get_or d ''databases'' (JObj []))) (\<lambda>dbs.
         result_map (config_entry parse_float tenant_id) dbs)))"

definition parse_config :: "(string \<Rightarrow> real option) \<Rightarrow> obj \<Rightarrow> exn + tenant_config list" where
  "parse_config parse_float config =
     bind_result (as_obj ''items'' (obj_get_or config ''tenants'' (JObj []))) (\<lambda>tenants.
     bind_result (result_map (tenant_entries parse_float) tenants) (\<lambda>css. Inr (concat css)))"

subsection \<open>The legacy format\<close>

definition default_mode :: "obj \<Rightarrow> obj" where
  "default_mode entry =
     (if dict_has entry ''credential_mode'' then entry
      else dict_set entry ''credential_mode''
        (JStr (if dict_has entry ''connection_string'' then ''static''
               else if dict_has entry ''role_name'' then ''rotated'' else ''static'')))"

definition nested_entry :: "string \<Rightarrow> string \<times> json \<Rightarrow> exn + obj" where
  "nested_entry org_id db =
     (case db of (database_id, v) \<Rightarrow>
       (case v of
          JStr s \<Rightarrow> Inr [(''org_id'', JStr org_id), (''database_id'', JStr database_id),
                      (''connection_string'', JStr s), (''credential_mode'', JStr ''static'')]
        | JObj d \<Rightarrow> Inr (default_mode (dict_set (dict_set d ''org_id'' (JStr org_id)) ''database_id'' (JStr database_id)))
        | _ \<Rightarrow> Inl (ValueError ''Tenant database connection configuration is invalid.'')))"

definition nested_entries :: "string \<times> json \<Rightarrow> exn + obj list" where
  "nested_entries org =
     (case org of (org_id, v) \<Rightarrow>
       (case v of
          JObj dbs \<Rightarrow> result_map (nested_entry org_id) dbs
        | _ \<Rightarrow> Inl (ValueError ''Tenant database mappings must be nested objects.'')))"

definition binding_entries :: "json \<Rightarrow> exn + obj list" where
  "binding_entries parsed =
     (case parsed of
        JArr xs \<Rightarrow> result_map (\<lambda>x. case x of JObj d \<Rightarrow> Inr d
           | _ \<Rightarrow> Inl (ValueError ''Tenant database entries must be objects.'')) xs
      | JObj d \<Rightarrow>
          if dict_has d ''org_id'' \<and> dict_has d ''database_id'' then Inr [d]
          else bind_result (result_map nested_entries d) (\<lambda>ess. Inr (concat ess))
      | _ \<Rightarrow> Inl (ValueError ''Tenant database configuration must be a JSON object or array.''))"

definition first_of :: "obj \<Rightarrow> string list \<Rightarrow> json" where
  "first_of d ks = foldl (\<lambda>v k. py_or v (obj_get d k)) (obj_get d (hd ks)) (tl ks)"

definition nested_replica :: "obj \<Rightarrow> string \<Rightarrow> json \<Rightarrow> json" where
  "nested_replica entry k v =
     (case obj_get entry k of
        JObj r \<Rightarrow> py_or v (first_of r [''connection_string'', ''database_url'', ''url''])
      | _ \<Rightarrow> v)"

definition legacy_replica :: "obj \<Rightarrow> json" where
  "legacy_replica entry =
     nested_replica entry ''read_replica'' (nested_replica entry ''replica''
       (first_of entry [''replica_connection_string'', ''read_replica_connection_string'', ''replica_url'',
          ''read_replica_url'']))"

definition legacy_schema :: "(json \<Rightarrow> string) \<Rightarrow> os_state \<Rightarrow> obj \<Rightarrow> string \<Rightarrow> string \<Rightarrow> string \<Rightarrow> json" where
  "legacy_schema rep os entry k var dflt = JStr (py_str rep (obj_get_or entry k (JStr (getenv os var dflt))))"

definition strip_str :: "json \<Rightarrow> exn + json" where
  "strip_str v = (case v of JStr s \<Rightarrow> Inr (JStr (py_strip s)) | _ \<Rightarrow> Inl (AttributeError ''strip''))"

definition legacy_names :: "obj \<Rightarrow> exn + string \<times> string" where
  "legacy_names entry =
     (case (obj_get entry ''org_id'', obj_get entry ''database_id'') of
        (JStr g, JStr b) \<Rightarrow> Inr (py_strip g, py_strip b)
      | _ \<Rightarrow> Inl (ValueError ''Tenant database entries require org_id and database_id.''))"

definition legacy_args ::
    "(json \<Rightarrow> string) \<Rightarrow> os_state \<Rightarrow> obj \<Rightarrow> string \<Rightarrow> string \<times> string
      \<Rightarrow> int option \<times> int option \<times> real option \<times> int option \<Rightarrow> tenant_config" where
  "legacy_args rep os entry mode names pool =
     base_args (fst names) (snd names) mode
       (legacy_schema rep os entry ''data_schema'' ''SQL_DATA_SCHEMA'' ''public'')
       (legacy_schema rep os entry ''metadata_schema'' ''SQL_METADATA_SCHEMA'' ''meta'') pool"

definition legacy_static ::
    "(json \<Rightarrow> string) \<Rightarrow> (string \<Rightarrow> real option) \<Rightarrow> os_state \<Rightarrow> obj \<Rightarrow> exn + tenant_config" where
  "legacy_static rep parse_float os entry =
     (let connection = first_of entry [''connection_string'', ''database_url'', ''url''];
          replica = legacy_replica entry
      in bind_result (pool_fields parse_float entry) (\<lambda>pool.
         bind_result (legacy_names entry) (\<lambda>names.
         (case connection of
            JStr cs \<Rightarrow>
              bind_result (require_that (py_strip cs \<noteq> []) ''Static mode entries require connection_string.'') (\<lambda>_.
                tenant_config_init
                  ((legacy_args rep os entry ''static'' names pool)
                     \<lparr>tc_connection_string := JStr (py_strip cs),
                      tc_replica := (case replica of
                         JStr r \<Rightarrow> if py_strip r \<noteq> [] then JStr (py_strip r) else JNull
                       | _ \<Rightarrow> JNull)\<rparr>)
                  (Some (use_replica (obj_get entry ''use_read_replica'') replica)))
          | _ \<Rightarrow> Inl (ValueError ''Static mode entries require connection_string.'')))))"

definition legacy_rotated ::
    "(json \<Rightarrow> string) \<Rightarrow> (string \<Rightarrow> real option) \<Rightarrow> os_state \<Rightarrow> obj \<Rightarrow> exn + tenant_config" where
  "legacy_rotated rep parse_float os entry =
     bind_result (pool_fields parse_float entry) (\<lambda>pool.
     bind_result (legacy_names entry) (\<lambda>names.
     bind_result (require_that (truthy (obj_get entry ''role_name'')) ''Rotated mode entries require role_name.'') (\<lambda>_.
     bind_result (require_that (truthy (obj_get entry ''host'')) ''Rotated mode entries require host.'') (\<lambda>_.
     bind_result (require_that (truthy (obj_get entry ''db_name'')) ''Rotated mode entries require db_name.'') (\<lambda>_.
     bind_result (strip_str (obj_get entry ''role_name'')) (\<lambda>role.
     bind_result (strip_str (obj_get entry ''host'')) (\<lambda>host.
     bind_result (py_int (obj_get_or entry ''port'' (JInt 5432))) (\<lambda>port.
     bind_result (strip_str (obj_get entry ''db_name'')) (\<lambda>name.
       tenant_config_init
         ((legacy_args rep os entry ''rotated'' names pool)
            \<lparr>tc_role_name := role, tc_host := host, tc_port := port, tc_db_name := name,
             tc_creds_dir := obj_get_or entry ''creds_dir'' (JStr ''/creds'')\<rparr>) None)))))))))"

definition legacy_entry ::
    "(json \<Rightarrow> string) \<Rightarrow> (string \<Rightarrow> real option) \<Rightarrow> os_state \<Rightarrow> obj \<Rightarrow> exn + tenant_config" where
  "legacy_entry rep parse_float os entry =
     (let mode = obj_get_or entry ''credential_mode'' (JStr ''static'') in
      if mode = JStr ''static'' then legacy_static rep parse_float os entry
      else if mode = JStr ''rotated'' then legacy_rotated rep parse_float os entry
      else Inl (ValueError ''Unknown credential_mode''))"

definition parse_bindings ::
    "(json \<Rightarrow> string) \<Rightarrow> (string \<Rightarrow> real option) \<Rightarrow> os_state \<Rightarrow> json \<Rightarrow> exn + tenant_config list" where
  "parse_bindings rep parse_float os parsed =
     bind_result (binding_entries parsed) (result_map (legacy_entry rep parse_float os))"

subsection \<open>Resolver\<close>

record tenant_resolver =
  rs_bindings :: "(string \<times> string, tenant_config list) dict"
  rs_explicit :: bool

definition resolver_init :: "tenant_config list \<Rightarrow> tenant_resolver" where
  "resolver_init bs =
     (let d = foldl (\<lambda>acc b. dict_push acc (tc_org_id b, tc_database_id b) b) [] bs
      in \<lparr>rs_bindings = d, rs_explicit = (d \<noteq> [])\<rparr>)"

definition resolve_database ::
    "tenant_resolver \<Rightarrow> principal option \<Rightarrow> string option \<Rightarrow> exn + tenant_config" where
  "resolve_database r prin database_id =
     (case prin of
        None \<Rightarrow> Inl (PermissionError ''Authenticated organisation is required.'')
      | Some p \<Rightarrow>
          if py_strip (pr_org_id p) = [] then Inl (PermissionError ''Authenticated organisation is required.'')
          else if \<not> is_valid_database_id (case database_id of None \<Rightarrow> [] | Some d \<Rightarrow> d)
            then Inl (PermissionError ''A valid logical database_id is required.'')
          else
            let d = py_strip (case database_id of None \<Rightarrow> [] | Some d \<Rightarrow> d);
                found = (case dict_get (rs_bindings r) (pr_org_id p, d) of None \<Rightarrow> [] | Some bs \<Rightarrow> bs)
            in (case found of
                  [] \<Rightarrow> Inl (PermissionError ''Database is not available for this organisation.'')
                | [b] \<Rightarrow> Inr b
                | _ \<Rightarrow> Inl (PermissionError ''Database configuration is ambiguous.'')))"

definition file_exists :: "os_state \<Rightarrow> string \<Rightarrow> bool" where
  "file_exists os path \<longleftrightarrow> os_files os path \<noteq> File_Missing"

definition resolver_of_bindings :: "tenant_config list \<Rightarrow> exn + tenant_resolver" where
  "resolver_of_bindings bs =
     (if bs = [] then Inl (RuntimeError ''Tenant database configuration must contain at least one mapping.'')
      else Inr (resolver_init bs))"

definition default_config_file :: "os_state \<Rightarrow> string" where
  "default_config_file os = getenv os ''TENANT_DATABASES_CONFIG_FILE'' ''/config/tenant_databases.json''"

definition resolver_from_config_file ::
    "(string \<Rightarrow> real option) \<Rightarrow> (string \<Rightarrow> json option) \<Rightarrow> os_state \<Rightarrow> string option \<Rightarrow> exn + tenant_resolver" where
  "resolver_from_config_file parse_float loads os config_path =
     (let path = (case config_path of None \<Rightarrow> default_config_file os
                  | Some p \<Rightarrow> if p \<noteq> [] then p else default_config_file os)
      in if \<not> file_exists os path then Inl (RuntimeError ''Tenant database config file not found'')
         else (case os_files os path of
                 File_Text t \<Rightarrow>
                   (case loads t of
                      None \<Rightarrow> Inl (RuntimeError ''Failed to load tenant database config'')
                    | Some (JObj config) \<Rightarrow>
                        if \<not> dict_has config ''tenants''
                        then Inl (RuntimeError ''Invalid tenant database config: missing tenants key'')
                        else bind_result (parse_config parse_float config) resolver_of_bindings
                    | Some _ \<Rightarrow> Inl (RuntimeError ''Invalid tenant database config: missing tenants key''))
               | _ \<Rightarrow> Inl (RuntimeError ''Failed to load tenant database config'')))"

fun tenant_config_error :: "exn \<Rightarrow> exn" where
  "tenant_config_error TypeError = RuntimeError ''Tenant database configuration is invalid.''"
| "tenant_config_error (ValueError m) = RuntimeError ''Tenant database configuration is invalid.''"
| "tenant_config_error e = e"

definition resolver_from_environment ::
    "(json \<Rightarrow> string) \<Rightarrow> (string \<Rightarrow> real option) \<Rightarrow> (string \<Rightarrow> json option) \<Rightarrow> os_state \<Rightarrow> exn + tenant_resolver" where
  "resolver_from_environment rep parse_float loads os =
     (if file_exists os (default_config_file os)
      then resolver_from_config_file parse_float loads os (Some (default_config_file os))
      else
        let direct = py_strip (getenv os ''TENANT_DATABASES_JSON'' []) in
        bind_result (if direct \<noteq> [] then Inr direct else read_secret os ''TENANT_DATABASES_JSON'' False []) (\<lambda>raw.
          if raw = [] then Inl (RuntimeError ''Tenant database configuration not found.'')
          else (case (case loads raw of
                        None \<Rightarrow> Inl (ValueError ''JSONDecodeError'')
                      | Some v \<Rightarrow> parse_bindings rep parse_float os v) of
                  Inl e \<Rightarrow> Inl (tenant_config_error e)
                | Inr bs \<Rightarrow> resolver_of_bindings bs)))"

subsection \<open>The directory interface\<close>

text \<open>What request handling relies on: a found binding belongs to the principal's organisation and to the
  identifier asked for, and an answer depends on the bindings of the principal's organisation only.\<close>

locale tenant_directory =
  fixes find_db :: "'r \<Rightarrow> principal option \<Rightarrow> string option \<Rightarrow> exn + tenant_config"
    and bindings_of :: "'r \<Rightarrow> string \<Rightarrow> tenant_config list"
  assumes found_owner: "find_db r p d = Inr c \<Longrightarrow> \<exists>pr. p = Some pr \<and> tc_org_id c = pr_org_id pr \<and> c \<in> set (bindings_of r (pr_org_id pr))"
    and found_name: "find_db r p d = Inr c \<Longrightarrow> \<exists>n. d = Some n \<and> tc_database_id c = py_strip n \<and> is_valid_database_id n"
    and local_answer: "bindings_of r (pr_org_id pr) = bindings_of r' (pr_org_id pr) \<Longrightarrow>
        find_db r (Some pr) d = find_db r' (Some pr) d"
begin

lemma isolated:
  assumes "find_db r (Some p) d = Inr c" and "find_db r' (Some q) e = Inr c"
  shows "pr_org_id p = pr_org_id q"
  using found_owner[OF assms(1)] found_owner[OF assms(2)] by auto

lemma anonymous_fails: "\<exists>e. find_db r None d = Inl e"
  using found_owner[of r None d] by (cases "find_db r None d") auto

end

lemma resolver_bindings_get:
  "dict_get (foldl (\<lambda>acc b. dict_push acc (tc_org_id b, tc_database_id b) b) acc bs) k =
     (case filter (\<lambda>b. (tc_org_id b, tc_database_id b) = k) bs of
        [] \<Rightarrow> dict_get acc k
      | ms \<Rightarrow> Some ((case dict_get acc k of None \<Rightarrow> [] | Some xs \<Rightarrow> xs) @ ms))"
  by (induction bs arbitrary: acc) (auto split: list.splits option.splits)

definition bindings_for :: "tenant_config list \<Rightarrow> string \<Rightarrow> string \<Rightarrow> tenant_config list" where
  "bindings_for bs org db = filter (\<lambda>b. tc_org_id b = org \<and> tc_database_id b = db) bs"

lemma resolver_found:
  "(case dict_get (rs_bindings (resolver_init bs)) (org, db) of None \<Rightarrow> [] | Some ms \<Rightarrow> ms) = bindings_for bs org db"
  by (auto simp: resolver_init_def resolver_bindings_get bindings_for_def Let_def split: list.splits)

lemma resolve_database_Some:
  "resolve_database (resolver_init bs) (Some p) (Some d) =
     (if py_strip (pr_org_id p) = [] then Inl (PermissionError ''Authenticated organisation is required.'')
      else if \<not> is_valid_database_id d then Inl (PermissionError ''A valid logical database_id is required.'')
      else (case bindings_for bs (pr_org_id p) (py_strip d) of
              [] \<Rightarrow> Inl (PermissionError ''Database is not available for this organisation.'')
            | [b] \<Rightarrow> Inr b
            | _ \<Rightarrow> Inl (PermissionError ''Database configuration is ambiguous.'')))"
  by (simp add: resolve_database_def resolver_found)

lemma invalid_empty_database_id [simp]: "\<not> is_valid_database_id []"
  by (simp add: is_valid_database_id_def)

lemma resolve_database_None: "\<exists>e. resolve_database r p None = Inl e"
  by (auto simp: resolve_database_def split: option.splits)

lemma resolve_database_Inr:
  assumes "resolve_database (resolver_init bs) p d = Inr c"
  shows "\<exists>pr n. p = Some pr \<and> d = Some n \<and> py_strip (pr_org_id pr) \<noteq> [] \<and> is_valid_database_id n \<and>
     bindings_for bs (pr_org_id pr) (py_strip n) = [c]"
proof -
  obtain pr n where "p = Some pr" "d = Some n"
    using assms resolve_database_None[of "resolver_init bs" p] by (cases p; cases d) (auto simp: resolve_database_def)
  then show ?thesis
    using assms by (auto simp: resolve_database_Some split: if_splits list.splits)
qed

lemma bindings_for_single:
  "bindings_for bs org db = [c] \<Longrightarrow> c \<in> set bs \<and> tc_org_id c = org \<and> tc_database_id c = db"
proof -
  assume "bindings_for bs org db = [c]"
  then have "c \<in> set (bindings_for bs org db)"
    by simp
  then show ?thesis
    by (simp add: bindings_for_def)
qed

interpretation directory: tenant_directory "\<lambda>bs. resolve_database (resolver_init bs)"
  "\<lambda>bs org. filter (\<lambda>b. tc_org_id b = org) bs"
proof
  show "\<exists>pr. p = Some pr \<and> tc_org_id c = pr_org_id pr \<and> c \<in> set (filter (\<lambda>b. tc_org_id b = pr_org_id pr) r)"
    if "resolve_database (resolver_init r) p d = Inr c" for r p d c
    using resolve_database_Inr[OF that] bindings_for_single by fastforce
  show "\<exists>n. d = Some n \<and> tc_database_id c = py_strip n \<and> is_valid_database_id n"
    if "resolve_database (resolver_init r) p d = Inr c" for r p d c
    using resolve_database_Inr[OF that] bindings_for_single by fastforce
  show "resolve_database (resolver_init r) (Some pr) d = resolve_database (resolver_init r') (Some pr) d"
    if "filter (\<lambda>b. tc_org_id b = pr_org_id pr) r = filter (\<lambda>b. tc_org_id b = pr_org_id pr) r'" for r pr r' d
  proof -
    have "bindings_for bs org db = filter (\<lambda>b. tc_database_id b = db) (filter (\<lambda>b. tc_org_id b = org) bs)" for bs org db
      by (auto simp: bindings_for_def intro: filter_cong)
    then have "bindings_for r (pr_org_id pr) db = bindings_for r' (pr_org_id pr) db" for db
      unfolding that by (simp only: that)
    then show ?thesis
      by (cases d) (simp_all add: resolve_database_Some, simp add: resolve_database_def)
  qed
qed

subsection \<open>Properties\<close>

text \<open>C8. Resolution is exact and isolated: a principal gets a binding precisely when its organisation is
  not blank, the identifier is a valid opaque one, and the configuration has exactly one binding for
  that organisation and the stripped identifier; the binding returned is that one.\<close>

theorem resolve_database_iff:
  "resolve_database (resolver_init bs) p d = Inr c \<longleftrightarrow>
     (\<exists>pr n. p = Some pr \<and> d = Some n \<and> py_strip (pr_org_id pr) \<noteq> [] \<and> is_valid_database_id n \<and>
        filter (\<lambda>b. tc_org_id b = pr_org_id pr \<and> tc_database_id b = py_strip n) bs = [c])"
  using resolve_database_Inr[of bs p d c] by (auto simp: resolve_database_Some bindings_for_def)

text \<open>The answer tells nothing about other organisations: two configurations with the same bindings
  for the principal's organisation give the same answer, errors included, for every identifier.\<close>

theorem resolve_database_noninterference:
  assumes "filter (\<lambda>b. tc_org_id b = pr_org_id pr) bs = filter (\<lambda>b. tc_org_id b = pr_org_id pr) bs'"
  shows "resolve_database (resolver_init bs) (Some pr) d = resolve_database (resolver_init bs') (Some pr) d"
  by (rule directory.local_answer[OF assms])

definition static_binding :: "string \<Rightarrow> string \<Rightarrow> string \<Rightarrow> tenant_config" where
  "static_binding org db cs =
     (base_args org db ''static'' (JStr ''public'') (JStr ''meta'') (None, None, None, None))
       \<lparr>tc_connection_string := JStr cs\<rparr>"

definition acme_user :: principal where
  "acme_user = \<lparr>pr_user_id = ''u'', pr_email = ''u'', pr_org_id = ''acme'', pr_roles = {}, pr_attributes = []\<rparr>"

lemma resolve_database_noninterference_witness:
  "resolve_database (resolver_init [static_binding ''acme'' ''main'' ''x://y'', static_binding ''evil'' ''hr'' ''x://z''])
     (Some acme_user) (Some ''hr'') =
   resolve_database (resolver_init [static_binding ''acme'' ''main'' ''x://y'']) (Some acme_user) (Some ''hr'')"
  by (rule resolve_database_noninterference) (simp add: acme_user_def static_binding_def base_args_def)

definition binding_wf :: "tenant_config \<Rightarrow> bool" where
  "binding_wf c \<longleftrightarrow>
     (tc_credential_mode c = ''static'' \<and> is_str (tc_connection_string c) \<and> truthy (tc_connection_string c)) \<or>
     (tc_credential_mode c = ''rotated'' \<and> tc_connection_string c = JStr [] \<and>
      is_str (tc_role_name c) \<and> is_str (tc_host c) \<and> is_str (tc_db_name c))"

lemma tenant_config_init_static:
  assumes "tenant_config_init a use = Inr c" and "tc_connection_string a = JStr s" and "s \<noteq> []"
    and "tc_credential_mode a = ''static''"
  shows "binding_wf c"
  using assms by (auto simp: tenant_config_init_def binding_wf_def Let_def py_or_def split: if_splits)

lemma tenant_config_init_rotated:
  assumes "tenant_config_init a None = Inr c" and "tc_connection_string a = JNull"
    and "tc_credential_mode a = ''rotated''"
    and "is_str (tc_role_name a)" and "is_str (tc_host a)" and "is_str (tc_db_name a)"
  shows "binding_wf c"
  using assms by (auto simp: tenant_config_init_def binding_wf_def Let_def py_or_def split: if_splits)

lemma strip_str_is_str: "strip_str v = Inr w \<Longrightarrow> is_str w"
  by (auto simp: strip_str_def split: json.splits)

lemma legacy_args_simps [simp]:
  "tc_credential_mode (legacy_args rep os e m ns pool) = m"
  "tc_connection_string (legacy_args rep os e m ns pool) = JNull"
  by (simp_all add: legacy_args_def base_args_def split: prod.splits)

lemma legacy_static_wf:
  assumes "legacy_static rep pf os e = Inr c"
  shows "binding_wf c"
proof (cases "first_of e [''connection_string'', ''database_url'', ''url'']")
  case (JStr cs)
  then obtain a use where "tenant_config_init a use = Inr c" "tc_connection_string a = JStr (py_strip cs)"
      "py_strip cs \<noteq> []" "tc_credential_mode a = ''static''"
    using assms by (fastforce simp: legacy_static_def Let_def require_that_def split: if_splits)
  then show ?thesis
    by (rule tenant_config_init_static)
qed (use assms in \<open>auto simp: legacy_static_def Let_def\<close>)

lemma legacy_rotated_wf: "legacy_rotated rep pf os e = Inr c \<Longrightarrow> binding_wf c"
  by (auto simp: legacy_rotated_def intro: strip_str_is_str elim!: tenant_config_init_rotated)


definition bad_document :: json where
  "bad_document = JArr [JObj [(''org_id'', JStr ''acme''), (''database_id'', JStr ''main''),
     (''connection_string'', JStr ''postgresql://h/db''), (''data_schema'', JStr ''public; drop'')]]"

definition empty_os :: os_state where
  "empty_os = \<lparr>os_env = [], os_files = \<lambda>_. File_Missing\<rparr>"

text \<open>The validation that the class documents is dead code: a configured binding whose identifier and
  schema name \<open>__post_init__\<close> rejects is built by the constructor, parsed without an error and even
  served (its schema name is later used in SQL).\<close>

theorem post_init_not_enforced:
  "(case parse_bindings (\<lambda>_. []) (\<lambda>_. None) empty_os bad_document of
      Inr [c] \<Rightarrow> post_init c = Inl (ValueError ''Configured schema names must be valid identifiers.'') \<and>
        resolve_database (resolver_init [c])
          (Some acme_user) (Some ''main'') = Inr c
    | _ \<Rightarrow> False)"
  by code_simp

definition good_document :: json where
  "good_document = JObj [(''acme'', JObj [(''main'', JStr ''postgresql://h/db'')])]"


end
