(* ===== verification/Repository.thy ===== *)
theory Repository
  imports Sql_Safety Tenant
begin

text \<open>
  sql\_query\_api/repositories/sql\_query\_repository.py and services/sql\_query\_service.py: the
  read-only repository of one tenant database. The database driver is a parameter: for a statement it
  returns rows, no rows, an error or a timeout. What the repository does to its connection is a trace
  of \<open>conn_event\<close>s; an operation returns its result with the trace.
\<close>

subsection \<open>Read-only role\<close>

definition role_pattern :: rx where
  "role_pattern =
     Rx_Seq (Rx_Cls (\<lambda>c. is_ascii_alpha c \<or> c = CHR ''_''))
       (rx_star (\<lambda>c. is_ascii_alpha c \<or> is_digit c \<or> c = CHR ''_'' \<or> c = CHR ''$''))"

definition validate_readonly_role_name :: "string option \<Rightarrow> exn + string option" where
  "validate_readonly_role_name role_name =
     (case role_name of
        None \<Rightarrow> Inr None
      | Some r \<Rightarrow>
          if py_strip r = [] \<or> \<not> rx_fullmatch role_pattern (py_strip r)
          then Inl (ValueError ''SQL_READONLY_ROLE must be a bare PostgreSQL role name'')
          else Inr (Some (py_strip r)))"

definition enforce_readonly_role_guardrail :: "os_state \<Rightarrow> string \<Rightarrow> bool \<Rightarrow> exn + unit" where
  "enforce_readonly_role_guardrail os connection_string production =
     (if \<not> prefix ''postgresql'' connection_string \<or> \<not> production then Inr ()
      else
        let r = py_strip (getenv os ''SQL_READONLY_ROLE'' []) in
        if r = [] then Inl (RuntimeError ''Production PostgreSQL tenants require SQL_READONLY_ROLE'')
        else bind_result (validate_readonly_role_name (Some r)) (\<lambda>_. Inr ()))"

subsection \<open>Repository\<close>

record repository =
  rp_checker :: safety_checker
  rp_sensitive :: "string set"
  rp_row_filter :: "(string \<times> string) option"
  rp_data_schema :: string
  rp_metadata_schema :: string
  rp_org :: "string option"
  rp_database :: "string option"
  rp_target :: string
  rp_timeout :: real
  rp_max_rows :: int
  rp_max_bytes :: int
  rp_cost_threshold :: real
  rp_cost_action :: string
  rp_lock_timeout_ms :: int
  rp_readonly_role :: "string option"

definition cost_action_of :: "os_state \<Rightarrow> string" where
  "cost_action_of os =
     (let a = py_lower (py_strip (getenv os ''SQL_QUERY_COST_ACTION'' ''deny'')) in
      if a \<in> {''allow'', ''warn'', ''deny''} then a else ''deny'')"

definition repository_init ::
    "(string \<Rightarrow> real option) \<Rightarrow> os_state \<Rightarrow> safety_checker \<Rightarrow> real option \<Rightarrow> string set \<Rightarrow> (string \<times> string) option
      \<Rightarrow> string \<Rightarrow> string \<Rightarrow> string option \<Rightarrow> string option \<Rightarrow> string \<Rightarrow> exn + repository" where
  "repository_init parse_float os checker timeout sensitive row_filter data_schema metadata_schema org db target =
     bind_result (case timeout of Some t \<Rightarrow> Inr t | None \<Rightarrow> env_float parse_float os ''SQL_QUERY_TIMEOUT_SECONDS'' ''30'') (\<lambda>tmo.
     bind_result (require_that (tmo > 0) ''SQL_QUERY_TIMEOUT_SECONDS must be greater than zero.'') (\<lambda>_.
     bind_result (env_int os ''SQL_QUERY_MAX_ROW_LIMIT'' ''5000'') (\<lambda>max_rows.
     bind_result (env_int os ''SQL_QUERY_MAX_RESULT_BYTES'' ''5242880'') (\<lambda>max_bytes.
     bind_result (env_float parse_float os ''SQL_QUERY_COST_THRESHOLD'' ''16'') (\<lambda>threshold.
     bind_result (env_float parse_float os ''SQL_LOCK_TIMEOUT_SECONDS'' ''5'') (\<lambda>lock_s.
     bind_result (require_that (truncate_real (lock_s * 1000) > 0) ''SQL_LOCK_TIMEOUT_SECONDS must be greater than zero.'') (\<lambda>_.
     bind_result (validate_readonly_role_name
         (let r = getenv os ''SQL_READONLY_ROLE'' [] in if r = [] then None else Some r)) (\<lambda>role.
       Inr \<lparr>rp_checker = checker, rp_sensitive = py_lower ` sensitive, rp_row_filter = row_filter,
          rp_data_schema = data_schema, rp_metadata_schema = metadata_schema, rp_org = org, rp_database = db,
          rp_target = (if target \<noteq> [] then target else ''primary''), rp_timeout = tmo, rp_max_rows = max_rows,
          rp_max_bytes = max_bytes, rp_cost_threshold = threshold, rp_cost_action = cost_action_of os,
          rp_lock_timeout_ms = truncate_real (lock_s * 1000), rp_readonly_role = role\<rparr>))))))))"

text \<open>The property \<open>database_target\<close> has a documentation string for a body and so returns \<open>None\<close>.\<close>

definition database_target :: "repository \<Rightarrow> json" where
  "database_target rp = JNull"

subsection \<open>Static cost\<close>

definition quoted_rx :: rx where
  "quoted_rx =
     Rx_Alt (rx_cat [rx_lit [CHR 0x27], rx_star (\<lambda>c. c \<noteq> CHR 0x27), rx_lit [CHR 0x27]])
       (rx_cat [rx_lit [CHR 0x22], rx_star (\<lambda>c. c \<noteq> CHR 0x22), rx_lit [CHR 0x22]])"

definition paren_rx :: rx where
  "paren_rx = rx_cat [rx_lit ''('', rx_star (\<lambda>c. c \<noteq> CHR '')''), rx_lit '')'']"

definition from_join_rx :: rx where
  "from_join_rx =
     Rx_Alt (rx_cat [Rx_Boundary, rx_lit ''FROM'', Rx_Boundary]) (rx_cat [Rx_Boundary, rx_lit ''JOIN'', Rx_Boundary])"

definition table_count :: "string \<Rightarrow> nat" where
  "table_count upper = max 1 (length (rx_findall from_join_rx (rx_sub paren_rx '' '' (rx_sub quoted_rx '' '' upper))))"

text \<open>The weighted features of a statement, in the order the code tests them.\<close>

definition cost_features :: "string \<Rightarrow> string \<Rightarrow> (bool \<times> nat \<times> string option) list" where
  "cost_features normalized upper =
     [(str_contains ''SELECT'' upper, 1, None),
      (str_contains ''JOIN'' upper, 4, Some ''joins''),
      (str_contains ''GROUP BY'' upper \<or> str_contains ''HAVING'' upper, 3, Some ''aggregations''),
      (str_contains ''ORDER BY'' upper, 2, Some ''sorting''),
      (str_contains ''LIMIT'' upper, 1, None),
      (CHR ''*'' \<in> set normalized, 2, Some ''wide scan''),
      (str_contains ''UNION'' upper \<or> str_contains ''INTERSECT'' upper \<or> str_contains ''EXCEPT'' upper, 4, Some ''set operations''),
      (str_contains ''WITH '' upper, 3, Some ''CTE''),
      (True, table_count upper - 1, None),
      (str_contains ''SELECT COUNT'' upper, 2, Some ''count aggregation'')]"

record cost_estimate =
  ce_score :: nat
  ce_level :: string
  ce_reason :: string

definition cost_level :: "nat \<Rightarrow> string" where
  "cost_level score =
     (if score \<le> 4 then ''low'' else if score \<le> 8 then ''medium'' else if score \<le> 12 then ''high'' else ''critical'')"

definition estimate_query_cost :: "string \<Rightarrow> cost_estimate" where
  "estimate_query_cost sql =
     (let normalized = py_strip sql in
      if normalized = [] then \<lparr>ce_score = 0, ce_level = ''low'', ce_reason = ''Empty query''\<rparr>
      else
        let hits = filter fst (cost_features normalized (py_upper normalized));
            score = 1 + sum_list (map (\<lambda>(_, w, _). w) hits);
            reasons = concat (map (\<lambda>(_, _, r). case r of None \<Rightarrow> [] | Some x \<Rightarrow> [x]) hits)
        in \<lparr>ce_score = score, ce_level = cost_level score,
            ce_reason = (if reasons \<noteq> [] then join '', '' reasons else ''basic select'')\<rparr>)"

record cost_guard =
  cg_estimate :: cost_estimate
  cg_threshold :: real
  cg_decision :: string
  cg_message :: string

definition evaluate_query_cost :: "repository \<Rightarrow> string \<Rightarrow> cost_guard" where
  "evaluate_query_cost rp sql =
     (let est = estimate_query_cost sql;
          over = real (ce_score est) \<ge> rp_cost_threshold rp;
          d = (if over then (if rp_cost_action rp \<in> {''warn'', ''deny''} then rp_cost_action rp else ''allow'') else ''allow'')
      in \<lparr>cg_estimate = est, cg_threshold = rp_cost_threshold rp, cg_decision = d,
          cg_message =
            (if d = ''deny'' then ''Query exceeds the configured cost threshold and is rejected.''
             else if d = ''warn'' then ''Query exceeds the configured cost threshold and will be allowed with a warning.''
             else ''Query is within the configured cost budget.'')\<rparr>)"

subsection \<open>Row limit\<close>

definition digits_group :: rx where
  "digits_group = Rx_Group (rx_plus is_digit)"

definition fetch_first_rx :: rx where
  "fetch_first_rx =
     rx_cat [Rx_Boundary, rx_ci ''FETCH'', rx_plus is_space, rx_ci ''FIRST'', rx_plus is_space, digits_group,
       rx_plus is_space, rx_ci ''ROWS'', rx_opt (Rx_Seq (rx_plus is_space) (rx_ci ''ONLY'')), Rx_Boundary]"

definition limit_rx :: rx where
  "limit_rx = rx_cat [Rx_Boundary, rx_ci ''LIMIT'', rx_plus is_space, digits_group, Rx_Boundary]"

definition group_int :: "rx_pos \<times> rx_pos \<Rightarrow> int" where
  "group_int m = (case int_of_text (group1 m) of None \<Rightarrow> 0 | Some i \<Rightarrow> i)"

definition clamp_match :: "int \<Rightarrow> rx_pos \<times> rx_pos \<Rightarrow> string" where
  "clamp_match max_rows m =
     before_match m @ ''LIMIT '' @ int_str (min (group_int m) max_rows) @ rp_after (snd m)"

definition ensure_limit :: "repository \<Rightarrow> string \<Rightarrow> string" where
  "ensure_limit rp raw =
     (let sql = rstrip_by is_space (rstrip_by (\<lambda>c. c = CHR '';'') raw) in
      case rx_search fetch_first_rx sql of
        Some m \<Rightarrow> clamp_match (rp_max_rows rp) m
      | None \<Rightarrow>
          (case rx_search limit_rx sql of
             Some m \<Rightarrow> clamp_match (rp_max_rows rp) m
           | None \<Rightarrow> sql @ '' LIMIT '' @ int_str (min 100 (rp_max_rows rp))))"

subsection \<open>Connections\<close>

datatype conn_event = Conn_Open | Conn_Exec string obj | Conn_Close

datatype db_result = Db_Rows "obj list" | Db_No_Rows | Db_Error exn | Db_Timeout

record db_driver =
  dr_dialect :: string
  dr_connect :: "exn + unit"
  dr_exec :: "string \<Rightarrow> obj \<Rightarrow> db_result"

definition session_setup :: "repository \<Rightarrow> string option \<Rightarrow> string list" where
  "session_setup rp schema =
     [''SET SESSION CHARACTERISTICS AS TRANSACTION READ ONLY;''] @
     (case rp_readonly_role rp of None \<Rightarrow> [] | Some r \<Rightarrow> [''SET ROLE '' @ r @ '';'']) @
     [''SET SESSION statement_timeout = '' @ [CHR 0x27] @ int_str (truncate_real (rp_timeout rp * 1000)) @ [CHR 0x27] @ '';'',
      ''SET SESSION lock_timeout = '' @ [CHR 0x27] @ int_str (rp_lock_timeout_ms rp) @ [CHR 0x27] @ '';''] @
     (case schema of None \<Rightarrow> [] | Some s \<Rightarrow> if s = [] then [] else [''SET search_path TO '' @ s])"

fun run_setup :: "db_driver \<Rightarrow> string list \<Rightarrow> (exn + unit) \<times> conn_event list" where
  "run_setup dr [] = (Inr (), [])"
| "run_setup dr (q # qs) =
     (case dr_exec dr q [] of
        Db_Error e \<Rightarrow> (Inl e, [Conn_Exec q []])
      | _ \<Rightarrow> (case run_setup dr qs of (r, tr) \<Rightarrow> (r, Conn_Exec q [] # tr)))"

fun wrap_exn :: "string \<Rightarrow> exn \<Rightarrow> exn" where
  "wrap_exn msg (SqlExecution m) = SqlExecution m"
| "wrap_exn msg e = SqlExecution msg"

fun map_error :: "(exn \<Rightarrow> exn) \<Rightarrow> exn + 'a \<Rightarrow> exn + 'a" where
  "map_error f (Inl e) = Inl (f e)"
| "map_error f (Inr x) = Inr x"

text \<open>\<open>async with get_conn(schema)\<close> around a body that uses the connection.\<close>

definition with_conn ::
    "db_driver \<Rightarrow> repository \<Rightarrow> string option \<Rightarrow> (exn + 'a) \<times> conn_event list \<Rightarrow> (exn + 'a) \<times> conn_event list" where
  "with_conn dr rp schema body =
     (case dr_connect dr of
        Inl e \<Rightarrow> (Inl (wrap_exn ''Error connecting to database'' e), [])
      | Inr _ \<Rightarrow>
          (case run_setup dr (if dr_dialect dr = ''postgresql'' then session_setup rp schema else []) of
             (Inl e, tr) \<Rightarrow> (Inl (wrap_exn ''Error connecting to database'' e), Conn_Open # tr @ [Conn_Close])
           | (Inr _, tr) \<Rightarrow>
               (map_error (wrap_exn ''Error connecting to database'') (fst body),
                Conn_Open # tr @ snd body @ [Conn_Close])))"

subsection \<open>Rows\<close>

text \<open>Rows are fetched in batches of 256 and counted one by one.\<close>

fun take_batch :: "int \<Rightarrow> obj list \<Rightarrow> obj list \<Rightarrow> exn + obj list" where
  "take_batch max_rows acc [] = Inr acc"
| "take_batch max_rows acc (r # rs) =
     (if int (length acc + 1) > max_rows
      then Inl (SqlExecution ''Query result exceeds the maximum allowed row limit'')
      else take_batch max_rows (acc @ [r]) rs)"

function fetch_rows :: "int \<Rightarrow> obj list \<Rightarrow> obj list \<Rightarrow> exn + obj list" where
  "fetch_rows max_rows acc rows =
     (if int (length acc) > max_rows \<or> rows = [] then Inr acc
      else (case take_batch max_rows acc (take 256 rows) of
              Inl e \<Rightarrow> Inl e
            | Inr acc' \<Rightarrow> fetch_rows max_rows acc' (drop 256 rows)))"
  by pat_completeness auto
termination
  by (relation "measure (\<lambda>(m, acc, rows). length rows)") auto

declare fetch_rows.simps [simp del]

definition apply_row_filter :: "repository \<Rightarrow> obj list \<Rightarrow> obj list" where
  "apply_row_filter rp rows =
     (case rp_row_filter rp of None \<Rightarrow> rows | Some (col, v) \<Rightarrow> filter (\<lambda>r. obj_get r col = JStr v) rows)"

definition sensitive_key :: "repository \<Rightarrow> string \<Rightarrow> bool" where
  "sensitive_key rp key \<longleftrightarrow>
     py_lower key \<in> rp_sensitive rp \<or> last (split_on CHR ''.'' (py_lower key)) \<in> rp_sensitive rp"

definition apply_sensitive_column_masking :: "repository \<Rightarrow> obj list \<Rightarrow> obj list" where
  "apply_sensitive_column_masking rp rows =
     (if rp_sensitive rp = {} then rows
      else map (map (\<lambda>(k, v). (k, if sensitive_key rp k then JStr ''[MASKED]'' else v))) rows)"

definition schema_identifier :: "string \<Rightarrow> bool" where
  "schema_identifier s \<longleftrightarrow>
     (let t = filter (\<lambda>c. c \<noteq> CHR ''_'') s in t \<noteq> [] \<and> list_all is_alnum t)"

text \<open>The body of \<open>execute_sql_statement\<close> on an open connection; \<open>dump_size\<close> is the length of the rows as
  JSON text.\<close>

definition run_query ::
    "(obj list \<Rightarrow> nat) \<Rightarrow> db_driver \<Rightarrow> repository \<Rightarrow> string \<Rightarrow> obj \<Rightarrow> (exn + obj list) \<times> conn_event list" where
  "run_query dump_size dr rp sql params =
     ((case dr_exec dr sql params of
         Db_Timeout \<Rightarrow> Inl (SqlExecution ''SQL query timed out'')
       | Db_Error e \<Rightarrow> Inl (wrap_exn ''Error executing SQL statement'' e)
       | Db_No_Rows \<Rightarrow> Inr []
       | Db_Rows rows \<Rightarrow>
           bind_result (fetch_rows (rp_max_rows rp) [] rows) (\<lambda>rs.
             if int (dump_size rs) > rp_max_bytes rp
             then Inl (SqlExecution ''Query result exceeds maximum allowed size'')
             else Inr (apply_sensitive_column_masking rp (apply_row_filter rp rs)))),
      [Conn_Exec sql params])"

definition execute_sql_statement ::
    "(obj list \<Rightarrow> nat) \<Rightarrow> sql_parsers \<Rightarrow> db_driver \<Rightarrow> repository \<Rightarrow> string \<Rightarrow> obj option
      \<Rightarrow> (exn + obj list) \<times> conn_event list" where
  "execute_sql_statement dump_size lib dr rp sql params =
     (if \<not> is_safe_select_query (rp_checker rp) lib sql
      then (Inl (ForbiddenSql ''Only simple SELECT statements are allowed.''), [])
      else
        let bounded = ensure_limit rp sql in
        if cg_decision (evaluate_query_cost rp bounded) = ''deny''
        then (Inl (ForbiddenSql ''Query exceeds the configured cost threshold and is rejected.''), [])
        else if \<not> schema_identifier (rp_data_schema rp)
        then (Inl (ValueError ''SQL_DATA_SCHEMA must be a valid PostgreSQL schema identifier.''), [])
        else with_conn dr rp (Some (rp_data_schema rp))
          (run_query dump_size dr rp bounded (case params of None \<Rightarrow> [] | Some p \<Rightarrow> p)))"

text \<open>\<open>explain_query_cost\<close>: the summary of the plan that EXPLAIN returned.\<close>

record explain_summary =
  ex_dialect :: string
  ex_supported :: bool
  ex_total_cost :: json
  ex_plan :: json
  ex_error :: bool

definition plan_of_rows :: "string \<Rightarrow> json option \<Rightarrow> exn + explain_summary" where
  "plan_of_rows dialect payload =
     (let p = (case payload of None \<Rightarrow> JArr [] | Some v \<Rightarrow> v);
          plan = (case p of JArr (JObj d # _) \<Rightarrow> obj_get_or d ''Plan'' (JObj []) | _ \<Rightarrow> JObj [])
      in if \<not> truthy p then Inr \<lparr>ex_dialect = dialect, ex_supported = True, ex_total_cost = JNull, ex_plan = JObj [], ex_error = False\<rparr>
         else bind_result (as_obj ''get'' plan) (\<lambda>d.
           Inr \<lparr>ex_dialect = dialect, ex_supported = True, ex_total_cost = obj_get d ''Total Cost'', ex_plan = plan, ex_error = False\<rparr>))"

definition first_cell :: "obj list \<Rightarrow> json option" where
  "first_cell rows = (case rows of ((_, v) # _) # _ \<Rightarrow> Some v | _ \<Rightarrow> None)"

definition unsupported_plan :: "string \<Rightarrow> bool \<Rightarrow> explain_summary" where
  "unsupported_plan dialect err =
     \<lparr>ex_dialect = dialect, ex_supported = False, ex_total_cost = JNull, ex_plan = JObj [], ex_error = err\<rparr>"

definition explain_body :: "db_driver \<Rightarrow> string \<Rightarrow> (exn + explain_summary) \<times> conn_event list" where
  "explain_body dr sql =
     (if dr_dialect dr \<noteq> ''postgresql'' then (Inr (unsupported_plan (dr_dialect dr) False), [])
      else
        ((case dr_exec dr (''EXPLAIN (FORMAT JSON) '' @ sql) [] of
            Db_Rows rows \<Rightarrow> plan_of_rows (dr_dialect dr) (first_cell rows)
          | Db_Error e \<Rightarrow> Inl e
          | _ \<Rightarrow> Inl (SqlExecution ''no rows'')),
         [Conn_Exec (''EXPLAIN (FORMAT JSON) '' @ sql) []]))"

definition explain_query_cost ::
    "sql_parsers \<Rightarrow> db_driver \<Rightarrow> repository \<Rightarrow> string \<Rightarrow> (exn + explain_summary) \<times> conn_event list" where
  "explain_query_cost lib dr rp sql =
     (if \<not> is_safe_select_query (rp_checker rp) lib sql
      then (Inl (ForbiddenSql ''Only simple SELECT statements are allowed.''), [])
      else (case with_conn dr rp (Some (rp_data_schema rp)) (explain_body dr (py_strip (ensure_limit rp sql))) of
              (Inr s, tr) \<Rightarrow> (Inr s, tr)
            | (Inl e, tr) \<Rightarrow> (Inr (unsupported_plan ''postgresql'' True), tr)))"

subsection \<open>Properties\<close>

lemma take_batch_spec:
  "int (length acc) \<le> m \<Longrightarrow>
     take_batch m acc rs = (if int (length acc + length rs) > m
       then Inl (SqlExecution ''Query result exceeds the maximum allowed row limit'') else Inr (acc @ rs))"
  by (induction rs arbitrary: acc) auto

lemma fetch_rows_spec:
  "int (length acc) \<le> m \<Longrightarrow>
     fetch_rows m acc rows = (if int (length acc + length rows) > m
       then Inl (SqlExecution ''Query result exceeds the maximum allowed row limit'') else Inr (acc @ rows))"
proof (induction m acc rows rule: fetch_rows.induct)
  case (1 m acc rows)
  have l: "length (take 256 rows) + length (drop 256 rows) = length rows"
    by simp
  show ?case
  proof (cases "rows = []")
    case True
    then show ?thesis
      using 1(2) by (simp add: fetch_rows.simps)
  next
    case False
    show ?thesis
    proof (cases "int (length acc + length (take 256 rows)) > m")
      case True
      then have "int (length acc + length rows) > m"
        using l by linarith
      then show ?thesis
        using True False 1(2) by (simp add: fetch_rows.simps[of m acc rows] take_batch_spec)
    next
      case fits: False
      have "fetch_rows m acc rows = fetch_rows m (acc @ take 256 rows) (drop 256 rows)"
        using fits False 1(2) by (simp add: fetch_rows.simps[of m acc rows] take_batch_spec)
      also have "\<dots> = (if int (length (acc @ take 256 rows) + length (drop 256 rows)) > m
          then Inl (SqlExecution ''Query result exceeds the maximum allowed row limit'')
          else Inr ((acc @ take 256 rows) @ drop 256 rows))"
        using fits False 1(2) by (intro 1(1)[of "acc @ take 256 rows"]) (simp_all add: take_batch_spec)
      finally show ?thesis
        using l by (simp only: append_assoc append_take_drop_id length_append add.assoc)
    qed
  qed
qed

lemma fetch_rows_negative: "m < 0 \<Longrightarrow> fetch_rows m [] rows = Inr []"
  by (simp add: fetch_rows.simps)

lemma fetch_rows_bounded:
  assumes "fetch_rows m [] rows = Inr rs"
  shows "rs = [] \<or> int (length rs) \<le> m"
proof (cases "m < 0")
  case True
  then show ?thesis using assms by (simp add: fetch_rows_negative)
next
  case False
  then show ?thesis using assms by (auto simp: fetch_rows_spec split: if_splits)
qed

lemma with_conn_Inr:
  assumes "with_conn dr rp schema body = (Inr x, tr)"
  shows "fst body = Inr x"
  using assms by (cases "fst body") (auto simp: with_conn_def split: sum.splits prod.splits)

lemma masking_length [simp]: "length (apply_sensitive_column_masking rp rows) = length rows"
  by (simp add: apply_sensitive_column_masking_def)

lemma filter_length: "length (apply_row_filter rp rows) \<le> length rows"
  by (auto simp: apply_row_filter_def split: option.splits)

text \<open>C13. A result that is returned stays within the row budget, and no row of it carries a value other
  than the mask under a sensitive column.\<close>

theorem execute_result_bounded:
  assumes "execute_sql_statement dump_size lib dr rp sql params = (Inr rows, tr)"
  shows "(rows = [] \<or> int (length rows) \<le> rp_max_rows rp) \<and>
     (\<forall>row \<in> set rows. \<forall>(k, v) \<in> set row. sensitive_key rp k \<longrightarrow> v = JStr ''[MASKED]'')"
proof -
  let ?p = "case params of None \<Rightarrow> [] | Some p \<Rightarrow> p"
  have "fst (run_query dump_size dr rp (ensure_limit rp sql) ?p) = Inr rows"
    using assms with_conn_Inr by (fastforce simp: execute_sql_statement_def Let_def split: if_splits)
  then consider "rows = []"
    | rs db where "fetch_rows (rp_max_rows rp) [] db = Inr rs" "rows = apply_sensitive_column_masking rp (apply_row_filter rp rs)"
    by (auto simp: run_query_def split: db_result.splits if_splits)
  then show ?thesis
  proof cases
    case 2
    have "length rows \<le> length rs"
      using filter_length[of rp rs] 2(2) by simp
    then have "rows = [] \<or> int (length rows) \<le> rp_max_rows rp"
      using fetch_rows_bounded[OF 2(1)] by auto
    moreover have "\<forall>row \<in> set rows. \<forall>(k, v) \<in> set row. sensitive_key rp k \<longrightarrow> v = JStr ''[MASKED]''"
      unfolding 2(2) apply_sensitive_column_masking_def by (auto simp: sensitive_key_def)
    ultimately show ?thesis ..
  qed simp
qed

lemma run_setup_trace:
  "run_setup dr qs = (r, tr) \<Longrightarrow> (\<exists>k. tr = map (\<lambda>q. Conn_Exec q []) (take k qs)) \<and> (r = Inr () \<longrightarrow> tr = map (\<lambda>q. Conn_Exec q []) qs)"
proof (induction qs arbitrary: tr)
  case (Cons q qs)
  show ?case
  proof (cases "dr_exec dr q []")
    case (Db_Error e)
    then show ?thesis
      using Cons.prems by (auto intro: exI[of _ 1])
  next
    case Db_No_Rows
    obtain tr' where "run_setup dr qs = (r, tr')" "tr = Conn_Exec q [] # tr'"
      using Cons.prems Db_No_Rows by (auto split: prod.splits)
    with Cons.IH show ?thesis by (metis list.simps(9) take_Suc_Cons)
  next
    case Db_Timeout
    obtain tr' where "run_setup dr qs = (r, tr')" "tr = Conn_Exec q [] # tr'"
      using Cons.prems Db_Timeout by (auto split: prod.splits)
    with Cons.IH show ?thesis by (metis list.simps(9) take_Suc_Cons)
  next
    case (Db_Rows rs)
    obtain tr' where "run_setup dr qs = (r, tr')" "tr = Conn_Exec q [] # tr'"
      using Cons.prems Db_Rows by (auto split: prod.splits)
    with Cons.IH show ?thesis by (metis list.simps(9) take_Suc_Cons)
  qed
qed simp


definition example_repository :: repository where
  "example_repository =
     \<lparr>rp_checker = checker_init 10000 {} [], rp_sensitive = {''ssn''}, rp_row_filter = None, rp_data_schema = ''public'',
      rp_metadata_schema = ''meta'', rp_org = None, rp_database = None, rp_target = ''primary'', rp_timeout = 30,
      rp_max_rows = 5000, rp_max_bytes = 5242880, rp_cost_threshold = 16, rp_cost_action = ''deny'',
      rp_lock_timeout_ms = 5000, rp_readonly_role = Some ''gateway_ro''\<rparr>"

text \<open>The row cap looks at the first LIMIT of the text only: a LIMIT inside a derived table keeps the
  outer query without one, or with one above the maximum.\<close>

theorem ensure_limit_misses_outer_limit:
  "ensure_limit example_repository ''SELECT 1 FROM(SELECT 2 LIMIT 3)x LIMIT 9999'' =
     ''SELECT 1 FROM(SELECT 2 LIMIT 3)x LIMIT 9999'' \<and> rp_max_rows example_repository = 5000"
  by code_simp

definition one_parsers :: sql_parsers where
  "one_parsers = sql_parsers_for ''SELECT 1'' (mk_select [mk_column [] ''1''] (mk_table ''t'' ''t''))"

definition example_driver :: db_driver where
  "example_driver = \<lparr>dr_dialect = ''postgresql'', dr_connect = Inr (),
     dr_exec = (\<lambda>q ps. if prefix ''SEL'' q then Db_Rows [[(''SSN'', JInt 7), (''id'', JInt 1)]] else Db_No_Rows)\<rparr>"

definition example_run :: "(exn + obj list) \<times> conn_event list" where
  "example_run = execute_sql_statement (\<lambda>_. 0) one_parsers example_driver example_repository ''SELECT 1'' None"

lemma example_limit: "ensure_limit example_repository ''SELECT 1'' = ''SELECT 1 LIMIT 100''"
  by code_simp

lemma example_safe: "is_safe_select_query (rp_checker example_repository) one_parsers ''SELECT 1''"
  unfolding example_repository_def repository.simps by code_simp

lemma example_cost: "cg_decision (evaluate_query_cost example_repository ''SELECT 1 LIMIT 100'') = ''allow''"
proof -
  have "ce_score (estimate_query_cost ''SELECT 1 LIMIT 100'') = 3"
    by code_simp
  then show ?thesis
    by (simp add: evaluate_query_cost_def example_repository_def)
qed

lemma example_mask: "sensitive_key example_repository ''SSN''" "\<not> sensitive_key example_repository ''id''"
proof -
  have "py_lower ''SSN'' = ''ssn''" "py_lower ''id'' = ''id''"
    by code_simp+
  then show "sensitive_key example_repository ''SSN''" "\<not> sensitive_key example_repository ''id''"
    by (simp_all add: sensitive_key_def example_repository_def)
qed

lemma example_run_value:
  "fst example_run = Inr [[(''SSN'', JStr ''[MASKED]''), (''id'', JInt 1)]] \<and> snd example_run \<noteq> []"
proof -
  have "schema_identifier (rp_data_schema example_repository)"
    unfolding example_repository_def repository.simps by code_simp
  then have e: "example_run = with_conn example_driver example_repository (Some ''public'')
      (run_query (\<lambda>_. 0) example_driver example_repository ''SELECT 1 LIMIT 100'' [])"
    using example_safe example_limit example_cost
    by (simp add: example_run_def execute_sql_statement_def Let_def) (simp add: example_repository_def)
  have s: "fst (run_setup example_driver (session_setup example_repository (Some ''public''))) = Inr ()"
    by (simp add: session_setup_def example_repository_def example_driver_def split: prod.splits)
  have "fst (run_query (\<lambda>_. 0) example_driver example_repository ''SELECT 1 LIMIT 100'' []) =
      Inr [[(''SSN'', JStr ''[MASKED]''), (''id'', JInt 1)]]"
    using example_mask
    by (simp add: run_query_def example_driver_def fetch_rows_spec apply_sensitive_column_masking_def)
      (simp add: example_repository_def apply_row_filter_def fetch_rows_spec)
  moreover obtain tr where "run_setup example_driver (session_setup example_repository (Some ''public'')) = (Inr (), tr)"
    using s by (metis prod.collapse)
  moreover have "dr_connect example_driver = Inr ()" "dr_dialect example_driver = ''postgresql''"
    by (simp_all add: example_driver_def)
  ultimately show ?thesis
    unfolding e by (simp add: with_conn_def)
qed

lemma execute_result_bounded_witness:
  "int (length [[(''SSN'', JStr ''[MASKED]''), (''id'', JInt 1)]]) \<le> rp_max_rows example_repository"
proof -
  have "execute_sql_statement (\<lambda>_. 0) one_parsers example_driver example_repository ''SELECT 1'' None =
      (Inr [[(''SSN'', JStr ''[MASKED]''), (''id'', JInt 1)]], snd example_run)"
    using example_run_value by (simp add: example_run_def prod_eq_iff)
  from execute_result_bounded[OF this] show ?thesis
    by simp
qed


end
