(* ===== verification/Provider.thy ===== *)
theory Provider
  imports Repository
begin

text \<open>
  Construction of the services of one tenant database, and their cache:
  sql\_query\_api/dependencies/dependency\_container.py and
  sql\_query\_api/dependencies/tenant\_service\_provider.py. A container is its engine (URL and pool settings)
  and its repository. The interface that the gateway uses is the locale \<open>query_service_provider\<close>.
\<close>

subsection \<open>Settings\<close>

definition parse_name_set :: "string \<Rightarrow> string set" where
  "parse_name_set raw = set (map (\<lambda>v. py_lower (py_strip v)) (filter (\<lambda>v. py_strip v \<noteq> []) (split_on CHR '','' raw)))"

definition parse_table_allowlist :: "string \<Rightarrow> string set" where
  "parse_table_allowlist raw = parse_name_set raw"

definition parse_sensitive_columns :: "string \<Rightarrow> string set" where
  "parse_sensitive_columns raw = parse_name_set raw"

definition parse_allowlist_entry :: "string \<Rightarrow> exn + string \<times> string set" where
  "parse_allowlist_entry entry =
     (case partition_on CHR '':'' entry of (table, found, columns) \<Rightarrow>
        if found then Inr (py_lower (py_strip table), parse_name_set columns)
        else Inl (ValueError ''not enough values to unpack''))"

definition parse_column_allowlist :: "string \<Rightarrow> exn + (string, string set) dict" where
  "parse_column_allowlist raw =
     bind_result (result_map parse_allowlist_entry (filter (\<lambda>e. py_strip e \<noteq> []) (split_on CHR '';'' raw)))
       (\<lambda>es. Inr (dict_merge [] es))"

text \<open>\<open>_parse_row_filter\<close>: the column and the text its values are compared with.\<close>

definition unquote :: "string \<Rightarrow> string" where
  "unquote v =
     (if prefix [CHR 0x27] v \<and> suffix [CHR 0x27] v then butlast (tl v) else v)"

definition parse_row_filter :: "string \<Rightarrow> exn + (string \<times> string) option" where
  "parse_row_filter raw =
     (if py_strip raw = [] then Inr None
      else (case partition_on CHR ''='' raw of (key, found, v) \<Rightarrow>
        if found then Inr (Some (py_lower (py_strip key), unquote (py_strip v)))
        else Inl (ValueError ''not enough values to unpack'')))"

record pool_settings =
  ps_size :: int
  ps_overflow :: int
  ps_timeout :: real
  ps_recycle :: int

definition pool_settings_from_env :: "(string \<Rightarrow> real option) \<Rightarrow> os_state \<Rightarrow> exn + pool_settings" where
  "pool_settings_from_env parse_float os =
     bind_result (env_int os ''DB_POOL_SIZE'' ''5'') (\<lambda>n.
     bind_result (env_int os ''DB_MAX_OVERFLOW'' ''10'') (\<lambda>over.
     bind_result (env_float parse_float os ''DB_POOL_TIMEOUT_SECONDS'' ''30'') (\<lambda>tmo.
     bind_result (env_int os ''DB_POOL_RECYCLE_SECONDS'' ''1800'') (\<lambda>recy.
     bind_result (require_that (n \<ge> 1) ''DB_POOL_SIZE must be at least 1.'') (\<lambda>_.
     bind_result (require_that (over \<ge> 0) ''DB_MAX_OVERFLOW must be >= 0.'') (\<lambda>_.
     bind_result (require_that (tmo > 0) ''DB_POOL_TIMEOUT_SECONDS must be greater than zero.'') (\<lambda>_.
     bind_result (require_that (recy \<ge> 0) ''DB_POOL_RECYCLE_SECONDS must be >= 0.'') (\<lambda>_.
       Inr \<lparr>ps_size = n, ps_overflow = over, ps_timeout = tmo, ps_recycle = recy\<rparr>))))))))"

fun or_default :: "'a option \<Rightarrow> 'a \<Rightarrow> 'a" where
  "or_default None d = d"
| "or_default (Some x) d = x"

definition pool_settings_from_config ::
    "(string \<Rightarrow> real option) \<Rightarrow> os_state \<Rightarrow> int option \<Rightarrow> int option \<Rightarrow> real option \<Rightarrow> int option
      \<Rightarrow> exn + pool_settings" where
  "pool_settings_from_config parse_float os n over tmo recy =
     bind_result (pool_settings_from_env parse_float os) (\<lambda>d.
     bind_result (require_that (\<not> (\<exists>x \<in> set_option n. x < 1)) ''pool_size must be at least 1.'') (\<lambda>_.
     bind_result (require_that (\<not> (\<exists>x \<in> set_option over. x < 0)) ''max_overflow must be >= 0.'') (\<lambda>_.
     bind_result (require_that (\<not> (\<exists>x \<in> set_option tmo. x \<le> 0)) ''pool_timeout must be greater than zero.'') (\<lambda>_.
     bind_result (require_that (\<not> (\<exists>x \<in> set_option recy. x < 0)) ''pool_recycle must be >= 0.'') (\<lambda>_.
       Inr \<lparr>ps_size = or_default n (ps_size d), ps_overflow = or_default over (ps_overflow d),
          ps_timeout = or_default tmo (ps_timeout d), ps_recycle = or_default recy (ps_recycle d)\<rparr>)))))"

definition pool_wf :: "pool_settings \<Rightarrow> bool" where
  "pool_wf p \<longleftrightarrow> ps_size p \<ge> 1 \<and> ps_overflow p \<ge> 0 \<and> ps_timeout p > 0 \<and> ps_recycle p \<ge> 0"

subsection \<open>Container\<close>

record container =
  ct_url :: string
  ct_pool :: "pool_settings option"
  ct_repository :: repository

text \<open>A SQLite file is opened read-only through its URL.\<close>

definition after_scheme :: "string \<Rightarrow> string \<times> string" where
  "after_scheme url =
     (if prefix ''sqlite://'' url then (''sqlite'', drop 9 url) else (''sqlite+aiosqlite'', drop 19 url))"

definition sqlite_read_only_url :: "string \<Rightarrow> string" where
  "sqlite_read_only_url url =
     (if (prefix ''sqlite://'' url \<or> prefix ''sqlite+aiosqlite://'' url) \<and>
         \<not> str_contains '':memory:'' url \<and> \<not> str_contains ''mode=ro'' url
      then
        let url2 = (case after_scheme url of (scheme, path) \<Rightarrow>
              if prefix ''/file:'' path then url
              else scheme @ '':///file:/'' @ lstrip_by (\<lambda>c. c = CHR ''/'') path)
        in url2 @ (if CHR ''?'' \<in> set url2 then ''&mode=ro&uri=true'' else ''?mode=ro&uri=true'')
      else url)"

definition setup_container ::
    "(string \<Rightarrow> real option) \<Rightarrow> os_state \<Rightarrow> string \<Rightarrow> tenant_config \<Rightarrow> string \<Rightarrow> string \<Rightarrow> exn + container" where
  "setup_container parse_float os connection_string c data_schema metadata_schema =
     (let url = sqlite_read_only_url connection_string in
      bind_result (enforce_readonly_role_guardrail os url (is_environment_production os \<and> \<not> is_ci os)) (\<lambda>_.
      bind_result (if prefix ''postgresql'' url
                   then bind_result (pool_settings_from_config parse_float os (tc_pool_size c) (tc_max_overflow c)
                          (tc_pool_timeout c) (tc_pool_recycle c)) (\<lambda>p. Inr (Some p))
                   else Inr None) (\<lambda>pool.
      bind_result (parse_column_allowlist (getenv os ''SQL_ALLOWED_COLUMNS'' [])) (\<lambda>columns.
      bind_result (env_float parse_float os ''SQL_QUERY_TIMEOUT_SECONDS'' ''30'') (\<lambda>tmo.
      bind_result (parse_row_filter (getenv os ''SQL_ROW_FILTER'' [])) (\<lambda>row_filter.
      bind_result (repository_init parse_float os
          (checker_init 10000 (parse_table_allowlist (getenv os ''SQL_ALLOWED_TABLES'' [])) columns)
          (Some tmo) (parse_sensitive_columns (getenv os ''SQL_SENSITIVE_COLUMNS'' [])) row_filter
          (if data_schema \<noteq> [] then data_schema else getenv os ''SQL_DATA_SCHEMA'' ''public'')
          (if metadata_schema \<noteq> [] then metadata_schema else getenv os ''SQL_METADATA_SCHEMA'' ''meta'')
          (Some (tc_org_id c)) (Some (tc_database_id c)) (effective_target c)) (\<lambda>repo.
        Inr \<lparr>ct_url = url, ct_pool = pool, ct_repository = repo\<rparr>)))))))"

subsection \<open>Provider\<close>

record service_provider =
  sp_bindings :: "tenant_config list"
  sp_containers :: "(string \<times> string, container) dict"

definition provider_init :: "tenant_config list \<Rightarrow> service_provider" where
  "provider_init bs = \<lparr>sp_bindings = bs, sp_containers = []\<rparr>"

text \<open>The container of a binding that is not cached yet: its connection text, then \<open>setup_container\<close>. A
  connection text that is not a string fails in \<open>startswith\<close>; a schema that is null falls back to the
  default, and one that is neither null nor a string is refused here (the code fails on its first use).\<close>

fun schema_text :: "json \<Rightarrow> string option" where
  "schema_text (JStr s) = Some s"
| "schema_text JNull = Some []"
| "schema_text _ = None"

definition build_container ::
    "(json \<Rightarrow> string) \<Rightarrow> (string \<Rightarrow> real option) \<Rightarrow> (string \<Rightarrow> json option) \<Rightarrow> os_state \<Rightarrow> tenant_config
      \<Rightarrow> exn + container" where
  "build_container rep parse_float loads os c =
     bind_result (effective_connection_string rep loads os c) (\<lambda>cs.
       (case (cs, schema_text (tc_data_schema c), schema_text (tc_metadata_schema c)) of
          (JStr url, Some ds, Some ms) \<Rightarrow> setup_container parse_float os url c ds ms
        | _ \<Rightarrow> Inl (AttributeError ''startswith'')))"

definition provider_resolve ::
    "(tenant_config \<Rightarrow> exn + container) \<Rightarrow> service_provider \<Rightarrow> principal option \<Rightarrow> string option
      \<Rightarrow> (exn + tenant_config \<times> container) \<times> service_provider" where
  "provider_resolve build sp pr database_id =
     (case resolve_database (resolver_init (sp_bindings sp)) pr database_id of
        Inl e \<Rightarrow> (Inl e, sp)
      | Inr b \<Rightarrow>
          (case dict_get (sp_containers sp) (tc_org_id b, tc_database_id b) of
             Some c \<Rightarrow> (Inr (b, c), sp)
           | None \<Rightarrow>
               (case build b of
                  Inl e \<Rightarrow> (Inl e, sp)
                | Inr c \<Rightarrow> (Inr (b, c),
                    sp\<lparr>sp_containers := dict_set (sp_containers sp) (tc_org_id b, tc_database_id b) c\<rparr>))))"

definition provider_close :: "service_provider \<Rightarrow> service_provider" where
  "provider_close sp = sp\<lparr>sp_containers := []\<rparr>"

subsection \<open>The provider interface\<close>

text \<open>Serving a sequence of requests; the answers in order.\<close>

fun serve_all ::
    "('s \<Rightarrow> principal option \<Rightarrow> string option \<Rightarrow> (exn + tenant_config \<times> 'v) \<times> 's) \<Rightarrow> 's
      \<Rightarrow> (principal option \<times> string option) list \<Rightarrow> (exn + tenant_config \<times> 'v) list" where
  "serve_all resolve s [] = []"
| "serve_all resolve s ((p, d) # reqs) =
     (case resolve s p d of (r, s') \<Rightarrow> r # serve_all resolve s' reqs)"

locale query_service_provider =
  fixes resolve :: "'s \<Rightarrow> principal option \<Rightarrow> string option \<Rightarrow> (exn + tenant_config \<times> 'v) \<times> 's"
    and inv :: "'s \<Rightarrow> bool"
    and serves :: "'v \<Rightarrow> string \<Rightarrow> string \<Rightarrow> bool"
  assumes inv_resolve: "inv s \<Longrightarrow> resolve s p d = (r, s') \<Longrightarrow> inv s'"
    and owner: "inv s \<Longrightarrow> resolve s p d = (Inr (b, v), s') \<Longrightarrow>
      \<exists>pr. p = Some pr \<and> tc_org_id b = pr_org_id pr \<and> serves v (pr_org_id pr) (tc_database_id b)"
    and stable: "inv s \<Longrightarrow> resolve s p d = (Inr (b, v), s') \<Longrightarrow> resolve s' p d = (Inr (b, v), s')"
begin

lemma served_owner:
  assumes "inv s" and "i < length reqs" and "serve_all resolve s reqs ! i = Inr (b, v)"
  shows "\<exists>pr. fst (reqs ! i) = Some pr \<and> tc_org_id b = pr_org_id pr \<and> serves v (pr_org_id pr) (tc_database_id b)"
  using assms
proof (induction reqs arbitrary: s i)
  case (Cons req reqs)
  obtain p d where [simp]: "req = (p, d)"
    by (cases req)
  obtain r s' where r: "resolve s p d = (r, s')"
    by (cases "resolve s p d")
  show ?case
  proof (cases i)
    case 0
    then have "r = Inr (b, v)"
      using Cons.prems(3) r by simp
    then show ?thesis
      using owner[OF Cons.prems(1)] r 0 by simp
  next
    case (Suc j)
    then have "serve_all resolve s' reqs ! j = Inr (b, v)" "j < length reqs"
      using Cons.prems r by simp_all
    then show ?thesis
      using Cons.IH[OF inv_resolve[OF Cons.prems(1) r]] Suc by simp
  qed
qed simp

lemma length_serve_all [simp]: "length (serve_all resolve s reqs) = length reqs"
  by (induction reqs arbitrary: s) (auto split: prod.splits)

end

definition container_serves :: "container \<Rightarrow> string \<Rightarrow> string \<Rightarrow> bool" where
  "container_serves c org db \<longleftrightarrow> rp_org (ct_repository c) = Some org \<and> rp_database (ct_repository c) = Some db"

definition provider_inv :: "service_provider \<Rightarrow> bool" where
  "provider_inv sp \<longleftrightarrow> (\<forall>((org, db), c) \<in> set (sp_containers sp). container_serves c org db)"

lemma repository_init_names:
  "repository_init pf os ck tmo sens rf ds ms org db tgt = Inr rp \<Longrightarrow> rp_org rp = org \<and> rp_database rp = db"
  unfolding repository_init_def by auto

lemma setup_container_serves:
  "setup_container pf os url c ds ms = Inr ct \<Longrightarrow> container_serves ct (tc_org_id c) (tc_database_id c)"
  by (auto simp: setup_container_def container_serves_def Let_def dest!: repository_init_names)

lemma build_container_serves:
  assumes "build_container rep pf loads os c = Inr ct"
  shows "container_serves ct (tc_org_id c) (tc_database_id c)"
proof -
  obtain cs where "(case (cs, schema_text (tc_data_schema c), schema_text (tc_metadata_schema c)) of
      (JStr url, Some ds, Some ms) \<Rightarrow> setup_container pf os url c ds ms
    | _ \<Rightarrow> Inl (AttributeError ''startswith'')) = Inr ct"
    using assms by (auto simp: build_container_def)
  then show ?thesis
    by (cases cs; cases "schema_text (tc_data_schema c)"; cases "schema_text (tc_metadata_schema c)")
      (auto dest: setup_container_serves)
qed

lemma provider_resolve_Inr:
  assumes "provider_resolve build sp p d = (Inr (b, v), sp')"
  shows "resolve_database (resolver_init (sp_bindings sp)) p d = Inr b \<and>
     dict_get (sp_containers sp') (tc_org_id b, tc_database_id b) = Some v \<and> sp_bindings sp' = sp_bindings sp"
  using assms by (auto simp: provider_resolve_def split: sum.splits option.splits)

interpretation provider: query_service_provider "provider_resolve (build_container rep pf loads os)" provider_inv container_serves
  for rep pf loads os
proof
  let ?build = "build_container rep pf loads os"
  show inv: "provider_inv sp'" if "provider_inv sp" "provider_resolve ?build sp p d = (r, sp')" for sp p d r sp'
  proof -
    have "container_serves c (tc_org_id b) (tc_database_id b)" if "?build b = Inr c" for b c
      using that by (rule build_container_serves)
    then show ?thesis
      using that set_dict_set_subset by (fastforce simp: provider_resolve_def provider_inv_def split: sum.splits option.splits)
  qed
  show "\<exists>pr. p = Some pr \<and> tc_org_id b = pr_org_id pr \<and> container_serves v (pr_org_id pr) (tc_database_id b)"
    if "provider_inv sp" "provider_resolve ?build sp p d = (Inr (b, v), sp')" for sp p d b v sp'
  proof -
    note r = provider_resolve_Inr[OF that(2)]
    then obtain pr where pr: "p = Some pr" "tc_org_id b = pr_org_id pr"
      using directory.found_owner by blast
    have "((tc_org_id b, tc_database_id b), v) \<in> set (sp_containers sp')"
      using r dict_get_in_set by fast
    then show ?thesis
      using inv[OF that] pr by (auto simp: provider_inv_def)
  qed
  show "provider_resolve ?build sp' p d = (Inr (b, v), sp')"
    if "provider_inv sp" "provider_resolve ?build sp p d = (Inr (b, v), sp')" for sp p d b v sp'
    using provider_resolve_Inr[OF that(2)] by (simp add: provider_resolve_def)
qed

subsection \<open>Properties\<close>

text \<open>C15. The cache never mixes tenants: whatever requests were served before, the service a request gets was
  built for the organisation of its own principal and for the database of the binding returned.\<close>

theorem provider_isolates_tenants:
  assumes "serve_all (provider_resolve (build_container rep pf loads os)) (provider_init bs) reqs ! i = Inr (b, c)"
    and "i < length reqs"
  shows "\<exists>pr. fst (reqs ! i) = Some pr \<and> tc_org_id b = pr_org_id pr \<and>
     rp_org (ct_repository c) = Some (pr_org_id pr) \<and> rp_database (ct_repository c) = Some (tc_database_id b)"
proof -
  have "provider_inv (provider_init bs)"
    by (simp add: provider_inv_def provider_init_def)
  from provider.served_owner[OF this assms(2,1)] show ?thesis
    by (auto simp: container_serves_def)
qed

lemma pool_settings_from_env_wf: "pool_settings_from_env pf os = Inr p \<Longrightarrow> pool_wf p"
  by (auto simp: pool_settings_from_env_def pool_wf_def require_that_def split: if_splits)

text \<open>Every container that is built for a PostgreSQL tenant of a production process outside CI has a
  validated read-only role for its sessions and a well-formed pool: at least one connection, no
  negative overflow or recycling time, a positive timeout.\<close>

theorem production_container_guarded:
  assumes "setup_container pf os url c ds ms = Inr ct"
    and "is_environment_production os" and "\<not> is_ci os" and "prefix ''postgresql'' url"
  shows "rp_readonly_role (ct_repository ct) \<noteq> None \<and> (\<exists>p. ct_pool ct = Some p \<and> pool_wf p)"
proof -
  have ro: "sqlite_read_only_url url = url"
    using assms(4) by (auto simp: sqlite_read_only_url_def prefix_def)
  obtain pool n where g: "enforce_readonly_role_guardrail os url True = Inr ()"
    and p: "pool_settings_from_config pf os (tc_pool_size c) (tc_max_overflow c) (tc_pool_timeout c) (tc_pool_recycle c) = Inr pool"
    and ct: "ct_pool ct = Some pool"
    using assms ro by (auto simp: setup_container_def Let_def)
  have "py_strip (getenv os ''SQL_READONLY_ROLE'' []) \<noteq> []"
    using g assms(4) by (auto simp: enforce_readonly_role_guardrail_def Let_def split: if_splits)
  then have "getenv os ''SQL_READONLY_ROLE'' [] \<noteq> []"
    by auto
  then have "rp_readonly_role (ct_repository ct) \<noteq> None"
    using assms(1) by (auto simp: setup_container_def Let_def repository_init_def validate_readonly_role_name_def split: if_splits)
  moreover have "pool_wf pool"
    using p pool_settings_from_env_wf
    by (cases "tc_pool_size c"; cases "tc_max_overflow c"; cases "tc_pool_timeout c"; cases "tc_pool_recycle c")
      (fastforce simp: pool_settings_from_config_def pool_wf_def require_that_def split: if_splits)+
  ultimately show ?thesis
    using ct by blast
qed

subsection \<open>A concrete deployment\<close>

definition prod_os :: os_state where
  "prod_os = \<lparr>os_env = [(''SQL_READONLY_ROLE'', ''ro'')], os_files = \<lambda>_. File_Missing\<rparr>"

definition one_second :: "string \<Rightarrow> real option" where
  "one_second _ = Some 1"

definition prod_binding :: tenant_config where
  "prod_binding = static_binding ''acme'' ''main'' ''postgresql://h/db''"

lemma prod_os_facts:
  "is_environment_production prod_os" "\<not> is_ci prod_os" "py_strip ''ro'' = ''ro''" "rx_fullmatch role_pattern ''ro''"
  by code_simp+

lemma prod_numbers:
  "int_of_text ''5000'' = Some 5000" "int_of_text ''5242880'' = Some 5242880" "int_of_text ''5'' = Some 5"
  "int_of_text ''10'' = Some 10" "int_of_text ''1800'' = Some 1800"
proof -
  have "py_strip ''5000'' = ''5000''" "py_strip ''5242880'' = ''5242880''" "py_strip ''5'' = ''5''"
    "py_strip ''10'' = ''10''" "py_strip ''1800'' = ''1800''"
    by code_simp+
  then show "int_of_text ''5000'' = Some 5000" "int_of_text ''5242880'' = Some 5242880" "int_of_text ''5'' = Some 5"
    "int_of_text ''10'' = Some 10" "int_of_text ''1800'' = Some 1800"
    by (simp_all add: int_of_text_def is_digit_def py_ord_def)
qed

lemma no_filters: "parse_column_allowlist [] = Inr []" "parse_row_filter [] = Inr None"
    "validate_readonly_role_name (Some ''ro'') = Inr (Some ''ro'')"
  by (simp_all add: parse_column_allowlist_def parse_row_filter_def validate_readonly_role_name_def prod_os_facts)

lemma prod_env:
  "getenv prod_os ''SQL_READONLY_ROLE'' [] = ''ro''"
  "getenv prod_os ''SQL_ALLOWED_COLUMNS'' [] = []" "getenv prod_os ''SQL_ROW_FILTER'' [] = []"
  "env_int prod_os ''DB_POOL_SIZE'' ''5'' = Inr 5" "env_int prod_os ''DB_MAX_OVERFLOW'' ''10'' = Inr 10"
  "env_int prod_os ''DB_POOL_RECYCLE_SECONDS'' ''1800'' = Inr 1800"
  "env_int prod_os ''SQL_QUERY_MAX_ROW_LIMIT'' ''5000'' = Inr 5000"
  "env_int prod_os ''SQL_QUERY_MAX_RESULT_BYTES'' ''5242880'' = Inr 5242880"
  "env_float one_second prod_os k d = Inr 1"
  by (simp_all add: env_int_def env_float_def one_second_def getenv_def prod_os_def prod_numbers)

lemma prod_setup:
  "\<exists>ct. setup_container one_second prod_os ''postgresql://h/db'' prod_binding ''public'' ''meta'' = Inr ct"
proof -
  have "sqlite_read_only_url ''postgresql://h/db'' = ''postgresql://h/db''"
    by (simp add: sqlite_read_only_url_def)
  moreover have "enforce_readonly_role_guardrail prod_os ''postgresql://h/db'' True = Inr ()"
    by (simp add: enforce_readonly_role_guardrail_def no_filters prod_os_facts prod_env)
  moreover have "\<exists>p. pool_settings_from_config one_second prod_os None None None None = Inr p"
    unfolding pool_settings_from_config_def pool_settings_from_env_def prod_env
    by (simp add: require_that_def del: bind_result_Inr)
  moreover have "\<exists>rp. repository_init one_second prod_os ck (Some 1) sens rf ds ms org db tgt = Inr rp" for ck sens rf ds ms org db tgt
    unfolding repository_init_def prod_env
    by (simp add: require_that_def truncate_real_def no_filters Let_def del: bind_result_Inr)
  ultimately show ?thesis
    by (simp add: setup_container_def Let_def prod_os_facts no_filters prod_env prod_binding_def static_binding_def base_args_def)
      blast
qed

lemma production_container_guarded_witness:
  "\<exists>ct. setup_container one_second prod_os ''postgresql://h/db'' prod_binding ''public'' ''meta'' = Inr ct \<and>
     rp_readonly_role (ct_repository ct) \<noteq> None"
  using prod_setup production_container_guarded prod_os_facts by fastforce

definition prod_build :: "tenant_config \<Rightarrow> exn + container" where
  "prod_build = build_container (\<lambda>_. []) one_second (\<lambda>_. None) prod_os"

lemma prod_build_value: "\<exists>c. prod_build prod_binding = Inr c"
  using prod_setup
  by (simp add: prod_build_def build_container_def effective_connection_string_def prod_binding_def static_binding_def
      base_args_def)

lemma prod_build_serves: "prod_build prod_binding = Inr c \<Longrightarrow> container_serves c ''acme'' ''main''"
  using build_container_serves[of "\<lambda>_. []" one_second "\<lambda>_. None" prod_os prod_binding c]
  by (simp add: prod_build_def prod_binding_def static_binding_def base_args_def)

lemma prod_resolves:
  "resolve_database (resolver_init [prod_binding]) (Some acme_user) (Some ''main'') = Inr prod_binding"
  "resolve_database (resolver_init [prod_binding]) (Some acme_user) (Some '' main '') = Inr prod_binding"
proof -
  have "py_strip (pr_org_id acme_user) \<noteq> []" "is_valid_database_id ''main''" "py_strip ''main'' = ''main''"
    "is_valid_database_id '' main ''" "py_strip '' main '' = ''main''"
    by code_simp+
  then show "resolve_database (resolver_init [prod_binding]) (Some acme_user) (Some ''main'') = Inr prod_binding"
    "resolve_database (resolver_init [prod_binding]) (Some acme_user) (Some '' main '') = Inr prod_binding"
    by (simp_all add: resolve_database_Some bindings_for_def prod_binding_def static_binding_def base_args_def acme_user_def)
qed

lemma prod_provider:
  assumes "prod_build prod_binding = Inr c" and "db = ''main'' \<or> db = '' main ''"
  shows "\<exists>sp. provider_resolve prod_build (provider_init [prod_binding]) (Some acme_user) (Some db) = (Inr (prod_binding, c), sp)"
  using assms prod_resolves by (auto simp: provider_resolve_def provider_init_def)

lemma provider_isolates_tenants_witness:
  "\<exists>c. serve_all (provider_resolve prod_build) (provider_init [prod_binding]) [(Some acme_user, Some ''main'')] ! 0 =
       Inr (prod_binding, c) \<and> rp_org (ct_repository c) = Some ''acme''"
proof -
  obtain c sp where "provider_resolve prod_build (provider_init [prod_binding]) (Some acme_user) (Some ''main'') =
      (Inr (prod_binding, c), sp)"
    using prod_build_value prod_provider by blast
  then have r: "serve_all (provider_resolve prod_build) (provider_init [prod_binding]) [(Some acme_user, Some ''main'')] ! 0 =
      Inr (prod_binding, c)"
    by simp
  from provider_isolates_tenants[OF this[unfolded prod_build_def]] have "rp_org (ct_repository c) = Some ''acme''"
    by (auto simp: acme_user_def)
  with r show ?thesis
    by blast
qed

end
