(* ===== verification/Policy.thy ===== *)
theory Policy
  imports Auth Secrets Py_Regex
begin

text \<open>
  sql\_query\_api/services/policy\_engine.py: identifiers, the policy documents, the deny-precedence
  evaluator and the schema view it derives for a principal. Fields of a document that the code does
  not convert with \<open>str\<close> stay JSON values; \<open>JNull\<close> is Python's \<open>None\<close>.
\<close>

subsection \<open>Identifiers\<close>

definition ident_quotes :: "char set" where
  "ident_quotes = {CHR 0x60, CHR 0x22, CHR ''['', CHR '']''}"

definition normalize_identifier :: "string option \<Rightarrow> string" where
  "normalize_identifier value =
     (case value of
        None \<Rightarrow> []
      | Some v \<Rightarrow> last (split_on CHR ''.'' (strip_by (\<lambda>c. c \<in> ident_quotes) (py_lower (py_strip v)))))"

subsection \<open>Policy documents\<close>

record policy =
  pol_id :: string
  pol_effect :: string
  pol_org_id :: json
  pol_principal_id :: json
  pol_roles :: "string set"
  pol_database_id :: json
  pol_table :: "string option"
  pol_columns :: "string set"
  pol_masked_columns :: "string set"
  pol_row_scope :: "(string, string) dict"
  pol_action :: string

definition lowered_strs :: "(json \<Rightarrow> string) \<Rightarrow> obj \<Rightarrow> string \<Rightarrow> exn + string set" where
  "lowered_strs rep d k =
     bind_result (py_iter (py_or (obj_get_or d k (JArr [])) (JArr [])))
       (\<lambda>xs. Inr (set (map (\<lambda>x. py_lower (py_str rep x)) xs)))"

definition row_scope_of :: "(json \<Rightarrow> string) \<Rightarrow> json \<Rightarrow> exn + (string, string) dict" where
  "row_scope_of rep v =
     (case py_or v (JObj []) of
        JObj d \<Rightarrow> Inr (dict_merge [] (map (\<lambda>(k, x). (py_lower k, py_str rep x)) d))
      | _ \<Rightarrow> Inl (AttributeError ''items''))"

definition raw_action :: "obj \<Rightarrow> json" where
  "raw_action d =
     (case py_or (obj_get d ''action'') (obj_get d ''actions'') of
        JArr (a # _) \<Rightarrow> a
      | v \<Rightarrow> v)"

definition policy_from_dict :: "(json \<Rightarrow> string) \<Rightarrow> obj \<Rightarrow> exn + policy" where
  "policy_from_dict rep d =
     bind_result (lowered_strs rep d ''roles'') (\<lambda>roles.
     bind_result (lowered_strs rep d ''columns'') (\<lambda>columns.
     bind_result (lowered_strs rep d ''masked_columns'') (\<lambda>masked.
     bind_result (row_scope_of rep (obj_get d ''row_scope'')) (\<lambda>row_scope.
     Inr \<lparr>pol_id = py_str rep (py_or (obj_get d ''id'') (py_or (obj_get d ''name'') (JStr ''unnamed''))),
        pol_effect = py_lower (py_str rep (obj_get_or d ''effect'' (JStr ''allow''))),
        pol_org_id = py_or (obj_get d ''org_id'') (obj_get d ''organisation_id''),
        pol_principal_id = py_or (obj_get d ''principal_id'') (obj_get d ''user_id''),
        pol_roles = roles,
        pol_database_id = obj_get d ''database_id'',
        pol_table = (if truthy (obj_get d ''table'') then Some (py_lower (py_str rep (obj_get d ''table''))) else None),
        pol_columns = columns,
        pol_masked_columns = masked,
        pol_row_scope = row_scope,
        pol_action = py_lower (py_str rep (py_or (raw_action d) (JStr ''select'')))\<rparr>))))"

subsection \<open>Decisions and effective access\<close>

record policy_decision =
  pd_allowed :: bool
  pd_reason :: string
  pd_policy_ids :: "string list"
  pd_row_restrictions :: "(string, string) dict"
  pd_masked_columns :: "string set"

definition decision :: "bool \<Rightarrow> string \<Rightarrow> string list \<Rightarrow> policy_decision" where
  "decision allowed reason ids =
     \<lparr>pd_allowed = allowed, pd_reason = reason, pd_policy_ids = ids, pd_row_restrictions = [],
      pd_masked_columns = {}\<rparr>"

definition decision_as_dict :: "policy_decision \<Rightarrow> obj" where
  "decision_as_dict d =
     [(''allowed'', JBool (pd_allowed d)), (''reason'', JStr (pd_reason d)),
      (''policy_ids'', JArr (map JStr (pd_policy_ids d))),
      (''row_restrictions'', JObj (map (\<lambda>(k, v). (k, JStr v)) (pd_row_restrictions d))),
      (''masked_columns'', JArr (map JStr (sorted_list_of_set (pd_masked_columns d))))]"

record effective_access =
  ea_accessible_tables :: "string set"
  ea_allowed_columns :: "string set"
  ea_masked_columns :: "string set"
  ea_unrestricted :: bool

definition table_accessible :: "effective_access \<Rightarrow> string \<Rightarrow> bool" where
  "table_accessible ea table \<longleftrightarrow>
     ea_unrestricted ea \<or> normalize_identifier (Some table) \<in> ea_accessible_tables ea"

definition column_accessible :: "effective_access \<Rightarrow> string \<Rightarrow> string \<Rightarrow> bool" where
  "column_accessible ea table column \<longleftrightarrow>
     table_accessible ea table \<and>
     (ea_unrestricted ea \<or> ea_allowed_columns ea = {} \<or>
      normalize_identifier (Some column) \<in> ea_allowed_columns ea)"

definition is_masked :: "effective_access \<Rightarrow> string \<Rightarrow> bool" where
  "is_masked ea column \<longleftrightarrow> normalize_identifier (Some column) \<in> ea_masked_columns ea"

subsection \<open>Evaluator\<close>

record policy_evaluator =
  pe_policies :: "policy list"
  pe_enabled :: bool

definition is_none_or :: "json \<Rightarrow> string \<Rightarrow> bool" where
  "is_none_or v s \<longleftrightarrow> v = JNull \<or> v = JStr s"

definition policy_matches :: "policy \<Rightarrow> principal \<Rightarrow> string \<Rightarrow> string \<Rightarrow> string \<Rightarrow> bool" where
  "policy_matches p pr database_id table action \<longleftrightarrow>
     is_none_or (pol_org_id p) (pr_org_id pr) \<and>
     is_none_or (pol_principal_id p) (pr_user_id pr) \<and>
     (pol_roles p = {} \<or> pol_roles p \<inter> pr_roles pr \<noteq> {}) \<and>
     is_none_or (pol_database_id p) database_id \<and>
     (pol_table p = None \<or> pol_table p = Some (py_lower table)) \<and>
     (pol_action p \<in> {''select'', ''*''} \<or> pol_action p = py_lower action)"

abbreviation matches_select :: "policy \<Rightarrow> principal \<Rightarrow> string \<Rightarrow> string \<Rightarrow> bool" where
  "matches_select p pr db t \<equiv> policy_matches p pr db t ''select''"

definition applicable_policies :: "policy_evaluator \<Rightarrow> principal \<Rightarrow> string \<Rightarrow> string list \<Rightarrow> policy list" where
  "applicable_policies ev pr db tables =
     filter (\<lambda>p. list_ex (matches_select p pr db) tables) (pe_policies ev)"

definition column_policies :: "policy list \<Rightarrow> policy list" where
  "column_policies ps = filter (\<lambda>p. pol_columns p \<noteq> {}) ps"

definition columns_ok :: "policy list \<Rightarrow> string set option \<Rightarrow> bool" where
  "columns_ok table_policies refs \<longleftrightarrow>
     (case refs of None \<Rightarrow> True
      | Some cols \<Rightarrow> cols = {} \<or> column_policies table_policies = [] \<or>
          cols \<subseteq> \<Union> (set (map pol_columns (column_policies table_policies))))"

definition merged_row_scope :: "policy list \<Rightarrow> (string, string) dict" where
  "merged_row_scope ps = foldl (\<lambda>acc p. dict_merge acc (pol_row_scope p)) [] ps"

definition attribute_absent :: "principal \<Rightarrow> string \<Rightarrow> bool" where
  "attribute_absent pr a \<longleftrightarrow> \<not> dict_has (pr_attributes pr) a \<or> principal_getattr_is_none pr a"

definition evaluate ::
    "policy_evaluator \<Rightarrow> principal \<Rightarrow> string \<Rightarrow> string list \<Rightarrow> string set option \<Rightarrow> policy_decision" where
  "evaluate ev pr db tables refs =
     (if \<not> pe_enabled ev then decision True ''Policy document not configured; legacy gateway controls apply.'' []
      else if tables = [] then decision False ''No protected table could be identified.'' []
      else
        let applicable = applicable_policies ev pr db tables;
            denies = filter (\<lambda>p. pol_effect p = ''deny'') applicable;
            table_policies = filter (\<lambda>p. pol_effect p = ''allow'' \<and> pol_table p \<noteq> None) applicable;
            allowed_tables = set (map pol_table table_policies);
            restrictions = merged_row_scope table_policies
        in if denies \<noteq> [] then decision False ''Denied by policy.'' (map pol_id denies)
           else if table_policies = [] then decision False ''No allow policy matched the requested table.'' []
           else if list_ex (\<lambda>t. Some (py_lower t) \<notin> allowed_tables) tables
             then decision False ''A requested table is not allowed by policy.'' []
           else if \<not> columns_ok table_policies refs
             then decision False ''A referenced column is not allowed by policy.'' []
           else (case List.find (attribute_absent pr) (map snd restrictions) of
                   Some a \<Rightarrow> decision False (''Required subject attribute '' @ [CHR 0x27] @ a @ [CHR 0x27] @ '' is absent.'') []
                 | None \<Rightarrow>
                     \<lparr>pd_allowed = True, pd_reason = ''Allowed by policy.'',
                      pd_policy_ids = map pol_id table_policies,
                      pd_row_restrictions = restrictions,
                      pd_masked_columns = \<Union> (set (map pol_masked_columns table_policies))\<rparr>))"

fun ea_scan ::
    "principal \<Rightarrow> string \<Rightarrow> bool \<times> string set \<times> (string, policy list) dict \<Rightarrow> policy list
      \<Rightarrow> bool \<times> string set \<times> (string, policy list) dict" where
  "ea_scan pr db acc [] = acc"
| "ea_scan pr db (deny_all, denied, by_table) (p # ps) =
     ea_scan pr db
       (if \<not> matches_select p pr db (case pol_table p of None \<Rightarrow> [] | Some t \<Rightarrow> t)
          then (deny_all, denied, by_table)
        else if pol_effect p = ''deny'' then
          (case pol_table p of
             None \<Rightarrow> (True, denied, by_table)
           | Some t \<Rightarrow> (deny_all, insert t denied, by_table))
        else
          (case pol_table p of
             None \<Rightarrow> (deny_all, denied, by_table)
           | Some t \<Rightarrow> (deny_all, denied, dict_push by_table t p))) ps"

definition effective_access_of :: "policy_evaluator \<Rightarrow> principal \<Rightarrow> string \<Rightarrow> effective_access" where
  "effective_access_of ev pr db =
     (if \<not> pe_enabled ev then
        \<lparr>ea_accessible_tables = {}, ea_allowed_columns = {}, ea_masked_columns = {}, ea_unrestricted = True\<rparr>
      else
        (case ea_scan pr db (False, {}, []) (pe_policies ev) of (deny_all, denied, by_table) \<Rightarrow>
           let grants = concat (map snd by_table) in
           \<lparr>ea_accessible_tables =
              (if deny_all then {} else set (filter (\<lambda>t. t \<notin> denied) (map fst by_table))),
            ea_allowed_columns = \<Union> (set (map pol_columns (column_policies grants))),
            ea_masked_columns = \<Union> (set (map pol_masked_columns grants)),
            ea_unrestricted = False\<rparr>))"

subsection \<open>Loading\<close>

text \<open>
  \<open>loads\<close> is \<open>json.loads\<close>: \<open>None\<close> is the \<open>JSONDecodeError\<close>. The code reads the secret a second time,
  as a required one in production, when the first read gave nothing; the exceptions that
  \<open>from_dict\<close> raises are turned into \<open>RuntimeError\<close> when they are type or value errors.
\<close>

fun obj_of :: "json \<Rightarrow> obj option" where
  "obj_of (JObj d) = Some d"
| "obj_of _ = None"

definition policy_documents :: "json option \<Rightarrow> exn + obj list" where
  "policy_documents v =
     (case v of
        Some (JArr xs) \<Rightarrow>
          if list_all (\<lambda>x. obj_of x \<noteq> None) xs then Inr (map (the \<circ> obj_of) xs) else Inl (ValueError [])
      | _ \<Rightarrow> Inl (ValueError []))"

fun config_error :: "exn \<Rightarrow> exn" where
  "config_error TypeError = RuntimeError ''Policy configuration is invalid.''"
| "config_error (ValueError m) = RuntimeError ''Policy configuration is invalid.''"
| "config_error e = e"

definition evaluator_from_documents ::
    "(json \<Rightarrow> string) \<Rightarrow> json option \<Rightarrow> exn + policy_evaluator" where
  "evaluator_from_documents rep v =
     (case bind_result (policy_documents v) (result_map (policy_from_dict rep)) of
        Inl e \<Rightarrow> Inl (config_error e)
      | Inr ps \<Rightarrow> Inr \<lparr>pe_policies = ps, pe_enabled = True\<rparr>)"

definition evaluator_from_environment ::
    "(json \<Rightarrow> string) \<Rightarrow> (string \<Rightarrow> json option) \<Rightarrow> os_state \<Rightarrow> exn + policy_evaluator" where
  "evaluator_from_environment rep loads os =
     (let must = is_environment_production os \<and> \<not> is_ci os in
      bind_result (read_secret os ''POLICY_POLICIES_JSON'' False []) (\<lambda>raw0.
      bind_result (if raw0 \<noteq> [] then Inr raw0 else read_secret os ''POLICY_POLICIES_JSON'' must []) (\<lambda>raw.
        if raw = [] then
          (if must then Inl (RuntimeError ''Missing required POLICY_POLICIES_JSON'')
           else Inr \<lparr>pe_policies = [], pe_enabled = False\<rparr>)
        else evaluator_from_documents rep (loads raw))))"

subsection \<open>What a decision depends on\<close>

text \<open>The abstract contract: a request is granted table by table, and denials win.\<close>

definition in_scope :: "policy \<Rightarrow> principal \<Rightarrow> string \<Rightarrow> bool" where
  "in_scope p pr db \<longleftrightarrow>
     is_none_or (pol_org_id p) (pr_org_id pr) \<and> is_none_or (pol_principal_id p) (pr_user_id pr) \<and>
     (pol_roles p = {} \<or> pol_roles p \<inter> pr_roles pr \<noteq> {}) \<and> is_none_or (pol_database_id p) db \<and>
     pol_action p \<in> {''select'', ''*''}"

definition denies_table :: "policy \<Rightarrow> principal \<Rightarrow> string \<Rightarrow> string \<Rightarrow> bool" where
  "denies_table p pr db t \<longleftrightarrow>
     pol_effect p = ''deny'' \<and> in_scope p pr db \<and> (pol_table p = None \<or> pol_table p = Some (py_lower t))"

definition grants_table :: "policy \<Rightarrow> principal \<Rightarrow> string \<Rightarrow> string \<Rightarrow> bool" where
  "grants_table p pr db t \<longleftrightarrow>
     pol_effect p = ''allow'' \<and> in_scope p pr db \<and> pol_table p = Some (py_lower t)"

definition grants_for :: "policy_evaluator \<Rightarrow> principal \<Rightarrow> string \<Rightarrow> string list \<Rightarrow> policy list" where
  "grants_for ev pr db tables = filter (\<lambda>p. list_ex (grants_table p pr db) tables) (pe_policies ev)"

lemma lower_select: "py_lower ''select'' = ''select''"
  by code_simp

lemma matches_select_iff:
  "matches_select p pr db t \<longleftrightarrow> in_scope p pr db \<and> (pol_table p = None \<or> pol_table p = Some (py_lower t))"
  by (auto simp: policy_matches_def in_scope_def lower_select)

lemma applicable_denies:
  "filter (\<lambda>p. pol_effect p = ''deny'') (applicable_policies ev pr db tables) =
     filter (\<lambda>p. list_ex (denies_table p pr db) tables) (pe_policies ev)"
  unfolding applicable_policies_def filter_filter
  by (rule filter_cong) (auto simp: matches_select_iff denies_table_def list_ex_iff)

lemma applicable_grants:
  "filter (\<lambda>p. pol_effect p = ''allow'' \<and> pol_table p \<noteq> None) (applicable_policies ev pr db tables) =
     grants_for ev pr db tables"
  unfolding applicable_policies_def grants_for_def filter_filter
  by (rule filter_cong) (auto simp: matches_select_iff grants_table_def list_ex_iff)

lemma grants_for_tables:
  assumes "t \<in> set tables"
  shows "Some (py_lower t) \<in> pol_table ` set (grants_for ev pr db tables) \<longleftrightarrow>
     (\<exists>p \<in> set (pe_policies ev). grants_table p pr db t)"
  using assms by (force simp: grants_for_def list_ex_iff grants_table_def)

lemma find_None_map_snd: "List.find P (map snd d) = None \<longleftrightarrow> (\<forall>(k, v) \<in> set d. \<not> P v)"
  by (auto simp: find_None_iff)

lemmas evaluate_unfold = evaluate_def Let_def applicable_denies applicable_grants

lemma is_word_not_quote: "is_word c \<Longrightarrow> c \<notin> ident_quotes"
  by (auto simp: is_word_def is_alnum_def is_ascii_alpha_def is_digit_def Let_def py_ord_def ident_quotes_def)

lemma normalize_plain:
  assumes "\<forall>c \<in> set t. is_word c"
  shows "normalize_identifier (Some t) = py_lower t"
proof -
  have "py_strip t = t"
    unfolding py_strip_def using assms by (intro strip_by_none) (auto dest: is_word_not_space)
  moreover have l: "\<forall>c \<in> set (py_lower t). is_word c"
    using assms by (auto simp: py_lower_def is_word_lower)
  then have "strip_by (\<lambda>c. c \<in> ident_quotes) (py_lower t) = py_lower t"
    by (intro strip_by_none) (auto dest: is_word_not_quote)
  moreover have "CHR ''.'' \<notin> set (py_lower t)"
    using l is_word_not_dot by blast
  ultimately show ?thesis
    by (simp add: normalize_identifier_def split_on_absent)
qed

lemma evaluate_enabled:
  assumes "pe_enabled ev"
  shows "pd_allowed (evaluate ev pr db tables refs) \<longleftrightarrow>
     tables \<noteq> [] \<and>
     (\<forall>t \<in> set tables. (\<forall>p \<in> set (pe_policies ev). \<not> denies_table p pr db t) \<and>
        (\<exists>p \<in> set (pe_policies ev). grants_table p pr db t)) \<and>
     columns_ok (grants_for ev pr db tables) refs \<and>
     (\<forall>(c, a) \<in> set (merged_row_scope (grants_for ev pr db tables)). \<not> attribute_absent pr a)"
proof (cases "tables = []")
  case True
  then show ?thesis
    using assms by (simp add: evaluate_def decision_def)
next
  case False
  let ?G = "grants_for ev pr db tables"
  have d: "filter (\<lambda>p. list_ex (denies_table p pr db) tables) (pe_policies ev) = [] \<longleftrightarrow>
      (\<forall>t \<in> set tables. \<forall>p \<in> set (pe_policies ev). \<not> denies_table p pr db t)"
    by (auto simp: filter_empty_conv list_ex_iff)
  have g: "\<not> list_ex (\<lambda>t. Some (py_lower t) \<notin> set (map pol_table ?G)) tables \<longleftrightarrow>
      (\<forall>t \<in> set tables. \<exists>p \<in> set (pe_policies ev). grants_table p pr db t)"
    using grants_for_tables[of _ tables ev pr db] by (auto simp: list_ex_iff)
  have e: "\<not> list_ex (\<lambda>t. Some (py_lower t) \<notin> set (map pol_table ?G)) tables \<Longrightarrow> ?G \<noteq> []"
    using False by (cases tables; cases ?G) (auto simp: list_ex_iff)
  show ?thesis
    using assms False e
    unfolding evaluate_unfold d[symmetric] ball_conj_distrib g[symmetric] find_None_map_snd[symmetric]
    by (auto simp: decision_def split: option.splits)
qed

lemma evaluate_allowed_fields:
  assumes "pe_enabled ev" and "pd_allowed (evaluate ev pr db tables refs)"
  shows "evaluate ev pr db tables refs =
     \<lparr>pd_allowed = True, pd_reason = ''Allowed by policy.'',
      pd_policy_ids = map pol_id (grants_for ev pr db tables),
      pd_row_restrictions = merged_row_scope (grants_for ev pr db tables),
      pd_masked_columns = \<Union> (set (map pol_masked_columns (grants_for ev pr db tables)))\<rparr>"
  using assms unfolding evaluate_unfold by (auto simp: decision_def split: if_splits option.splits)

definition without_denies :: "policy list \<Rightarrow> policy list" where
  "without_denies ps = filter (\<lambda>p. pol_effect p \<noteq> ''deny'') ps"

lemma grants_for_without_denies:
  "grants_for ev pr db tables = grants_for (ev\<lparr>pe_policies := without_denies (pe_policies ev)\<rparr>) pr db tables"
  unfolding grants_for_def without_denies_def
  by (auto simp: filter_filter list_ex_iff grants_table_def intro!: filter_cong)

definition ea_grant :: "principal \<Rightarrow> string \<Rightarrow> policy \<Rightarrow> bool" where
  "ea_grant pr db p \<longleftrightarrow> pol_effect p \<noteq> ''deny'' \<and> in_scope p pr db \<and> (\<exists>t. pol_table p = Some t \<and> py_lower t = t)"

definition ea_deny :: "principal \<Rightarrow> string \<Rightarrow> policy \<Rightarrow> bool" where
  "ea_deny pr db p \<longleftrightarrow> pol_effect p = ''deny'' \<and> in_scope p pr db \<and> (\<forall>t. pol_table p = Some t \<longrightarrow> py_lower t = t)"

lemma ea_scan_step:
  "ea_scan pr db (da, dn, bt) (p # ps) =
     ea_scan pr db (da \<or> ea_deny pr db p \<and> pol_table p = None,
        (if ea_deny pr db p then dn \<union> set_option (pol_table p) else dn),
        (if ea_grant pr db p then dict_push bt (the (pol_table p)) p else bt)) ps"
  by (cases "pol_table p") (simp_all add: matches_select_iff ea_deny_def ea_grant_def)

lemma ea_scan_spec:
  assumes "ea_scan pr db (da, dn, bt) ps = (da', dn', bt')"
  shows "(da' \<longleftrightarrow> da \<or> (\<exists>p \<in> set ps. ea_deny pr db p \<and> pol_table p = None)) \<and>
     dn' = dn \<union> (\<Union>p \<in> {p \<in> set ps. ea_deny pr db p}. set_option (pol_table p)) \<and>
     set (map fst bt') = set (map fst bt) \<union> (the \<circ> pol_table) ` {p \<in> set ps. ea_grant pr db p} \<and>
     set (concat (map snd bt')) = set (concat (map snd bt)) \<union> {p \<in> set ps. ea_grant pr db p}"
  using assms
proof (induction ps arbitrary: da dn bt)
  case Nil
  then show ?case by simp
next
  case (Cons p ps)
  from Cons.IH[OF Cons.prems[unfolded ea_scan_step]] show ?case
    by (simp only: dict_keys_push dict_values_push if_split_mem1 split: if_split) (auto simp del: set_concat set_map)
qed

lemma ea_table_accessible:
  assumes "pe_enabled ev" and "normalize_identifier (Some t) = py_lower t"
  shows "table_accessible (effective_access_of ev pr db) t \<longleftrightarrow>
     (\<exists>p \<in> set (pe_policies ev). ea_grant pr db p \<and> pol_table p = Some (py_lower t)) \<and>
     (\<forall>p \<in> set (pe_policies ev). \<not> denies_table p pr db t)"
proof -
  obtain da dn bt where s: "ea_scan pr db (False, {}, []) (pe_policies ev) = (da, dn, bt)"
    by (cases "ea_scan pr db (False, {}, []) (pe_policies ev)")
  note sp = ea_scan_spec[OF s]
  have 1: "denies_table p pr db t \<and> pol_table p \<noteq> None \<longleftrightarrow> ea_deny pr db p \<and> pol_table p = Some (py_lower t)" for p
    by (auto simp: denies_table_def ea_deny_def)
  have 2: "denies_table p pr db t \<and> pol_table p = None \<longleftrightarrow> ea_deny pr db p \<and> pol_table p = None" for p
    by (auto simp: denies_table_def ea_deny_def)
  have 3: "ea_grant pr db p \<and> the (pol_table p) = py_lower t \<longleftrightarrow> ea_grant pr db p \<and> pol_table p = Some (py_lower t)" for p
    by (auto simp: ea_grant_def)
  have dn: "py_lower t \<in> dn \<longleftrightarrow> (\<exists>p \<in> set (pe_policies ev). denies_table p pr db t \<and> pol_table p \<noteq> None)"
    unfolding 1 using sp by (simp add: elem_set) blast
  have da: "da \<longleftrightarrow> (\<exists>p \<in> set (pe_policies ev). denies_table p pr db t \<and> pol_table p = None)"
    unfolding 2 using sp by simp
  have k: "py_lower t \<in> set (map fst bt) \<longleftrightarrow> (\<exists>p \<in> set (pe_policies ev). ea_grant pr db p \<and> pol_table p = Some (py_lower t))"
    unfolding 3[symmetric] using sp by (simp add: image_iff eq_commute) blast
  show ?thesis
    unfolding table_accessible_def effective_access_of_def s assms(2)
    using assms(1) dn da k by (auto simp: Let_def)
qed

lemma ea_columns:
  assumes "pe_enabled ev"
  shows "ea_allowed_columns (effective_access_of ev pr db) = (\<Union>p \<in> {p \<in> set (pe_policies ev). ea_grant pr db p}. pol_columns p)"
    and "ea_masked_columns (effective_access_of ev pr db) = (\<Union>p \<in> {p \<in> set (pe_policies ev). ea_grant pr db p}. pol_masked_columns p)"
    and "\<not> ea_unrestricted (effective_access_of ev pr db)"
proof -
  obtain da dn bt where s: "ea_scan pr db (False, {}, []) (pe_policies ev) = (da, dn, bt)"
    by (cases "ea_scan pr db (False, {}, []) (pe_policies ev)")
  then have *: "set (concat (map snd bt)) = {p \<in> set (pe_policies ev). ea_grant pr db p}"
    using ea_scan_spec[OF s] by simp
  show "ea_allowed_columns (effective_access_of ev pr db) = (\<Union>p \<in> {p \<in> set (pe_policies ev). ea_grant pr db p}. pol_columns p)"
    unfolding effective_access_of_def s *[symmetric] using assms by (auto simp: Let_def column_policies_def simp del: set_concat)
  show "ea_masked_columns (effective_access_of ev pr db) = (\<Union>p \<in> {p \<in> set (pe_policies ev). ea_grant pr db p}. pol_masked_columns p)"
    unfolding effective_access_of_def s *[symmetric] using assms by (auto simp: Let_def simp del: set_concat)
  show "\<not> ea_unrestricted (effective_access_of ev pr db)"
    unfolding effective_access_of_def s using assms by (simp add: Let_def)
qed

lemma grants_table_ea_grant: "grants_table p pr db t \<Longrightarrow> ea_grant pr db p"
  by (auto simp: grants_table_def ea_grant_def)

subsection \<open>Properties of the evaluator\<close>


definition example_principal :: principal where
  "example_principal = \<lparr>pr_user_id = ''u1'', pr_email = ''u1'', pr_org_id = ''acme'', pr_roles = {''analyst''},
     pr_attributes = [(''region'', JStr ''EU'')]\<rparr>"

definition example_policy :: "string \<Rightarrow> string \<Rightarrow> string \<Rightarrow> string set \<Rightarrow> policy" where
  "example_policy i effect table cols =
     \<lparr>pol_id = i, pol_effect = effect, pol_org_id = JStr ''acme'', pol_principal_id = JNull,
      pol_roles = {''analyst''}, pol_database_id = JNull, pol_table = Some table, pol_columns = cols,
      pol_masked_columns = {''total''}, pol_row_scope = [(''region'', ''region'')], pol_action = ''select''\<rparr>"

definition example_evaluator :: policy_evaluator where
  "example_evaluator =
     \<lparr>pe_policies = [example_policy ''p1'' ''allow'' ''album'' {''title''},
        example_policy ''p2'' ''deny'' ''salary'' {}, example_policy ''p3'' ''allow'' ''salary'' {}],
      pe_enabled = True\<rparr>"


text \<open>C4. Deny wins: when a document denies one requested table the answer is the denial, whatever
  allow documents there are, and it names every denying document and nothing else.\<close>

theorem evaluate_deny_precedence:
  assumes "pe_enabled ev" and "t \<in> set tables" and "p \<in> set (pe_policies ev)" and "denies_table p pr db t"
  shows "evaluate ev pr db tables refs =
     decision False ''Denied by policy.''
       (map pol_id (filter (\<lambda>q. list_ex (denies_table q pr db) tables) (pe_policies ev)))"
proof -
  have "filter (\<lambda>q. list_ex (denies_table q pr db) tables) (pe_policies ev) \<noteq> []"
    using assms by (auto simp: filter_empty_conv list_ex_iff)
  then show ?thesis
    using assms unfolding evaluate_unfold by auto
qed

lemma evaluate_deny_precedence_witness:
  "evaluate example_evaluator example_principal ''db'' [''album'', ''Salary''] None =
     decision False ''Denied by policy.'' [''p2'']"
proof -
  have "filter (\<lambda>q. list_ex (denies_table q example_principal ''db'') [''album'', ''Salary'']) (pe_policies example_evaluator)
      = [example_policy ''p2'' ''deny'' ''salary'' {}]"
    by code_simp
  then show ?thesis
    using evaluate_deny_precedence[of example_evaluator "''Salary''" "[''album'', ''Salary'']"
        "example_policy ''p2'' ''deny'' ''salary'' {}" example_principal "''db''" None]
    by (simp add: example_evaluator_def example_policy_def denies_table_def in_scope_def is_none_or_def
        example_principal_def) code_simp
qed

text \<open>Deny documents only take away: a request that is allowed gets the same decision (ids, row
  scope, masks) from the document without them.\<close>

theorem evaluate_denies_only_restrict:
  assumes "pe_enabled ev" and "pd_allowed (evaluate ev pr db tables refs)"
  shows "evaluate (ev\<lparr>pe_policies := without_denies (pe_policies ev)\<rparr>) pr db tables refs =
     evaluate ev pr db tables refs"
proof -
  let ?ev = "ev\<lparr>pe_policies := without_denies (pe_policies ev)\<rparr>"
  have en: "pe_enabled ?ev"
    using assms(1) by simp
  have "\<exists>p \<in> set (pe_policies ?ev). grants_table p pr db t" if "p \<in> set (pe_policies ev)" "grants_table p pr db t" for p t
    using that by (auto simp: without_denies_def grants_table_def)
  moreover have "\<not> denies_table p pr db t" if "p \<in> set (pe_policies ?ev)" for p t
    using that by (auto simp: without_denies_def denies_table_def)
  ultimately have "pd_allowed (evaluate ?ev pr db tables refs)"
    using assms(2) unfolding evaluate_enabled[OF en] evaluate_enabled[OF assms(1)] grants_for_without_denies[symmetric]
    by blast
  then show ?thesis
    unfolding evaluate_allowed_fields[OF assms] using evaluate_allowed_fields[OF en, of pr db tables refs]
    by (simp only: grants_for_without_denies[symmetric])
qed

lemma evaluate_denies_only_restrict_witness:
  "evaluate (example_evaluator\<lparr>pe_policies := without_denies (pe_policies example_evaluator)\<rparr>)
     example_principal ''db'' [''album''] None = evaluate example_evaluator example_principal ''db'' [''album''] None"
  by (rule evaluate_denies_only_restrict) (simp add: example_evaluator_def, code_simp)

text \<open>C5. The schema view never hides what the evaluator allows, table-wise: every table of an allowed
  request (a plain identifier) is shown to the principal, and every column the decision masks is
  marked as masked.\<close>

theorem evaluate_allowed_visible:
  assumes "pe_enabled ev" and "pd_allowed (evaluate ev pr db tables refs)"
    and "t \<in> set tables" and "\<forall>c \<in> set t. is_word c"
  shows "table_accessible (effective_access_of ev pr db) t \<and>
     pd_masked_columns (evaluate ev pr db tables refs) \<subseteq> ea_masked_columns (effective_access_of ev pr db)"
proof
  show "table_accessible (effective_access_of ev pr db) t"
    using assms evaluate_enabled[OF assms(1)] normalize_plain[OF assms(4)] grants_table_ea_grant[of _ pr db t]
    by (fastforce simp: ea_table_accessible grants_table_def)
  show "pd_masked_columns (evaluate ev pr db tables refs) \<subseteq> ea_masked_columns (effective_access_of ev pr db)"
    using assms(1) grants_table_ea_grant
    by (fastforce simp: evaluate_allowed_fields[OF assms(1,2)] ea_columns grants_for_def list_ex_iff)
qed

lemma evaluate_allowed_visible_witness:
  "table_accessible (effective_access_of example_evaluator example_principal ''db'') ''Album''"
proof -
  have "pd_allowed (evaluate example_evaluator example_principal ''db'' [''Album''] None)"
    "\<forall>c \<in> set ''Album''. is_word c" "pe_enabled example_evaluator"
    by code_simp+
  then show ?thesis
    using evaluate_allowed_visible[of example_evaluator example_principal "''db''" "[''Album'']" None "''Album''"]
    by simp
qed

definition two_table_evaluator :: policy_evaluator where
  "two_table_evaluator =
     \<lparr>pe_policies = [example_policy ''p1'' ''allow'' ''album'' {''title''},
        example_policy ''p2'' ''allow'' ''customer'' {''email''}, example_policy ''p3'' ''allow'' ''genre'' {}],
      pe_enabled = True\<rparr>"

text \<open>The column view is not the exact mirror its documentation claims: it unions the whitelists of
  all tables, so it shows a column of one table that only another table's document lists (and the
  evaluator denies), and hides a column of a table without whitelist (which the evaluator allows).\<close>

theorem effective_access_columns_not_exact:
  "column_accessible (effective_access_of two_table_evaluator example_principal ''db'') ''album'' ''email'' \<and>
   \<not> pd_allowed (evaluate two_table_evaluator example_principal ''db'' [''album''] (Some {''email''})) \<and>
   \<not> column_accessible (effective_access_of two_table_evaluator example_principal ''db'') ''genre'' ''name'' \<and>
   pd_allowed (evaluate two_table_evaluator example_principal ''db'' [''genre''] (Some {''name''}))"
  by code_simp

end
