(* ===== verification/Policy_Sql.thy ===== *)
theory Policy_Sql
  imports Policy Sql_Ast
begin

text \<open>
  The part of sql\_query\_api/services/policy\_engine.py that reads and rewrites SQL: the tables and
  columns of a statement (from the tree, with a textual fallback), the row-scope predicates added to
  every SELECT, the masked columns replaced by NULL, and the masking of result rows by name. The
  constructors of new tree nodes and the rendering of a tree as text belong to the SQL library and are
  the fields of \<open>sql_builders\<close>; \<open>builders_ok\<close> states what the library documents about them.
\<close>

subsection \<open>Textual analysis\<close>

definition SQL_KEYWORDS :: "string list" where
  "SQL_KEYWORDS =
     [''select'', ''from'', ''where'', ''group'', ''having'', ''order'', ''by'', ''limit'', ''offset'', ''join'',
      ''left'', ''right'', ''inner'', ''outer'', ''cross'', ''on'', ''as'', ''asc'', ''desc'', ''and'', ''or'',
      ''not'', ''null'', ''true'', ''false'', ''case'', ''when'', ''then'', ''else'', ''end'', ''distinct'',
      ''count'', ''sum'', ''avg'', ''min'', ''max'', ''concat'', ''coalesce'', ''cast'', ''lower'', ''upper'',
      ''trim'', ''substring'', ''date'', ''time'', ''timestamp'', ''round'', ''abs'', ''length'']"

definition flush :: "string \<Rightarrow> string list" where
  "flush buffer = (let item = py_strip (rev buffer) in if item = [] then [] else [item])"

text \<open>\<open>split_sql_list depth quote buffer value\<close>: the loop of \<open>_split_sql_list\<close>; the buffer is reversed.\<close>

fun split_sql_list :: "nat \<Rightarrow> char option \<Rightarrow> string \<Rightarrow> string \<Rightarrow> string list" where
  "split_sql_list depth q buffer [] = flush buffer"
| "split_sql_list depth q buffer (c # cs) =
     (case q of
        Some d \<Rightarrow> split_sql_list depth (if c = d then None else q) (c # buffer) cs
      | None \<Rightarrow>
          if c \<in> {CHR 0x27, CHR 0x22, CHR 0x60} then split_sql_list depth (Some c) (c # buffer) cs
          else if c \<in> {CHR ''('', CHR ''[''} then split_sql_list (depth + 1) None (c # buffer) cs
          else if c \<in> {CHR '')'', CHR '']''} then split_sql_list (depth - 1) None (c # buffer) cs
          else if c = CHR '','' \<and> depth = 0 then flush buffer @ split_sql_list depth None [] cs
          else split_sql_list depth None (c # buffer) cs)"

definition split_list :: "string \<Rightarrow> string list" where
  "split_list value = split_sql_list 0 None [] value"

definition ident_start :: "char \<Rightarrow> bool" where
  "ident_start c \<longleftrightarrow> is_ascii_alpha c \<or> c = CHR ''_''"

definition ident_dollar :: rx where
  "ident_dollar = Rx_Seq (Rx_Cls ident_start) (rx_star (\<lambda>c. is_word c \<or> c = CHR ''$''))"

definition column_candidates_from_expression :: "string \<Rightarrow> string set" where
  "column_candidates_from_expression expression =
     (let cleaned = py_strip expression;
          found = filter (\<lambda>i. i \<notin> set SQL_KEYWORDS) (map py_lower (rx_findall ident_dollar cleaned))
      in if cleaned = [] then {}
         else if found = [] then {normalize_identifier (Some cleaned)} else set found)"

definition select_clause_rx :: rx where
  "select_clause_rx =
     rx_cat [Rx_Boundary, rx_ci ''select'', rx_plus is_space, Rx_Group rx_lazy_any, rx_plus is_space, Rx_Boundary,
       rx_ci ''from'', Rx_Boundary]"

definition alias_rx :: rx where
  "alias_rx = rx_cat [Rx_Boundary, rx_ci ''AS'', rx_plus is_space, Rx_Group ident_dollar, rx_star is_space, Rx_End]"

definition select_alias_item :: "(string, string set) dict \<Rightarrow> string \<Rightarrow> (string, string set) dict" where
  "select_alias_item d item =
     (case rx_search alias_rx item of
        Some m \<Rightarrow>
          dict_set d (normalize_identifier (Some (py_lower (group1 m))))
            (column_candidates_from_expression (rstrip_by is_space (before_match m)))
      | None \<Rightarrow>
          let key = normalize_identifier (Some (last (split_on CHR ''.'' item)))
          in if key = [] then d else dict_set d key (column_candidates_from_expression item))"

definition select_alias_map :: "string \<Rightarrow> (string, string set) dict" where
  "select_alias_map sql =
     (case rx_search select_clause_rx sql of
        None \<Rightarrow> []
      | Some m \<Rightarrow> foldl select_alias_item [] (split_list (group1 m)))"

subsection \<open>Tables and columns of a statement\<close>

definition table_pattern :: rx where
  "table_pattern =
     rx_cat [Rx_Boundary, Rx_Alt (rx_ci ''from'') (rx_ci ''join''), rx_plus is_space,
       Rx_Group (Rx_Seq (Rx_Cls ident_start) (rx_star (\<lambda>c. is_word c \<or> c = CHR ''.'')))]"

definition word_ident :: rx where
  "word_ident = Rx_Seq (Rx_Cls ident_start) (rx_star is_word)"

definition column_pattern :: rx where
  "column_pattern =
     rx_cat [Rx_Boundary, Rx_Group word_ident, rx_star is_space,
       rx_any_of [rx_lit ''='', rx_lit ''<>'', rx_lit ''!='', rx_lit ''<'', rx_lit ''>'', rx_lit ''<='', rx_lit ''>='',
         rx_cat [Rx_Boundary, rx_ci ''in'', Rx_Boundary], rx_cat [Rx_Boundary, rx_ci ''like'', Rx_Boundary]]]"

definition tables_touched :: "sql_parsers \<Rightarrow> string \<Rightarrow> string list" where
  "tables_touched lib sql =
     (let ast = extract_tables lib sql in
      if ast \<noteq> [] then ast
      else foldl add_new [] (map (\<lambda>m. py_lower (last (split_on CHR ''.'' (group1 m)))) (rx_finditer table_pattern sql)))"

definition called_in :: "string \<Rightarrow> string \<Rightarrow> bool" where
  "called_in ident expression \<longleftrightarrow>
     rx_found (rx_cat [Rx_Boundary, rx_lit ident, rx_star is_space, rx_lit ''('']) expression"

definition item_columns :: "string \<Rightarrow> string set" where
  "item_columns item =
     (let expression = (case rx_search alias_rx item of None \<Rightarrow> item | Some m \<Rightarrow> rstrip_by is_space (before_match m))
      in set (map (\<lambda>i. last (split_on CHR ''.'' (py_lower i)))
           (filter (\<lambda>i. py_lower i \<notin> set SQL_KEYWORDS \<and> \<not> called_in i expression)
             (rx_findall (rx_cat [Rx_Boundary, word_ident, Rx_Boundary]) expression))))"

definition referenced_columns :: "sql_parsers \<Rightarrow> string \<Rightarrow> string set" where
  "referenced_columns lib sql =
     (let ast = extract_referenced_columns lib sql in
      if ast \<noteq> {} then ast
      else
        let cols = set (map (\<lambda>m. py_lower (group1 m)) (rx_finditer column_pattern sql)) in
        (case rx_search select_clause_rx sql of
           None \<Rightarrow> cols
         | Some m \<Rightarrow>
             if CHR ''*'' \<in> set (group1 m) then {''*''}
             else cols \<union> \<Union> (set (map item_columns (split_list (group1 m))))))"

subsection \<open>Row scopes\<close>

record sql_builders =
  mb_scope :: "string \<Rightarrow> string \<Rightarrow> string \<Rightarrow> node"
  mb_and :: "node \<Rightarrow> node \<Rightarrow> node"
  mb_where :: "node \<Rightarrow> node"
  mb_null :: node
  mb_null_alias :: "string \<Rightarrow> node"
  mb_render :: "node \<Rightarrow> string"

definition table_qualifier :: "node \<Rightarrow> (string \<times> string) option" where
  "table_qualifier n =
     (let name = py_lower (py_strip (nd_name n)); qualifier = nt_alias_or_name (nd_text n) in
      if isinstance n ''Table'' \<and> name \<noteq> [] \<and> qualifier \<noteq> [] then Some (name, qualifier) else None)"

definition source_tables :: "node \<Rightarrow> node list" where
  "source_tables select =
     (case arg_of select ''from_'' of None \<Rightarrow> [] | Some f \<Rightarrow> (case arg_of f ''this'' of None \<Rightarrow> [] | Some t \<Rightarrow> [t])) @
     concat (map (\<lambda>j. case arg_of j ''this'' of None \<Rightarrow> [] | Some t \<Rightarrow> [t]) (args_of select ''joins''))"

definition row_scope_from_tables :: "node \<Rightarrow> (string, string list) dict" where
  "row_scope_from_tables select =
     foldl (\<lambda>d t. case table_qualifier t of None \<Rightarrow> d | Some (name, q) \<Rightarrow> dict_push d name q) [] (source_tables select)"

definition scope_qualifiers :: "node \<Rightarrow> string list" where
  "scope_qualifiers select = sorted_list_of_set (set (concat (map snd (row_scope_from_tables select))))"

definition set_arg :: "string \<Rightarrow> node \<Rightarrow> node \<Rightarrow> node" where
  "set_arg arg v n =
     (case n of Node ts tx args \<Rightarrow>
        if args_of n arg = [] then Node ts tx (args @ [(arg, v)])
        else Node ts tx (map (\<lambda>(a, c). if a = arg then (a, v) else (a, c)) args))"

definition add_predicate :: "sql_builders \<Rightarrow> node \<Rightarrow> node \<Rightarrow> node" where
  "add_predicate b select p =
     set_arg ''where''
       (mb_where b (case arg_of select ''where'' of
          None \<Rightarrow> p
        | Some w \<Rightarrow> (case arg_of w ''this'' of None \<Rightarrow> p | Some c \<Rightarrow> mb_and b c p))) select"

definition scope_predicates :: "sql_builders \<Rightarrow> (string, string) dict \<Rightarrow> string list \<Rightarrow> node list" where
  "scope_predicates b resolved quals =
     concat (map (\<lambda>(col, v). map (\<lambda>q. mb_scope b col q v) quals) resolved)"

definition scope_select :: "sql_builders \<Rightarrow> (string, string) dict \<Rightarrow> node \<Rightarrow> node" where
  "scope_select b resolved select =
     foldl (add_predicate b) select (scope_predicates b resolved (scope_qualifiers select))"

text \<open>
  The loop over \<open>tree.find_all(exp.Select)\<close> edits the selects while it walks the tree from the root
  down. An edit adds nodes without selects and leaves the FROM and JOIN arguments alone, so editing
  the children first gives the same tree; that order makes the recursion structural.
\<close>

fun scope_tree :: "sql_builders \<Rightarrow> (string, string) dict \<Rightarrow> node \<Rightarrow> node" where
  "scope_tree b resolved (Node ts tx args) =
     (let n = Node ts tx (map (\<lambda>(a, c). (a, scope_tree b resolved c)) args)
      in if ''Select'' \<in> set ts then scope_select b resolved n else n)"

definition absent_attribute :: "string \<Rightarrow> exn" where
  "absent_attribute a =
     PermissionError (''Required subject attribute '' @ [CHR 0x27] @ a @ [CHR 0x27] @ '' is absent.'')"

definition resolve_restriction ::
    "(json \<Rightarrow> string) \<Rightarrow> principal \<Rightarrow> string \<times> string \<Rightarrow> exn + string \<times> string" where
  "resolve_restriction rep pr restriction =
     (case restriction of (col, attr) \<Rightarrow>
       (case dict_get (pr_attributes pr) attr of
          None \<Rightarrow> Inl (absent_attribute attr)
        | Some v \<Rightarrow> if v = JNull then Inl (absent_attribute attr) else Inr (py_lower col, py_str rep v)))"

definition apply_row_restrictions ::
    "(json \<Rightarrow> string) \<Rightarrow> sql_parsers \<Rightarrow> sql_builders \<Rightarrow> string \<Rightarrow> (string, string) dict \<Rightarrow> principal \<Rightarrow> exn + string" where
  "apply_row_restrictions rep lib b sql restrictions pr =
     (if restrictions = [] then Inr sql
      else bind_result (result_map (resolve_restriction rep pr) restrictions) (\<lambda>rs.
        (case lib_parse_one lib sql of
           None \<Rightarrow> Inl (ValueError ''Row-restriction rewrite failed to parse statement.'')
         | Some tree \<Rightarrow> Inr (mb_render b (scope_tree b (dict_merge [] rs) tree)))))"

subsection \<open>Masked columns\<close>

definition masked_column :: "string set \<Rightarrow> node \<Rightarrow> bool" where
  "masked_column masked n \<longleftrightarrow> isinstance n ''Column'' \<and> py_lower (nd_name n) \<in> masked"

text \<open>\<open>projected\<close> says that the node is an item of the select list of its parent. The root has no parent,
  so \<open>replace\<close> leaves it in place.\<close>

fun mask_node :: "sql_builders \<Rightarrow> string set \<Rightarrow> bool \<Rightarrow> node \<Rightarrow> node" where
  "mask_node b masked projected (Node ts tx args) =
     (if masked_column masked (Node ts tx args)
      then (if projected then mb_null_alias b (nt_name tx) else mb_null b)
      else Node ts tx
        (map (\<lambda>(a, c). (a, mask_node b masked (''Select'' \<in> set ts \<and> a = ''expressions'') c)) args))"

definition mask_tree :: "sql_builders \<Rightarrow> string set \<Rightarrow> node \<Rightarrow> node" where
  "mask_tree b masked tree =
     (case tree of Node ts tx args \<Rightarrow>
        Node ts tx (map (\<lambda>(a, c). (a, mask_node b masked (''Select'' \<in> set ts \<and> a = ''expressions'') c)) args))"

definition rewrite_masked_columns ::
    "sql_parsers \<Rightarrow> sql_builders \<Rightarrow> string \<Rightarrow> string set \<Rightarrow> exn + string" where
  "rewrite_masked_columns lib b sql masked_columns =
     (if masked_columns = {} then Inr sql
      else (case lib_parse_one lib sql of
              None \<Rightarrow> Inl (ValueError ''Masking rewrite failed to parse statement.'')
            | Some tree \<Rightarrow> Inr (mb_render b (mask_tree b (py_lower ` masked_columns) tree))))"

subsection \<open>Result rows\<close>

definition should_mask :: "string set \<Rightarrow> (string, string set) dict \<Rightarrow> string \<Rightarrow> bool" where
  "should_mask cols aliases key \<longleftrightarrow>
     (let n = normalize_identifier (Some key) in
      n \<noteq> [] \<and> (n \<in> cols \<or> (case dict_get aliases n of None \<Rightarrow> False | Some S \<Rightarrow> S \<inter> cols \<noteq> {})))"

definition mask_rows :: "obj list \<Rightarrow> string set \<Rightarrow> string option \<Rightarrow> obj list" where
  "mask_rows rows columns sql =
     (if columns = {} then rows
      else
        let aliases = (case sql of None \<Rightarrow> [] | Some s \<Rightarrow> if s = [] then [] else select_alias_map s);
            cols = py_lower ` columns
        in map (map (\<lambda>(k, v). (k, if should_mask cols aliases k then JNull else v))) rows)"

subsection \<open>What the rewrites guarantee\<close>

definition has_no :: "string \<Rightarrow> node \<Rightarrow> bool" where
  "has_no c n \<longleftrightarrow> (\<forall>m \<in> subnodes n. \<not> isinstance m c)"

text \<open>What the SQL library documents about the nodes it makes: a WHERE holds its condition, a conjunction
  holds its operands below itself, and predicates on columns and NULL are leaves of the grammar.\<close>

definition builders_ok :: "sql_builders \<Rightarrow> bool" where
  "builders_ok b \<longleftrightarrow>
     (\<forall>c q v. has_no ''Select'' (mb_scope b c q v)) \<and>
     (\<forall>x y. \<forall>m \<in> subnodes (mb_and b x y). isinstance m ''Select'' \<longrightarrow> m \<in> subnodes x \<union> subnodes y) \<and>
     (\<forall>x. \<forall>m \<in> subnodes (mb_where b x). isinstance m ''Select'' \<longrightarrow> m \<in> subnodes x) \<and>
     (\<forall>x. arg_of (mb_where b x) ''this'' = Some x) \<and>
     has_no ''Column'' (mb_null b) \<and> (\<forall>s. has_no ''Column'' (mb_null_alias b s))"

definition inner_selects :: "node \<Rightarrow> node set" where
  "inner_selects n = (\<Union>c \<in> set (children n). {m \<in> subnodes c. isinstance m ''Select''})"

lemma arg_of_child: "arg_of n a = Some c \<Longrightarrow> c \<in> set (children n)"
proof -
  assume "arg_of n a = Some c"
  then have "c \<in> set (args_of n a)"
    by (auto simp: arg_of_def split: list.splits)
  then show ?thesis
    by (auto simp: args_of_def children_def)
qed

lemma subnodes_child: "c \<in> set (children n) \<Longrightarrow> subnodes c \<subseteq> subnodes n"
  by (subst (2) subnodes_children) auto

lemma subnodes_self [simp]: "n \<in> subnodes n"
  by (subst subnodes_children) simp

lemma children_set_arg: "set (children (set_arg a v n)) \<subseteq> insert v (set (children n))"
  by (cases n) (auto simp: set_arg_def children_def image_iff, force)

lemma nd_types_set_arg [simp]: "nd_types (set_arg a v n) = nd_types n"
  by (cases n) (simp add: set_arg_def)

lemma arg_of_set_arg [simp]: "arg_of (set_arg a v n) a = Some v"
proof (cases n)
  case (Node ts tx args)
  have "filter (\<lambda>(x, _). x = a) (map (\<lambda>(x, c). if x = a then (x, v) else (x, c)) args) =
      map (\<lambda>_. (a, v)) (filter (\<lambda>(x, _). x = a) args)"
    by (induction args) auto
  then show ?thesis
    unfolding Node by (cases "filter (\<lambda>(x, _). x = a) args") (auto simp: set_arg_def arg_of_def args_of_def)
qed

lemma args_of_set_arg_other:
  assumes "a' \<noteq> a"
  shows "args_of (set_arg a v n) a' = args_of n a'"
proof (cases n)
  case (Node ts tx args)
  have "filter (\<lambda>(x, _). x = a') (map (\<lambda>(x, c). if x = a then (x, v) else (x, c)) args) =
      filter (\<lambda>(x, _). x = a') args"
    using assms by (induction args) (auto split: if_splits)
  then show ?thesis
    using assms unfolding Node by (simp add: set_arg_def args_of_def)
qed

lemma nd_types_add_predicate [simp]: "nd_types (add_predicate b n p) = nd_types n"
  by (simp add: add_predicate_def)

lemma source_tables_add_predicate [simp]: "source_tables (add_predicate b n p) = source_tables n"
  by (simp add: source_tables_def add_predicate_def arg_of_def args_of_set_arg_other)

lemma inner_selects_add_predicate:
  assumes "builders_ok b" and "has_no ''Select'' p"
  shows "inner_selects (add_predicate b n p) \<subseteq> inner_selects n"
proof
  fix m assume "m \<in> inner_selects (add_predicate b n p)"
  then obtain c where c: "c \<in> set (children (add_predicate b n p))" "m \<in> subnodes c" "isinstance m ''Select''"
    by (auto simp: inner_selects_def)
  show "m \<in> inner_selects n"
  proof (cases "c \<in> set (children n)")
    case True
    with c show ?thesis by (auto simp: inner_selects_def)
  next
    case False
    let ?x = "case arg_of n ''where'' of None \<Rightarrow> p
       | Some w \<Rightarrow> (case arg_of w ''this'' of None \<Rightarrow> p | Some k \<Rightarrow> mb_and b k p)"
    have "c = mb_where b ?x"
      using False c(1) children_set_arg unfolding add_predicate_def by fastforce
    then have "m \<in> subnodes ?x"
      using assms(1) c by (auto simp: builders_ok_def)
    moreover have "m \<notin> subnodes p"
      using assms(2) c(3) by (auto simp: has_no_def)
    ultimately obtain w k where "arg_of n ''where'' = Some w" "arg_of w ''this'' = Some k" "m \<in> subnodes (mb_and b k p)"
      by (auto split: option.splits)
    moreover from this(3) have "m \<in> subnodes k"
      using assms(1) c(3) \<open>m \<notin> subnodes p\<close> unfolding builders_ok_def by blast
    ultimately have "w \<in> set (children n)" "k \<in> set (children w)" "m \<in> subnodes k"
      by (auto intro: arg_of_child)
    then have "w \<in> set (children n)" "m \<in> subnodes w"
      using subnodes_child by auto
    with c(3) show ?thesis
      by (auto simp: inner_selects_def)
  qed
qed

lemma fold_predicates:
  assumes "builders_ok b" and "\<forall>p \<in> set ps. has_no ''Select'' p"
  shows "inner_selects (foldl (add_predicate b) n ps) \<subseteq> inner_selects n"
    and "nd_types (foldl (add_predicate b) n ps) = nd_types n"
    and "source_tables (foldl (add_predicate b) n ps) = source_tables n"
proof -
  show "inner_selects (foldl (add_predicate b) n ps) \<subseteq> inner_selects n"
    using assms(2)
  proof (induction ps arbitrary: n)
    case (Cons p ps)
    then have "inner_selects (foldl (add_predicate b) n (p # ps)) \<subseteq> inner_selects (add_predicate b n p)"
      by simp
    also have "\<dots> \<subseteq> inner_selects n"
      using inner_selects_add_predicate[OF assms(1)] Cons.prems by simp
    finally show ?case .
  qed simp
  show "nd_types (foldl (add_predicate b) n ps) = nd_types n"
    by (induction ps arbitrary: n) auto
  show "source_tables (foldl (add_predicate b) n ps) = source_tables n"
    by (induction ps arbitrary: n) auto
qed

lemma scope_predicates_no_select:
  "builders_ok b \<Longrightarrow> \<forall>p \<in> set (scope_predicates b r qs). has_no ''Select'' p"
  by (auto simp: scope_predicates_def builders_ok_def)

lemma scope_qualifiers_scope_select [simp]:
  assumes "builders_ok b"
  shows "scope_qualifiers (scope_select b r n) = scope_qualifiers n"
  using fold_predicates(3)[OF assms scope_predicates_no_select[OF assms]]
  by (simp add: scope_qualifiers_def scope_select_def row_scope_from_tables_def)

lemma scope_tree_selects:
  assumes "builders_ok b"
  shows "m \<in> subnodes (scope_tree b r t) \<Longrightarrow> isinstance m ''Select'' \<Longrightarrow> \<exists>n. m = scope_select b r n"
proof (induction t arbitrary: m)
  case (Node ts tx args)
  note IH = Node(1) and m = Node(2) and sel = Node(3)
  let ?n = "Node ts tx (map (\<lambda>(a, c). (a, scope_tree b r c)) args)"
  have inner: "m \<in> inner_selects ?n \<Longrightarrow> \<exists>n. m = scope_select b r n"
    using IH by (fastforce simp: inner_selects_def children_def)
  have split: "m = x \<or> m \<in> inner_selects x" if "m \<in> subnodes x" for x
    using that sel by (subst (asm) subnodes_children) (auto simp: inner_selects_def)
  show ?case
  proof (cases "''Select'' \<in> set ts")
    case True
    then have "m \<in> subnodes (scope_select b r ?n)"
      using m by (simp add: Let_def)
    then have "m = scope_select b r ?n \<or> m \<in> inner_selects ?n"
      using split fold_predicates(1)[OF assms scope_predicates_no_select[OF assms]]
      unfolding scope_select_def by blast
    with inner show ?thesis by blast
  next
    case False
    then have "m \<in> subnodes ?n" "m \<noteq> ?n"
      using m sel by (auto simp: Let_def isinstance_def)
    with split inner show ?thesis by blast
  qed
qed

definition condition_holds :: "(node \<Rightarrow> bool) \<Rightarrow> node \<Rightarrow> bool" where
  "condition_holds holds n \<longleftrightarrow>
     (case arg_of n ''where'' of None \<Rightarrow> True
      | Some w \<Rightarrow> (case arg_of w ''this'' of None \<Rightarrow> True | Some c \<Rightarrow> holds c))"

lemma condition_add_predicate:
  assumes "builders_ok b" and "\<forall>x y. holds (mb_and b x y) = (holds x \<and> holds y)"
  shows "condition_holds holds (add_predicate b n p) \<longleftrightarrow> condition_holds holds n \<and> holds p"
  using assms by (auto simp: condition_holds_def add_predicate_def builders_ok_def split: option.splits)

lemma condition_fold:
  assumes "builders_ok b" and "\<forall>x y. holds (mb_and b x y) = (holds x \<and> holds y)"
  shows "condition_holds holds (foldl (add_predicate b) n ps) \<longleftrightarrow> condition_holds holds n \<and> (\<forall>p \<in> set ps. holds p)"
  by (induction ps arbitrary: n) (auto simp: condition_add_predicate[OF assms])


lemma mask_node_clean:
  assumes "builders_ok b"
  shows "m \<in> subnodes (mask_node b masked projected t) \<Longrightarrow> \<not> masked_column masked m"
proof (induction t arbitrary: m projected)
  case (Node ts tx args)
  show ?case
  proof (cases "masked_column masked (Node ts tx args)")
    case True
    then show ?thesis
      using Node(2) assms by (auto simp: builders_ok_def has_no_def masked_column_def split: if_splits)
  next
    case False
    let ?n = "Node ts tx (map (\<lambda>(a, c). (a, mask_node b masked (''Select'' \<in> set ts \<and> a = ''expressions'') c)) args)"
    have "m = ?n \<or> (\<exists>a c. (a, c) \<in> set args \<and> m \<in> subnodes (mask_node b masked (''Select'' \<in> set ts \<and> a = ''expressions'') c))"
      using Node(2) False by auto
    moreover have "\<not> masked_column masked ?n"
      using False by (simp add: masked_column_def isinstance_def)
    ultimately show ?thesis
      using Node(1) by fastforce
  qed
qed


text \<open>Masking of the result keeps the shape (the rows, and the keys of each row, in order) and replaces by
  null exactly the values of the columns to mask; in particular a column that is named like a masked
  one (case, quotes and qualifiers apart) comes back null in every row.\<close>

theorem mask_rows_cells:
  assumes "columns \<noteq> {}" and "i < length rows" and "j < length (rows ! i)" and "rows ! i ! j = (k, v)"
  shows "length (mask_rows rows columns sql) = length rows \<and>
     map fst (mask_rows rows columns sql ! i) = map fst (rows ! i) \<and>
     (normalize_identifier (Some k) \<noteq> [] \<and> normalize_identifier (Some k) \<in> py_lower ` columns \<longrightarrow>
        mask_rows rows columns sql ! i ! j = (k, JNull)) \<and>
     (mask_rows rows columns sql ! i ! j \<noteq> (k, v) \<longrightarrow> mask_rows rows columns sql ! i ! j = (k, JNull))"
  using assms by (auto simp: mask_rows_def Let_def should_mask_def case_prod_unfold)

subsection \<open>A concrete library\<close>

definition plain :: "string \<Rightarrow> (string \<times> node) list \<Rightarrow> node" where
  "plain cls args =
     Node [cls] \<lparr>nt_name = [], nt_alias_or_name = [], nt_db = [], nt_catalog = [], nt_table = []\<rparr> args"

definition example_builders :: sql_builders where
  "example_builders =
     \<lparr>mb_scope = (\<lambda>c q v. plain ''EQ'' []), mb_and = (\<lambda>x y. plain ''And'' [(''this'', x), (''expression'', y)]),
      mb_where = (\<lambda>x. plain ''Where'' [(''this'', x)]), mb_null = plain ''Null'' [],
      mb_null_alias = (\<lambda>s. plain ''Alias'' [(''this'', plain ''Null'' [])]), mb_render = (\<lambda>n. [])\<rparr>"

lemma example_builders_ok: "builders_ok example_builders"
  by (auto simp: builders_ok_def example_builders_def plain_def has_no_def isinstance_def arg_of_def args_of_def)

definition leaf :: "string list \<Rightarrow> string \<Rightarrow> node" where
  "leaf tys name =
     Node tys \<lparr>nt_name = name, nt_alias_or_name = name, nt_db = [], nt_catalog = [], nt_table = []\<rparr> []"

definition nested_select :: node where
  "nested_select =
     plain ''Select''
       [(''expressions'', leaf [''Column''] ''total''),
        (''from_'', plain ''From'' [(''this'', plain ''Subquery'' [(''this'',
           plain ''Select'' [(''expressions'', plain ''Sum'' [(''this'', leaf [''Column''] ''Total'')]),
             (''from_'', plain ''From'' [(''this'', leaf [''Table''] ''invoice'')])])])])]"

definition derived_table :: node where
  "derived_table =
     plain ''Select'' [(''from_'', plain ''Subquery'' [(''this'',
       plain ''Select'' [(''from_'', plain ''From'' [(''this'', leaf [''Table''] ''invoice'')])])])]"

fun eq_false :: "node \<Rightarrow> bool" where
  "eq_false (Node ts tx args) =
     (if ''And'' \<in> set ts then list_all (\<lambda>(a, c). eq_false c) args else ''EQ'' \<notin> set ts)"



lemma mask_rows_cells_witness:
  "mask_rows [[(''id'', JInt 1), (''Total'', JInt 5)]] {''total''} None ! 0 ! 1 = (''Total'', JNull)"
proof -
  have n: "normalize_identifier (Some ''Total'') = ''total''" "py_lower ''total'' = ''total''"
    by code_simp+
  show ?thesis
    by (rule mask_rows_cells[THEN conjunct2, THEN conjunct2, THEN conjunct1, rule_format, where v = "JInt 5"])
      (simp_all add: n)
qed

end
