(* ===== verification/Opa.thy ===== *)
theory Opa
  imports Policy
begin

text \<open>
  sql\_query\_api/services/opa\_policy\_engine.py: the evaluator that asks the OPA sidecar. The HTTP
  client is the parameter \<open>post\<close>: for a client configuration, a path, an input document and headers it
  gives the decoded body, or one of the failures the code catches. The state is the cached client and
  the metrics written so far. The interface that both evaluators implement is the locale
  \<open>policy_contract\<close>.
\<close>

subsection \<open>Response fields\<close>

definition as_str_tuple :: "(json \<Rightarrow> string) \<Rightarrow> json \<Rightarrow> exn + string list" where
  "as_str_tuple rep v =
     (case v of
        JNull \<Rightarrow> Inr []
      | JArr xs \<Rightarrow> Inr (map (py_str rep) xs)
      | _ \<Rightarrow> Inl TypeError)"

definition as_str_mapping :: "(json \<Rightarrow> string) \<Rightarrow> json \<Rightarrow> exn + (string, string) dict" where
  "as_str_mapping rep v =
     (case v of
        JNull \<Rightarrow> Inr []
      | JObj d \<Rightarrow> Inr (map (\<lambda>(k, x). (k, py_str rep x)) d)
      | _ \<Rightarrow> Inl TypeError)"

subsection \<open>Configuration\<close>

record opa_config =
  oc_url :: string
  oc_timeout :: real
  oc_enabled :: bool
  oc_mtls_enabled :: bool
  oc_cert :: string
  oc_key :: string
  oc_ca :: string
  oc_verify :: bool

definition getenv_or_secret :: "os_state \<Rightarrow> string \<Rightarrow> exn + string" where
  "getenv_or_secret os name =
     (if getenv os name [] \<noteq> [] then Inr (getenv os name []) else read_secret os name False [])"

definition opa_raw :: "os_state \<Rightarrow> string \<Rightarrow> (string \<Rightarrow> string) \<Rightarrow> exn + string" where
  "opa_raw os name f =
     (let v = f (py_strip (getenv os name [])) in
      if v \<noteq> [] then Inr v else read_secret os name False [])"

definition opa_config_from_environment :: "os_state \<Rightarrow> exn + opa_config" where
  "opa_config_from_environment os =
     bind_result (opa_raw os ''OPA_URL'' id) (\<lambda>raw_url.
     bind_result (opa_raw os ''OPA_ENABLED'' py_lower) (\<lambda>raw_enabled.
     (let enabled = raw_enabled \<in> set truthy_spellings;
          explicitly_disabled = raw_enabled \<in> {''false'', ''0'', ''no'', ''off''};
          production = is_environment_production os;
          mtls = env_says_yes os ''OPA_MTLS_ENABLED''
      in bind_result (getenv_or_secret os ''OPA_MTLS_CERT_PATH'') (\<lambda>cert.
         bind_result (getenv_or_secret os ''OPA_MTLS_KEY_PATH'') (\<lambda>key.
         bind_result (getenv_or_secret os ''OPA_MTLS_CA_PATH'') (\<lambda>ca.
           let verify = py_lower (py_strip (getenv os ''OPA_MTLS_VERIFY'' [])) \<notin> {''false'', ''0'', ''no''} in
           if raw_url = [] then
             (if production \<and> \<not> explicitly_disabled \<and> \<not> is_ci os
              then Inl (RuntimeError ''OPA_URL is required when ENVIRONMENT=production.'')
              else Inr \<lparr>oc_url = [], oc_timeout = 5, oc_enabled = False, oc_mtls_enabled = mtls,
                     oc_cert = [], oc_key = [], oc_ca = [], oc_verify = True\<rparr>)
           else Inr \<lparr>oc_url = rstrip_by (\<lambda>c. c = CHR ''/'') raw_url, oc_timeout = 5, oc_enabled = enabled,
                  oc_mtls_enabled = mtls, oc_cert = cert, oc_key = key, oc_ca = ca, oc_verify = verify\<rparr>))))))"

subsection \<open>Evaluator\<close>

datatype tls_verify = Verify_CA string | Verify_Flag bool

record opa_client =
  cl_base_url :: string
  cl_timeout :: real
  cl_cert :: "(string \<times> string) option"
  cl_verify :: "tls_verify option"

datatype client_slot = No_Client | Open_Client opa_client | Closed_Client opa_client

datatype opa_event = Opa_Observed | Opa_Failed

record opa_evaluator =
  ov_config :: opa_config
  ov_enabled :: bool
  ov_client :: client_slot
  ov_metrics :: "opa_event list"

datatype http_outcome = Http_Json json | Http_Timeout | Http_Status nat | Http_Error

definition opa_init :: "opa_config \<Rightarrow> bool \<Rightarrow> opa_evaluator" where
  "opa_init cfg enabled =
     \<lparr>ov_config = cfg, ov_enabled = (enabled \<and> oc_enabled cfg \<and> oc_url cfg \<noteq> []), ov_client = No_Client,
      ov_metrics = []\<rparr>"

definition opa_is_enabled :: "opa_evaluator \<Rightarrow> bool" where
  "opa_is_enabled ev = ov_enabled ev"

definition opa_from_environment :: "os_state \<Rightarrow> exn + opa_evaluator" where
  "opa_from_environment os = bind_result (opa_config_from_environment os) (\<lambda>cfg. Inr (opa_init cfg True))"

definition new_client :: "opa_config \<Rightarrow> exn + opa_client" where
  "new_client cfg =
     (if \<not> oc_mtls_enabled cfg
      then Inr \<lparr>cl_base_url = oc_url cfg, cl_timeout = oc_timeout cfg, cl_cert = None, cl_verify = None\<rparr>
      else if oc_cert cfg = [] \<or> oc_key cfg = []
      then Inl (RuntimeError ''OPA mTLS enabled but cert/key paths not configured'')
      else Inr \<lparr>cl_base_url = oc_url cfg, cl_timeout = oc_timeout cfg, cl_cert = Some (oc_cert cfg, oc_key cfg),
             cl_verify = Some (if oc_ca cfg \<noteq> [] then Verify_CA (oc_ca cfg) else Verify_Flag (oc_verify cfg))\<rparr>)"

definition get_client :: "opa_evaluator \<Rightarrow> exn + opa_client \<times> opa_evaluator" where
  "get_client ev =
     (case ov_client ev of
        Open_Client c \<Rightarrow> Inr (c, ev)
      | _ \<Rightarrow> bind_result (new_client (ov_config ev)) (\<lambda>c. Inr (c, ev\<lparr>ov_client := Open_Client c\<rparr>)))"

definition opa_close :: "opa_evaluator \<Rightarrow> opa_evaluator" where
  "opa_close ev = (case ov_client ev of Open_Client c \<Rightarrow> ev\<lparr>ov_client := Closed_Client c\<rparr> | _ \<Rightarrow> ev)"

definition correlation_header :: "string option \<Rightarrow> (string, string) dict" where
  "correlation_header cid =
     (case cid of None \<Rightarrow> [] | Some c \<Rightarrow> if c \<noteq> [] \<and> c \<noteq> ''N/A'' then [(''X-Correlation-ID'', c)] else [])"

type_synonym opa_post = "opa_client \<Rightarrow> string \<Rightarrow> json \<Rightarrow> (string, string) dict \<Rightarrow> http_outcome"

definition opa_metric :: "opa_event \<Rightarrow> opa_evaluator \<Rightarrow> opa_evaluator" where
  "opa_metric e ev = ev\<lparr>ov_metrics := ov_metrics ev @ [e]\<rparr>"

text \<open>\<open>_query_opa\<close>: \<open>JNull\<close> stands for the \<open>None\<close> of every failure (and of a missing result). A body that
  is not an object has been observed as an evaluation before \<open>data.get\<close> raises.\<close>

definition query_opa ::
    "opa_post \<Rightarrow> string option \<Rightarrow> opa_evaluator \<Rightarrow> string \<Rightarrow> json \<Rightarrow> json \<times> opa_evaluator" where
  "query_opa post cid ev path input_doc =
     (case get_client ev of
        Inl e \<Rightarrow> (JNull, opa_metric Opa_Failed ev)
      | Inr (c, ev') \<Rightarrow>
          (case post c (''/v1/data'' @ path) (JObj [(''input'', input_doc)])
                  (dict_merge [(''Content-Type'', ''application/json'')] (correlation_header cid)) of
             Http_Json (JObj d) \<Rightarrow> (obj_get d ''result'', opa_metric Opa_Observed ev')
           | Http_Json _ \<Rightarrow> (JNull, opa_metric Opa_Failed (opa_metric Opa_Observed ev'))
           | _ \<Rightarrow> (JNull, opa_metric Opa_Failed ev')))"

definition sorted_strs :: "string set \<Rightarrow> json" where
  "sorted_strs S = JArr (map JStr (sorted_list_of_set S))"

definition principal_doc :: "principal \<Rightarrow> json" where
  "principal_doc pr =
     JObj [(''user_id'', JStr (pr_user_id pr)), (''org_id'', JStr (pr_org_id pr)),
       (''roles'', sorted_strs (pr_roles pr))]"

definition evaluate_doc :: "principal \<Rightarrow> string \<Rightarrow> string list \<Rightarrow> string set option \<Rightarrow> json" where
  "evaluate_doc pr db tables refs =
     JObj [(''principal'', principal_doc pr), (''database_id'', JStr db), (''tables'', JArr (map JStr tables)),
       (''referenced_columns'', (case refs of None \<Rightarrow> JArr [] | Some cs \<Rightarrow> sorted_strs cs))]"

definition decision_from_result :: "(json \<Rightarrow> string) \<Rightarrow> obj \<Rightarrow> exn + policy_decision" where
  "decision_from_result rep d =
     bind_result (as_str_tuple rep (obj_get_or d ''policy_ids'' (JArr []))) (\<lambda>ids.
     bind_result (as_str_mapping rep (obj_get_or d ''row_restrictions'' (JObj []))) (\<lambda>rows.
     bind_result (as_str_tuple rep (obj_get_or d ''masked_columns'' (JArr []))) (\<lambda>masked.
       Inr \<lparr>pd_allowed = (dict_get d ''allowed'' = Some (JBool True)),
          pd_reason = py_str rep (obj_get_or d ''reason'' (JStr ''No reason provided.'')),
          pd_policy_ids = ids, pd_row_restrictions = rows, pd_masked_columns = set masked\<rparr>)))"

definition opa_evaluate ::
    "(json \<Rightarrow> string) \<Rightarrow> opa_post \<Rightarrow> string option \<Rightarrow> opa_evaluator \<Rightarrow> principal \<Rightarrow> string \<Rightarrow> string list
      \<Rightarrow> string set option \<Rightarrow> policy_decision \<times> opa_evaluator" where
  "opa_evaluate rep post cid ev pr db tables refs =
     (if \<not> ov_enabled ev then (decision False ''OPA is disabled.'' [], ev)
      else if tables = [] then (decision False ''No protected table could be identified.'' [], ev)
      else (case query_opa post cid ev ''/gateway/evaluate'' (evaluate_doc pr db tables refs) of
              (JNull, ev') \<Rightarrow> (decision False ''OPA policy evaluation failed (unreachable or invalid response).'' [], ev')
            | (JObj d, ev') \<Rightarrow>
                (case decision_from_result rep d of
                   Inr dec \<Rightarrow> (dec, ev')
                 | Inl _ \<Rightarrow> (decision False ''Invalid OPA response structure.'' [], opa_metric Opa_Failed ev'))
            | (_, ev') \<Rightarrow> (decision False ''Invalid OPA response structure.'' [], opa_metric Opa_Failed ev')))"

definition no_access :: effective_access where
  "no_access = \<lparr>ea_accessible_tables = {}, ea_allowed_columns = {}, ea_masked_columns = {}, ea_unrestricted = False\<rparr>"

definition access_from_result :: "(json \<Rightarrow> string) \<Rightarrow> obj \<Rightarrow> exn + effective_access" where
  "access_from_result rep d =
     bind_result (as_str_tuple rep (obj_get_or d ''accessible_tables'' (JArr []))) (\<lambda>tables.
     bind_result (as_str_tuple rep (obj_get_or d ''allowed_columns'' (JArr []))) (\<lambda>cols.
     bind_result (as_str_tuple rep (obj_get_or d ''masked_columns'' (JArr []))) (\<lambda>masked.
       Inr \<lparr>ea_accessible_tables = set tables, ea_allowed_columns = set cols, ea_masked_columns = set masked,
          ea_unrestricted = False\<rparr>)))"

definition access_doc :: "principal \<Rightarrow> string \<Rightarrow> json" where
  "access_doc pr db =
     JObj [(''principal'', principal_doc pr), (''database_id'', JStr db), (''query_type'', JStr ''effective_access'')]"

definition opa_effective_access ::
    "(json \<Rightarrow> string) \<Rightarrow> opa_post \<Rightarrow> string option \<Rightarrow> opa_evaluator \<Rightarrow> principal \<Rightarrow> string
      \<Rightarrow> effective_access \<times> opa_evaluator" where
  "opa_effective_access rep post cid ev pr db =
     (if \<not> ov_enabled ev then (no_access, ev)
      else (case query_opa post cid ev ''/gateway/effective_access'' (access_doc pr db) of
              (JNull, ev') \<Rightarrow> (no_access, ev')
            | (JObj d, ev') \<Rightarrow>
                (case access_from_result rep d of
                   Inr ea \<Rightarrow> (ea, ev')
                 | Inl _ \<Rightarrow> (no_access, opa_metric Opa_Failed ev'))
            | (_, ev') \<Rightarrow> (no_access, opa_metric Opa_Failed ev')))"

subsection \<open>Selection of the evaluator\<close>

text \<open>sql\_query\_api/routes/sql\_query\_controller.py selects the evaluator when it is imported;
  sql\_query\_api/routes/health\_routes.py inspects the selection.\<close>

datatype active_evaluator = Doc_Evaluator policy_evaluator | Opa_Evaluator opa_evaluator

definition select_policy_evaluator ::
    "(json \<Rightarrow> string) \<Rightarrow> (string \<Rightarrow> json option) \<Rightarrow> os_state \<Rightarrow> exn + active_evaluator" where
  "select_policy_evaluator rep loads os =
     bind_result (opa_config_from_environment os) (\<lambda>cfg.
       if oc_enabled cfg \<and> oc_url cfg \<noteq> [] then Inr (Opa_Evaluator (opa_init cfg True))
       else bind_result (evaluator_from_environment rep loads os) (\<lambda>ev. Inr (Doc_Evaluator ev)))"

definition active_evaluate ::
    "(json \<Rightarrow> string) \<Rightarrow> opa_post \<Rightarrow> string option \<Rightarrow> active_evaluator \<Rightarrow> principal \<Rightarrow> string \<Rightarrow> string list
      \<Rightarrow> string set option \<Rightarrow> policy_decision" where
  "active_evaluate rep post cid ev pr db tables refs =
     (case ev of
        Doc_Evaluator e \<Rightarrow> evaluate e pr db tables refs
      | Opa_Evaluator e \<Rightarrow> fst (opa_evaluate rep post cid e pr db tables refs))"

definition enforcing :: "active_evaluator \<Rightarrow> bool" where
  "enforcing ev \<longleftrightarrow> (case ev of Doc_Evaluator e \<Rightarrow> pe_enabled e | Opa_Evaluator e \<Rightarrow> True)"

definition policy_enforcement_problem :: "os_state \<Rightarrow> active_evaluator \<Rightarrow> string option" where
  "policy_enforcement_problem os ev =
     (if \<not> is_environment_production os then None
      else (case ev of
              Doc_Evaluator e \<Rightarrow>
                if \<not> pe_enabled e
                then Some ''policy evaluator is disabled (ALLOW-ALL); no policy document configured''
                else None
            | Opa_Evaluator e \<Rightarrow> None))"

text \<open>\<open>/readyz\<close>: the status code, given whether the tenant configuration loads.\<close>

definition readiness :: "os_state \<Rightarrow> bool \<Rightarrow> active_evaluator \<Rightarrow> nat" where
  "readiness os tenant_config_ok ev =
     (if \<not> tenant_config_ok then 503
      else if policy_enforcement_problem os ev \<noteq> None then 503 else 200)"

subsection \<open>The evaluator interface\<close>

text \<open>
  What the gateway relies on, whichever evaluator is active: a ready evaluator allows nothing when no
  table is named, and the e-mail address of the principal is irrelevant.
\<close>

locale policy_contract =
  fixes decide :: "'s \<Rightarrow> principal \<Rightarrow> string \<Rightarrow> string list \<Rightarrow> string set option \<Rightarrow> policy_decision"
    and ready :: "'s \<Rightarrow> bool"
  assumes no_table_denied: "ready s \<Longrightarrow> \<not> pd_allowed (decide s pr db [] refs)"
    and email_irrelevant: "decide s (pr\<lparr>pr_email := e\<rparr>) db tables refs = decide s pr db tables refs"
begin

lemma allowed_has_table: "ready s \<Longrightarrow> pd_allowed (decide s pr db tables refs) \<Longrightarrow> tables \<noteq> []"
  using no_table_denied by blast

lemma same_subject_same_decision:
  assumes "pr_user_id p = pr_user_id q" "pr_org_id p = pr_org_id q" "pr_roles p = pr_roles q"
    "pr_attributes p = pr_attributes q"
  shows "decide s p db tables refs = decide s q db tables refs"
proof -
  have "q = p\<lparr>pr_email := pr_email q\<rparr>"
    using assms by simp
  then show ?thesis
    using email_irrelevant by metis
qed

end

lemma principal_getattr_email [simp]:
  "principal_getattr_is_none (pr\<lparr>pr_email := e\<rparr>) a = principal_getattr_is_none pr a"
  by (simp add: principal_getattr_is_none_def)

lemma attribute_absent_email [simp]: "attribute_absent (pr\<lparr>pr_email := e\<rparr>) = attribute_absent pr"
  by (simp add: fun_eq_iff attribute_absent_def)

lemma policy_matches_email [simp]: "policy_matches p (pr\<lparr>pr_email := e\<rparr>) = policy_matches p pr"
  by (simp add: fun_eq_iff policy_matches_def)

lemma applicable_email [simp]: "applicable_policies ev (pr\<lparr>pr_email := e\<rparr>) = applicable_policies ev pr"
  by (simp add: fun_eq_iff applicable_policies_def)

lemma principal_doc_email [simp]: "principal_doc (pr\<lparr>pr_email := e\<rparr>) = principal_doc pr"
  by (simp add: principal_doc_def)

interpretation documents: policy_contract evaluate pe_enabled
proof
  show "pe_enabled s \<Longrightarrow> \<not> pd_allowed (evaluate s pr db [] refs)" for s pr db refs
    by (simp add: evaluate_def decision_def)
  show "evaluate s (pr\<lparr>pr_email := e\<rparr>) db tables refs = evaluate s pr db tables refs" for s pr e db tables refs
    unfolding evaluate_def applicable_email attribute_absent_email ..
qed

interpretation sidecar: policy_contract "\<lambda>ev pr db tables refs. fst (opa_evaluate rep post cid ev pr db tables refs)" "\<lambda>ev. True"
  for rep post cid
proof
  show "\<not> pd_allowed (fst (opa_evaluate rep post cid s pr db [] refs))" for s pr db refs
    by (simp add: opa_evaluate_def decision_def)
  show "fst (opa_evaluate rep post cid s (pr\<lparr>pr_email := e\<rparr>) db tables refs) =
      fst (opa_evaluate rep post cid s pr db tables refs)" for s pr e db tables refs
    by (simp add: opa_evaluate_def evaluate_doc_def)
qed

interpretation active: policy_contract "active_evaluate rep post cid" enforcing for rep post cid
proof
  show "enforcing s \<Longrightarrow> \<not> pd_allowed (active_evaluate rep post cid s pr db [] refs)" for s pr db refs
    using documents.no_table_denied sidecar.no_table_denied
    by (auto simp: active_evaluate_def enforcing_def split: active_evaluator.splits)
  show "active_evaluate rep post cid s (pr\<lparr>pr_email := e\<rparr>) db tables refs = active_evaluate rep post cid s pr db tables refs"
    for s pr e db tables refs
    using documents.email_irrelevant sidecar.email_irrelevant
    by (auto simp: active_evaluate_def split: active_evaluator.splits)
qed

subsection \<open>Properties\<close>

lemma evaluator_from_documents_enabled:
  "evaluator_from_documents rep v = Inr ev \<Longrightarrow> pe_enabled ev"
  by (auto simp: evaluator_from_documents_def split: sum.splits)

lemma evaluator_from_environment_production:
  assumes "evaluator_from_environment rep loads os = Inr ev" and "is_environment_production os" and "\<not> is_ci os"
  shows "pe_enabled ev"
  using assms
  by (auto simp: evaluator_from_environment_def Let_def evaluator_from_documents_enabled split: if_splits)

text \<open>C6. The sidecar can only allow explicitly: the decision is an allow exactly when the evaluator is
  enabled, a table is named, the sidecar answered with an object whose \<open>result\<close> is an object with the
  JSON literal \<open>true\<close> under \<open>allowed\<close>, and the lists and the mapping of that result have their
  shapes. Every failure (timeout, HTTP error, broken TLS setup, other shapes) denies.\<close>

theorem opa_allow_iff:
  "pd_allowed (fst (opa_evaluate rep post cid ev pr db tables refs)) \<longleftrightarrow>
     ov_enabled ev \<and> tables \<noteq> [] \<and>
     (\<exists>c ev' body d dec. get_client ev = Inr (c, ev') \<and>
        post c ''/v1/data/gateway/evaluate'' (JObj [(''input'', evaluate_doc pr db tables refs)])
          (dict_merge [(''Content-Type'', ''application/json'')] (correlation_header cid)) = Http_Json (JObj body) \<and>
        obj_get body ''result'' = JObj d \<and> dict_get d ''allowed'' = Some (JBool True) \<and>
        decision_from_result rep d = Inr dec)"
proof -
  have a: "decision_from_result rep d = Inr dec \<Longrightarrow> pd_allowed dec \<longleftrightarrow> dict_get d ''allowed'' = Some (JBool True)" for d dec
    by (auto simp: decision_from_result_def)
  show ?thesis
    by (auto simp: opa_evaluate_def query_opa_def decision_def a
        split: json.splits sum.splits prod.splits http_outcome.splits)
qed

text \<open>C7. In production, outside CI, start-up either fails or selects an enforcing evaluator: the
  allow-all evaluator is never selected, and whatever is selected allows no request without a table.\<close>

theorem production_selects_enforcing:
  assumes "select_policy_evaluator rep loads os = Inr ev"
    and "is_environment_production os" and "\<not> is_ci os"
  shows "enforcing ev \<and> \<not> pd_allowed (active_evaluate rep post cid ev pr db [] refs)"
proof
  show en: "enforcing ev"
    using assms evaluator_from_environment_production
    by (auto simp: select_policy_evaluator_def enforcing_def split: if_splits)
  show "\<not> pd_allowed (active_evaluate rep post cid ev pr db [] refs)"
    using en by (rule active.no_table_denied)
qed

text \<open>A production process that reports ready (also one that runs in CI) has an enforcing
  evaluator.\<close>

theorem ready_in_production_enforces:
  assumes "readiness os tenant_ok ev = 200" and "is_environment_production os"
  shows "enforcing ev"
  using assms by (auto simp: readiness_def policy_enforcement_problem_def enforcing_def
      split: if_splits active_evaluator.splits)

lemma ready_in_production_enforces_witness:
  "enforcing (Doc_Evaluator example_evaluator)"
proof -
  have "is_environment_production \<lparr>os_env = [], os_files = \<lambda>_. File_Missing\<rparr>"
    "readiness \<lparr>os_env = [], os_files = \<lambda>_. File_Missing\<rparr> True (Doc_Evaluator example_evaluator) = 200"
    by code_simp+
  then show ?thesis
    using ready_in_production_enforces by blast
qed

definition no_rep :: "json \<Rightarrow> string" where
  "no_rep _ = ''?''"

definition example_document :: json where
  "example_document = JArr [JObj [(''id'', JStr ''p1''), (''table'', JStr ''Album''), (''roles'', JArr [JStr ''Analyst''])]]"

definition example_os :: os_state where
  "example_os = \<lparr>os_env = [(''OPA_ENABLED'', ''false''), (''POLICY_POLICIES_JSON'', ''[doc]'')],
     os_files = \<lambda>_. File_Missing\<rparr>"

definition selected :: active_evaluator where
  "selected = (case select_policy_evaluator no_rep (\<lambda>_. Some example_document) example_os of
     Inr ev \<Rightarrow> ev | Inl e \<Rightarrow> Doc_Evaluator \<lparr>pe_policies = [], pe_enabled = False\<rparr>)"

lemma production_selects_enforcing_witness:
  "enforcing selected \<and> \<not> pd_allowed (active_evaluate no_rep (\<lambda>_ _ _ _. Http_Timeout) None selected example_principal ''db'' [] None)"
proof -
  have "\<not> isl (select_policy_evaluator no_rep (\<lambda>_. Some example_document) example_os)"
    "is_environment_production example_os" "\<not> is_ci example_os"
    by code_simp+
  moreover from this(1) have "select_policy_evaluator no_rep (\<lambda>_. Some example_document) example_os = Inr selected"
    by (auto simp: selected_def split: sum.splits)
  ultimately show ?thesis
    using production_selects_enforcing by blast
qed

definition unset_enabled_os :: os_state where
  "unset_enabled_os = \<lparr>os_env = [(''OPA_URL'', ''http://opa:8181/''), (''POLICY_POLICIES_JSON'', ''[doc]'')],
     os_files = \<lambda>_. File_Missing\<rparr>"

text \<open>With \<open>OPA_URL\<close> configured in production but \<open>OPA_ENABLED\<close> left unset, the deprecated
  in-process evaluator is selected although the operator never opted out, which the comments of
  \<open>OpaConfig.from_environment\<close> say takes an explicit \<open>OPA_ENABLED=false\<close>.\<close>

theorem opa_url_without_enabled_selects_documents:
  "is_environment_production unset_enabled_os \<and> \<not> is_ci unset_enabled_os \<and>
   (case select_policy_evaluator no_rep (\<lambda>_. Some example_document) unset_enabled_os of
      Inr (Doc_Evaluator ev) \<Rightarrow> pe_enabled ev | _ \<Rightarrow> False)"
  by code_simp

end
