(* ===== verification/Gateway.thy ===== *)
theory Gateway
  imports Provider Policy_Sql Opa
begin

text \<open>
  sql\_query\_api/services/query\_gateway.py: the one pipeline for governed queries. First the pipeline as
  a function from a request to its result and the trace of everything the outside sees of it (audit
  records, metrics, the statement sent to the database), then the quota of one tenant database
  under any interleaving of concurrent requests, as a step relation over the same quota operations.
\<close>

subsection \<open>Quotas\<close>

record quota =
  tq_permits :: nat
  tq_max_concurrent :: nat
  tq_queue_limit :: nat
  tq_queued :: nat

definition quota_init :: "nat \<Rightarrow> nat \<Rightarrow> quota" where
  "quota_init max_concurrent queue_limit =
     \<lparr>tq_permits = max_concurrent, tq_max_concurrent = max_concurrent, tq_queue_limit = queue_limit, tq_queued = 0\<rparr>"

definition quota_enter :: "quota \<Rightarrow> quota option" where
  "quota_enter q = (if tq_queued q \<ge> tq_queue_limit q then None else Some (q\<lparr>tq_queued := tq_queued q + 1\<rparr>))"

definition quota_acquire :: "quota \<Rightarrow> quota option" where
  "quota_acquire q = (case tq_permits q of 0 \<Rightarrow> None | Suc n \<Rightarrow> Some (q\<lparr>tq_permits := n\<rparr>))"

definition quota_release :: "quota \<Rightarrow> quota" where
  "quota_release q = q\<lparr>tq_permits := tq_permits q + 1\<rparr>"

definition quota_leave :: "quota \<Rightarrow> quota" where
  "quota_leave q = q\<lparr>tq_queued := tq_queued q - 1\<rparr>"

subsection \<open>Requests, services and events\<close>

record governed_request =
  gq_principal :: "principal option"
  gq_database_id :: string
  gq_sql :: string
  gq_params :: "obj option"

record audit_query =
  aq_user :: string
  aq_org :: string
  aq_database :: string
  aq_target :: json
  aq_hash :: string
  aq_tables :: "string list"
  aq_query :: "string option"

datatype 'v gw_event =
    Audit_Overload string string string
  | Metric_Overload string string
  | Audit_Policy_Denied string string string "string list"
  | Metric_Policy_Denied string string
  | Audit_Query audit_query
  | Db_Execute 'v string "obj option"
  | Metric_Query string nat

record 'v gw_env =
  ge_rep :: "json \<Rightarrow> string"
  ge_checker :: safety_checker
  ge_parsers :: sql_parsers
  ge_builders :: sql_builders
  ge_decide :: "principal \<Rightarrow> string \<Rightarrow> string list \<Rightarrow> string set option \<Rightarrow> policy_decision"
  ge_execute :: "'v \<Rightarrow> string \<Rightarrow> obj option \<Rightarrow> exn + obj list"
  ge_target :: "'v \<Rightarrow> json"
  ge_hash :: "string \<Rightarrow> string"
  ge_log_raw_sql :: bool

record gateway =
  gw_quotas :: "(string \<times> string, quota) dict"
  gw_concurrent_limit :: nat
  gw_queue_limit :: nat

definition tenant_quota :: "gateway \<Rightarrow> string \<times> string \<Rightarrow> quota" where
  "tenant_quota gw key =
     (case dict_get (gw_quotas gw) key of
        Some q \<Rightarrow> q
      | None \<Rightarrow> quota_init (gw_concurrent_limit gw) (gw_queue_limit gw))"

definition put_quota :: "gateway \<Rightarrow> string \<times> string \<Rightarrow> quota \<Rightarrow> gateway" where
  "put_quota gw key q = gw\<lparr>gw_quotas := dict_set (gw_quotas gw) key q\<rparr>"

subsection \<open>The pipeline\<close>

definition gateway_evaluate :: "('v, 'z) gw_env_scheme \<Rightarrow> principal \<Rightarrow> governed_request \<Rightarrow> string option \<Rightarrow> policy_decision" where
  "gateway_evaluate env pr req sql =
     (let statement = (case sql of None \<Rightarrow> gq_sql req | Some s \<Rightarrow> if s = [] then gq_sql req else s) in
      ge_decide env pr (gq_database_id req) (tables_touched (ge_parsers env) statement)
        (Some (referenced_columns (ge_parsers env) statement)))"

definition gateway_simulate :: "('v, 'z) gw_env_scheme \<Rightarrow> principal \<Rightarrow> governed_request \<Rightarrow> policy_decision" where
  "gateway_simulate env pr req = gateway_evaluate env pr req None"

definition audit_payload :: "('v, 'z) gw_env_scheme \<Rightarrow> principal \<Rightarrow> tenant_config \<Rightarrow> 'v \<Rightarrow> string \<Rightarrow> audit_query" where
  "audit_payload env pr b v execution_sql =
     \<lparr>aq_user = pr_email pr, aq_org = pr_org_id pr, aq_database = tc_database_id b, aq_target = ge_target env v,
      aq_hash = ge_hash env execution_sql, aq_tables = tables_touched (ge_parsers env) execution_sql,
      aq_query = (if ge_log_raw_sql env then Some execution_sql else None)\<rparr>"

text \<open>The body of the \<open>try\<close> block, once the semaphore is held.\<close>

definition governed_body ::
    "('v, 'z) gw_env_scheme \<Rightarrow> principal \<Rightarrow> tenant_config \<Rightarrow> 'v \<Rightarrow> governed_request
      \<Rightarrow> (exn + obj list) \<times> 'v gw_event list" where
  "governed_body env pr b v req =
     (case clean_and_validate_sql (ge_checker env) (ge_parsers env) (gq_sql req) of
        Inl e \<Rightarrow> (Inl e, [])
      | Inr cleaned \<Rightarrow>
          let d = gateway_evaluate env pr req (Some cleaned) in
          if \<not> pd_allowed d then
            (Inl (PermissionError (pd_reason d)),
             [Audit_Policy_Denied (pr_email pr) (tc_database_id b) (pd_reason d) (pd_policy_ids d),
              Metric_Policy_Denied (pr_org_id pr) (pd_reason d)])
          else (case apply_row_restrictions (ge_rep env) (ge_parsers env) (ge_builders env) cleaned (pd_row_restrictions d) pr of
                  Inl e \<Rightarrow> (Inl e, [])
                | Inr restricted \<Rightarrow>
                    (case rewrite_masked_columns (ge_parsers env) (ge_builders env) restricted (pd_masked_columns d) of
                       Inl e \<Rightarrow> (Inl e, [])
                     | Inr execution_sql \<Rightarrow>
                         let pre = [Audit_Query (audit_payload env pr b v execution_sql),
                                    Db_Execute v execution_sql (gq_params req)]
                         in (case ge_execute env v execution_sql (gq_params req) of
                               Inl e \<Rightarrow> (Inl e, pre)
                             | Inr rows \<Rightarrow>
                                 (Inr (mask_rows rows (pd_masked_columns d) (Some restricted)),
                                  pre @ [Metric_Query (pr_org_id pr) (length rows)])))))"

text \<open>
  One request from start to finish. \<open>in_time\<close> says whether the semaphore was obtained within its
  timeout (it is obtained at once when a permit is free). The state is the gateway and the provider.
\<close>

definition gateway_execute ::
    "('v, 'z) gw_env_scheme \<Rightarrow> ('s \<Rightarrow> principal option \<Rightarrow> string option \<Rightarrow> (exn + tenant_config \<times> 'v) \<times> 's)
      \<Rightarrow> bool \<Rightarrow> gateway \<times> 's \<Rightarrow> governed_request
      \<Rightarrow> (exn + obj list) \<times> 'v gw_event list \<times> gateway \<times> 's" where
  "gateway_execute env resolve in_time st req =
     (case st of (gw, s) \<Rightarrow>
       (case gq_principal req of
          None \<Rightarrow> (Inl (PermissionError ''Authenticated principal is required.''), [], gw, s)
        | Some pr \<Rightarrow>
            if gq_sql req = [] \<or> py_strip (gq_sql req) = []
            then (Inl (ValueError ''SQL statement cannot be empty.''), [], gw, s)
            else (case resolve s (Some pr) (Some (gq_database_id req)) of
              (Inl e, s') \<Rightarrow> (Inl e, [], gw, s')
            | (Inr (b, v), s') \<Rightarrow>
                let key = (pr_org_id pr, tc_database_id b);
                    q = tenant_quota gw key
                in (case quota_enter q of
                      None \<Rightarrow>
                        (Inl (PermissionError ''Tenant query queue full.''),
                         [Audit_Overload (pr_email pr) (tc_database_id b) ''Tenant query queue limit exceeded'',
                          Metric_Overload (pr_org_id pr) (tc_database_id b)], put_quota gw key q, s')
                    | Some q1 \<Rightarrow>
                        (case (if in_time then quota_acquire q1 else None) of
                           None \<Rightarrow>
                             (Inl (PermissionError ''Tenant concurrency limit busy.''),
                              [Audit_Overload (pr_email pr) (tc_database_id b) ''Tenant concurrency limit timeout'',
                               Metric_Overload (pr_org_id pr) (tc_database_id b)],
                              put_quota gw key (quota_leave q1), s')
                         | Some q2 \<Rightarrow>
                             (case governed_body env pr b v req of
                                (r, ev) \<Rightarrow> (r, ev, put_quota gw key (quota_leave (quota_release q2)), s')))))))"

subsection \<open>What the pipeline guarantees\<close>

lemma governed_body_execute:
  assumes "governed_body env pr b v req = (r, ev)" and "Db_Execute v' sql ps \<in> set ev"
  shows "\<exists>cleaned restricted rest. v' = v \<and> ps = gq_params req \<and>
     clean_and_validate_sql (ge_checker env) (ge_parsers env) (gq_sql req) = Inr cleaned \<and>
     pd_allowed (gateway_evaluate env pr req (Some cleaned)) \<and>
     apply_row_restrictions (ge_rep env) (ge_parsers env) (ge_builders env) cleaned
       (pd_row_restrictions (gateway_evaluate env pr req (Some cleaned))) pr = Inr restricted \<and>
     rewrite_masked_columns (ge_parsers env) (ge_builders env) restricted
       (pd_masked_columns (gateway_evaluate env pr req (Some cleaned))) = Inr sql \<and>
     ev = Audit_Query (audit_payload env pr b v sql) # Db_Execute v sql ps # rest"
  using assms by (auto simp: governed_body_def Let_def split: sum.splits if_splits)

lemma gateway_execute_cases:
  assumes "gateway_execute env resolve in_time (gw, s) req = (r, ev, gw', s')" and "Db_Execute v sql ps \<in> set ev"
  shows "\<exists>pr b. gq_principal req = Some pr \<and> resolve s (Some pr) (Some (gq_database_id req)) = (Inr (b, v), s') \<and>
     governed_body env pr b v req = (r, ev)"
proof -
  obtain pr where pr: "gq_principal req = Some pr"
    using assms by (cases "gq_principal req") (auto simp: gateway_execute_def)
  obtain x s1 where res: "resolve s (Some pr) (Some (gq_database_id req)) = (x, s1)"
    by (cases "resolve s (Some pr) (Some (gq_database_id req))")
  obtain b w where x: "x = Inr (b, w)"
    using assms pr res by (cases x) (auto simp: gateway_execute_def split: if_splits)
  have "governed_body env pr b w req = (r, ev) \<and> s1 = s'"
    using assms pr res x
    by (auto simp: gateway_execute_def Let_def split: if_splits option.splits prod.splits)
  moreover from this have "w = v"
    using governed_body_execute assms(2) by fast
  ultimately show ?thesis
    using pr res x by blast
qed

lemma clean_and_validate_safe: "clean_and_validate_sql sk lib raw = Inr q \<Longrightarrow> is_safe_select_query sk lib q"
  by (auto simp: clean_and_validate_sql_def split: if_splits)

lemma safe_query_nonempty: "is_safe_select_query sk lib q \<Longrightarrow> q \<noteq> []"
  by (simp add: is_safe_select_query_def)

text \<open>C16. End to end: a statement reaches a database only for an authenticated principal, only through the
  service of that principal's own organisation, only after the cleaned statement passed the safety
  gate and the active evaluator allowed its tables (of which there is at least one), and only as the
  statement with the row scopes added and the masked columns removed; its audit record, with the
  principal and the tables, is written immediately before.\<close>

theorem gateway_executes_only_governed:
  assumes "gateway_execute env (provider_resolve (build_container rep pf loads os)) in_time (gw, sp) req = (r, ev, gw', sp')"
    and "provider_inv sp" and "Db_Execute c sql ps \<in> set ev"
    and "ge_decide env = active_evaluate rep post cid ae" and "enforcing ae"
  shows "\<exists>pr b cleaned restricted rest.
     gq_principal req = Some pr \<and> container_serves c (pr_org_id pr) (tc_database_id b) \<and>
     is_safe_select_query (ge_checker env) (ge_parsers env) cleaned \<and>
     tables_touched (ge_parsers env) cleaned \<noteq> [] \<and>
     pd_allowed (gateway_evaluate env pr req (Some cleaned)) \<and>
     apply_row_restrictions (ge_rep env) (ge_parsers env) (ge_builders env) cleaned
       (pd_row_restrictions (gateway_evaluate env pr req (Some cleaned))) pr = Inr restricted \<and>
     rewrite_masked_columns (ge_parsers env) (ge_builders env) restricted
       (pd_masked_columns (gateway_evaluate env pr req (Some cleaned))) = Inr sql \<and>
     ps = gq_params req \<and> ev = Audit_Query (audit_payload env pr b c sql) # Db_Execute c sql ps # rest"
proof -
  obtain pr b where a: "gq_principal req = Some pr" "governed_body env pr b c req = (r, ev)"
    "provider_resolve (build_container rep pf loads os) sp (Some pr) (Some (gq_database_id req)) = (Inr (b, c), sp')"
    using gateway_execute_cases[OF assms(1,3)] by blast
  obtain cleaned restricted rest where g: "ps = gq_params req"
    "clean_and_validate_sql (ge_checker env) (ge_parsers env) (gq_sql req) = Inr cleaned"
    "pd_allowed (gateway_evaluate env pr req (Some cleaned))"
    "apply_row_restrictions (ge_rep env) (ge_parsers env) (ge_builders env) cleaned
       (pd_row_restrictions (gateway_evaluate env pr req (Some cleaned))) pr = Inr restricted"
    "rewrite_masked_columns (ge_parsers env) (ge_builders env) restricted
       (pd_masked_columns (gateway_evaluate env pr req (Some cleaned))) = Inr sql"
    "ev = Audit_Query (audit_payload env pr b c sql) # Db_Execute c sql ps # rest"
    using governed_body_execute[OF a(2) assms(3)] by blast
  have safe: "is_safe_select_query (ge_checker env) (ge_parsers env) cleaned"
    using g(2) by (rule clean_and_validate_safe)
  have "tables_touched (ge_parsers env) cleaned \<noteq> []"
    using g(3) safe_query_nonempty[OF safe] active.allowed_has_table[OF assms(5)]
    by (auto simp: gateway_evaluate_def assms(4) Let_def)
  moreover have "container_serves c (pr_org_id pr) (tc_database_id b)"
    using provider.owner[OF assms(2) a(3)] by auto
  ultimately show ?thesis
    using a(1) g safe by blast
qed

lemma put_quota_get [simp]: "tenant_quota (put_quota gw key q) k = (if k = key then q else tenant_quota gw k)"
  by (auto simp: tenant_quota_def put_quota_def split: option.splits)

lemma leave_enter: "quota_enter q = Some q' \<Longrightarrow> quota_leave q' = q"
  by (auto simp: quota_enter_def quota_leave_def split: if_splits)

lemma release_acquire: "quota_acquire q = Some q' \<Longrightarrow> quota_release q' = q"
  by (auto simp: quota_acquire_def quota_release_def split: nat.splits)

text \<open>Nothing leaks: whatever happens to a request (success, denial, safety or database error, overload,
  semaphore timeout), the quota of every tenant database is afterwards what it was before.\<close>

theorem gateway_restores_quotas:
  assumes "gateway_execute env resolve in_time (gw, s) req = (r, ev, gw', s')"
  shows "tenant_quota gw' key = tenant_quota gw key"
  using assms leave_enter release_acquire
  by (auto simp: gateway_execute_def Let_def split: option.splits if_splits sum.splits prod.splits)

subsection \<open>Concurrent requests of one tenant database\<close>

text \<open>
  The event loop interleaves requests at their \<open>await\<close> points. Between them a request is waiting for
  the semaphore, running with a permit, or leaving (the permit is given back or was never obtained,
  the counter is not decremented yet). Requests are numbered.
\<close>

record quota_state =
  qs_quota :: quota
  qs_waiting :: "nat set"
  qs_running :: "nat set"
  qs_leaving :: "nat set"

definition quota_start :: "nat \<Rightarrow> nat \<Rightarrow> quota_state" where
  "quota_start max_concurrent queue_limit =
     \<lparr>qs_quota = quota_init max_concurrent queue_limit, qs_waiting = {}, qs_running = {}, qs_leaving = {}\<rparr>"

inductive quota_step :: "quota_state \<Rightarrow> quota_state \<Rightarrow> bool" where
  admit: "quota_enter (qs_quota s) = Some q \<Longrightarrow> i \<notin> qs_waiting s \<union> qs_running s \<union> qs_leaving s \<Longrightarrow>
    quota_step s (s\<lparr>qs_quota := q, qs_waiting := insert i (qs_waiting s)\<rparr>)"
| reject: "quota_enter (qs_quota s) = None \<Longrightarrow> quota_step s s"
| acquire: "i \<in> qs_waiting s \<Longrightarrow> quota_acquire (qs_quota s) = Some q \<Longrightarrow>
    quota_step s (s\<lparr>qs_quota := q, qs_waiting := qs_waiting s - {i}, qs_running := insert i (qs_running s)\<rparr>)"
| time_out: "i \<in> qs_waiting s \<Longrightarrow>
    quota_step s (s\<lparr>qs_waiting := qs_waiting s - {i}, qs_leaving := insert i (qs_leaving s)\<rparr>)"
| release: "i \<in> qs_running s \<Longrightarrow>
    quota_step s (s\<lparr>qs_quota := quota_release (qs_quota s), qs_running := qs_running s - {i}, qs_leaving := insert i (qs_leaving s)\<rparr>)"
| leave: "i \<in> qs_leaving s \<Longrightarrow>
    quota_step s (s\<lparr>qs_quota := quota_leave (qs_quota s), qs_leaving := qs_leaving s - {i}\<rparr>)"

inductive_cases quota_stepE: "quota_step s t"

definition quota_inv :: "quota_state \<Rightarrow> bool" where
  "quota_inv s \<longleftrightarrow>
     finite (qs_waiting s) \<and> finite (qs_running s) \<and> finite (qs_leaving s) \<and>
     qs_waiting s \<inter> qs_running s = {} \<and> qs_waiting s \<inter> qs_leaving s = {} \<and> qs_running s \<inter> qs_leaving s = {} \<and>
     tq_queued (qs_quota s) = card (qs_waiting s) + card (qs_running s) + card (qs_leaving s) \<and>
     tq_permits (qs_quota s) + card (qs_running s) = tq_max_concurrent (qs_quota s) \<and>
     tq_queued (qs_quota s) \<le> tq_queue_limit (qs_quota s)"

lemmas quota_ops = quota_enter_def quota_acquire_def quota_release_def quota_leave_def

lemma quota_inv_start: "quota_inv (quota_start m l)"
  by (simp add: quota_inv_def quota_start_def quota_init_def)

lemma card_move:
  assumes "finite A" and "finite B" and "A \<inter> B = {}" and "i \<in> A"
  shows "card A = Suc (card (A - {i}))" and "card (insert i B) = Suc (card B)"
proof -
  show "card A = Suc (card (A - {i}))"
    using assms card_Suc_Diff1[of A i] by simp
  have "i \<notin> B"
    using assms by blast
  then show "card (insert i B) = Suc (card B)"
    using assms(2) by simp
qed

lemma quota_inv_step:
  assumes "quota_step s t" and "quota_inv s"
  shows "quota_inv t \<and> tq_max_concurrent (qs_quota t) = tq_max_concurrent (qs_quota s) \<and>
     tq_queue_limit (qs_quota t) = tq_queue_limit (qs_quota s)"
  using assms
proof cases
  case (acquire i q)
  then show ?thesis
    using assms(2) card_move[of "qs_waiting s" "qs_running s" i]
    by (auto simp: quota_inv_def quota_ops split: nat.splits)
next
  case (time_out i)
  then show ?thesis
    using assms(2) card_move[of "qs_waiting s" "qs_leaving s" i] by (auto simp: quota_inv_def)
next
  case (release i)
  then show ?thesis
    using assms(2) card_move[of "qs_running s" "qs_leaving s" i] by (auto simp: quota_inv_def quota_ops)
next
  case (leave i)
  then show ?thesis
    using assms(2) card_move[of "qs_leaving s" "{}" i] by (auto simp: quota_inv_def quota_ops)
qed (auto simp: quota_inv_def quota_ops split: if_splits)

lemma quota_reachable:
  assumes "quota_step\<^sup>*\<^sup>* (quota_start m l) s"
  shows "quota_inv s \<and> tq_max_concurrent (qs_quota s) = m \<and> tq_queue_limit (qs_quota s) = l"
  using assms
proof (induction rule: rtranclp_induct)
  case base
  show ?case using quota_inv_start by (simp add: quota_start_def quota_init_def)
next
  case (step s t)
  then show ?case using quota_inv_step by force
qed

text \<open>Under every interleaving at most \<open>max_concurrent\<close> requests of a tenant database hold a permit, at
  most \<open>queue_limit\<close> are in flight, the counter is the number of requests in flight (so the clamp at
  zero never acts), and when all have gone the quota is back in its initial state.\<close>

theorem quota_bounds:
  assumes "quota_step\<^sup>*\<^sup>* (quota_start m l) s"
  shows "card (qs_running s) \<le> m \<and>
     card (qs_waiting s \<union> qs_running s \<union> qs_leaving s) \<le> l \<and>
     tq_queued (qs_quota s) = card (qs_waiting s \<union> qs_running s \<union> qs_leaving s) \<and>
     (qs_waiting s = {} \<and> qs_running s = {} \<and> qs_leaving s = {} \<longrightarrow> qs_quota s = quota_init m l)"
proof -
  have i: "quota_inv s" "tq_max_concurrent (qs_quota s) = m" "tq_queue_limit (qs_quota s) = l"
    using quota_reachable[OF assms] by auto
  then have "card (qs_waiting s \<union> qs_running s \<union> qs_leaving s) = card (qs_waiting s) + card (qs_running s) + card (qs_leaving s)"
    by (simp add: quota_inv_def card_Un_disjoint Int_Un_distrib2)
  then show ?thesis
    using i by (auto simp: quota_inv_def quota_init_def)
qed

text \<open>C17. No permit is lost: in every reachable state with a waiting request and nobody running, the
  semaphore has a permit for it.\<close>

theorem quota_waiting_can_run:
  assumes "quota_step\<^sup>*\<^sup>* (quota_start m l) s" and "0 < m" and "i \<in> qs_waiting s" and "qs_running s = {}"
  shows "\<exists>t. quota_step s t \<and> i \<in> qs_running t"
proof -
  have "tq_permits (qs_quota s) = m"
    using quota_reachable[OF assms(1)] assms(4) by (simp add: quota_inv_def)
  then obtain q where "quota_acquire (qs_quota s) = Some q"
    using assms(2) by (cases m) (auto simp: quota_acquire_def)
  from quota_step.acquire[OF assms(3) this] show ?thesis
    by fastforce
qed

lemma quota_admit_run:
  "quota_step\<^sup>*\<^sup>* (quota_start 1 2) \<lparr>qs_quota = \<lparr>tq_permits = 1, tq_max_concurrent = 1, tq_queue_limit = 2, tq_queued = 1\<rparr>,
     qs_waiting = {7}, qs_running = {}, qs_leaving = {}\<rparr>"
  using quota_step.admit[of "quota_start 1 2" _ 7]
  by (auto simp: quota_start_def quota_init_def quota_enter_def intro!: r_into_rtranclp)

lemma quota_bounds_witness:
  "card {7::nat} \<le> 2"
  using quota_bounds[OF quota_admit_run] by simp

lemma quota_waiting_can_run_witness:
  "\<exists>t. quota_step \<lparr>qs_quota = \<lparr>tq_permits = 1, tq_max_concurrent = 1, tq_queue_limit = 2, tq_queued = 1\<rparr>,
     qs_waiting = {7}, qs_running = {}, qs_leaving = {}\<rparr> t \<and> 7 \<in> qs_running t"
  by (rule quota_waiting_can_run[OF quota_admit_run]) simp_all

subsection \<open>A concrete pipeline\<close>

definition t_policy :: "string \<Rightarrow> string \<Rightarrow> json \<Rightarrow> policy" where
  "t_policy i effect db =
     \<lparr>pol_id = i, pol_effect = effect, pol_org_id = JStr ''acme'', pol_principal_id = JNull, pol_roles = {},
      pol_database_id = db, pol_table = Some ''t'', pol_columns = {}, pol_masked_columns = {}, pol_row_scope = [],
      pol_action = ''select''\<rparr>"

definition t_evaluator :: policy_evaluator where
  "t_evaluator =
     \<lparr>pe_policies = [t_policy ''p1'' ''allow'' JNull, t_policy ''p2'' ''deny'' (JStr ''main'')], pe_enabled = True\<rparr>"

definition open_evaluator :: policy_evaluator where
  "open_evaluator = \<lparr>pe_policies = [t_policy ''p1'' ''allow'' JNull], pe_enabled = True\<rparr>"

definition demo_env :: "policy_evaluator \<Rightarrow> 'v gw_env" where
  "demo_env ev =
     \<lparr>ge_rep = no_rep, ge_checker = checker_init 10000 {} [], ge_parsers = one_parsers, ge_builders = example_builders,
      ge_decide = active_evaluate (\<lambda>_. []) (\<lambda>_ _ _ _. Http_Timeout) None (Doc_Evaluator ev),
      ge_execute = (\<lambda>_ _ _. Inr []), ge_target = (\<lambda>_. JNull), ge_hash = (\<lambda>_. ''h''), ge_log_raw_sql = False\<rparr>"

definition demo_request :: "string \<Rightarrow> governed_request" where
  "demo_request db = \<lparr>gq_principal = Some acme_user, gq_database_id = db, gq_sql = ''SELECT 1'', gq_params = None\<rparr>"

definition demo_gateway :: gateway where
  "demo_gateway = \<lparr>gw_quotas = [], gw_concurrent_limit = 1, gw_queue_limit = 1\<rparr>"

definition demo_decision :: "policy_evaluator \<Rightarrow> string \<Rightarrow> policy_decision" where
  "demo_decision ev db = evaluate ev acme_user db [''t''] (Some {''1''})"

lemma demo_statement:
  "clean_and_validate_sql (checker_init 10000 {} []) one_parsers ''SELECT 1'' = Inr ''SELECT 1''"
  "tables_touched one_parsers ''SELECT 1'' = [''t'']"
  by code_simp+

lemma demo_columns: "referenced_columns one_parsers ''SELECT 1'' = {''1''}"
proof -
  have "extract_referenced_columns one_parsers ''SELECT 1'' = {''1''}"
    by code_simp
  then show ?thesis
    by (simp add: referenced_columns_def)
qed

lemma demo_evaluate:
  "gateway_evaluate (demo_env ev) acme_user (demo_request db) (Some ''SELECT 1'') = demo_decision ev db"
  by (simp add: gateway_evaluate_def demo_env_def demo_request_def active_evaluate_def demo_decision_def
      demo_statement demo_columns)

lemma demo_fields:
  "ge_checker (demo_env ev) = checker_init 10000 {} []" "ge_parsers (demo_env ev) = one_parsers"
  "ge_execute (demo_env ev) v q ps = Inr []" "gq_sql (demo_request db) = ''SELECT 1''"
  "gq_params (demo_request db) = None" "gq_principal (demo_request db) = Some acme_user"
  by (simp_all add: demo_env_def demo_request_def)

lemma demo_body_allowed:
  assumes "pd_allowed (demo_decision ev db)" and "pd_row_restrictions (demo_decision ev db) = []"
    and "pd_masked_columns (demo_decision ev db) = {}"
  shows "\<exists>a rest. governed_body (demo_env ev) acme_user b v (demo_request db) =
     (Inr [], Audit_Query a # Db_Execute v ''SELECT 1'' None # rest)"
  unfolding governed_body_def demo_fields demo_statement sum.case Let_def demo_evaluate
  using assms by (simp add: apply_row_restrictions_def rewrite_masked_columns_def mask_rows_def)

lemma demo_body_denied:
  assumes "\<not> pd_allowed (demo_decision ev db)"
  shows "fst (governed_body (demo_env ev) acme_user b v (demo_request db)) = Inl (PermissionError (pd_reason (demo_decision ev db)))"
  unfolding governed_body_def demo_fields demo_statement sum.case Let_def demo_evaluate
  using assms by simp

lemma demo_decisions:
  "pd_allowed (demo_decision open_evaluator ''main'')" "pd_row_restrictions (demo_decision open_evaluator ''main'') = []"
  "Set.is_empty (pd_masked_columns (demo_decision open_evaluator ''main''))"
  "pd_allowed (demo_decision t_evaluator '' main '')" "pd_row_restrictions (demo_decision t_evaluator '' main '') = []"
  "Set.is_empty (pd_masked_columns (demo_decision t_evaluator '' main ''))"
  "\<not> pd_allowed (demo_decision t_evaluator ''main'')" "pd_reason (demo_decision t_evaluator ''main'') = ''Denied by policy.''"
  by code_simp+

lemma demo_masks [simp]:
  "pd_masked_columns (demo_decision open_evaluator ''main'') = {}"
  "pd_masked_columns (demo_decision t_evaluator '' main '') = {}"
  using demo_decisions by simp_all

lemma demo_gateway_run:
  assumes "resolve s (Some acme_user) (Some db) = (Inr (b, v), s')"
    and "governed_body (demo_env ev) acme_user b v (demo_request db) = (r, evs)"
  shows "\<exists>gw'. gateway_execute (demo_env ev) resolve True (demo_gateway, s) (demo_request db) = (r, evs, gw', s')"
proof -
  have "py_strip ''SELECT 1'' \<noteq> []"
    by code_simp
  then show ?thesis
    using assms
    by (simp add: gateway_execute_def demo_request_def demo_gateway_def tenant_quota_def quota_init_def
        quota_enter_def quota_acquire_def Let_def)
qed

lemma demo_run:
  assumes "prod_build prod_binding = Inr c" and "db = ''main'' \<or> db = '' main ''"
    and "governed_body (demo_env ev) acme_user prod_binding c (demo_request db) = (r, evs)"
  shows "\<exists>gw' sp'. gateway_execute (demo_env ev) (provider_resolve prod_build) True
     (demo_gateway, provider_init [prod_binding]) (demo_request db) = (r, evs, gw', sp')"
proof -
  obtain sp where "provider_resolve prod_build (provider_init [prod_binding]) (Some acme_user) (Some db) = (Inr (prod_binding, c), sp)"
    using prod_provider[OF assms(1,2)] by blast
  from demo_gateway_run[where resolve = "provider_resolve prod_build", OF this assms(3)] show ?thesis
    by blast
qed

lemma prod_provider_inv: "provider_inv (provider_init [prod_binding])"
  by (simp add: provider_inv_def provider_init_def)

lemma gateway_executes_only_governed_witness:
  "\<exists>c db cleaned. container_serves c ''acme'' db \<and> is_safe_select_query (checker_init 10000 {} []) one_parsers cleaned"
proof -
  obtain c where c: "prod_build prod_binding = Inr c"
    using prod_build_value by blast
  obtain a rest where "governed_body (demo_env open_evaluator) acme_user prod_binding c (demo_request ''main'') =
      (Inr [], Audit_Query a # Db_Execute c ''SELECT 1'' None # rest)"
    using demo_body_allowed demo_decisions(1,2) by fastforce
  then obtain gw' sp' where run: "gateway_execute (demo_env open_evaluator) (provider_resolve prod_build) True
     (demo_gateway, provider_init [prod_binding]) (demo_request ''main'') =
     (Inr [], Audit_Query a # Db_Execute c ''SELECT 1'' None # rest, gw', sp')"
    using demo_run[OF c] by blast
  have en: "enforcing (Doc_Evaluator open_evaluator)"
    by (simp add: enforcing_def open_evaluator_def)
  have dec: "ge_decide (demo_env open_evaluator) =
      active_evaluate (\<lambda>_. []) (\<lambda>_ _ _ _. Http_Timeout) None (Doc_Evaluator open_evaluator)"
    by (simp add: demo_env_def)
  have mem: "Db_Execute c ''SELECT 1'' None \<in> set (Audit_Query a # Db_Execute c ''SELECT 1'' None # rest)"
    by simp
  from gateway_executes_only_governed[OF run[unfolded prod_build_def] prod_provider_inv mem dec en]
  show ?thesis
    by (auto simp: demo_fields acme_user_def)
qed

lemma gateway_restores_quotas_witness:
  "\<exists>r ev gw' sp'. gateway_execute (demo_env open_evaluator) (provider_resolve prod_build) True
     (demo_gateway, provider_init [prod_binding]) (demo_request ''main'') = (r, ev, gw', sp') \<and>
     tenant_quota gw' (''acme'', ''main'') = quota_init 1 1"
proof -
  obtain r ev gw' sp' where run: "gateway_execute (demo_env open_evaluator) (provider_resolve prod_build) True
     (demo_gateway, provider_init [prod_binding]) (demo_request ''main'') = (r, ev, gw', sp')"
    by (metis prod_cases4)
  from gateway_restores_quotas[OF this] have "tenant_quota gw' (''acme'', ''main'') = quota_init 1 1"
    by (simp add: tenant_quota_def[of demo_gateway]) (simp add: demo_gateway_def)
  with run show ?thesis
    by blast
qed

text \<open>The policy is asked about the identifier as it was sent, the resolver strips it: with a document
  that denies table \<open>t\<close> on database \<open>main\<close> a request for \<open>main\<close> is denied, while the same request for
  \<open>main\<close> with a blank on both sides runs on the same database.\<close>

theorem whitespace_database_id_bypasses_deny:
  "\<exists>c evs gw sp. gateway_execute (demo_env t_evaluator) (provider_resolve prod_build) True
       (demo_gateway, provider_init [prod_binding]) (demo_request '' main '') = (Inr [], evs, gw, sp) \<and>
     Db_Execute c ''SELECT 1'' None \<in> set evs \<and> container_serves c ''acme'' ''main'' \<and>
     fst (gateway_execute (demo_env t_evaluator) (provider_resolve prod_build) True
       (demo_gateway, provider_init [prod_binding]) (demo_request ''main'')) = Inl (PermissionError ''Denied by policy.'')"
proof -
  obtain c where c: "prod_build prod_binding = Inr c"
    using prod_build_value by blast
  obtain a rest where "governed_body (demo_env t_evaluator) acme_user prod_binding c (demo_request '' main '') =
      (Inr [], Audit_Query a # Db_Execute c ''SELECT 1'' None # rest)"
    using demo_body_allowed demo_decisions(4,5) by fastforce
  from demo_run[OF c _ this] obtain gw sp where run: "gateway_execute (demo_env t_evaluator) (provider_resolve prod_build) True
     (demo_gateway, provider_init [prod_binding]) (demo_request '' main '') =
     (Inr [], Audit_Query a # Db_Execute c ''SELECT 1'' None # rest, gw, sp)"
    by blast
  obtain evs where "governed_body (demo_env t_evaluator) acme_user prod_binding c (demo_request ''main'') =
      (Inl (PermissionError ''Denied by policy.''), evs)"
    using demo_body_denied[OF demo_decisions(7)] demo_decisions(8) by (metis prod.collapse)
  from demo_run[OF c _ this] have "fst (gateway_execute (demo_env t_evaluator) (provider_resolve prod_build) True
       (demo_gateway, provider_init [prod_binding]) (demo_request ''main'')) = Inl (PermissionError ''Denied by policy.'')"
    by auto
  moreover have "container_serves c ''acme'' ''main''"
    using prod_build_serves[OF c] .
  ultimately show ?thesis
    using run by (intro exI[of _ c] exI conjI) auto
qed

end
