(* ===== verification/Presentation.thy ===== *)
theory Presentation
  imports Py_Regex Py_Num
begin

text \<open>
  sql\_query\_api/services/result\_presentation\_service.py: planning how a result is shown. The model behind
  the chat endpoint is the parameter \<open>post\<close>: for a request and the number of the attempt it gives the
  time the answer took and the answer. The bounded prompt, the retries under one deadline, the
  parsing of the structured answer and the guards on it are the code's. \<open>json.dumps\<close> of the sample,
  \<open>json.loads\<close> and the ellipsis character (above code point 255) are the record \<open>presentation_lib\<close>.
\<close>

record presentation_lib =
  pl_dumps :: "obj list \<Rightarrow> string"
  pl_loads :: "string \<Rightarrow> json option"
  pl_ellipsis :: char

subsection \<open>Constants and configuration\<close>

definition supported_formats :: "string list" where
  "supported_formats = [''paragraph'', ''list'', ''chart'', ''table'']"

definition digit_or_comma :: "char \<Rightarrow> bool" where
  "digit_or_comma c \<longleftrightarrow> is_digit c \<or> c = CHR '',''"

definition integer_token_re :: rx where
  "integer_token_re =
     rx_cat [Rx_Cls is_digit, rx_star digit_or_comma, rx_opt (Rx_Seq (rx_lit ''.'') (rx_plus is_digit))]"

definition dense_integer_re :: rx where
  "dense_integer_re = Rx_Seq (Rx_Cls is_digit) (rx_star digit_or_comma)"

definition json_object_re :: rx where
  "json_object_re = rx_cat [rx_lit ''{'', rx_star (\<lambda>_. True), rx_lit ''}'']"

definition summary_column_pattern :: rx where
  "summary_column_pattern =
     rx_cat [rx_any_of [Rx_Start, Rx_Cls (\<lambda>c. \<not> is_ascii_alpha c)],
             rx_any_of (map rx_ci [''count'', ''qty'', ''quantity'', ''total'', ''sum'', ''avg'', ''average'', ''min'',
               ''max'', ''most'', ''num'', ''number'']),
             rx_any_of [Rx_Cls (\<lambda>c. \<not> is_ascii_alpha c), Rx_End]]"

definition question_summary_hint :: string where
  "question_summary_hint =
     ''NOTE: These ROWS directly answer a single factual question, even though '' @
     ''they span a few rows. Choose \"paragraph\" and fold the rows into one or two '' @
     ''sentences. Only deviate if the rows clearly show unrelated records.''"

record presenter =
  ps_system_prompt :: string
  ps_enabled :: bool
  ps_api_key :: string
  ps_base_url :: string
  ps_model :: string
  ps_max_tokens :: int
  ps_request_timeout :: real
  ps_retries :: int
  ps_backoff_base :: real
  ps_disable_reasoning :: bool
  ps_max_sample_rows :: int
  ps_max_cell_chars :: int
  ps_max_payload_bytes :: int
  ps_max_sql_chars :: int

text \<open>The constructor: the prompt falls back to the file, every limit is clamped from below.\<close>

definition load_system_prompt :: "os_state \<Rightarrow> string \<Rightarrow> exn + string" where
  "load_system_prompt os path =
     (case os_files os path of
        File_Text t \<Rightarrow> Inr t
      | File_Missing \<Rightarrow> Inr []
      | File_OSError \<Rightarrow> Inl (LibraryError ''OSError''))"

definition presenter_init :: "os_state \<Rightarrow> string \<Rightarrow> presenter \<Rightarrow> exn + presenter" where
  "presenter_init os path arg =
     bind_result (if ps_system_prompt arg \<noteq> [] then Inr (ps_system_prompt arg) else load_system_prompt os path) (\<lambda>prompt.
       Inr \<lparr>ps_system_prompt = prompt,
            ps_enabled = (ps_enabled arg \<and> prompt \<noteq> []),
            ps_api_key = ps_api_key arg,
            ps_base_url = rstrip_by ((=) CHR ''/'') (ps_base_url arg),
            ps_model = (if ps_model arg = [] then ''openai/gpt-4o'' else ps_model arg),
            ps_max_tokens = max 1 (ps_max_tokens arg),
            ps_request_timeout = max (1/10) (ps_request_timeout arg),
            ps_retries = max 1 (ps_retries arg),
            ps_backoff_base = max (1/10) (ps_backoff_base arg),
            ps_disable_reasoning = ps_disable_reasoning arg,
            ps_max_sample_rows = max 1 (ps_max_sample_rows arg),
            ps_max_cell_chars = max 10 (ps_max_cell_chars arg),
            ps_max_payload_bytes = max 512 (ps_max_payload_bytes arg),
            ps_max_sql_chars = max 100 (ps_max_sql_chars arg)\<rparr>)"

definition not_switched_off :: "os_state \<Rightarrow> string \<Rightarrow> bool" where
  "not_switched_off os name \<longleftrightarrow>
     py_lower (py_strip (getenv os name ''true'')) \<notin> {''0'', ''false'', ''no'', ''off''}"

definition presenter_from_environment :: "(string \<Rightarrow> real option) \<Rightarrow> os_state \<Rightarrow> string \<Rightarrow> exn + presenter" where
  "presenter_from_environment parse_float os path =
     bind_result (read_secret os ''OPENROUTER_API_KEY'' False []) (\<lambda>key.
     bind_result (read_secret os ''AI_MODEL'' False []) (\<lambda>model.
     bind_result (env_int os ''SQL_PRESENTATION_MAX_TOKENS'' ''300'') (\<lambda>tokens.
     bind_result (env_float parse_float os ''AI_REQUEST_TIMEOUT'' ''30.0'') (\<lambda>timeout.
     bind_result (env_int os ''AI_RETRIES'' ''3'') (\<lambda>retries.
     bind_result (env_float parse_float os ''AI_BACKOFF_BASE'' ''2.0'') (\<lambda>backoff.
     bind_result (env_int os ''SQL_PRESENTATION_MAX_SAMPLE_ROWS'' ''20'') (\<lambda>sample_rows.
     bind_result (env_int os ''SQL_PRESENTATION_MAX_CELL_CHARS'' ''80'') (\<lambda>cell_chars.
     bind_result (env_int os ''SQL_PRESENTATION_MAX_PAYLOAD_BYTES'' ''20000'') (\<lambda>payload.
     bind_result (env_int os ''SQL_PRESENTATION_MAX_SQL_CHARS'' ''2000'') (\<lambda>sql_chars.
       presenter_init os path
         \<lparr>ps_system_prompt = [], ps_enabled = not_switched_off os ''SQL_PRESENTATION_ENABLED'',
          ps_api_key = key, ps_base_url = getenv os ''AI_BASE_URL'' ''https://openrouter.ai/api/v1'',
          ps_model = model, ps_max_tokens = tokens, ps_request_timeout = timeout, ps_retries = retries,
          ps_backoff_base = backoff, ps_disable_reasoning = not_switched_off os ''AI_DISABLE_REASONING'',
          ps_max_sample_rows = sample_rows, ps_max_cell_chars = cell_chars,
          ps_max_payload_bytes = payload, ps_max_sql_chars = sql_chars\<rparr>))))))))))"

subsection \<open>The bounded payload\<close>

record column_info =
  ci_name :: string
  ci_type :: string
  ci_nullable :: bool

fun is_bool_json :: "json \<Rightarrow> bool" where
  "is_bool_json (JBool _) = True"
| "is_bool_json _ = False"

text \<open>\<open>bool\<close> is a subclass of \<open>int\<close>.\<close>

fun is_int_json :: "json \<Rightarrow> bool" where
  "is_int_json (JInt _) = True"
| "is_int_json (JBool _) = True"
| "is_int_json _ = False"

fun is_number_json :: "json \<Rightarrow> bool" where
  "is_number_json (JFloat _) = True"
| "is_number_json v = is_int_json v"

definition column_type :: "json list \<Rightarrow> string" where
  "column_type vs =
     (let non_null = filter (\<lambda>v. v \<noteq> JNull) vs in
      if non_null = [] then ''unknown''
      else if list_all is_bool_json non_null then ''boolean''
      else if list_all is_int_json non_null then ''integer''
      else if list_all is_number_json non_null then ''number''
      else ''string'')"

fun add_keys :: "string list \<Rightarrow> string list \<Rightarrow> string list" where
  "add_keys ks [] = ks"
| "add_keys ks (k # new) = add_keys (if k \<in> set ks then ks else ks @ [k]) new"

definition infer_columns :: "obj list \<Rightarrow> nat \<Rightarrow> column_info list" where
  "infer_columns rows limit =
     (let keys = foldl (\<lambda>ks row. add_keys ks (map fst row)) [] (take (max 1 limit) rows) in
      map (\<lambda>key. let vs = map (\<lambda>row. obj_get row key) (take limit rows) in
         \<lparr>ci_name = key, ci_type = column_type vs, ci_nullable = list_ex (\<lambda>v. v = JNull) vs\<rparr>) keys)"

fun truncate_cell :: "char \<Rightarrow> nat \<Rightarrow> json \<Rightarrow> json" where
  "truncate_cell ellipsis limit (JStr s) =
     (if length s > limit then JStr (take (limit - 1) s @ [ellipsis]) else JStr s)"
| "truncate_cell ellipsis limit v = v"

definition truncate_row :: "char \<Rightarrow> nat \<Rightarrow> obj \<Rightarrow> obj" where
  "truncate_row ellipsis limit row = map (\<lambda>(k, v). (k, truncate_cell ellipsis limit v)) row"

definition utf8_length :: "string \<Rightarrow> nat" where
  "utf8_length s = sum_list (map (\<lambda>c. if py_ord c < 128 then 1 else 2) s)"

function shrink_sample :: "(obj list \<Rightarrow> string) \<Rightarrow> int \<Rightarrow> obj list \<Rightarrow> bool \<Rightarrow> obj list \<times> bool" where
  "shrink_sample dumps limit sample truncated =
     (if sample = [] \<or> int (utf8_length (dumps sample)) \<le> limit then (sample, truncated)
      else shrink_sample dumps limit (butlast sample) True)"
  by pat_completeness auto
termination
  by (relation "measure (\<lambda>(_, _, sample, _). length sample)") auto

declare shrink_sample.simps [simp del]

definition looks_like_question_answer :: "string option \<Rightarrow> obj list \<Rightarrow> bool" where
  "looks_like_question_answer question rows \<longleftrightarrow>
     question \<noteq> None \<and> question \<noteq> Some [] \<and> rows \<noteq> [] \<and> length rows \<le> 3 \<and>
     rx_found summary_column_pattern (join '' '' (concat (map (map fst) rows)))"

definition or_none_set :: "string \<Rightarrow> string" where
  "or_none_set s = (if s = [] then ''(none set)'' else s)"

definition column_line :: "column_info \<Rightarrow> string" where
  "column_line c = '' - name: '' @ ci_name c @ '', type: '' @ ci_type c @ '', nullable: '' @
     (if ci_nullable c then ''yes'' else ''no'')"

definition render_user_prompt ::
    "presentation_lib \<Rightarrow> presenter \<Rightarrow> string option \<Rightarrow> string \<Rightarrow> column_info list \<Rightarrow> obj list \<Rightarrow> nat \<Rightarrow> bool \<Rightarrow> string" where
  "render_user_prompt lib sv question sql columns rows total_rows truncated =
     join [CHR 0x0A]
       ([''QUESTION:'', or_none_set (py_strip (or_none_set (case question of None \<Rightarrow> [] | Some q \<Rightarrow> q))), [],
         ''SQL:'', py_strip (take (nat (ps_max_sql_chars sv)) sql), [], ''COLUMNS:''] @
        (if columns \<noteq> [] then map column_line columns else ['' (columns could not be inferred)'']) @
        [[], ''ROWS (shown: '' @ int_str (int (length rows)) @ '' of '' @ int_str (int total_rows) @ ''; truncated: '' @
             (if truncated then ''yes'' else ''no'') @ ''):'',
         pl_dumps lib rows] @
        (if looks_like_question_answer question rows then [[], question_summary_hint] else []))"

record prompt_context =
  cx_prompt :: string
  cx_sample_rows :: "obj list"
  cx_columns :: "column_info list"

definition build_context :: "presentation_lib \<Rightarrow> presenter \<Rightarrow> string option \<Rightarrow> string \<Rightarrow> obj list \<Rightarrow> prompt_context" where
  "build_context lib sv question sql rows =
     (let limit = nat (ps_max_sample_rows sv);
          columns = infer_columns rows limit;
          sample0 = map (truncate_row (pl_ellipsis lib) (nat (ps_max_cell_chars sv))) (take limit rows)
      in (case shrink_sample (pl_dumps lib) (ps_max_payload_bytes sv) sample0 (length rows > length sample0) of
            (sample, truncated) \<Rightarrow>
              \<lparr>cx_prompt = render_user_prompt lib sv question sql columns sample (length rows) truncated,
               cx_sample_rows = sample, cx_columns = columns\<rparr>))"

subsection \<open>The request and its retries\<close>

record llm_request =
  lr_url :: string
  lr_headers :: "(string \<times> string) list"
  lr_body :: obj

text \<open>An answer: a status with its body (or the text of the decoding error), or a transport error.\<close>

datatype llm_reply = Http_Response int "string + json" | Http_Error string

datatype attempt = Completed json | Retry string | Failed string | Escaped exn

definition llm_request_for :: "presenter \<Rightarrow> string \<Rightarrow> llm_request" where
  "llm_request_for sv user_prompt =
     \<lparr>lr_url = ps_base_url sv @ ''/chat/completions'',
      lr_headers = [(''Authorization'', ''Bearer '' @ ps_api_key sv), (''Content-Type'', ''application/json'')],
      lr_body =
        [(''model'', JStr (ps_model sv)),
         (''messages'', JArr [JObj [(''role'', JStr ''system''), (''content'', JStr (ps_system_prompt sv))],
                            JObj [(''role'', JStr ''user''), (''content'', JStr user_prompt)]]),
         (''max_tokens'', JInt (ps_max_tokens sv)), (''temperature'', JInt 0),
         (''response_format'', JObj [(''type'', JStr ''json_object'')])] @
        (if ps_disable_reasoning sv then [(''reasoning'', JObj [(''enabled'', JBool False)])] else [])\<rparr>"

fun index_zero :: "json \<Rightarrow> exn + json" where
  "index_zero (JArr (x # _)) = Inr x"
| "index_zero (JArr []) = Inl (LibraryError ''IndexError'')"
| "index_zero (JStr (c # _)) = Inr (JStr [c])"
| "index_zero (JStr []) = Inl (LibraryError ''IndexError'')"
| "index_zero (JObj _) = Inl (LibraryError ''KeyError'')"
| "index_zero _ = Inl TypeError"

definition completion_content :: "json \<Rightarrow> exn + json" where
  "completion_content data =
     bind_result (py_get data ''choices'') (\<lambda>choices.
     bind_result (index_zero (py_or choices (JArr [JObj []]))) (\<lambda>choice.
     bind_result (py_get choice ''message'') (\<lambda>message.
     bind_result (py_get (py_or message (JObj [])) ''content'') (\<lambda>content.
       Inr (py_or content (JStr []))))))"

fun usable_text :: "json \<Rightarrow> bool" where
  "usable_text (JStr s) \<longleftrightarrow> py_strip s \<noteq> []"
| "usable_text _ \<longleftrightarrow> False"

fun judge_reply :: "llm_reply \<Rightarrow> attempt" where
  "judge_reply (Http_Error e) = Failed (''llm request failed: '' @ e)"
| "judge_reply (Http_Response status body) =
     (if status \<in> {408, 429} then Retry (''retryable status '' @ int_str status)
      else if status \<ge> 400 then Failed (''llm http error: status '' @ int_str status)
      else (case body of
              Inl e \<Rightarrow> Failed (''llm request failed: '' @ e)
            | Inr data \<Rightarrow>
                (case completion_content data of
                   Inl e \<Rightarrow> Escaped e
                 | Inr content \<Rightarrow> if usable_text content then Completed data else Retry ''empty completion content'')))"

text \<open>The loop over the attempts; the result carries the time it took and the number of posts.\<close>

fun try_posts :: "presenter \<Rightarrow> (nat \<Rightarrow> real \<times> llm_reply) \<Rightarrow> nat \<Rightarrow> nat \<Rightarrow> string option \<Rightarrow> attempt \<times> real \<times> nat" where
  "try_posts sv post 0 k last_error =
     (Failed (''llm request failed after '' @ int_str (ps_retries sv) @ '' attempts: '' @
        (case last_error of None \<Rightarrow> ''None'' | Some e \<Rightarrow> e)), 0, 0)"
| "try_posts sv post (Suc n) k last_error =
     (case post k of (d, reply) \<Rightarrow>
        (case judge_reply reply of
           Retry e \<Rightarrow>
             (case try_posts sv post n (Suc k) (Some e) of (r, t, posts) \<Rightarrow>
                (r, d + (if int k < ps_retries sv then ps_backoff_base sv ^ k else 0) + t, Suc posts))
         | r \<Rightarrow> (r, d, 1)))"

definition complete_prompt :: "presenter \<Rightarrow> (llm_request \<Rightarrow> nat \<Rightarrow> real \<times> llm_reply) \<Rightarrow> string \<Rightarrow> attempt \<times> real \<times> nat" where
  "complete_prompt sv post user_prompt =
     try_posts sv (post (llm_request_for sv user_prompt)) (nat (ps_retries sv)) 1 None"

definition extract_content_text :: "json \<Rightarrow> exn + string" where
  "extract_content_text data =
     bind_result (py_get data ''choices'') (\<lambda>choices.
       (case choices of
          JArr (choice # _) \<Rightarrow>
            bind_result (py_get choice ''message'') (\<lambda>message0.
            let message = py_or message0 (JObj []) in
            bind_result (py_get message ''content'') (\<lambda>content.
            bind_result (py_get message ''reasoning'') (\<lambda>reasoning.
            (case (if usable_text content then content else reasoning) of
               JStr s \<Rightarrow> if py_strip s \<noteq> [] then Inr (py_strip s)
                         else Inl (LibraryError ''PresentationServiceError: llm response had no usable content'')
             | _ \<Rightarrow> Inl (LibraryError ''PresentationServiceError: llm response had no usable content'')))))
        | _ \<Rightarrow> Inl (LibraryError ''PresentationServiceError: llm response missing choices'')))"

subsection \<open>Validating the answer\<close>

record presentation_decision =
  dc_format :: string
  dc_content :: "string option"
  dc_reason :: "string option"
  dc_column_labels :: "(string, string) dict"

definition fallback_decision :: "string \<Rightarrow> presentation_decision" where
  "fallback_decision reason =
     \<lparr>dc_format = ''table'', dc_content = None, dc_reason = Some reason, dc_column_labels = []\<rparr>"

definition nullable_str :: "string option \<Rightarrow> json" where
  "nullable_str s = (case s of None \<Rightarrow> JNull | Some t \<Rightarrow> JStr t)"

definition presentation_as_dict :: "presentation_decision \<Rightarrow> obj" where
  "presentation_as_dict d =
     [(''format'', JStr (dc_format d)), (''content'', nullable_str (dc_content d)), (''reason'', nullable_str (dc_reason d)),
      (''column_labels'', JObj (map (\<lambda>(k, v). (k, JStr v)) (dc_column_labels d)))]"

text \<open>\<open>s.split(sep, 1)[0]\<close>\<close>

fun until_text :: "string \<Rightarrow> string \<Rightarrow> string" where
  "until_text sep [] = []"
| "until_text sep (c # cs) = (if prefix sep (c # cs) then [] else c # until_text sep cs)"

definition strip_fences :: "string \<Rightarrow> string" where
  "strip_fences text =
     (let cleaned = py_strip text in
      if prefix ''```'' cleaned then
        let inner = until_text ''```'' (drop 3 cleaned);
            bare = lstrip_by is_space inner
        in py_strip (if prefix ''json'' bare then drop 4 bare else inner)
      else cleaned)"

definition parse_json_object :: "(string \<Rightarrow> json option) \<Rightarrow> string \<Rightarrow> string + obj" where
  "parse_json_object loads text =
     (let cleaned = strip_fences text;
          parsed = (case loads cleaned of
                      Some v \<Rightarrow> Some v
                    | None \<Rightarrow> (case rx_search json_object_re cleaned of
                                None \<Rightarrow> None
                              | Some m \<Rightarrow> loads (matched m)))
      in (case parsed of
            None \<Rightarrow> Inl ''response is not JSON''
          | Some (JObj d) \<Rightarrow> Inr d
          | Some _ \<Rightarrow> Inl ''response is not a JSON object''))"

definition has_numeric_column :: "obj list \<Rightarrow> bool" where
  "has_numeric_column rows \<longleftrightarrow>
     list_ex (\<lambda>row. list_ex (\<lambda>(_, v). \<not> is_bool_json v \<and> is_number_json v) row) rows"

fun numeric_forms :: "json \<Rightarrow> string list" where
  "numeric_forms (JInt i) = [int_str i]"
| "numeric_forms (JFloat r) = (if real_of_int \<lfloor>r\<rfloor> = r then [int_str \<lfloor>r\<rfloor>] else [])"
| "numeric_forms (JStr s) =
     (if rx_fullmatch dense_integer_re (py_strip s) then [filter is_digit (py_strip s)] else [])"
| "numeric_forms _ = []"

definition integer_tokens :: "string \<Rightarrow> string list" where
  "integer_tokens content =
     filter (\<lambda>t. t \<noteq> []) (map (filter is_digit)
       (filter (\<lambda>token. CHR ''.'' \<notin> set token) (rx_findall integer_token_re content)))"

definition allowed_integers :: "obj list \<Rightarrow> string list" where
  "allowed_integers rows =
     int_str (int (length rows)) # concat (map (\<lambda>row. concat (map (\<lambda>(_, v). numeric_forms v) row)) rows)"

definition integers_fit :: "string \<Rightarrow> obj list \<Rightarrow> bool" where
  "integers_fit content rows \<longleftrightarrow>
     list_all (\<lambda>t. t \<in> set (allowed_integers rows)) (integer_tokens content)"

definition is_printable :: "char \<Rightarrow> bool" where
  "is_printable c \<longleftrightarrow> (let n = py_ord c in 32 \<le> n \<and> n \<le> 126 \<or> 161 \<le> n \<and> n \<noteq> 173)"

definition clean_label :: "string \<Rightarrow> string" where
  "clean_label s =
     join '' '' (split_words [] (concat (map (\<lambda>c. if is_printable c then [c] else if is_space c then '' '' else []) s)))"

definition label_step :: "obj list \<Rightarrow> (string, string) dict \<Rightarrow> string \<times> json \<Rightarrow> (string, string) dict" where
  "label_step rows labels kv =
     (case kv of
        (key, JStr s) \<Rightarrow>
          if list_ex (\<lambda>row. dict_has row key) rows \<and> clean_label s \<noteq> []
          then dict_set labels key (take 60 (clean_label s)) else labels
      | _ \<Rightarrow> labels)"

definition validated_column_labels :: "json \<Rightarrow> obj list \<Rightarrow> (string, string) dict" where
  "validated_column_labels raw rows =
     (case raw of
        JObj d \<Rightarrow> if rows = [] then [] else foldl (label_step rows) [] d
      | _ \<Rightarrow> [])"

definition stripped_text :: "json \<Rightarrow> string option" where
  "stripped_text v = (case v of JStr s \<Rightarrow> if py_strip s \<noteq> [] then Some (py_strip s) else None | _ \<Rightarrow> None)"

definition validate_decision :: "(string \<Rightarrow> json option) \<Rightarrow> string \<Rightarrow> obj list \<Rightarrow> string + presentation_decision" where
  "validate_decision loads content_text rows =
     (case parse_json_object loads content_text of
        Inl e \<Rightarrow> Inl e
      | Inr data \<Rightarrow>
          (case obj_get data ''format'' of
             JStr raw \<Rightarrow>
               let fmt = py_lower (py_strip raw);
                   reason = (case obj_get data ''reason'' of
                               JStr s \<Rightarrow> if py_strip s \<noteq> [] then Some s else None
                             | _ \<Rightarrow> None);
                   content = stripped_text (obj_get data ''content'')
               in if fmt \<notin> set supported_formats then Inl (''unsupported format '' @ fmt)
                  else if fmt = ''paragraph'' \<and> content = None then Inl ''paragraph requires non-empty content''
                  else if fmt = ''chart'' \<and> \<not> has_numeric_column rows
                    then Inl ''chart plan has no numeric column to plot''
                  else if (case content of None \<Rightarrow> False | Some c \<Rightarrow> \<not> integers_fit c rows)
                    then Inl ''content invents values not present in the result''
                  else Inr \<lparr>dc_format = fmt, dc_content = content, dc_reason = reason,
                            dc_column_labels = validated_column_labels (obj_get data ''column_labels'') rows\<rparr>
           | _ \<Rightarrow> Inl ''missing format''))"

subsection \<open>The decision\<close>

text \<open>An answer at or after the deadline is a timeout.\<close>

definition decide_presentation ::
    "presentation_lib \<Rightarrow> presenter \<Rightarrow> (llm_request \<Rightarrow> nat \<Rightarrow> real \<times> llm_reply) \<Rightarrow> string option \<Rightarrow> string
      \<Rightarrow> obj list option \<Rightarrow> exn + presentation_decision option" where
  "decide_presentation lib sv post question sql rows0 =
     (let rows = (case rows0 of None \<Rightarrow> [] | Some r \<Rightarrow> r) in
      if \<not> ps_enabled sv \<or> ps_api_key sv = [] \<or> rows = [] then Inr None
      else
        let cx = build_context lib sv question sql rows;
            deadline = ps_request_timeout sv * real_of_int (max 1 (ps_retries sv))
        in (case complete_prompt sv post (cx_prompt cx) of
              (outcome, elapsed, posts) \<Rightarrow>
                if deadline \<le> elapsed then Inr (Some (fallback_decision ''llm request timed out''))
                else (case outcome of
                        Completed data \<Rightarrow>
                          bind_result (extract_content_text data) (\<lambda>content_text.
                            (case validate_decision (pl_loads lib) content_text (cx_sample_rows cx) of
                               Inl e \<Rightarrow> Inr (Some (fallback_decision e))
                             | Inr d \<Rightarrow> Inr (Some d)))
                      | Failed e \<Rightarrow> Inr (Some (fallback_decision e))
                      | Retry e \<Rightarrow> Inr (Some (fallback_decision e))
                      | Escaped e \<Rightarrow> Inl e)))"

subsection \<open>The payload\<close>

lemma shrink_sample_longest:
  assumes "shrink_sample dumps limit sample truncated = (sample', truncated')"
  shows "\<exists>n \<le> length sample. sample' = take n sample \<and> (n = 0 \<or> int (utf8_length (dumps sample')) \<le> limit) \<and>
     (\<forall>m. n < m \<and> m \<le> length sample \<longrightarrow> int (utf8_length (dumps (take m sample))) > limit) \<and>
     (truncated' \<longleftrightarrow> truncated \<or> n < length sample)"
using assms
proof (induction dumps limit sample truncated rule: shrink_sample.induct)
  case (1 dumps limit sample truncated)
  show ?case
  proof (cases "sample = [] \<or> int (utf8_length (dumps sample)) \<le> limit")
    case True
    then show ?thesis
      using 1(2) by (subst (asm) shrink_sample.simps) (auto intro!: exI[of _ "length sample"])
  next
    case False
    then have "shrink_sample dumps limit (butlast sample) True = (sample', truncated')"
      using 1(2) by (subst (asm) shrink_sample.simps) (simp split: if_splits)
    from 1(1)[OF False this] obtain n where n: "n \<le> length (butlast sample)" "sample' = take n (butlast sample)"
      "n = 0 \<or> int (utf8_length (dumps sample')) \<le> limit" "truncated'"
      "\<forall>m. n < m \<and> m \<le> length (butlast sample) \<longrightarrow> int (utf8_length (dumps (take m (butlast sample)))) > limit"
      by blast
    have less: "n < length sample"
      using n(1) False by (metis length_butlast length_greater_0_conv diff_less le_less_trans zero_less_one)
    have take_butlast: "take m (butlast sample) = take m sample" if "m < length sample" for m
      using that by (simp add: take_butlast)
    have "int (utf8_length (dumps (take m sample))) > limit" if "n < m" "m \<le> length sample" for m
      using n(5) that False take_butlast[of m] by (cases "m = length sample") auto
    then show ?thesis
      using n(2-4) less take_butlast[OF less] by (intro exI[of _ n]) auto
  qed
qed

definition short_cells :: "nat \<Rightarrow> obj \<Rightarrow> bool" where
  "short_cells limit row \<longleftrightarrow> list_all (\<lambda>(_, v). case v of JStr s \<Rightarrow> length s \<le> limit | _ \<Rightarrow> True) row"

lemma truncate_row_short: "0 < limit \<Longrightarrow> short_cells limit (truncate_row e limit row)"
proof -
  assume "0 < limit"
  then have "case truncate_cell e limit v of JStr s \<Rightarrow> length s \<le> limit | _ \<Rightarrow> True" for v
    by (cases v) auto
  then show ?thesis
    by (auto simp: short_cells_def truncate_row_def list_all_iff)
qed

lemma truncate_row_keys [simp]: "map fst (truncate_row e limit row) = map fst row"
  by (auto simp: truncate_row_def)

lemma presenter_init_limits:
  assumes "presenter_init os path arg = Inr sv"
  shows "1 \<le> ps_max_sample_rows sv" "10 \<le> ps_max_cell_chars sv" "512 \<le> ps_max_payload_bytes sv"
    "1 \<le> ps_retries sv" "1/10 \<le> ps_request_timeout sv" "1/10 \<le> ps_backoff_base sv"
  using assms by (auto simp: presenter_init_def)

lemma build_context_sample:
  "\<exists>n \<le> length rows. n \<le> nat (ps_max_sample_rows sv) \<and>
     cx_sample_rows (build_context lib sv q sql rows) =
       map (truncate_row (pl_ellipsis lib) (nat (ps_max_cell_chars sv))) (take n rows) \<and>
     (n = 0 \<or> int (utf8_length (pl_dumps lib (cx_sample_rows (build_context lib sv q sql rows)))) \<le> ps_max_payload_bytes sv) \<and>
     (\<forall>m. n < m \<and> m \<le> length rows \<and> m \<le> nat (ps_max_sample_rows sv) \<longrightarrow>
        int (utf8_length (pl_dumps lib (map (truncate_row (pl_ellipsis lib) (nat (ps_max_cell_chars sv))) (take m rows))))
          > ps_max_payload_bytes sv)"
proof -
  let ?s = "map (truncate_row (pl_ellipsis lib) (nat (ps_max_cell_chars sv))) (take (nat (ps_max_sample_rows sv)) rows)"
  obtain s' t' where r: "shrink_sample (pl_dumps lib) (ps_max_payload_bytes sv) ?s (length rows > length ?s) = (s', t')"
    by fastforce
  from shrink_sample_longest[OF r] obtain n where n: "n \<le> length ?s" "s' = take n ?s"
    "n = 0 \<or> int (utf8_length (pl_dumps lib s')) \<le> ps_max_payload_bytes sv"
    "\<forall>m. n < m \<and> m \<le> length ?s \<longrightarrow> int (utf8_length (pl_dumps lib (take m ?s))) > ps_max_payload_bytes sv"
    by blast
  have s: "cx_sample_rows (build_context lib sv q sql rows) = s'"
    using r by (simp add: build_context_def Let_def)
  show ?thesis
    unfolding s using n by (intro exI[of _ n]) (auto simp: take_map)
qed

subsection \<open>The retries\<close>

definition retryable :: "llm_reply \<Rightarrow> bool" where
  "retryable r \<longleftrightarrow> (case judge_reply r of Retry _ \<Rightarrow> True | _ \<Rightarrow> False)"

lemma try_posts_stops:
  assumes "try_posts sv post n k last_error = (out, t, posts)"
  shows "posts \<le> n \<and> (\<forall>i < posts. i + 1 < posts \<longrightarrow> retryable (snd (post (k + i)))) \<and>
     (if 0 < posts \<and> \<not> retryable (snd (post (k + posts - 1))) then out = judge_reply (snd (post (k + posts - 1)))
      else posts = n \<and> (\<exists>e. out = Failed e))"
using assms
proof (induction n arbitrary: k last_error out t posts)
  case 0
  then show ?case by auto
next
  case (Suc n)
  obtain d reply where p: "post k = (d, reply)"
    by fastforce
  show ?case
  proof (cases "retryable reply")
    case True
    then obtain e where e: "judge_reply reply = Retry e"
      by (auto simp: retryable_def split: attempt.splits)
    obtain r t' posts' where rest: "try_posts sv post n (Suc k) (Some e) = (r, t', posts')"
      by (cases "try_posts sv post n (Suc k) (Some e)")
    then have o: "out = r" "posts = Suc posts'"
      using Suc.prems p e by auto
    have "retryable (snd (post (k + i)))" if "i < posts" "i + 1 < posts" for i
      using Suc.IH[OF rest] p True that o(2) by (cases i) auto
    then show ?thesis
      using Suc.IH[OF rest] p True o by (cases posts') auto
  next
    case False
    then have "out = judge_reply reply \<and> posts = 1"
      using Suc.prems p by (auto simp: retryable_def split: attempt.splits)
    then show ?thesis
      using p False by simp
  qed
qed

lemma extract_after_completion:
  assumes "completion_content data = Inr c" and "usable_text c"
  shows "\<exists>s. c = JStr s \<and> extract_content_text data = Inr (py_strip s)"
proof -
  obtain d where d: "data = JObj d"
    using assms(1) by (cases data) (auto simp: completion_content_def)
  have t: "truthy (obj_get d ''choices'')"
    using assms d by (auto simp: completion_content_def py_or_def split: if_splits)
  with assms(1) d obtain choice rest where ch: "obj_get d ''choices'' = JArr (choice # rest)"
    by (cases "obj_get d ''choices''" rule: index_zero.cases) (auto simp: completion_content_def py_or_def)
  with assms(1) d t obtain msg m0 where m: "py_get choice ''message'' = Inr msg"
    "py_get (py_or msg (JObj [])) ''content'' = Inr m0" "c = py_or m0 (JStr [])"
    by (auto simp: completion_content_def py_or_def)
  then obtain m where o: "py_or msg (JObj []) = JObj m" "m0 = obj_get m ''content''"
    by (cases "py_or msg (JObj [])") auto
  obtain s where s: "c = JStr s"
    using assms(2) by (cases c) auto
  then have "obj_get m ''content'' = JStr s"
    using m(3) o(2) assms(2) by (auto simp: py_or_def split: if_splits)
  then show ?thesis
    using d ch m o s assms(2) by (simp add: extract_content_text_def)
qed

subsection \<open>The guards\<close>

lemma digit_or_comma_tail: "rx_fullmatch dense_integer_re s \<Longrightarrow> c \<in> set s \<Longrightarrow> digit_or_comma c"
proof -
  assume m: "rx_fullmatch dense_integer_re s" and c: "c \<in> set s"
  obtain p where p: "p \<in> set (rx_match (Rx_Cls is_digit) (rx_start s))" "\<exists>q \<in> set (rx_match (rx_star digit_or_comma) p). rp_after q = []"
    using m by (auto simp: rx_fullmatch_def rx_matches_def dense_integer_re_def split: if_splits)
  then have "\<exists>d. s = d # rp_after p \<and> is_digit d"
    by (auto simp: rx_start_def split: list.splits if_splits)
  moreover have "\<forall>x \<in> set (rp_after p). digit_or_comma x"
    using p(2) rx_star_end_iff by blast
  ultimately show ?thesis
    using c by (auto simp: digit_or_comma_def)
qed

lemma strip_keeps_end: "\<not> is_space e \<Longrightarrow> e \<in> set (py_strip (xs @ [e]))"
proof -
  assume "\<not> is_space e"
  then have "\<exists>ys. dropWhile is_space (xs @ [e]) = ys @ [e]"
    by (induction xs) auto
  then show ?thesis
    using \<open>\<not> is_space e\<close> by (auto simp: py_strip_def strip_by_def lstrip_by_def rstrip_by_def)
qed

text \<open>A cut cell ends with the ellipsis, so it never counts as a number.\<close>

lemma truncate_cell_forms:
  assumes "\<not> digit_or_comma e" and "\<not> is_space e"
  shows "set (numeric_forms (truncate_cell e limit v)) \<subseteq> set (numeric_forms v)"
proof (cases v)
  case (JStr s)
  have "\<not> rx_fullmatch dense_integer_re (py_strip (take (limit - 1) s @ [e]))"
    using strip_keeps_end[OF assms(2)] digit_or_comma_tail assms(1) by blast
  then show ?thesis
    using JStr by simp
qed simp_all

lemma truncate_cell_number: "is_bool_json (truncate_cell e l v) = is_bool_json v" "is_number_json (truncate_cell e l v) = is_number_json v"
  by (cases v; simp)+

lemma sample_rows_of:
  "row \<in> set (cx_sample_rows (build_context lib sv q sql rows)) \<Longrightarrow>
     \<exists>row0 \<in> set rows. row = truncate_row (pl_ellipsis lib) (nat (ps_max_cell_chars sv)) row0"
proof -
  assume r: "row \<in> set (cx_sample_rows (build_context lib sv q sql rows))"
  obtain n where "cx_sample_rows (build_context lib sv q sql rows) =
      map (truncate_row (pl_ellipsis lib) (nat (ps_max_cell_chars sv))) (take n rows)"
    using build_context_sample by blast
  then obtain row0 where "row0 \<in> set (take n rows)" "row = truncate_row (pl_ellipsis lib) (nat (ps_max_cell_chars sv)) row0"
    using r by auto
  then show ?thesis
    using in_set_takeD by fast
qed

lemma set_split_words: "w \<in> set (split_words acc s) \<Longrightarrow> set w \<subseteq> set acc \<union> set s"
  by (induction acc s arbitrary: w rule: split_words.induct) (force split: if_splits)+

lemma set_join: "set (join sep xs) \<subseteq> set sep \<union> (\<Union>x \<in> set xs. set x)"
  by (induction sep xs rule: join.induct) auto

lemma clean_label_printable: "c \<in> set (clean_label s) \<Longrightarrow> is_printable c"
proof -
  assume "c \<in> set (clean_label s)"
  moreover have "is_printable CHR '' ''"
    by (simp add: is_printable_def py_ord_def)
  moreover have "set (clean_label s) \<subseteq> {CHR '' ''} \<union> {c \<in> set s. is_printable c}"
    unfolding clean_label_def using set_join[of "'' ''"] set_split_words[of _ "[]"]
    by (fastforce split: if_splits)
  ultimately show ?thesis
    by auto
qed

definition label_ok :: "obj list \<Rightarrow> string \<times> string \<Rightarrow> bool" where
  "label_ok rows kl \<longleftrightarrow>
     (\<exists>row \<in> set rows. dict_has row (fst kl)) \<and> snd kl \<noteq> [] \<and> length (snd kl) \<le> 60 \<and> list_all is_printable (snd kl)"

lemma labels_ok: "list_all (label_ok rows) (validated_column_labels raw rows)"
proof -
  have step: "list_all (label_ok rows) (label_step rows labels kv)" if "list_all (label_ok rows) labels" for labels kv
  proof -
    obtain k v where kv: "kv = (k, v)"
      by fastforce
    show ?thesis
    proof (cases v)
      case (JStr s)
      have "label_ok rows (k, take 60 (clean_label s))" if "list_ex (\<lambda>row. dict_has row k) rows" "clean_label s \<noteq> []"
        using that clean_label_printable[of _ s]
        by (auto simp: label_ok_def list_ex_iff list_all_iff dest: in_set_takeD)
      then show ?thesis
        using \<open>list_all (label_ok rows) labels\<close> set_dict_set_subset[of labels k "take 60 (clean_label s)"] kv JStr
        by (auto simp: label_step_def list_all_iff)
    qed (use that kv in \<open>auto simp: label_step_def\<close>)
  qed
  have fold: "list_all (label_ok rows) labels \<Longrightarrow> list_all (label_ok rows) (foldl (label_step rows) labels d)" for labels d
  proof (induction d arbitrary: labels)
    case (Cons kv d)
    then show ?case using Cons.IH[OF step[OF Cons.prems]] by simp
  qed simp
  show ?thesis
    unfolding validated_column_labels_def using fold[of "[]"] by (auto split: json.splits)
qed

lemma validate_decision_guards:
  assumes "validate_decision loads t rows = Inr d"
  shows "dc_format d \<in> set supported_formats" "dc_format d = ''paragraph'' \<Longrightarrow> dc_content d \<noteq> None"
    "dc_format d = ''chart'' \<Longrightarrow> has_numeric_column rows"
    "dc_content d = Some c \<Longrightarrow> integers_fit c rows" "dc_content d = Some c \<Longrightarrow> c \<noteq> []"
    "list_all (label_ok rows) (dc_column_labels d)"
proof -
  obtain data where data: "parse_json_object loads t = Inr data"
    using assms by (cases "parse_json_object loads t") (simp_all add: validate_decision_def)
  obtain raw where raw: "obj_get data ''format'' = JStr raw"
    using assms data by (cases "obj_get data ''format''") (simp_all add: validate_decision_def)
  define fmt content where "fmt = py_lower (py_strip raw)" and "content = stripped_text (obj_get data ''content'')"
  note checks = assms[unfolded validate_decision_def data raw sum.case json.case Let_def, folded fmt_def content_def]
  from checks have g: "fmt \<in> set supported_formats" "\<not> (fmt = ''paragraph'' \<and> content = None)"
    "\<not> (fmt = ''chart'' \<and> \<not> has_numeric_column rows)"
    "\<not> (case content of None \<Rightarrow> False | Some c \<Rightarrow> \<not> integers_fit c rows)"
    unfolding guard_Inr not_not by blast+
  have "dc_format d = fmt \<and> dc_content d = content \<and>
      dc_column_labels d = validated_column_labels (obj_get data ''column_labels'') rows"
    using checks unfolding guard_Inr sum.inject by (elim conjE) (erule subst, simp)
  moreover have "content = Some c \<Longrightarrow> c \<noteq> []"
    unfolding content_def by (auto simp: stripped_text_def split: json.splits if_splits)
  ultimately show "dc_format d \<in> set supported_formats" "dc_format d = ''paragraph'' \<Longrightarrow> dc_content d \<noteq> None"
    "dc_format d = ''chart'' \<Longrightarrow> has_numeric_column rows"
    "dc_content d = Some c \<Longrightarrow> integers_fit c rows" "dc_content d = Some c \<Longrightarrow> c \<noteq> []"
    "list_all (label_ok rows) (dc_column_labels d)"
    using labels_ok g by simp_all
qed

text \<open>Whatever the endpoint answers, a decision is the table fallback or has passed the guards on the sample.\<close>

lemma decide_presentation_cases:
  assumes "decide_presentation lib sv post q sql rows0 = Inr (Some d)"
  shows "\<exists>rows. rows0 = Some rows \<and> rows \<noteq> [] \<and> ps_enabled sv \<and> ps_api_key sv \<noteq> [] \<and>
    ((\<exists>e. d = fallback_decision e) \<or>
     (\<exists>t. validate_decision (pl_loads lib) t (cx_sample_rows (build_context lib sv q sql rows)) = Inr d))"
proof -
  have fall: "(case r of Inl e \<Rightarrow> Inr (Some (fallback_decision e)) | Inr d' \<Rightarrow> Inr (Some d')) = (Inr (Some d) :: exn + _) \<longleftrightarrow>
      (\<exists>e. r = Inl e \<and> d = fallback_decision e) \<or> r = Inr d" for r
    by (cases r) auto
  show ?thesis
    using assms by (auto simp: decide_presentation_def Let_def fall split: if_splits option.splits prod.splits attempt.splits)
qed

subsection \<open>An example\<close>

text \<open>A count of three for one department, answered in a paragraph.\<close>

definition example_answer :: json where
  "example_answer =
     JObj [(''format'', JStr ''paragraph''), (''content'', JStr ''HR has 3 people.''),
           (''column_labels'', JObj [(''n'', JStr ''Head count''), (''secret'', JStr ''Key'')])]"

definition example_lib :: presentation_lib where
  "example_lib =
     \<lparr>pl_dumps = (\<lambda>rows. replicate (20 * length rows) CHR ''x''),
      pl_loads = (\<lambda>text. if text = ''{}'' then Some example_answer else None), pl_ellipsis = CHR ''.''\<rparr>"

definition example_presenter :: presenter where
  "example_presenter =
     \<lparr>ps_system_prompt = ''Plan.'', ps_enabled = True, ps_api_key = ''key'', ps_base_url = ''https://llm'', ps_model = ''m'',
      ps_max_tokens = 300, ps_request_timeout = 30, ps_retries = 3, ps_backoff_base = 2, ps_disable_reasoning = True,
      ps_max_sample_rows = 20, ps_max_cell_chars = 80, ps_max_payload_bytes = 512, ps_max_sql_chars = 100\<rparr>"

definition example_completion :: "string \<Rightarrow> json" where
  "example_completion text = JObj [(''choices'', JArr [JObj [(''message'', JObj [(''content'', JStr text)])]])]"

definition example_post :: "llm_request \<Rightarrow> nat \<Rightarrow> real \<times> llm_reply" where
  "example_post rq k =
     (if k = 1 then (1, Http_Response 429 (Inr JNull)) else (1, Http_Response 200 (Inr (example_completion ''{}''))))"

definition example_rows :: "obj list" where
  "example_rows = [[(''dept'', JStr ''HR''), (''n'', JInt 3)]]"

definition example_paragraph :: presentation_decision where
  "example_paragraph =
     \<lparr>dc_format = ''paragraph'', dc_content = Some ''HR has 3 people.'', dc_reason = None,
      dc_column_labels = [(''n'', ''Head count'')]\<rparr>"

lemma example_complete: "complete_prompt example_presenter example_post p = (Completed (example_completion ''{}''), 4, 2)"
  by (simp add: complete_prompt_def example_post_def example_presenter_def eval_nat_numeral example_completion_def
      completion_content_def py_or_def py_strip_def strip_by_def lstrip_by_def rstrip_by_def is_space_def py_ord_def)

lemma example_sample:
  "cx_sample_rows (build_context example_lib example_presenter q sql example_rows) = example_rows"
  by (simp add: build_context_def example_rows_def example_presenter_def example_lib_def truncate_row_def
      shrink_sample.simps Let_def utf8_length_def eval_nat_numeral py_ord_def)

lemma example_validated: "validate_decision (pl_loads example_lib) ''{}'' example_rows = Inr example_paragraph"
  by code_simp

lemma example_extract: "extract_content_text (example_completion ''{}'') = Inr ''{}''"
  by code_simp

lemma example_decide:
  "decide_presentation example_lib example_presenter example_post q sql (Some example_rows) = Inr (Some example_paragraph)"
proof -
  have "example_rows \<noteq> []"
    by (simp add: example_rows_def)
  then show ?thesis
    unfolding decide_presentation_def Let_def example_complete
    by (simp add: example_sample example_extract example_validated) (simp add: example_presenter_def)
qed

subsection \<open>Properties\<close>

text \<open>C22. Every decision that reaches the client is well formed, whatever the model answered: its format is
  one of the four, a paragraph has wording, a chart has a numeric column in the result, and every
  column label names a column of the result and is a non-empty printable text of at most 60
  characters.\<close>

theorem presentation_decision_wellformed:
  assumes "decide_presentation lib sv post question sql (Some rows) = Inr (Some d)"
  shows "dc_format d \<in> set supported_formats \<and>
    (dc_format d = ''paragraph'' \<longrightarrow> (\<exists>c. dc_content d = Some c \<and> c \<noteq> [])) \<and>
    (dc_format d = ''chart'' \<longrightarrow> has_numeric_column rows) \<and>
    list_all (label_ok rows) (dc_column_labels d)"
proof -
  let ?sample = "cx_sample_rows (build_context lib sv question sql rows)"
  have keys: "dict_has (truncate_row e l row) k \<longleftrightarrow> dict_has row k" for e l row and k :: string
    using truncate_row_keys[of e l row] by (metis dict_has_def map_of_eq_None_iff list.set_map)
  have labels: "label_ok ?sample kl \<Longrightarrow> label_ok rows kl" for kl
    unfolding label_ok_def using sample_rows_of[of _ lib sv question sql rows] keys by fast
  have numbers: "has_numeric_column ?sample \<Longrightarrow> has_numeric_column rows"
    using sample_rows_of[of _ lib sv question sql rows]
    by (fastforce simp: has_numeric_column_def list_ex_iff truncate_row_def truncate_cell_number)
  from decide_presentation_cases[OF assms] consider e where "d = fallback_decision e"
    | t where "validate_decision (pl_loads lib) t ?sample = Inr d"
    by auto
  then show ?thesis
  proof cases
    case 1
    then show ?thesis by (simp add: fallback_decision_def supported_formats_def)
  next
    case 2
    note guards = validate_decision_guards[OF 2]
    show ?thesis
      using guards(1-3,5,6) numbers labels by (auto simp: list_all_iff)
  qed
qed

theorem presentation_decision_wellformed_witness:
  "dc_format example_paragraph \<in> set supported_formats \<and> list_all (label_ok example_rows) (dc_column_labels example_paragraph)"
  using presentation_decision_wellformed[OF example_decide] by blast



text \<open>What leaves the service is bounded, and no smaller than it has to be: the sample is the longest
  prefix of the result within the row limit whose encoding fits the byte limit, with every text cell
  cut to the cell limit.\<close>

theorem presentation_payload_bounded:
  assumes "presenter_init os path arg = Inr sv"
  shows "\<exists>n \<le> nat (ps_max_sample_rows sv).
    (let cut = (\<lambda>m. map (truncate_row (pl_ellipsis lib) (nat (ps_max_cell_chars sv))) (take m rows));
         bytes = (\<lambda>sample. int (utf8_length (pl_dumps lib sample)));
         sample = cx_sample_rows (build_context lib sv question sql rows)
     in sample = cut n \<and> (sample = [] \<or> bytes sample \<le> ps_max_payload_bytes sv) \<and>
        list_all (short_cells (nat (ps_max_cell_chars sv))) sample \<and>
        (\<forall>m. n < m \<and> m \<le> length rows \<and> m \<le> nat (ps_max_sample_rows sv) \<longrightarrow> bytes (cut m) > ps_max_payload_bytes sv))"
proof -
  have "list_all (short_cells (nat (ps_max_cell_chars sv)))
      (map (truncate_row (pl_ellipsis lib) (nat (ps_max_cell_chars sv))) xs)" for xs
    using presenter_init_limits(2)[OF assms] truncate_row_short[of "nat (ps_max_cell_chars sv)"] by (simp add: list_all_iff)
  then show ?thesis
    using build_context_sample[of rows sv lib question sql] by (auto simp: Let_def)
qed

definition prompt_os :: os_state where
  "prompt_os = \<lparr>os_env = [], os_files = (\<lambda>_. File_Text ''Plan.'')\<rparr>"

lemma example_presenter_init: "presenter_init prompt_os ''system.txt'' example_presenter = Inr example_presenter"
  by (simp add: presenter_init_def example_presenter_def rstrip_by_def)

theorem presentation_payload_bounded_witness:
  "\<exists>n \<le> nat (ps_max_sample_rows example_presenter).
     cx_sample_rows (build_context example_lib example_presenter None [] example_rows) =
       map (truncate_row (pl_ellipsis example_lib) (nat (ps_max_cell_chars example_presenter))) (take n example_rows)"
  using presentation_payload_bounded[OF example_presenter_init, of example_lib example_rows None "[]"] by (auto simp: Let_def)

text \<open>The retry loop ends: it posts at least once and at most \<open>retries\<close> times, goes on only after an
  answer that may be retried (408, 429 or empty content), ends with the verdict on the first other
  answer, and otherwise fails after exactly \<open>retries\<close> posts.\<close>

theorem presentation_retries_end:
  assumes "presenter_init os path arg = Inr sv" and "complete_prompt sv post prompt = (out, elapsed, posts)"
  shows "1 \<le> posts \<and> int posts \<le> ps_retries sv \<and>
    (let reply = (\<lambda>k. snd (post (llm_request_for sv prompt) k)) in
     (\<forall>k. 1 \<le> k \<and> k < posts \<longrightarrow> retryable (reply k)) \<and>
     (if retryable (reply posts) then int posts = ps_retries sv \<and> (\<exists>e. out = Failed e)
      else out = judge_reply (reply posts)))"
proof -
  have pos: "1 \<le> ps_retries sv"
    using presenter_init_limits(4)[OF assms(1)] .
  let ?reply = "\<lambda>k. snd (post (llm_request_for sv prompt) k)"
  have t: "posts \<le> nat (ps_retries sv)" "\<forall>i < posts. i + 1 < posts \<longrightarrow> retryable (?reply (1 + i))"
    "if 0 < posts \<and> \<not> retryable (?reply (1 + posts - 1)) then out = judge_reply (?reply (1 + posts - 1))
     else posts = nat (ps_retries sv) \<and> (\<exists>e. out = Failed e)"
    using try_posts_stops[OF assms(2)[unfolded complete_prompt_def]] by blast+
  then have "1 \<le> posts"
    using pos by (cases posts) auto
  moreover have "retryable (?reply k)" if "1 \<le> k" "k < posts" for k
    using t(2)[rule_format, of "k - 1"] that by simp
  moreover have "if retryable (?reply posts) then posts = nat (ps_retries sv) \<and> (\<exists>e. out = Failed e)
      else out = judge_reply (?reply posts)"
    using t(3) calculation(1) by simp
  ultimately show ?thesis
    using t(1) pos by (auto simp: Let_def)
qed

theorem presentation_retries_end_witness:
  "int 2 \<le> ps_retries example_presenter \<and> retryable (snd (example_post (llm_request_for example_presenter []) 1))"
  using presentation_retries_end[OF example_presenter_init example_complete[of "[]"]] by (simp add: Let_def)

subsection \<open>Where code and documentation part\<close>

text \<open>The documentation has every failure of the endpoint degrade to no decision. It degrades to a table
  decision whose reason, shown to the client, is the text of the error; no decision at all means
  that the service is off, has no key, or the result is empty.\<close>

lemma decide_presentation_None_iff:
  "decide_presentation lib sv post question sql (Some rows) = Inr None \<longleftrightarrow>
     \<not> ps_enabled sv \<or> ps_api_key sv = [] \<or> rows = []"
  by (auto simp: decide_presentation_def Let_def split: if_splits prod.splits attempt.splits sum.splits)

text \<open>Nor does only a cancellation propagate: an answer that is JSON but not an object raises out of \<open>decide\<close>.\<close>

lemma array_answer_escapes:
  "decide_presentation example_lib example_presenter (\<lambda>_ _. (1, Http_Response 200 (Inr (JArr [])))) question sql
     (Some example_rows) = Inl (AttributeError ''get'')"
proof -
  have "complete_prompt example_presenter (\<lambda>_ _. (1, Http_Response 200 (Inr (JArr [])))) p = (Escaped (AttributeError ''get''), 1, 1)" for p
    by (simp add: complete_prompt_def example_presenter_def eval_nat_numeral completion_content_def)
  then show ?thesis
    by (simp add: decide_presentation_def Let_def) (simp add: example_presenter_def example_rows_def)
qed

text \<open>The guard keeps the sign of a cell and drops it from the wording: a negative result cannot be told.\<close>

lemma negative_results_rejected: "\<not> integers_fit ''The balance is -5.'' [[(''balance'', JInt (- 5))]]"
  by code_simp

end
