(* ===== verification/Schema_View.thy ===== *)
theory Schema_View
  imports Opa Py_Regex
begin

text \<open>
  What a principal learns about the schema. First schema introspection and the lookup of schema
  embeddings in sql\_query\_api/repositories/sql\_query\_repository.py, then the pruning of both to the
  principal's effective access in sql\_query\_api/routes/sql\_query\_controller.py. The answers of the
  database to the catalogue queries are the record \<open>catalog\<close>: the PRAGMA statements take the quoted
  name that is put into their text, the PostgreSQL queries are parametrised by schema and table.
\<close>

subsection \<open>Introspection\<close>

text \<open>A row is a sequence of named values; \<open>dr_mapping\<close> says whether it offers them as a mapping.\<close>

record db_row =
  dr_cells :: obj
  dr_mapping :: bool

record catalog =
  ca_dialect :: string
  ca_sqlite_tables :: "exn + string list"
  ca_table_info :: "string \<Rightarrow> exn + db_row list"
  ca_foreign_key_list :: "string \<Rightarrow> exn + db_row list"
  ca_pg_tables :: "exn + (string \<times> string) list"
  ca_pg_columns :: "string \<Rightarrow> string \<Rightarrow> exn + (string \<times> string \<times> string) list"
  ca_pg_primary :: "string \<Rightarrow> string \<Rightarrow> exn + string list"
  ca_pg_foreign :: "string \<Rightarrow> string \<Rightarrow> exn + (string \<times> string \<times> string \<times> string) list"

record schema_column =
  sc_column :: string
  sc_data_type :: string
  sc_nullable :: bool
  sc_primary :: bool

record foreign_key =
  fk_column :: string
  fk_foreign_schema :: string
  fk_foreign_table :: string
  fk_foreign_column :: string

record schema_table =
  st_name :: string
  st_schema :: string
  st_columns :: "schema_column list"
  st_foreign_keys :: "foreign_key list"

definition row_at :: "db_row \<Rightarrow> nat \<Rightarrow> exn + json" where
  "row_at row i = (if i < length (dr_cells row) then Inr (snd (dr_cells row ! i)) else Inl (LibraryError ''IndexError''))"

fun equals_zero :: "json \<Rightarrow> bool" where
  "equals_zero (JInt i) = (i = 0)"
| "equals_zero (JBool b) = (\<not> b)"
| "equals_zero (JFloat r) = (r = 0)"
| "equals_zero _ = False"

fun above_zero :: "json \<Rightarrow> exn + bool" where
  "above_zero (JInt i) = Inr (i > 0)"
| "above_zero (JBool b) = Inr b"
| "above_zero (JFloat r) = Inr (r > 0)"
| "above_zero _ = Inl TypeError"

definition table_name_rx :: rx where
  "table_name_rx =
     rx_cat [Rx_Start, Rx_Cls (\<lambda>c. is_ascii_alpha c \<or> c = CHR ''_''),
       rx_star (\<lambda>c. is_ascii_alpha c \<or> is_digit c \<or> c = CHR ''_''), Rx_End]"

definition quote_identifier :: "string \<Rightarrow> string" where
  "quote_identifier name = ''\"'' @ replace_char CHR 0x22 ''\"\"'' name @ ''\"''"

definition sqlite_column :: "(json \<Rightarrow> string) \<Rightarrow> db_row \<Rightarrow> exn + schema_column" where
  "sqlite_column rep row =
     bind_result
       (if dr_mapping row then Inr (dr_cells row)
        else bind_result (row_at row 1) (\<lambda>name. bind_result (row_at row 2) (\<lambda>ty.
             bind_result (row_at row 3) (\<lambda>notnull. bind_result (row_at row 5) (\<lambda>pk.
             bind_result (above_zero pk) (\<lambda>primary.
               Inr [(''name'', name), (''type'', ty), (''nullable'', JBool (equals_zero notnull)),
                    (''is_primary'', JBool primary)]))))))
       (\<lambda>d.
     bind_result (if dict_has d ''pk'' then above_zero (obj_get d ''pk'')
                  else Inr (truthy (obj_get_or d ''is_primary'' (JBool False)))) (\<lambda>primary.
       Inr \<lparr>sc_column = py_str rep (obj_get_or d ''name'' (JStr [])),
            sc_data_type = py_str rep (obj_get_or d ''type'' (JStr ''TEXT'')),
            sc_nullable = (if dict_has d ''notnull'' then equals_zero (obj_get d ''notnull'')
                           else truthy (obj_get_or d ''nullable'' (JBool True))),
            sc_primary = primary\<rparr>))"

definition sqlite_foreign_key :: "(json \<Rightarrow> string) \<Rightarrow> db_row \<Rightarrow> exn + foreign_key" where
  "sqlite_foreign_key rep row =
     bind_result
       (if dr_mapping row then Inr (dr_cells row)
        else bind_result (row_at row 2) (\<lambda>t. bind_result (row_at row 3) (\<lambda>a. bind_result (row_at row 4) (\<lambda>b.
               Inr [(''table'', t), (''from'', a), (''to'', b)]))))
       (\<lambda>d. Inr \<lparr>fk_column = py_str rep (obj_get_or d ''from'' (JStr [])), fk_foreign_schema = ''main'',
              fk_foreign_table = py_str rep (obj_get_or d ''table'' (JStr [])),
              fk_foreign_column = py_str rep (obj_get_or d ''to'' (JStr []))\<rparr>)"

definition sqlite_table :: "(json \<Rightarrow> string) \<Rightarrow> catalog \<Rightarrow> string \<Rightarrow> exn + schema_table" where
  "sqlite_table rep cat name =
     (let quoted = quote_identifier name in
      bind_result (ca_table_info cat quoted) (\<lambda>col_rows.
      bind_result (result_map (sqlite_column rep) col_rows) (\<lambda>cols.
      bind_result (ca_foreign_key_list cat quoted) (\<lambda>fk_rows.
      bind_result (result_map (sqlite_foreign_key rep) fk_rows) (\<lambda>fks.
        Inr \<lparr>st_name = name, st_schema = ''main'', st_columns = cols, st_foreign_keys = fks\<rparr>)))))"

definition introspect_sqlite :: "(json \<Rightarrow> string) \<Rightarrow> catalog \<Rightarrow> exn + schema_table list" where
  "introspect_sqlite rep cat =
     bind_result (ca_sqlite_tables cat) (\<lambda>names.
       result_map (sqlite_table rep cat) (filter (rx_matches table_name_rx) names))"

definition pg_table :: "catalog \<Rightarrow> string \<times> string \<Rightarrow> exn + schema_table" where
  "pg_table cat row =
     (case row of (schema_name, table_name) \<Rightarrow>
        bind_result (ca_pg_columns cat schema_name table_name) (\<lambda>cols.
        bind_result (ca_pg_primary cat schema_name table_name) (\<lambda>pks.
        bind_result (ca_pg_foreign cat schema_name table_name) (\<lambda>fks.
          Inr \<lparr>st_name = table_name, st_schema = schema_name,
               st_columns = map (\<lambda>(name, ty, nullable).
                 \<lparr>sc_column = name, sc_data_type = ty, sc_nullable = (nullable = ''YES''), sc_primary = (name \<in> set pks)\<rparr>) cols,
               st_foreign_keys = map (\<lambda>(c, fs, ft, fc).
                 \<lparr>fk_column = c, fk_foreign_schema = fs, fk_foreign_table = ft, fk_foreign_column = fc\<rparr>) fks\<rparr>))))"

definition introspect_postgresql :: "catalog \<Rightarrow> exn + schema_table list" where
  "introspect_postgresql cat = bind_result (ca_pg_tables cat) (result_map (pg_table cat))"

text \<open>Every exception, that of opening the connection (\<open>conn\<close>) included, becomes one execution error.\<close>

definition introspect_schema :: "(json \<Rightarrow> string) \<Rightarrow> exn + catalog \<Rightarrow> exn + schema_table list" where
  "introspect_schema rep conn =
     (case bind_result conn (\<lambda>cat. if ca_dialect cat = ''sqlite'' then introspect_sqlite rep cat else introspect_postgresql cat) of
        Inl _ \<Rightarrow> Inl (SqlExecution ''Error introspecting database schema'')
      | Inr tables \<Rightarrow> Inr tables)"

subsection \<open>Schema embeddings\<close>

text \<open>One entry of a stored document: a table with its columns and their descriptions.\<close>

type_synonym schema_entry = "string \<times> (string \<times> string) list"

definition column_description :: "(json \<Rightarrow> string) \<Rightarrow> json \<Rightarrow> string" where
  "column_description rep info =
     (case info of
        JObj d \<Rightarrow> py_str rep (obj_get_or d ''column_description'' (JStr []))
      | v \<Rightarrow> py_str rep v)"

definition schema_entry_of :: "(json \<Rightarrow> string) \<Rightarrow> string \<times> json \<Rightarrow> exn + schema_entry" where
  "schema_entry_of rep kv =
     (case kv of
        (table_name, JObj info) \<Rightarrow>
          (case obj_get_or info ''columns'' (JObj []) of
             JObj columns \<Rightarrow> Inr (table_name, map (\<lambda>(c, v). (c, column_description rep v)) columns)
           | _ \<Rightarrow> Inl (AttributeError ''items''))
      | (table_name, _) \<Rightarrow> Inr (table_name, []))"

definition column_text :: "string \<times> string \<Rightarrow> string" where
  "column_text c = ''  '' @ fst c @ '': '' @ snd c"

definition entry_lines :: "schema_entry \<Rightarrow> string list" where
  "entry_lines e = (fst e @ '':'') # map column_text (snd e)"

definition format_single_schema :: "(json \<Rightarrow> string) \<Rightarrow> obj \<Rightarrow> exn + string list" where
  "format_single_schema rep raw_json =
     bind_result (result_map (schema_entry_of rep) raw_json) (\<lambda>es. Inr (concat (map entry_lines es)))"

definition format_schema_rows :: "(json \<Rightarrow> string) \<Rightarrow> obj list \<Rightarrow> exn + string" where
  "format_schema_rows rep rows =
     bind_result (result_map (format_single_schema rep) rows) (\<lambda>blocks.
       Inr (join [CHR 0x0A] (concat (map (\<lambda>lines. lines @ [[]]) blocks))))"

definition embedding_text :: "('f \<Rightarrow> string) \<Rightarrow> 'f list \<Rightarrow> string" where
  "embedding_text show_float embeddings = ''['' @ join '','' (map show_float embeddings) @ '']''"

text \<open>\<open>similar\<close> opens the metadata connection and runs the similarity query for the bound text of the
  embedding.\<close>

definition get_table_schema ::
    "(json \<Rightarrow> string) \<Rightarrow> ('f \<Rightarrow> string) \<Rightarrow> (string \<Rightarrow> exn + obj list) \<Rightarrow> 'f list \<Rightarrow> exn + string" where
  "get_table_schema rep show_float similar embeddings =
     (case bind_result (similar (embedding_text show_float embeddings)) (format_schema_rows rep) of
        Inl _ \<Rightarrow> Inl (SqlExecution ''Schema embeddings are unavailable'')
      | Inr t \<Rightarrow> Inr t)"

subsection \<open>Pruning to the effective access\<close>

text \<open>\<open>str.splitlines()\<close>\<close>

definition is_line_break :: "char \<Rightarrow> bool" where
  "is_line_break c \<longleftrightarrow> (let n = py_ord c in 10 \<le> n \<and> n \<le> 13 \<or> 28 \<le> n \<and> n \<le> 30 \<or> n = 133)"

fun lines_of :: "string \<Rightarrow> string \<Rightarrow> string list" where
  "lines_of acc [] = (if acc = [] then [] else [rev acc])"
| "lines_of acc (c # cs) =
     (if is_line_break c
      then rev acc # lines_of [] (if c = CHR 0x0D \<and> prefix [CHR 0x0A] cs then drop 1 cs else cs)
      else lines_of (c # acc) cs)"

definition splitlines :: "string \<Rightarrow> string list" where
  "splitlines s = lines_of [] s"

definition column_line_rx :: rx where
  "column_line_rx =
     rx_cat [Rx_Start, rx_plus is_space, Rx_Group (rx_plus (\<lambda>c. c \<noteq> CHR '':'')), rx_lit '':'']"

definition column_match :: "string \<Rightarrow> string option" where
  "column_match line =
     (case rx_match column_line_rx (rx_start line) of
        [] \<Rightarrow> None
      | q # _ \<Rightarrow> Some (group1 (rx_start line, q)))"

fun filter_lines :: "effective_access \<Rightarrow> string option \<Rightarrow> string list \<Rightarrow> string list" where
  "filter_lines ea current [] = []"
| "filter_lines ea current (raw_line # rest) =
     (if py_strip raw_line = [] then filter_lines ea current rest
      else if \<not> (prefix '' '' raw_line \<or> prefix [CHR 0x09] raw_line) then
        let candidate = py_strip (rstrip_by ((=) CHR '':'') raw_line) in
        if table_accessible ea candidate then raw_line # filter_lines ea (Some candidate) rest
        else filter_lines ea None rest
      else
        (case current of
           None \<Rightarrow> filter_lines ea None rest
         | Some t \<Rightarrow>
             if (case column_match raw_line of None \<Rightarrow> False | Some c \<Rightarrow> \<not> column_accessible ea t (py_strip c))
             then filter_lines ea current rest
             else raw_line # filter_lines ea current rest))"

definition filter_schema_text_by_access :: "string \<Rightarrow> effective_access \<Rightarrow> string" where
  "filter_schema_text_by_access schema ea =
     (if ea_unrestricted ea \<or> py_strip schema = [] then schema
      else join [CHR 0x0A] (filter_lines ea None (splitlines schema)))"

definition column_views :: "effective_access \<Rightarrow> schema_table \<Rightarrow> schema_column list" where
  "column_views ea t = filter (\<lambda>c. column_accessible ea (st_name t) (sc_column c)) (st_columns t)"

definition foreign_key_views :: "effective_access \<Rightarrow> schema_table \<Rightarrow> foreign_key list" where
  "foreign_key_views ea t =
     filter (\<lambda>fk. column_accessible ea (st_name t) (fk_column fk) \<and> table_accessible ea (fk_foreign_table fk) \<and>
        column_accessible ea (fk_foreign_table fk) (fk_foreign_column fk)) (st_foreign_keys t)"

definition schema_for_access :: "effective_access \<Rightarrow> schema_table list \<Rightarrow> schema_table list" where
  "schema_for_access ea raw =
     map (\<lambda>t. t\<lparr>st_columns := column_views ea t, st_foreign_keys := foreign_key_views ea t\<rparr>)
       (filter (\<lambda>t. table_accessible ea (st_name t)) raw)"

subsection \<open>Lines\<close>

definition clean_text :: "string \<Rightarrow> bool" where
  "clean_text s \<longleftrightarrow> list_all (\<lambda>c. \<not> is_line_break c) s"

definition clean_name :: "string \<Rightarrow> bool" where
  "clean_name n \<longleftrightarrow> n \<noteq> [] \<and> clean_text n \<and> CHR '':'' \<notin> set n \<and> \<not> is_space (hd n) \<and> \<not> is_space (last n)"

definition clean_entry :: "schema_entry \<Rightarrow> bool" where
  "clean_entry e \<longleftrightarrow> clean_name (fst e) \<and> list_all (\<lambda>c. clean_name (fst c) \<and> clean_text (snd c)) (snd e)"

lemma char_facts [simp]:
  "is_line_break CHR 0x0A" "\<not> is_line_break CHR '':''" "\<not> is_line_break CHR '' ''"
  "is_space CHR '' ''" "\<not> is_space CHR '':''" "is_space CHR 0x09"
  by (simp_all add: is_line_break_def is_space_def py_ord_def)

lemma lines_of_clean: "clean_text l \<Longrightarrow> lines_of acc (l @ cs) = lines_of (rev l @ acc) cs"
  by (induction l arbitrary: acc) (simp_all add: clean_text_def)

text \<open>Splitting joined lines gives the lines back, up to a blank last one.\<close>

lemma splitlines_join:
  "list_all clean_text ls \<Longrightarrow>
     splitlines (join [CHR 0x0A] ls) = (if ls \<noteq> [] \<and> last ls = [] then butlast ls else ls)"
proof (induction ls)
  case Nil
  then show ?case by (simp add: splitlines_def)
next
  case (Cons l ls)
  show ?case
  proof (cases ls)
    case Nil
    then show ?thesis
      using Cons.prems lines_of_clean[of l "[]" "[]"] by (simp add: splitlines_def)
  next
    case (Cons l2 ls2)
    then have "splitlines (join [CHR 0x0A] (l # ls)) = l # splitlines (join [CHR 0x0A] ls)"
      using Cons.prems \<open>list_all clean_text (l # ls)\<close> lines_of_clean[of l "[]"] by (simp add: splitlines_def)
    then show ?thesis
      using Cons.IH Cons.prems \<open>list_all clean_text (l # ls)\<close> Cons by auto
  qed
qed

lemma filter_lines_blank_end: "filter_lines ea current (ls @ [[]]) = filter_lines ea current ls"
  by (induction ea current ls rule: filter_lines.induct) (auto simp: Let_def split: option.splits)

lemma filter_lines_joined:
  assumes "list_all clean_text ls"
  shows "filter_lines ea current (splitlines (join [CHR 0x0A] ls)) = filter_lines ea current ls"
proof (cases "ls \<noteq> [] \<and> last ls = []")
  case True
  then have "ls = butlast ls @ [[]]"
    by (metis append_butlast_last_id)
  then show ?thesis
    using splitlines_join[OF assms] True filter_lines_blank_end[of ea current "butlast ls"] by simp
next
  case False
  then show ?thesis
    using splitlines_join[OF assms] by auto
qed

lemma strip_by_ends: "n \<noteq> [] \<Longrightarrow> \<not> p (hd n) \<Longrightarrow> \<not> p (last n) \<Longrightarrow> strip_by p n = n"
proof -
  assume n: "n \<noteq> []" "\<not> p (hd n)" "\<not> p (last n)"
  then have 1: "dropWhile p n = n"
    by (cases n) auto
  have "dropWhile p (rev n) = rev n"
    using n by (cases "rev n") (auto simp: last_rev[symmetric])
  then show ?thesis
    using 1 by (simp add: strip_by_def lstrip_by_def rstrip_by_def)
qed

lemma strip_nonempty: "c \<in> set s \<Longrightarrow> \<not> is_space c \<Longrightarrow> py_strip s \<noteq> []"
proof -
  assume c: "c \<in> set s" "\<not> is_space c"
  then have "c \<in> set (dropWhile is_space s)"
    by (induction s) auto
  then have "dropWhile is_space (rev (dropWhile is_space s)) \<noteq> []"
    using c(2) by (auto simp: dropWhile_eq_Nil_conv)
  then show ?thesis
    by (simp add: py_strip_def strip_by_def lstrip_by_def rstrip_by_def)
qed

lemma header_candidate: "clean_name n \<Longrightarrow> py_strip (rstrip_by ((=) CHR '':'') (n @ '':'')) = n"
proof -
  assume n: "clean_name n"
  then have "dropWhile ((=) CHR '':'') (rev n) = rev n"
    by (intro dropWhile_none) (auto simp: clean_name_def)
  then show ?thesis
    using n strip_by_ends[of n is_space] by (simp add: rstrip_by_def py_strip_def clean_name_def)
qed

lemma takeWhile_name: "clean_name n \<Longrightarrow> takeWhile (\<lambda>c. c \<noteq> CHR '':'') (n @ CHR '':'' # d) = n"
  "clean_name n \<Longrightarrow> dropWhile (\<lambda>c. c \<noteq> CHR '':'') (n @ CHR '':'' # d) = CHR '':'' # d"
  by (auto simp: clean_name_def takeWhile_append dropWhile_append)

lemma column_match_name: "clean_name n \<Longrightarrow> column_match ('' '' @ '' '' @ n @ '':'' @ d) = Some n"
proof -
  assume n: "clean_name n"
  let ?line = "'' '' @ '' '' @ n @ '':'' @ d"
  let ?p = "rx_start ?line"
  let ?q = "?p\<lparr>rp_before := ''  '', rp_after := n @ '':'' @ d\<rparr>"
  let ?r = "?p\<lparr>rp_before := rev n @ ''  '', rp_after := '':'' @ d\<rparr>"
  let ?g = "?r\<lparr>rp_groups := [n]\<rparr>"
  obtain c cs where c: "n = c # cs" "\<not> is_space c" "c \<noteq> CHR '':''"
    using n by (cases n) (auto simp: clean_name_def)
  have sp: "rx_match (rx_plus is_space) ?p \<noteq> []" "hd (rx_match (rx_plus is_space) ?p) = ?q"
    using rx_plus_hd[of ?p "CHR '' ''" "'' '' @ n @ '':'' @ d" is_space] c by (simp_all add: rx_start_def)
  have name: "rx_match (rx_plus (\<lambda>c. c \<noteq> CHR '':'')) ?q \<noteq> []" "hd (rx_match (rx_plus (\<lambda>c. c \<noteq> CHR '':'')) ?q) = ?r"
    using rx_plus_hd[of ?q c "cs @ '':'' @ d" "\<lambda>c. c \<noteq> CHR '':''"] c(1,3) takeWhile_name[OF n, of d] by simp_all
  have "consumed ?q ?r = n"
    by (simp add: consumed_def)
  then have grp: "rx_match (Rx_Group (rx_plus (\<lambda>c. c \<noteq> CHR '':''))) ?q \<noteq> []"
    "hd (rx_match (Rx_Group (rx_plus (\<lambda>c. c \<noteq> CHR '':''))) ?q) = ?g"
    using name by (cases "rx_match (rx_plus (\<lambda>c. c \<noteq> CHR '':'')) ?q"; simp add: rx_start_def)+
  define G C where "G = Rx_Group (rx_plus (\<lambda>c. c \<noteq> CHR '':''))" and "C = rx_cat [rx_lit '':'']"
  note grp = grp[folded G_def]
  have colon: "rx_match C ?g = [?g\<lparr>rp_before := CHR '':'' # rp_before ?g, rp_after := d\<rparr>]"
    by (simp add: C_def rx_cat_def rx_lit_def)
  have 1: "rx_match (Rx_Seq G C) ?q \<noteq> []" "rp_groups (hd (rx_match (Rx_Seq G C) ?q)) = [n]"
    using rx_seq_hd[OF grp(1), of C] unfolding grp(2) colon by simp_all
  have 2: "rx_match (Rx_Seq (rx_plus is_space) (Rx_Seq G C)) ?p \<noteq> []"
    "rp_groups (hd (rx_match (Rx_Seq (rx_plus is_space) (Rx_Seq G C)) ?p)) = [n]"
    using rx_seq_hd[OF sp(1), of "Rx_Seq G C"] 1 unfolding sp(2) by (simp_all del: rx_match.simps)
  have shape: "column_line_rx = Rx_Seq Rx_Start (Rx_Seq (rx_plus is_space) (Rx_Seq G C))"
    by (simp add: column_line_rx_def rx_cat_def G_def C_def)
  have "rx_match column_line_rx ?p = rx_match (Rx_Seq (rx_plus is_space) (Rx_Seq G C)) ?p"
    unfolding shape by (simp add: rx_start_def)
  with 2 show ?thesis
    unfolding column_match_def by (auto simp: group1_def split: list.splits)
qed


subsection \<open>Pruning a formatted document\<close>

definition pruned_lines :: "effective_access \<Rightarrow> schema_entry \<Rightarrow> string list" where
  "pruned_lines ea e =
     (if table_accessible ea (fst e)
      then entry_lines (fst e, filter (\<lambda>c. column_accessible ea (fst e) (fst c)) (snd e)) else [])"

lemma filter_lines_columns:
  assumes "list_all (\<lambda>c. clean_name (fst c) \<and> clean_text (snd c)) cols"
  shows "filter_lines ea (Some t) (map column_text cols @ rest) =
      map column_text (filter (\<lambda>c. column_accessible ea t (fst c)) cols) @ filter_lines ea (Some t) rest"
    and "filter_lines ea None (map column_text cols @ rest) = filter_lines ea None rest"
proof -
  have line: "py_strip (column_text c) \<noteq> [] \<and> prefix '' '' (column_text c) \<and>
      (clean_name (fst c) \<longrightarrow> column_match (column_text c) = Some (fst c) \<and> py_strip (fst c) = fst c)" for c
    using strip_nonempty[of "CHR '':''" "column_text c"] column_match_name[of "fst c" "'' '' @ snd c"]
      strip_by_ends[of "fst c" is_space]
    by (auto simp: column_text_def clean_name_def py_strip_def)
  show "filter_lines ea (Some t) (map column_text cols @ rest) =
      map column_text (filter (\<lambda>c. column_accessible ea t (fst c)) cols) @ filter_lines ea (Some t) rest"
    using assms line by (induction cols) auto
  show "filter_lines ea None (map column_text cols @ rest) = filter_lines ea None rest"
    using line by (induction cols) auto
qed

lemma filter_lines_entry:
  assumes "clean_entry e"
  shows "filter_lines ea current (entry_lines e @ rest) =
     pruned_lines ea e @ filter_lines ea (if table_accessible ea (fst e) then Some (fst e) else None) rest"
proof -
  have h: "\<not> (prefix '' '' (fst e @ '':'') \<or> prefix [CHR 0x09] (fst e @ '':''))"
    using assms by (cases "fst e") (auto simp: clean_entry_def clean_name_def)
  have s: "py_strip (fst e @ '':'') \<noteq> []"
    using strip_nonempty[of "CHR '':''"] by simp
  show ?thesis
    using assms filter_lines_columns(1)[of "snd e" ea "fst e" rest] filter_lines_columns(2)[of "snd e" ea rest] header_candidate[of "fst e"] h s
    by (simp add: entry_lines_def pruned_lines_def clean_entry_def Let_def)
qed

lemma filter_lines_entries:
  assumes "list_all clean_entry es"
  shows "\<exists>current'. filter_lines ea current (concat (map entry_lines es) @ rest) =
     concat (map (pruned_lines ea) es) @ filter_lines ea current' rest"
using assms
proof (induction es arbitrary: current)
  case (Cons e es)
  then show ?case
    using filter_lines_entry[of e ea current "concat (map entry_lines es) @ rest"] by auto
qed auto

lemma filter_lines_document:
  assumes "list_all (list_all clean_entry) docs"
  shows "filter_lines ea current (concat (map (\<lambda>es. concat (map entry_lines es) @ [[]]) docs)) =
     concat (map (pruned_lines ea) (concat docs))"
using assms
proof (induction docs arbitrary: current)
  case (Cons es docs)
  let ?rest = "[] # concat (map (\<lambda>es. concat (map entry_lines es) @ [[]]) docs)"
  obtain current' where "filter_lines ea current (concat (map entry_lines es) @ ?rest) =
      concat (map (pruned_lines ea) es) @ filter_lines ea current' ?rest"
    using filter_lines_entries[of es ea current ?rest] Cons.prems by auto
  then show ?case
    using Cons by simp
qed simp

lemma format_schema_rows_entries:
  assumes "result_map (result_map (schema_entry_of rep)) rows = Inr docs"
  shows "format_schema_rows rep rows =
     Inr (join [CHR 0x0A] (concat (map (\<lambda>es. concat (map entry_lines es) @ [[]]) docs)))"
proof -
  have "result_map (format_single_schema rep) rows = Inr (map (\<lambda>es. concat (map entry_lines es)) docs)"
    using assms
  proof (induction rows arbitrary: docs)
    case (Cons row rows)
    then show ?case by (auto simp: format_single_schema_def)
  qed simp
  then show ?thesis
    by (simp add: format_schema_rows_def comp_def)
qed

lemma entry_lines_clean: "clean_entry e \<Longrightarrow> list_all clean_text (entry_lines e)"
  by (auto simp: clean_entry_def entry_lines_def clean_name_def clean_text_def column_text_def list_all_iff)


lemma set_join_member: "l \<in> set ls \<Longrightarrow> set l \<subseteq> set (join sep ls)"
  by (induction sep ls rule: join.induct) auto

subsection \<open>Properties\<close>

text \<open>C24. Pruning the text of the schema is pruning the schema: for stored documents whose names and
  descriptions are plain lines, the text that is left is the formatted document of the accessible
  tables with their accessible columns, nothing more and nothing less.\<close>

theorem schema_text_is_pruned_document:
  assumes "result_map (result_map (schema_entry_of rep)) rows = Inr docs" and "list_all (list_all clean_entry) docs"
    and "concat docs \<noteq> []" and "format_schema_rows rep rows = Inr schema" and "\<not> ea_unrestricted ea"
  shows "filter_schema_text_by_access schema ea = join [CHR 0x0A] (concat (map (pruned_lines ea) (concat docs)))"
proof -
  let ?lines = "concat (map (\<lambda>es. concat (map entry_lines es) @ [[]]) docs)"
  have schema: "schema = join [CHR 0x0A] ?lines"
    using format_schema_rows_entries[OF assms(1)] assms(4) by simp
  have "clean_text l" if l: "l \<in> set ?lines" for l
  proof (cases "l = []")
    case False
    then obtain es e where "es \<in> set docs" "e \<in> set es" "l \<in> set (entry_lines e)"
      using l False by (auto split: if_splits)
    then show ?thesis
      using assms(2) entry_lines_clean[of e] by (simp add: list_all_iff)
  qed (simp add: clean_text_def)
  then have clean: "list_all clean_text ?lines"
    by (simp add: list_all_iff)
  obtain e where "e \<in> set (concat docs)"
    using assms(3) last_in_set by blast
  then obtain es where e: "es \<in> set docs" "e \<in> set es"
    by auto
  then have "concat (map entry_lines es) @ [[]] \<in> set (map (\<lambda>es. concat (map entry_lines es) @ [[]]) docs)"
    by simp
  moreover have "fst e @ '':'' \<in> set (concat (map entry_lines es) @ [[]])"
    using e(2) by (auto simp: entry_lines_def)
  ultimately have "fst e @ '':'' \<in> set ?lines"
    unfolding set_concat by blast
  then have "set (fst e @ '':'') \<subseteq> set schema"
    unfolding schema by (rule set_join_member)
  then have "CHR '':'' \<in> set schema"
    by simp
  then have "py_strip schema \<noteq> []"
    by (rule strip_nonempty) simp
  then have "filter_schema_text_by_access schema ea = join [CHR 0x0A] (filter_lines ea None (splitlines schema))"
    using assms(5) by (simp add: filter_schema_text_by_access_def)
  then show ?thesis
    unfolding schema filter_lines_joined[OF clean] filter_lines_document[OF assms(2)] .
qed

definition example_access :: effective_access where
  "example_access =
     \<lparr>ea_accessible_tables = {''notes''}, ea_allowed_columns = {}, ea_masked_columns = {}, ea_unrestricted = False\<rparr>"

definition stored_document :: "string \<Rightarrow> obj list" where
  "stored_document description =
     [[(''staff'', JObj [(''columns'', JObj [(''name'', JObj [(''column_description'', JStr description)]),
                                        (''salary'', JStr ''pay'')])]),
       (''notes'', JObj [(''columns'', JObj [(''body'', JStr ''free'')])])]]"

theorem schema_text_is_pruned_document_witness:
  "filter_schema_text_by_access
     (''staff:'' @ [CHR 0x0A] @ ''  name: first'' @ [CHR 0x0A] @ ''  salary: pay'' @ [CHR 0x0A] @ ''notes:'' @ [CHR 0x0A] @
      ''  body: free'' @ [CHR 0x0A]) example_access =
   join [CHR 0x0A] (concat (map (pruned_lines example_access)
     (concat [[(''staff'', [(''name'', ''first''), (''salary'', ''pay'')]), (''notes'', [(''body'', ''free'')])]])))"
proof (rule schema_text_is_pruned_document[where rep = "\<lambda>_. []" and rows = "stored_document ''first''"])
  show "result_map (result_map (schema_entry_of (\<lambda>_. []))) (stored_document ''first'') =
      Inr [[(''staff'', [(''name'', ''first''), (''salary'', ''pay'')]), (''notes'', [(''body'', ''free'')])]]"
    by (simp add: stored_document_def schema_entry_of_def obj_get_or_def column_description_def)
  show "list_all (list_all clean_entry) [[(''staff'', [(''name'', ''first''), (''salary'', ''pay'')]), (''notes'', [(''body'', ''free'')])]]"
    by code_simp
  show "format_schema_rows (\<lambda>_. []) (stored_document ''first'') =
      Inr (''staff:'' @ [CHR 0x0A] @ ''  name: first'' @ [CHR 0x0A] @ ''  salary: pay'' @ [CHR 0x0A] @ ''notes:'' @ [CHR 0x0A] @
      ''  body: free'' @ [CHR 0x0A])"
    by (simp add: stored_document_def schema_entry_of_def obj_get_or_def column_description_def format_schema_rows_def
        format_single_schema_def entry_lines_def column_text_def)
qed (simp_all add: example_access_def)

text \<open>Plain lines are needed: a description with a line break can look like the heading of a table the
  principal may read, and the columns below it are then shown, here the salary of a hidden table.\<close>

lemma description_break_leaks_columns:
  "bind_result (format_schema_rows (\<lambda>_. []) (stored_document (''first'' @ [CHR 0x0A] @ ''notes:'')))
     (\<lambda>schema. Inr (filter_schema_text_by_access schema example_access)) =
   Inr (''notes:'' @ [CHR 0x0A] @ ''  salary: pay'' @ [CHR 0x0A] @ ''notes:'' @ [CHR 0x0A] @ ''  body: free'')"
  by code_simp

text \<open>Introspection shows nothing the policy documents hide: a table in the answer is granted by a
  document in the principal's scope and covered by no deny document, a column of it is in the
  principal's column whitelists when there are any, and a foreign key leads to an accessible table.\<close>

theorem introspection_respects_policies:
  assumes "pe_enabled ev" and "t \<in> set (schema_for_access (effective_access_of ev pr db) raw)"
    and "normalize_identifier (Some (st_name t)) = py_lower (st_name t)"
  shows "(\<exists>p \<in> set (pe_policies ev). ea_grant pr db p \<and> pol_table p = Some (py_lower (st_name t))) \<and>
    (\<forall>p \<in> set (pe_policies ev). \<not> denies_table p pr db (st_name t)) \<and>
    (\<forall>c \<in> set (st_columns t).
       let whitelist = \<Union> (pol_columns ` {p \<in> set (pe_policies ev). ea_grant pr db p})
       in whitelist = {} \<or> normalize_identifier (Some (sc_column c)) \<in> whitelist) \<and>
    (\<forall>fk \<in> set (st_foreign_keys t). table_accessible (effective_access_of ev pr db) (fk_foreign_table fk))"
proof -
  let ?ea = "effective_access_of ev pr db"
  obtain t0 where t0: "table_accessible ?ea (st_name t0)" "t = t0\<lparr>st_columns := column_views ?ea t0, st_foreign_keys := foreign_key_views ?ea t0\<rparr>"
    using assms(2) by (auto simp: schema_for_access_def)
  have 1: "(\<exists>p \<in> set (pe_policies ev). ea_grant pr db p \<and> pol_table p = Some (py_lower (st_name t))) \<and>
      (\<forall>p \<in> set (pe_policies ev). \<not> denies_table p pr db (st_name t))"
    using ea_table_accessible[OF assms(1,3), of pr db] t0 by simp
  have 2: "ea_allowed_columns ?ea = {} \<or> normalize_identifier (Some (sc_column c)) \<in> ea_allowed_columns ?ea"
    if "c \<in> set (st_columns t)" for c
    using that t0 ea_columns(3)[OF assms(1)] by (auto simp: column_views_def column_accessible_def)
  have 3: "table_accessible ?ea (fk_foreign_table fk)" if "fk \<in> set (st_foreign_keys t)" for fk
    using that t0 by (auto simp: foreign_key_views_def)
  show ?thesis
    using 1 2 3 unfolding ea_columns(1)[OF assms(1)] by (simp add: Let_def)
qed

definition album_table :: schema_table where
  "album_table =
     \<lparr>st_name = ''album'', st_schema = ''public'',
      st_columns = [\<lparr>sc_column = ''title'', sc_data_type = ''text'', sc_nullable = False, sc_primary = True\<rparr>],
      st_foreign_keys = []\<rparr>"

theorem introspection_respects_policies_witness:
  "list_all (\<lambda>p. \<not> denies_table p example_principal ''db'' ''album'') (pe_policies example_evaluator)"
proof -
  let ?ea = "effective_access_of example_evaluator example_principal ''db''"
  let ?t = "album_table\<lparr>st_columns := column_views ?ea album_table, st_foreign_keys := foreign_key_views ?ea album_table\<rparr>"
  have "pe_enabled example_evaluator"
    by (simp add: example_evaluator_def)
  moreover have "table_accessible ?ea ''album''"
    by code_simp
  then have "?t \<in> set (schema_for_access ?ea [album_table])"
    by (simp add: schema_for_access_def album_table_def)
  moreover have "normalize_identifier (Some (st_name ?t)) = py_lower (st_name ?t)"
    by (simp add: album_table_def) code_simp
  ultimately show ?thesis
    using introspection_respects_policies[of example_evaluator ?t example_principal "''db''" "[album_table]"]
    by (simp add: album_table_def list_all_iff)
qed

end
