(* ===== verification/Controller.thy ===== *)
theory Controller
  imports Gateway Presentation Schema_View
begin

text \<open>
  sql\_query\_api/routes/sql\_query\_controller.py: the GraphQL fields over the governed gateway, the
  presentation planner and the pruned schema. A field gives its result and the events the outside
  sees, which are the controller's own audit records and the events of the gateway. \<open>resolve\<close> is the
  provider of the tenant services, threaded as state.
\<close>

subsection \<open>Errors\<close>

text \<open>What a client is told: a message, and for a failed statement the detail of the extension.\<close>

datatype client_error =
    Value_Error string
  | Permission_Error string
  | Graphql_Error string string
  | Generic_Error string

text \<open>\<open>arrow\<close> is the arrow character of the formatted error (code point 0x21B3).\<close>

definition caused_by_rx :: "char \<Rightarrow> rx" where
  "caused_by_rx arrow =
     rx_cat [Rx_Cls ((=) arrow), rx_star is_space, rx_lit ''Caused by'', rx_star is_space,
       Rx_Group (Rx_Seq (Rx_Cls (\<lambda>c. c \<noteq> CHR 0x0A)) (Rx_Star False (Rx_Cls (\<lambda>c. c \<noteq> CHR 0x0A)))),
       rx_any_of [rx_lit [CHR 0x0A], Rx_End, rx_lit ''[SQL:'']]"

definition sql_tail_rx :: rx where
  "sql_tail_rx = Rx_Seq (rx_lit ''[SQL:'') (rx_star (\<lambda>_. True))"

definition class_noise_rx :: rx where
  "class_noise_rx = rx_cat [rx_lit ''<class '', rx_lit [CHR 0x27], Rx_Group (rx_plus (\<lambda>c. c \<noteq> CHR 0x27)), rx_lit [CHR 0x27], rx_lit ''>'']"

fun keep_group1 :: "string \<Rightarrow> nat \<Rightarrow> (rx_pos \<times> rx_pos) list \<Rightarrow> string" where
  "keep_group1 s i [] = drop i s"
| "keep_group1 s i (m # ms) =
     take (length (rp_before (fst m)) - i) (drop i s) @ group1 m @ keep_group1 s (length (rp_before (snd m))) ms"

definition sanitize_db_error :: "char \<Rightarrow> string \<Rightarrow> string" where
  "sanitize_db_error arrow msg =
     (case rx_search (caused_by_rx arrow) msg of
        Some m \<Rightarrow>
          (let detail = py_strip (rx_sub sql_tail_rx [] (py_strip (group1 m)))
           in keep_group1 detail 0 (rx_finditer class_noise_rx detail))
      | None \<Rightarrow> py_strip msg)"

definition should_expose_db_error_detail :: "os_state \<Rightarrow> bool" where
  "should_expose_db_error_detail os \<longleftrightarrow> py_lower (getenv os ''EXPOSE_DB_ERROR_DETAIL'' ''0'') \<in> {''1'', ''true'', ''yes''}"

datatype schema_extension = Query_Depth_Limiter nat | Max_Aliases_Limiter int | Disable_Introspection

definition build_graphql_extensions :: "os_state \<Rightarrow> exn + schema_extension list" where
  "build_graphql_extensions os =
     bind_result (env_int os ''GRAPHQL_MAX_ALIASES'' ''100'') (\<lambda>aliases.
       Inr ([Query_Depth_Limiter 6, Max_Aliases_Limiter aliases] @
            (if is_environment_production os then [Disable_Introspection] else [])))"

subsection \<open>Context of a request\<close>

datatype 'v ctl_event = Ctl_Audit string obj | Ctl_Gateway "'v gw_event"

record sql_request =
  sr_sql_statement :: string
  sr_database_id :: string
  sr_question :: string

text \<open>The resolution errors of the directory are \<open>PermissionError\<close>; anything else is an unavailable database.\<close>

definition request_context ::
    "('s \<Rightarrow> principal option \<Rightarrow> string option \<Rightarrow> (exn + tenant_config \<times> 'v) \<times> 's) \<Rightarrow> 's \<Rightarrow> principal option \<Rightarrow> string
      \<Rightarrow> (client_error + principal \<times> tenant_config \<times> 'v) \<times> 'v ctl_event list \<times> 's" where
  "request_context resolve s prin database_id =
     (case prin of
        None \<Rightarrow> (Inl (Permission_Error ''Authenticated principal is required.''), [], s)
      | Some pr \<Rightarrow>
          let failed = (\<lambda>reason. Ctl_Audit ''tenant_resolution_failed''
             [(''user'', JStr (pr_email pr)), (''org_id'', JStr (pr_org_id pr)), (''reason'', JStr reason),
              (''database_id'', JStr (if database_id = [] then ''unknown'' else database_id))])
          in (case resolve s (Some pr) (Some database_id) of
                (Inr (b, v), s') \<Rightarrow> (Inr (pr, b, v), [], s')
              | (Inl (PermissionError m), s') \<Rightarrow> (Inl (Permission_Error m), [failed m], s')
              | (Inl _, s') \<Rightarrow> (Inl (Permission_Error ''Database is unavailable.''), [failed ''database_unavailable''], s')))"

subsection \<open>Execution\<close>

definition execution_failed :: string where
  "execution_failed = ''Failed to execute SQL statement. Please verify your query syntax.''"

definition client_error_of :: "char \<Rightarrow> bool \<Rightarrow> exn \<Rightarrow> client_error" where
  "client_error_of arrow expose e =
     (case e of
        ValueError m \<Rightarrow> Value_Error m
      | SqlExecution m \<Rightarrow> Graphql_Error execution_failed (if expose then sanitize_db_error arrow m else [])
      | _ \<Rightarrow> Generic_Error execution_failed)"

text \<open>The extensions of the GraphQL error; only a failed statement has any.\<close>

definition error_extension :: "client_error \<Rightarrow> json" where
  "error_extension e =
     (case e of
        Graphql_Error m detail \<Rightarrow>
          JObj [(''sqlQueryApi'', JObj [(''code'', JStr ''SQL_EXECUTION_ERROR''), (''details'', JStr detail)])]
      | _ \<Rightarrow> JNull)"

definition audit_sql :: "principal \<Rightarrow> tenant_config \<Rightarrow> string \<Rightarrow> obj \<Rightarrow> 'v ctl_event" where
  "audit_sql pr b kind extra =
     Ctl_Audit kind ([(''user'', JStr (pr_email pr)), (''org_id'', JStr (pr_org_id pr)), (''database_id'', JStr (tc_database_id b))] @ extra)"

definition execute_governed ::
    "('v, 'z) gw_env_scheme \<Rightarrow> ('s \<Rightarrow> principal option \<Rightarrow> string option \<Rightarrow> (exn + tenant_config \<times> 'v) \<times> 's)
      \<Rightarrow> char \<Rightarrow> bool \<Rightarrow> bool \<Rightarrow> gateway \<times> 's \<Rightarrow> principal option \<Rightarrow> sql_request
      \<Rightarrow> (client_error + obj list) \<times> 'v ctl_event list \<times> gateway \<times> 's" where
  "execute_governed env resolve arrow expose in_time st prin rq =
     (case st of (gw, s) \<Rightarrow>
        let sql = py_strip (sr_sql_statement rq) in
        (case request_context resolve s prin (sr_database_id rq) of
           (Inl e, ev, s') \<Rightarrow> (Inl e, ev, gw, s')
         | (Inr (pr, b, v), ev, s') \<Rightarrow>
             if sql = [] then (Inl (Value_Error ''SQL statement cannot be empty.''), ev, gw, s')
             else if length sql > 10000
               then (Inl (Value_Error ''SQL statement is too long (max 10000 characters).''), ev, gw, s')
             else
               let started = audit_sql pr b ''sql_query_started'' [(''sql_length'', JInt (int (length sql)))];
                   greq = \<lparr>gq_principal = Some pr, gq_database_id = tc_database_id b, gq_sql = sql, gq_params = None\<rparr>
               in (case gateway_execute env resolve in_time (gw, s') greq of
                     (r, gev, gw', s'') \<Rightarrow>
                       (case r of
                          Inr rows \<Rightarrow> (Inr rows, ev @ started # map Ctl_Gateway gev, gw', s'')
                        | Inl e \<Rightarrow>
                            (Inl (client_error_of arrow expose e),
                             ev @ started # map Ctl_Gateway gev @
                             (case e of
                                ValueError m \<Rightarrow> [audit_sql pr b ''sql_validation_failed''
                                  [(''reason'', JStr m), (''sql_length'', JInt (int (length sql)))]]
                              | _ \<Rightarrow> []),
                             gw', s'')))))"

record presentation_field =
  pf_format :: string
  pf_content :: "string option"
  pf_reason :: "string option"
  pf_column_labels :: "(string, string) dict option"

text \<open>The enumeration has the upper-case names of the four formats.\<close>

definition decision_to_graphql :: "presentation_decision option \<Rightarrow> presentation_field option" where
  "decision_to_graphql d =
     (case d of
        None \<Rightarrow> None
      | Some p \<Rightarrow>
          if py_upper (dc_format p) \<in> {''PARAGRAPH'', ''LIST'', ''CHART'', ''TABLE''}
          then Some \<lparr>pf_format = py_upper (dc_format p), pf_content = dc_content p, pf_reason = dc_reason p,
                     pf_column_labels = (if dc_column_labels p = [] then None else Some (dc_column_labels p))\<rparr>
          else None)"

definition execute_with_presentation ::
    "('v, 'z) gw_env_scheme \<Rightarrow> ('s \<Rightarrow> principal option \<Rightarrow> string option \<Rightarrow> (exn + tenant_config \<times> 'v) \<times> 's)
      \<Rightarrow> char \<Rightarrow> bool \<Rightarrow> (string option \<Rightarrow> string \<Rightarrow> obj list option \<Rightarrow> exn + presentation_decision option) \<Rightarrow> bool
      \<Rightarrow> gateway \<times> 's \<Rightarrow> principal option \<Rightarrow> sql_request
      \<Rightarrow> (client_error + obj list \<times> presentation_field option) \<times> 'v ctl_event list \<times> gateway \<times> 's" where
  "execute_with_presentation env resolve arrow expose decide in_time st prin rq =
     (case execute_governed env resolve arrow expose in_time st prin rq of
        (Inl e, ev, st') \<Rightarrow> (Inl e, ev, st')
      | (Inr rows, ev, st') \<Rightarrow>
          let question = (if py_strip (sr_question rq) = [] then None else Some (py_strip (sr_question rq)));
              planned = (case decide question (py_strip (sr_sql_statement rq)) (Some rows) of Inl _ \<Rightarrow> None | Inr d \<Rightarrow> d)
          in (Inr (rows, decision_to_graphql planned), ev, st'))"

subsection \<open>The other fields\<close>

definition estimate_cost_field ::
    "('s \<Rightarrow> principal option \<Rightarrow> string option \<Rightarrow> (exn + tenant_config \<times> 'v) \<times> 's) \<Rightarrow> 's \<Rightarrow> principal option
      \<Rightarrow> string \<Rightarrow> string \<Rightarrow> (client_error + cost_estimate) \<times> 'v ctl_event list \<times> 's" where
  "estimate_cost_field resolve s prin statement database_id =
     (let sql = py_strip statement in
      if sql = [] then (Inl (Value_Error ''SQL statement cannot be empty.''), [], s)
      else (case request_context resolve s prin database_id of
              (Inl e, ev, s') \<Rightarrow> (Inl e, ev, s')
            | (Inr _, ev, s') \<Rightarrow> (Inr (estimate_query_cost sql), ev, s')))"

text \<open>Simulation is for administrators. A validation error is audited and raised again.\<close>

definition simulate_policy ::
    "('v, 'z) gw_env_scheme \<Rightarrow> ('s \<Rightarrow> principal option \<Rightarrow> string option \<Rightarrow> (exn + tenant_config \<times> 'v) \<times> 's) \<Rightarrow> 's
      \<Rightarrow> principal option \<Rightarrow> sql_request \<Rightarrow> (client_error + policy_decision) \<times> 'v ctl_event list \<times> 's" where
  "simulate_policy env resolve s prin rq =
     (case request_context resolve s prin (sr_database_id rq) of
        (Inl e, ev, s') \<Rightarrow> (Inl e, ev, s')
      | (Inr (pr, b, v), ev, s') \<Rightarrow>
          let note = (\<lambda>kind reason. Ctl_Audit kind
                [(''user'', JStr (pr_email pr)), (''org_id'', JStr (pr_org_id pr)), (''reason'', JStr reason)]);
              sql = py_strip (sr_sql_statement rq)
          in if role pr \<noteq> ''admin''
             then (Inl (Permission_Error ''Policy simulation requires an administrator role.''),
                   ev @ [note ''simulate_policy_unauthorized'' ''non_admin_role''], s')
             else if sql = []
             then (Inl (Value_Error ''SQL statement cannot be empty.''),
                   ev @ [note ''simulate_policy_validation_failed'' ''empty_sql''], s')
             else
               let evaluating = audit_sql pr b ''simulate_policy_evaluating'' [(''sql_length'', JInt (int (length sql)))] in
               (case clean_and_validate_sql (ge_checker env) (ge_parsers env) sql of
                  Inl (ValueError m) \<Rightarrow>
                    (Inl (Value_Error m), ev @ [evaluating, note ''simulate_policy_validation_failed'' ''validation_error''], s')
                | Inl _ \<Rightarrow> (Inl (Generic_Error []), ev @ [evaluating], s')
                | Inr cleaned \<Rightarrow>
                    let d = gateway_simulate env pr
                          \<lparr>gq_principal = Some pr, gq_database_id = tc_database_id b, gq_sql = cleaned, gq_params = None\<rparr>
                    in (Inr d,
                        ev @ [evaluating, audit_sql pr b ''simulate_policy_evaluated''
                          [(''decision_allowed'', JBool (pd_allowed d)), (''decision_reason'', JStr (pd_reason d))]], s')))"

definition schema_text_unavailable :: string where
  "schema_text_unavailable =
     ''Schema embeddings are unavailable or incompatible with 768 dimensions. '' @
     ''Regenerate schema embeddings before using text-to-SQL.''"

text \<open>\<open>lookup\<close> is the table-schema lookup of a service, \<open>access\<close> the effective access of the active evaluator.\<close>

definition table_schema_field ::
    "('s \<Rightarrow> principal option \<Rightarrow> string option \<Rightarrow> (exn + tenant_config \<times> 'v) \<times> 's) \<Rightarrow> ('v \<Rightarrow> 'f list \<Rightarrow> exn + string)
      \<Rightarrow> (principal \<Rightarrow> string \<Rightarrow> effective_access) \<Rightarrow> 's \<Rightarrow> principal option \<Rightarrow> 'f list \<Rightarrow> string
      \<Rightarrow> (client_error + string) \<times> 'v ctl_event list \<times> 's" where
  "table_schema_field resolve lookup access s prin embeddings database_id =
     (if embeddings = [] then (Inl (Value_Error ''Embeddings list cannot be empty.''), [], s)
      else if length embeddings \<noteq> 768
        then (Inl (Value_Error (''Embeddings must be exactly 768 dimensions, got '' @ int_str (int (length embeddings)))), [], s)
      else (case request_context resolve s prin database_id of
              (Inl _, ev, s') \<Rightarrow> (Inl (Generic_Error schema_text_unavailable), ev, s')
            | (Inr (pr, b, v), ev, s') \<Rightarrow>
                let ev' = ev @ [audit_sql pr b ''schema_embedding_lookup'' []] in
                (case lookup v embeddings of
                   Inl _ \<Rightarrow> (Inl (Generic_Error schema_text_unavailable), ev', s')
                 | Inr schema \<Rightarrow> (Inr (filter_schema_text_by_access schema (access pr (tc_database_id b))), ev', s'))))"

definition introspect_field ::
    "('s \<Rightarrow> principal option \<Rightarrow> string option \<Rightarrow> (exn + tenant_config \<times> 'v) \<times> 's) \<Rightarrow> ('v \<Rightarrow> exn + schema_table list)
      \<Rightarrow> (principal \<Rightarrow> string \<Rightarrow> effective_access) \<Rightarrow> 's \<Rightarrow> principal option \<Rightarrow> string
      \<Rightarrow> (client_error + schema_table list) \<times> 'v ctl_event list \<times> 's" where
  "introspect_field resolve introspect access s prin database_id =
     (case request_context resolve s prin database_id of
        (Inl _, ev, s') \<Rightarrow> (Inl (Generic_Error ''Failed to introspect database schema.''), ev, s')
      | (Inr (pr, b, v), ev, s') \<Rightarrow>
          (case introspect v of
             Inl _ \<Rightarrow> (Inl (Generic_Error ''Failed to introspect database schema.''), ev, s')
           | Inr raw \<Rightarrow>
               let ea = access pr (tc_database_id b); tables = schema_for_access ea raw in
               (Inr tables,
                ev @ [audit_sql pr b ''schema_introspection''
                  [(''tables_viewed'', JInt (int (length tables))), (''policy_restricted'', JBool (\<not> ea_unrestricted ea))]], s')))"

definition active_effective_access ::
    "(json \<Rightarrow> string) \<Rightarrow> opa_post \<Rightarrow> string option \<Rightarrow> active_evaluator \<Rightarrow> principal \<Rightarrow> string \<Rightarrow> effective_access" where
  "active_effective_access rep post cid ae pr db =
     (case ae of
        Doc_Evaluator e \<Rightarrow> effective_access_of e pr db
      | Opa_Evaluator e \<Rightarrow> fst (opa_effective_access rep post cid e pr db))"


subsection \<open>Lemmas\<close>

lemma request_context_Inr:
  assumes "request_context resolve s prin db = (Inr (pr, b, v), ev, s')"
  shows "prin = Some pr \<and> resolve s (Some pr) (Some db) = (Inr (b, v), s') \<and> ev = []"
proof (cases prin)
  case (Some q)
  obtain r s1 where r: "resolve s (Some q) (Some db) = (r, s1)"
    by fastforce
  show ?thesis
  proof (cases r)
    case (Inl e)
    then show ?thesis
      using assms Some r by (cases e) (auto simp: request_context_def Let_def)
  next
    case (Inr x)
    then show ?thesis
      using assms Some r by (cases x) (auto simp: request_context_def Let_def)
  qed
qed (use assms in \<open>simp add: request_context_def\<close>)

lemma request_context_events: "request_context resolve s prin db = (r, ev, s') \<Longrightarrow> Ctl_Gateway g \<notin> set ev"
  by (auto simp: request_context_def Let_def split: option.splits prod.splits sum.splits exn.splits)

definition governed_request_of :: "principal \<Rightarrow> tenant_config \<Rightarrow> sql_request \<Rightarrow> governed_request" where
  "governed_request_of pr b rq =
     \<lparr>gq_principal = Some pr, gq_database_id = tc_database_id b, gq_sql = py_strip (sr_sql_statement rq), gq_params = None\<rparr>"

text \<open>A statement that reaches a database passed through the gateway, for the binding the request resolved to.\<close>

lemma execute_governed_gateway:
  assumes "execute_governed env resolve arrow expose in_time (gw, s) prin rq = (r, ev, gw', s')"
    and "Ctl_Gateway g \<in> set ev"
  shows "\<exists>pr b v s1 gr gev. prin = Some pr \<and> resolve s (Some pr) (Some (sr_database_id rq)) = (Inr (b, v), s1) \<and>
     gateway_execute env resolve in_time (gw, s1) (governed_request_of pr b rq) = (gr, gev, gw', s') \<and> g \<in> set gev"
proof -
  obtain c cev s1 where c: "request_context resolve s prin (sr_database_id rq) = (c, cev, s1)"
    by (metis prod_cases3)
  note none = request_context_events[OF c, of g]
  obtain pr b v where x: "c = Inr (pr, b, v)"
    using assms c none by (cases c) (auto simp: execute_governed_def Let_def)
  note rc = request_context_Inr[OF c[unfolded x]]
  let ?sql = "py_strip (sr_sql_statement rq)"
  have sql: "?sql \<noteq> []" "\<not> length ?sql > 10000"
    using assms c x none by (auto simp: execute_governed_def Let_def split: if_splits)
  obtain gr gev gw1 s2 where gx: "gateway_execute env resolve in_time (gw, s1) (governed_request_of pr b rq) = (gr, gev, gw1, s2)"
    by (metis prod_cases4)
  have "gw1 = gw' \<and> s2 = s' \<and> g \<in> set gev"
    using assms c x sql rc gx
    by (auto simp: execute_governed_def Let_def governed_request_of_def audit_sql_def split: sum.splits exn.splits)
  then show ?thesis
    using rc gx by blast
qed

lemma resolved_id_stable:
  assumes "provider_resolve build sp p (Some d) = (Inr (b, v), sp1)" and "provider_resolve build sp1 p (Some (tc_database_id b)) = (Inr (b', v'), sp2)"
  shows "tc_database_id b' = tc_database_id b"
proof -
  have "tc_database_id b = py_strip d"
    using provider_resolve_Inr[OF assms(1)] directory.found_name[of "sp_bindings sp" p "Some d" b] by auto
  moreover have "tc_database_id b' = py_strip (tc_database_id b)"
    using provider_resolve_Inr[OF assms(2)] directory.found_name[of "sp_bindings sp1" p "Some (tc_database_id b)" b'] by auto
  ultimately show ?thesis
    by simp
qed


subsection \<open>Properties\<close>

lemma execute_governed_policy:
  assumes "execute_governed env (provider_resolve (build_container rep pf loads os)) arrow expose in_time (gw, sp) prin rq =
      (r, ev, gw', sp')"
    and "provider_inv sp" and "Ctl_Gateway (Db_Execute c sql ps) \<in> set ev"
  shows "\<exists>pr db cleaned restricted. prin = Some pr \<and> container_serves c (pr_org_id pr) db \<and>
    clean_and_validate_sql (ge_checker env) (ge_parsers env) (py_strip (sr_sql_statement rq)) = Inr cleaned \<and>
    is_safe_select_query (ge_checker env) (ge_parsers env) cleaned \<and>
    (let d = ge_decide env pr db (tables_touched (ge_parsers env) cleaned) (Some (referenced_columns (ge_parsers env) cleaned)) in
     pd_allowed d \<and>
     apply_row_restrictions (ge_rep env) (ge_parsers env) (ge_builders env) cleaned (pd_row_restrictions d) pr = Inr restricted \<and>
     rewrite_masked_columns (ge_parsers env) (ge_builders env) restricted (pd_masked_columns d) = Inr sql)"
proof -
  let ?resolve = "provider_resolve (build_container rep pf loads os)"
  obtain pr b v s1 gr gev where g: "prin = Some pr" "?resolve sp (Some pr) (Some (sr_database_id rq)) = (Inr (b, v), s1)"
    "gateway_execute env ?resolve in_time (gw, s1) (governed_request_of pr b rq) = (gr, gev, gw', sp')" "Db_Execute c sql ps \<in> set gev"
    using execute_governed_gateway[OF assms(1,3)] by blast
  let ?greq = "governed_request_of pr b rq"
  obtain b2 where b2: "?resolve s1 (Some pr) (Some (tc_database_id b)) = (Inr (b2, c), sp')"
    "governed_body env pr b2 c ?greq = (gr, gev)"
    using gateway_execute_cases[OF g(3,4)] by (auto simp: governed_request_of_def)
  have serves: "container_serves c (pr_org_id pr) (tc_database_id b)"
    using provider.owner[OF provider.inv_resolve[OF assms(2) g(2)] b2(1)] resolved_id_stable[OF g(2) b2(1)] by auto
  obtain cleaned restricted where q: "clean_and_validate_sql (ge_checker env) (ge_parsers env) (gq_sql ?greq) = Inr cleaned"
    "pd_allowed (gateway_evaluate env pr ?greq (Some cleaned))"
    "apply_row_restrictions (ge_rep env) (ge_parsers env) (ge_builders env) cleaned
       (pd_row_restrictions (gateway_evaluate env pr ?greq (Some cleaned))) pr = Inr restricted"
    "rewrite_masked_columns (ge_parsers env) (ge_builders env) restricted
       (pd_masked_columns (gateway_evaluate env pr ?greq (Some cleaned))) = Inr sql"
    using governed_body_execute[OF b2(2) g(4)] by blast
  have safe: "is_safe_select_query (ge_checker env) (ge_parsers env) cleaned"
    using q(1) by (rule clean_and_validate_safe)
  have "gateway_evaluate env pr ?greq (Some cleaned) =
      ge_decide env pr (tc_database_id b) (tables_touched (ge_parsers env) cleaned) (Some (referenced_columns (ge_parsers env) cleaned))"
    using safe_query_nonempty[OF safe] by (simp add: gateway_evaluate_def governed_request_of_def Let_def)
  then show ?thesis
    using g(1) serves q safe by (auto simp: Let_def governed_request_of_def)
qed


text \<open>The request with blanks around the database identifier that reaches the database when the gateway is
  called directly is governed by the policy of the resolved database here.\<close>

definition demo_sql :: "string \<Rightarrow> sql_request" where
  "demo_sql db = \<lparr>sr_sql_statement = ''SELECT 1'', sr_database_id = db, sr_question = []\<rparr>"

lemma demo_graphql_run:
  assumes "prod_build prod_binding = Inr c" and "db = ''main'' \<or> db = '' main ''"
    and "governed_body (demo_env e) acme_user prod_binding c (demo_request ''main'') = (r, evs)"
  shows "\<exists>gw' sp' cev. execute_governed (demo_env e) (provider_resolve prod_build) arrow expose True
     (demo_gateway, provider_init [prod_binding]) (Some acme_user) (demo_sql db) =
       ((case r of Inl x \<Rightarrow> Inl (client_error_of arrow expose x) | Inr rows \<Rightarrow> Inr rows), cev, gw', sp') \<and>
     Ctl_Gateway ` set evs \<subseteq> set cev"
proof -
  obtain sp where sp: "provider_resolve prod_build (provider_init [prod_binding]) (Some acme_user) (Some db) = (Inr (prod_binding, c), sp)"
    using prod_provider[OF assms(1,2)] by blast
  have id: "tc_database_id prod_binding = ''main''"
    by (simp add: prod_binding_def static_binding_def base_args_def)
  have "dict_get (sp_containers sp) (tc_org_id prod_binding, tc_database_id prod_binding) = Some c \<and> sp_bindings sp = [prod_binding]"
    using provider_resolve_Inr[OF sp] by (simp add: provider_init_def)
  then have again: "provider_resolve prod_build sp (Some acme_user) (Some ''main'') = (Inr (prod_binding, c), sp)"
    using prod_resolves(1) by (simp add: provider_resolve_def)
  have strip: "py_strip ''SELECT 1'' = ''SELECT 1''"
    by code_simp
  have greq: "\<lparr>gq_principal = Some acme_user, gq_database_id = ''main'', gq_sql = ''SELECT 1'', gq_params = None\<rparr> = demo_request ''main''"
    by (simp add: demo_request_def)
  obtain gw' where "gateway_execute (demo_env e) (provider_resolve prod_build) True (demo_gateway, sp) (demo_request ''main'') = (r, evs, gw', sp)"
    using demo_gateway_run[where resolve = "provider_resolve prod_build", OF again assms(3)] by blast
  note gx = this
  have rc: "request_context (provider_resolve prod_build) (provider_init [prod_binding]) (Some acme_user) db = (Inr (acme_user, prod_binding, c), [], sp)"
    using sp by (simp add: request_context_def)
  show ?thesis
    unfolding execute_governed_def prod.case Let_def demo_sql_def sql_request.simps strip rc sum.case id greq gx
    by (cases r) (simp_all add: image_subset_iff)
qed


text \<open>Planning the presentation cannot block, fail or change a governed result, whatever the planner does.\<close>

lemma presentation_cannot_change_rows:
  assumes "execute_governed env resolve arrow expose in_time st prin rq = (r, ev, st')"
  shows "\<exists>p. execute_with_presentation env resolve arrow expose decide in_time st prin rq =
     ((case r of Inl e \<Rightarrow> Inl e | Inr rows \<Rightarrow> Inr (rows, p)), ev, st')"
  using assms by (auto simp: execute_with_presentation_def Let_def split: sum.splits)

text \<open>Unless the operator opted in, no error of the field carries a detail.\<close>

lemma unexposed_error_detail:
  assumes "fst (execute_governed env resolve arrow False in_time st prin rq) = Inl err"
  shows "error_extension err = JNull \<or>
    error_extension err = JObj [(''sqlQueryApi'', JObj [(''code'', JStr ''SQL_EXECUTION_ERROR''), (''details'', JStr [])])]"
proof -
  obtain gw s where st: "st = (gw, s)"
    by fastforce
  obtain r ev s' where c: "request_context resolve s prin (sr_database_id rq) = (r, ev, s')"
    by (metis prod_cases3)
  show ?thesis
  proof (cases r)
    case (Inl e)
    then have "err = e" "\<nexists>m d. e = Graphql_Error m d"
      using assms c unfolding st
      by (auto simp: execute_governed_def request_context_def Let_def split: option.splits prod.splits sum.splits exn.splits)
    then show ?thesis
      by (cases e) (auto simp: error_extension_def)
  next
    case (Inr x)
    then obtain pr b v where x: "r = Inr (pr, b, v)"
      by (metis prod_cases3)
    show ?thesis
      using assms c x unfolding st
      by (auto simp: execute_governed_def Let_def error_extension_def client_error_of_def
          split: prod.splits sum.splits exn.splits if_splits)
  qed
qed

text \<open>Unless an operator opts in, no text of the database or of an internal failure is in an answer: errors
  of execution are one of two constant messages.\<close>

lemma client_errors_constant:
  "\<not> expose \<Longrightarrow> (\<exists>m. e = ValueError m \<and> client_error_of arrow expose e = Value_Error m) \<or>
     client_error_of arrow expose e \<in> {Graphql_Error execution_failed [], Generic_Error execution_failed}"
  by (auto simp: client_error_of_def split: exn.splits)

text \<open>With the opt-in the detail keeps the cause and loses the statement.\<close>

lemma sanitized_detail:
  "sanitize_db_error CHR ''>'' (''[SqlStatementExecutionError]'' @ [CHR 0x0A] @ ''> Caused by Undefined: <class '' @ [CHR 0x27] @ ''E'' @ [CHR 0x27] @
     ''>: no t [SQL: SELECT secret]'') = ''Undefined: E: no t''"
  by code_simp

end
