(* ===== verification/Rbac.thy ===== *)
theory Rbac
  imports Auth
begin

text \<open>
  sql\_query\_api/middlewares/rbac\_middleware.py. An ASGI scope carries the message type, the path,
  the raw header pairs and the principal the request state holds. \<open>rbac_call\<close> is
  \<open>RBACMiddleware.__call__\<close>: what it does is the value of type \<open>rbac_outcome\<close> (the scope it hands to the
  application, or a 401), the audit events it wrote and the new key-client cache.
\<close>

type_synonym headers = "(string \<times> string) list"

record http_scope =
  sc_type :: string
  sc_path :: string
  sc_headers :: headers
  sc_principal :: "principal option"

datatype rbac_outcome = Forward http_scope | Reject nat string | Crash exn

definition ascii_lower_char :: "char \<Rightarrow> char" where
  "ascii_lower_char c = (if 65 \<le> py_ord c \<and> py_ord c \<le> 90 then char_of (py_ord c + 32) else c)"

definition bytes_lower :: "string \<Rightarrow> string" where
  "bytes_lower s = map ascii_lower_char s"

definition SPOOFABLE_HEADER_PREFIXES :: "string list" where
  "SPOOFABLE_HEADER_PREFIXES = [''x-user-'', ''x-org-'', ''x-tenant-'']"

definition spoofable :: "string \<Rightarrow> bool" where
  "spoofable name \<longleftrightarrow> (\<exists>p \<in> set SPOOFABLE_HEADER_PREFIXES. prefix p (bytes_lower name))"

definition strip_spoofable_headers :: "http_scope \<Rightarrow> http_scope" where
  "strip_spoofable_headers sc =
     sc\<lparr>sc_headers := filter (\<lambda>(name, value). \<not> spoofable name) (sc_headers sc)\<rparr>"

definition graphql_path :: "string \<Rightarrow> bool" where
  "graphql_path path \<longleftrightarrow> prefix ''/graphql'' path"

definition unauthenticated :: rbac_outcome where
  "unauthenticated = Reject 401 ''Authentication required.''"

definition rbac_call ::
    "(json \<Rightarrow> string) \<Rightarrow> (jwt_request \<Rightarrow> jwt_outcome) \<Rightarrow> auth_config \<Rightarrow> string option \<Rightarrow> http_scope
      \<Rightarrow> rbac_outcome \<times> string list \<times> string option" where
  "rbac_call rep decode cfg cached scope =
     (if sc_type scope \<noteq> ''http'' then (Forward scope, [], cached)
      else
        let sc = (strip_spoofable_headers scope)\<lparr>sc_principal := None\<rparr> in
        if \<not> graphql_path (sc_path sc) then (Forward sc, [], cached)
        else
          let token = extract_bearer_token (map_of (sc_headers sc) ''authorization'');
              (res, cached') =
                (case token of None \<Rightarrow> (Inr None, cached)
                 | Some t \<Rightarrow> validate_access_token decode cfg cached (Some t))
          in (case res of
                Inl e \<Rightarrow> (Crash e, [], cached')
              | Inr None \<Rightarrow> (unauthenticated, [''missing_or_invalid_bearer_token''], cached')
              | Inr (Some claims) \<Rightarrow>
                  (case build_principal_from_claims rep (Some claims) of
                     Inl e \<Rightarrow> (Crash e, [], cached')
                   | Inr None \<Rightarrow> (unauthenticated, [''principal_from_claims_failed''], cached')
                   | Inr (Some p) \<Rightarrow> (Forward (sc\<lparr>sc_principal := Some p\<rparr>), [], cached'))))"

lemma rbac_forward:
  assumes "rbac_call rep decode cfg cached scope = (Forward sc, audit, cached')"
    and "sc_type scope = ''http''" and "graphql_path (sc_path scope)"
  shows "\<exists>t claims p.
     extract_bearer_token (map_of (filter (\<lambda>(n, v). \<not> spoofable n) (sc_headers scope)) ''authorization'') = Some t \<and>
     decode (jwt_request_for cfg (jwks_url cfg) t) = Jwt_Claims claims \<and> scope_ok claims \<and>
     build_principal_from_claims rep (Some claims) = Inr (Some p) \<and>
     sc = scope\<lparr>sc_headers := filter (\<lambda>(n, v). \<not> spoofable n) (sc_headers scope), sc_principal := Some p\<rparr>"
  using assms
  by (auto simp: rbac_call_def Let_def strip_spoofable_headers_def unauthenticated_def
      split: option.splits prod.splits sum.splits if_splits dest!: validate_access_token_Some)

text \<open>C2. A GraphQL request reaches the application only with a principal built from claims that the
  JWT library verified for the request's own bearer token (RS256, the configured audience and
  issuer), and the headers the application sees are the client's without any header that names a
  user, organisation or tenant.\<close>

theorem rbac_forward_authenticated:
  assumes "rbac_call rep decode cfg cached scope = (Forward sc, audit, cached')"
    and "sc_type scope = ''http''" and "graphql_path (sc_path scope)"
  shows "\<exists>t claims p.
     extract_bearer_token (map_of (filter (\<lambda>(n, v). \<not> spoofable n) (sc_headers scope)) ''authorization'') = Some t \<and>
     decode (jwt_request_for cfg (jwks_url cfg) t) = Jwt_Claims claims \<and> scope_ok claims \<and>
     build_principal_from_claims rep (Some claims) = Inr (Some p) \<and>
     sc = scope\<lparr>sc_headers := filter (\<lambda>(n, v). \<not> spoofable n) (sc_headers scope), sc_principal := Some p\<rparr>"
  using rbac_forward[OF assms] .

definition example_claims :: obj where
  "example_claims = [(''sub'', JStr ''u1''), (TENANT_ID_CLAIM, JStr ''org-acme''),
     (''roles'', JArr [JStr ''Admin'']), (''region'', JStr ''EU'')]"

definition example_scope :: http_scope where
  "example_scope = \<lparr>sc_type = ''http'', sc_path = ''/graphql'',
     sc_headers = [(''x-org-id'', ''org-evil''), (''authorization'', ''Bearer tok'')], sc_principal = None\<rparr>"

definition example_cfg :: auth_config where
  "example_cfg = \<lparr>cfg_domain = ''d'', cfg_audience = ''a'', cfg_issuer = []\<rparr>"

lemma rbac_forward_authenticated_witness:
  "\<exists>sc. rbac_call (\<lambda>_. []) (\<lambda>_. Jwt_Claims example_claims) example_cfg None example_scope =
     (Forward sc, [], Some ''https://d/.well-known/jwks.json'') \<and>
   sc_headers sc = [(''authorization'', ''Bearer tok'')] \<and> sc_principal sc \<noteq> None"
proof -
  have r: "case rbac_call (\<lambda>_. []) (\<lambda>_. Jwt_Claims example_claims) example_cfg None example_scope of
      (Forward sc, a, c) \<Rightarrow> a = [] \<and> c = Some ''https://d/.well-known/jwks.json'' | _ \<Rightarrow> False"
    by code_simp
  then obtain sc where sc: "rbac_call (\<lambda>_. []) (\<lambda>_. Jwt_Claims example_claims) example_cfg None example_scope =
      (Forward sc, [], Some ''https://d/.well-known/jwks.json'')"
    by (auto split: prod.splits rbac_outcome.splits)
  have "sc_type example_scope = ''http''" "graphql_path (sc_path example_scope)"
    "filter (\<lambda>(n, v). \<not> spoofable n) (sc_headers example_scope) = [(''authorization'', ''Bearer tok'')]"
    by code_simp+
  then show ?thesis
    using rbac_forward_authenticated[OF sc] sc by auto
qed

end
