(* ===== verification/Rate_Limit.thy ===== *)
theory Rate_Limit
  imports Auth Py_Num
begin

text \<open>
  sql\_query\_api/middlewares/rate\_limit\_middleware.py: sliding windows of request times per client
  address, principal, tenant and database. A time is the real number that \<open>time.monotonic()\<close> returned.
  The four storages are one function from dimensions to dictionaries; the repeated blocks of
  \<open>_allow_request\<close> are the recursion \<open>check_dimensions\<close> over the list of dimensions. A request is
  handled under the lock, so requests are a sequence.
\<close>

subsection \<open>State\<close>

datatype dimension = Ip | By_Principal | By_Tenant | By_Database

type_synonym hits = "(string, real list) dict"

record limiter =
  lm_window :: int
  lm_trust_proxy :: bool
  lm_legacy_max :: int
  lm_max :: "dimension \<Rightarrow> int"
  lm_hits :: "dimension \<Rightarrow> hits"
  lm_legacy_hits :: hits

record http_request =
  hq_type :: string
  hq_path :: string
  hq_method :: string
  hq_client :: "string option"
  hq_forwarded_for :: "string option"
  hq_principal :: "principal option"

datatype limit_outcome = Pass_On | Too_Many int

definition limiter_from_environment :: "os_state \<Rightarrow> exn + limiter" where
  "limiter_from_environment os =
     bind_result (env_int os ''RATE_LIMIT_WINDOW_SECONDS'' ''60'') (\<lambda>window.
     bind_result (env_int os ''RATE_LIMIT_MAX_REQUESTS'' ''0'') (\<lambda>legacy.
     bind_result (env_int os ''RATE_LIMIT_IP_MAX'' ''120'') (\<lambda>ip.
     bind_result (env_int os ''RATE_LIMIT_PRINCIPAL_MAX'' ''60'') (\<lambda>pr.
     bind_result (env_int os ''RATE_LIMIT_TENANT_MAX'' ''200'') (\<lambda>tenant.
     bind_result (env_int os ''RATE_LIMIT_DATABASE_MAX'' ''100'') (\<lambda>database.
       Inr \<lparr>lm_window = window,
          lm_trust_proxy = (py_lower (getenv os ''TRUST_PROXY'' []) \<in> set truthy_spellings),
          lm_legacy_max = legacy,
          lm_max = case_dimension ip pr tenant database,
          lm_hits = (\<lambda>_. []), lm_legacy_hits = []\<rparr>))))))"

definition layered_mode :: "limiter \<Rightarrow> bool" where
  "layered_mode lm \<longleftrightarrow>
     lm_legacy_max lm = 0 \<and> list_ex (\<lambda>d. lm_max lm d > 0) [Ip, By_Principal, By_Tenant, By_Database]"

subsection \<open>Keys\<close>

definition get_client_ip :: "limiter \<Rightarrow> http_request \<Rightarrow> string" where
  "get_client_ip lm rq =
     (case (if lm_trust_proxy lm then hq_forwarded_for rq else None) of
        Some f \<Rightarrow>
          if f \<noteq> [] then py_strip (hd (split_on CHR '','' f))
          else (case hq_client rq of None \<Rightarrow> ''unknown'' | Some h \<Rightarrow> h)
      | None \<Rightarrow> (case hq_client rq of None \<Rightarrow> ''unknown'' | Some h \<Rightarrow> h))"

definition non_empty :: "string option \<Rightarrow> string option" where
  "non_empty v = (case v of Some s \<Rightarrow> if s = [] then None else Some s | None \<Rightarrow> None)"

definition extract_database_id :: "http_request \<Rightarrow> string option" where
  "extract_database_id rq = None"

fun rate_limit_keys :: "limiter \<Rightarrow> http_request \<Rightarrow> dimension \<Rightarrow> string option" where
  "rate_limit_keys lm rq Ip = Some (get_client_ip lm rq)"
| "rate_limit_keys lm rq By_Principal = non_empty (map_option pr_user_id (hq_principal rq))"
| "rate_limit_keys lm rq By_Tenant = non_empty (map_option pr_org_id (hq_principal rq))"
| "rate_limit_keys lm rq By_Database = extract_database_id rq"

definition rate_limit_key :: "limiter \<Rightarrow> http_request \<Rightarrow> string" where
  "rate_limit_key lm rq =
     (case non_empty (map_option pr_user_id (hq_principal rq)) of
        Some u \<Rightarrow> ''user:'' @ u
      | None \<Rightarrow> get_client_ip lm rq)"

subsection \<open>Windows\<close>

definition hits_of :: "hits \<Rightarrow> string \<Rightarrow> real list" where
  "hits_of h key = (case dict_get h key of None \<Rightarrow> [] | Some q \<Rightarrow> q)"

definition recent :: "real \<Rightarrow> real list \<Rightarrow> real list" where
  "recent cutoff q = dropWhile (\<lambda>t. t \<le> cutoff) q"

text \<open>Both limiters charge a window in the same way.\<close>

definition charge_window :: "string \<Rightarrow> int \<Rightarrow> hits \<Rightarrow> real \<Rightarrow> real \<Rightarrow> bool \<times> hits" where
  "charge_window key max_requests h cutoff now =
     (let q = recent cutoff (hits_of h key) in
      if int (length q) \<ge> max_requests then (False, dict_set h key q)
      else (True, dict_set h key (q @ [now])))"

definition check_limit :: "string \<Rightarrow> int \<Rightarrow> hits \<Rightarrow> real \<Rightarrow> real \<Rightarrow> bool \<times> hits" where
  "check_limit key max_requests h cutoff now =
     (if max_requests \<le> 0 then (True, h) else charge_window key max_requests h cutoff now)"

fun check_dimensions ::
    "limiter \<Rightarrow> (dimension \<Rightarrow> string option) \<Rightarrow> real \<Rightarrow> dimension list \<Rightarrow> dimension option \<times> limiter" where
  "check_dimensions lm keys now [] = (None, lm)"
| "check_dimensions lm keys now (d # ds) =
     (case non_empty (keys d) of
        None \<Rightarrow> check_dimensions lm keys now ds
      | Some key \<Rightarrow>
          (case check_limit key (lm_max lm d) (lm_hits lm d) (now - real_of_int (lm_window lm)) now of
             (ok, h) \<Rightarrow>
               let lm' = lm\<lparr>lm_hits := (lm_hits lm)(d := h)\<rparr> in
               if ok then check_dimensions lm' keys now ds else (Some d, lm')))"

definition allow_request :: "limiter \<Rightarrow> (dimension \<Rightarrow> string option) \<Rightarrow> real \<Rightarrow> dimension option \<times> limiter" where
  "allow_request lm keys now = check_dimensions lm keys now [Ip, By_Principal, By_Tenant, By_Database]"

definition allow_legacy_request :: "limiter \<Rightarrow> string \<Rightarrow> real \<Rightarrow> bool \<times> limiter" where
  "allow_legacy_request lm key now =
     (case charge_window key (lm_legacy_max lm) (lm_legacy_hits lm) (now - real_of_int (lm_window lm)) now of
        (ok, h) \<Rightarrow> (ok, lm\<lparr>lm_legacy_hits := h\<rparr>))"

definition limited_path :: "http_request \<Rightarrow> bool" where
  "limited_path rq \<longleftrightarrow> hq_type rq = ''http'' \<and> prefix ''/graphql'' (hq_path rq) \<and> hq_method rq \<noteq> ''OPTIONS''"

definition rate_limit_call :: "limiter \<Rightarrow> http_request \<Rightarrow> real \<Rightarrow> limit_outcome \<times> limiter" where
  "rate_limit_call lm rq now =
     (if \<not> limited_path rq then (Pass_On, lm)
      else if layered_mode lm then
        (case allow_request lm (rate_limit_keys lm rq) now of
           (None, lm') \<Rightarrow> (Pass_On, lm')
         | (Some d, lm') \<Rightarrow> (Too_Many (lm_window lm), lm'))
      else
        (case allow_legacy_request lm (rate_limit_key lm rq) now of
           (True, lm') \<Rightarrow> (Pass_On, lm')
         | (False, lm') \<Rightarrow> (Too_Many (lm_window lm), lm')))"

text \<open>The outcomes of a sequence of requests with their times.\<close>

fun rate_limit_run :: "limiter \<Rightarrow> (http_request \<times> real) list \<Rightarrow> limit_outcome list" where
  "rate_limit_run lm [] = []"
| "rate_limit_run lm ((rq, now) # rqs) =
     (case rate_limit_call lm rq now of (out, lm') \<Rightarrow> out # rate_limit_run lm' rqs)"

subsection \<open>One window\<close>

text \<open>
  The interface of a sliding window, for its clients: \<open>times\<close> of a state are the charges it still
  remembers, \<open>charge\<close> tries to charge at a time. The laws are those of a window of \<open>width\<close> seconds
  with a budget.
\<close>

locale sliding_window =
  fixes times :: "'s \<Rightarrow> real list"
    and charge :: "'s \<Rightarrow> real \<Rightarrow> bool \<times> 's"
    and width :: real
    and budget :: int
  assumes charge_granted: "charge s now = (True, s') \<Longrightarrow>
      int (length (recent (now - width) (times s))) < budget \<and> times s' = recent (now - width) (times s) @ [now]"
    and charge_refused: "charge s now = (False, s') \<Longrightarrow> times s' = recent (now - width) (times s)"
begin

text \<open>What the window remembers covers what it granted: beyond any point that is not before the last
  cutoff there are at most as many grants as remembered charges.\<close>

definition covers :: "real \<Rightarrow> 's \<Rightarrow> real list \<Rightarrow> bool" where
  "covers now s granted \<longleftrightarrow>
     sorted (times s) \<and> (\<forall>t \<in> set (times s). t \<le> now) \<and> (\<forall>t \<in> set granted. t \<le> now) \<and>
     (\<forall>x \<ge> now - width. length (filter (\<lambda>t. x < t) granted) \<le> length (filter (\<lambda>t. x < t) (times s)))"

definition within_budget :: "real list \<Rightarrow> bool" where
  "within_budget granted \<longleftrightarrow>
     (\<forall>x. int (length (filter (\<lambda>t. x < t \<and> t \<le> x + width) granted)) \<le> max 0 budget)"

end

lemma recent_filter: "sorted q \<Longrightarrow> recent c q = filter (\<lambda>t. c < t) q"
proof (induction q)
  case Nil
  show ?case by (simp add: recent_def)
next
  case (Cons t q)
  have "\<forall>u \<in> set q. c < u" if "\<not> t \<le> c"
    using Cons.prems that by fastforce
  then show ?case
    using Cons by (cases "t \<le> c") (simp_all add: recent_def)
qed

lemma filter_recent: "sorted q \<Longrightarrow> c \<le> x \<Longrightarrow> filter (\<lambda>t. x < t) (recent c q) = filter (\<lambda>t. x < t) q"
  by (auto simp: recent_filter intro: filter_cong)

lemma sorted_recent: "sorted q \<Longrightarrow> sorted (recent c q)"
  by (simp add: recent_filter sorted_wrt_filter)

lemma set_recent: "set (recent c q) \<subseteq> set q"
  by (auto simp: recent_def dest: set_dropWhileD)

context sliding_window
begin

text \<open>A granted charge may or may not be used by the client (a later window may refuse the request).\<close>

lemma covers_granted:
  assumes "covers now s granted" and "charge s now' = (True, s')" and "now \<le> now'"
  shows "covers now' s' granted" and "covers now' s' (granted @ [now'])"
proof -
  note c = assms(1)[unfolded covers_def] and s' = charge_granted[OF assms(2)]
  let ?q = "recent (now' - width) (times s)"
  have q: "sorted ?q" "\<forall>t \<in> set ?q. t \<le> now'"
    using c assms(3) set_recent by (force intro: sorted_recent)+
  have f: "length (filter (\<lambda>t. x < t) granted) \<le> length (filter (\<lambda>t. x < t) ?q)" if "now' - width \<le> x" for x
    using c that assms(3) filter_recent[of "times s" "now' - width" x] by auto
  have g: "\<forall>t \<in> set granted. t \<le> now'"
    using c assms(3) by force
  have t: "sorted (times s')" "\<forall>t \<in> set (times s'). t \<le> now'"
    using q s' by (auto simp: sorted_append)
  show "covers now' s' granted"
    using t g f s' by (auto simp: covers_def le_SucI)
  show "covers now' s' (granted @ [now'])"
    using t g f s' by (auto simp: covers_def)
qed

lemma covers_refused:
  assumes "covers now s granted" and "charge s now' = (False, s')" and "now \<le> now'"
  shows "covers now' s' granted"
proof -
  have "length (filter (\<lambda>t. x < t) granted) \<le> length (filter (\<lambda>t. x < t) (times s'))" if "now' - width \<le> x" for x
    using assms(1,3) that charge_refused[OF assms(2)] filter_recent[of "times s" "now' - width" x]
    by (auto simp: covers_def)
  moreover have "sorted (times s')" "set (times s') \<subseteq> set (times s)"
    using assms(1) charge_refused[OF assms(2)] set_recent by (auto simp: covers_def intro: sorted_recent)
  ultimately show ?thesis
    using assms(1,3) by (force simp: covers_def)
qed

lemma covers_later: "covers now s granted \<Longrightarrow> now \<le> now' \<Longrightarrow> times s' = times s \<Longrightarrow> covers now' s' granted"
  by (force simp: covers_def)

lemma covers_start: "times s = [] \<Longrightarrow> covers now s [] \<and> within_budget []"
  by (simp add: covers_def within_budget_def)

lemma granted_within_budget:
  assumes "covers now s granted" and "charge s now' = (True, s')" and "now \<le> now'" and "within_budget granted"
  shows "within_budget (granted @ [now'])"
proof -
  let ?in = "\<lambda>x t. x < t \<and> t \<le> x + width"
  have s': "int (length (recent (now' - width) (times s))) < budget"
    using charge_granted[OF assms(2)] by blast
  have "int (length (filter (?in x) (granted @ [now']))) \<le> max 0 budget" for x
  proof (cases "?in x now'")
    case True
    then have x: "now' - width \<le> x"
      by simp
    have "length (filter (?in x) granted) \<le> length (filter (\<lambda>t. x < t) granted)"
      by (induction granted) auto
    also have "\<dots> \<le> length (filter (\<lambda>t. x < t) (times s))"
      using assms(1,3) x by (auto simp: covers_def)
    also have "\<dots> = length (filter (\<lambda>t. x < t) (recent (now' - width) (times s)))"
      using assms(1) x filter_recent[of "times s" "now' - width" x] by (simp add: covers_def)
    also have "\<dots> \<le> length (recent (now' - width) (times s))"
      by (rule length_filter_le)
    finally have "int (length (filter (?in x) granted)) < budget"
      using s' by linarith
    then show ?thesis
      using True by simp
  next
    case False
    then show ?thesis
      using assms(4) by (auto simp: within_budget_def)
  qed
  then show ?thesis
    by (simp add: within_budget_def)
qed

end
interpretation window: sliding_window "\<lambda>h. hits_of h key" "\<lambda>h now. charge_window key budget h (now - width) now" width budget
  for key budget width
  by unfold_locales (auto simp: charge_window_def hits_of_def Let_def split: if_splits)

subsection \<open>The limiter\<close>

lemma charge_window_other:
  "charge_window key m h c now = (ok, h') \<Longrightarrow> k \<noteq> key \<Longrightarrow> hits_of h' k = hits_of h k"
  by (auto simp: charge_window_def hits_of_def Let_def split: if_splits)

lemma check_dimensions_config:
  "check_dimensions lm keys now ds = (r, lm') \<Longrightarrow>
     lm_window lm' = lm_window lm \<and> lm_max lm' = lm_max lm \<and> lm_trust_proxy lm' = lm_trust_proxy lm \<and>
     lm_legacy_max lm' = lm_legacy_max lm \<and> (d \<notin> set ds \<longrightarrow> lm_hits lm' d = lm_hits lm d)"
  by (induction lm keys now ds rule: check_dimensions.induct)
    (auto simp: Let_def split: option.splits prod.splits if_splits)

text \<open>What one request does to one dimension: nothing (then it was not granted, or has no key there), or
  one check under its key, which succeeded if the request was granted.\<close>

lemma check_dimensions_at:
  assumes "check_dimensions lm keys now ds = (r, lm')" and "distinct ds" and "d \<in> set ds"
  shows "lm_hits lm' d = lm_hits lm d \<and> (r = None \<longrightarrow> non_empty (keys d) = None) \<or>
    (\<exists>key ok. non_empty (keys d) = Some key \<and> (r = None \<longrightarrow> ok) \<and>
       check_limit key (lm_max lm d) (lm_hits lm d) (now - real_of_int (lm_window lm)) now = (ok, lm_hits lm' d))"
  using assms
proof (induction lm keys now ds rule: check_dimensions.induct)
  case (2 lm keys now e ds)
  show ?case
  proof (cases "non_empty (keys e)")
    case None
    then have run: "check_dimensions lm keys now ds = (r, lm')"
      using 2 by simp
    show ?thesis
    proof (cases "d = e")
      case True
      then show ?thesis
        using None run check_dimensions_config[OF run, of e] 2 by auto
    next
      case False
      then show ?thesis
        using 2(1)[OF None run] 2(4,5) by auto
    qed
  next
    case (Some key)
    obtain ok h where c: "check_limit key (lm_max lm e) (lm_hits lm e) (now - real_of_int (lm_window lm)) now = (ok, h)"
      by (cases "check_limit key (lm_max lm e) (lm_hits lm e) (now - real_of_int (lm_window lm)) now")
    let ?lm = "lm\<lparr>lm_hits := (lm_hits lm)(e := h)\<rparr>"
    show ?thesis
    proof (cases ok)
      case True
      then have run: "check_dimensions ?lm keys now ds = (r, lm')"
        using 2(3) Some c by simp
      have IH: "d \<in> set ds \<Longrightarrow> ?thesis"
        using 2(2)[OF Some c[symmetric] refl _ run] True 2(4) by (cases "d = e") auto
      show ?thesis
      proof (cases "d = e")
        case True
        then show ?thesis
          using Some c \<open>ok\<close> check_dimensions_config[OF run, of e] 2(4) by auto
      qed (use IH 2(5) in auto)
    next
      case False
      then have "r = Some e" "lm' = ?lm"
        using 2(3) Some c by auto
      then show ?thesis
        using Some c by (cases "d = e") auto
    qed
  qed
qed simp

definition granted_times :: "(http_request \<times> real) list \<Rightarrow> limit_outcome list \<Rightarrow> (http_request \<Rightarrow> bool) \<Rightarrow> real list" where
  "granted_times rqs outs P =
     map (snd \<circ> fst) (filter (\<lambda>((rq, t), out). out = Pass_On \<and> limited_path rq \<and> P rq) (zip rqs outs))"

lemma granted_times_simps [simp]:
  "granted_times [] outs P = []"
  "granted_times ((rq, t) # rqs) (out # outs) P =
     (if out = Pass_On \<and> limited_path rq \<and> P rq then t # granted_times rqs outs P else granted_times rqs outs P)"
  by (simp_all add: granted_times_def)

lemma rate_limit_keys_cong: "lm_trust_proxy lm' = lm_trust_proxy lm \<Longrightarrow> rate_limit_keys lm' = rate_limit_keys lm"
proof (intro ext)
  fix rq d
  assume "lm_trust_proxy lm' = lm_trust_proxy lm"
  then show "rate_limit_keys lm' rq d = rate_limit_keys lm rq d"
    by (cases d) (simp_all add: get_client_ip_def)
qed

lemma non_empty_Some [simp]: "non_empty v = Some k \<longleftrightarrow> v = Some k \<and> k \<noteq> []"
  by (cases v) (auto simp: non_empty_def)

lemma non_empty_simps [simp]: "non_empty None = None" "non_empty (Some k) = (if k = [] then None else Some k)"
  by (simp_all add: non_empty_def)

abbreviation covers :: "string \<Rightarrow> real \<Rightarrow> real \<Rightarrow> hits \<Rightarrow> real list \<Rightarrow> bool" where
  "covers k width \<equiv> sliding_window.covers (\<lambda>h. hits_of h k) width"

abbreviation within_budget :: "real \<Rightarrow> int \<Rightarrow> real list \<Rightarrow> bool" where
  "within_budget width budget \<equiv> sliding_window.within_budget width budget"

text \<open>One request, seen from the window of key \<open>k\<close> in dimension \<open>d\<close>.\<close>

lemma rate_limit_call_step:
  assumes "rate_limit_call lm rq now' = (out, lm')" and "layered_mode lm" and "0 < lm_max lm d"
    and "covers k (lm_window lm) now (lm_hits lm d) G" and "within_budget (lm_window lm) (lm_max lm d) G" and "now \<le> now'"
  defines "G' \<equiv> (if out = Pass_On \<and> limited_path rq \<and> rate_limit_keys lm rq d = Some k \<and> k \<noteq> [] then G @ [now'] else G)"
  shows "covers k (lm_window lm) now' (lm_hits lm' d) G' \<and> within_budget (lm_window lm) (lm_max lm d) G' \<and>
     layered_mode lm' \<and> lm_window lm' = lm_window lm \<and> lm_max lm' = lm_max lm \<and> lm_trust_proxy lm' = lm_trust_proxy lm"
proof (cases "limited_path rq")
  case False
  then show ?thesis
    using assms window.covers_later by (auto simp: rate_limit_call_def G'_def)
next
  case True
  let ?ds = "[Ip, By_Principal, By_Tenant, By_Database]"
  obtain r where r: "check_dimensions lm (rate_limit_keys lm rq) now' ?ds = (r, lm')" "out = Pass_On \<longleftrightarrow> r = None"
    using assms(1,2) True by (auto simp: rate_limit_call_def allow_request_def split: prod.splits option.splits)
  have cfg: "lm_window lm' = lm_window lm" "lm_max lm' = lm_max lm" "lm_trust_proxy lm' = lm_trust_proxy lm"
    "layered_mode lm'"
    using check_dimensions_config[OF r(1)] assms(2) by (auto simp: layered_mode_def)
  have later: "covers k (lm_window lm) now' h G" if "hits_of h k = hits_of (lm_hits lm d) k" for h
    using window.covers_later[OF assms(4,6)] that .
  have "d \<in> set ?ds" "distinct ?ds"
    by (cases d) simp_all
  from check_dimensions_at[OF r(1) this(2,1)] consider
      (idle) "lm_hits lm' d = lm_hits lm d" "r = None \<longrightarrow> non_empty (rate_limit_keys lm rq d) = None"
    | (check) key ok where "non_empty (rate_limit_keys lm rq d) = Some key" "r = None \<longrightarrow> ok"
        "charge_window key (lm_max lm d) (lm_hits lm d) (now' - real_of_int (lm_window lm)) now' = (ok, lm_hits lm' d)"
    using assms(3) by (auto simp: check_limit_def)
  then have "covers k (lm_window lm) now' (lm_hits lm' d) G' \<and> within_budget (lm_window lm) (lm_max lm d) G'"
  proof cases
    case idle
    then have "G' = G"
      using r(2) by (auto simp: G'_def)
    then show ?thesis
      using later[of "lm_hits lm' d"] idle assms(5) by simp
  next
    case check
    show ?thesis
    proof (cases "key = k")
      case False
      then have "G' = G"
        using check by (auto simp: G'_def)
      then show ?thesis
        using later[of "lm_hits lm' d"] charge_window_other[OF check(3), of k] False assms(5) by auto
    next
      case key: True
      show ?thesis
      proof (cases ok)
        case True
        then have c: "charge_window k (lm_max lm d) (lm_hits lm d) (now' - real_of_int (lm_window lm)) now' = (True, lm_hits lm' d)"
          using check(3) key by simp
        show ?thesis
          using window.covers_granted[OF assms(4) c assms(6)] window.granted_within_budget[OF assms(4) c assms(6) assms(5)] assms(5)
          by (auto simp: G'_def)
      next
        case False
        then have "G' = G"
          using check(2) r(2) by (auto simp: G'_def)
        moreover have "charge_window k (lm_max lm d) (lm_hits lm d) (now' - real_of_int (lm_window lm)) now' = (False, lm_hits lm' d)"
          using check(3) key False by simp
        ultimately show ?thesis
          using window.covers_refused[OF assms(4) _ assms(6)] assms(5) by auto
      qed
    qed
  qed
  then show ?thesis
    using cfg by blast
qed

lemma rate_limit_run_within_budget:
  assumes "layered_mode lm" and "0 < lm_max lm d" and "k \<noteq> []"
    and "covers k (lm_window lm) now (lm_hits lm d) G" and "within_budget (lm_window lm) (lm_max lm d) G"
    and "sorted (now # map snd rqs)"
  shows "within_budget (lm_window lm) (lm_max lm d)
     (G @ granted_times rqs (rate_limit_run lm rqs) (\<lambda>rq. rate_limit_keys lm rq d = Some k))"
  using assms
proof (induction rqs arbitrary: lm now G)
  case (Cons r rqs)
  obtain rq now' where [simp]: "r = (rq, now')"
    by (cases r)
  obtain out lm' where c: "rate_limit_call lm rq now' = (out, lm')"
    by (cases "rate_limit_call lm rq now'")
  let ?G = "if out = Pass_On \<and> limited_path rq \<and> rate_limit_keys lm rq d = Some k \<and> k \<noteq> [] then G @ [now'] else G"
  have le: "now \<le> now'" and so: "sorted (now' # map snd rqs)"
    using Cons.prems(6) by auto
  note st = rate_limit_call_step[OF c Cons.prems(1,2,4,5) le]
  then have l: "layered_mode lm'" "lm_window lm' = lm_window lm" "lm_max lm' = lm_max lm" "rate_limit_keys lm' = rate_limit_keys lm"
    "covers k (lm_window lm) now' (lm_hits lm' d) ?G" "within_budget (lm_window lm) (lm_max lm d) ?G"
    using rate_limit_keys_cong[of lm' lm] by blast+
  have "within_budget (lm_window lm) (lm_max lm d)
      (?G @ granted_times rqs (rate_limit_run lm' rqs) (\<lambda>rq. rate_limit_keys lm rq d = Some k))"
    using Cons.IH[of lm' now' ?G] l so Cons.prems(2,3) by simp
  then show ?case
    using c Cons.prems(3) by (auto split: if_splits)
qed simp

subsection \<open>Properties\<close>


text \<open>A request for another path, or a preflight, never changes a window.\<close>

lemma unlimited_unchanged: "\<not> limited_path rq \<Longrightarrow> rate_limit_call lm rq now = (Pass_On, lm)"
  by (simp add: rate_limit_call_def)

text \<open>A limit of zero does not mean "no limit", as \<open>_check_limit\<close> has it: with every limit set to zero the
  limiter falls back to its legacy mode, whose budget of zero refuses every GraphQL request.\<close>

theorem zero_limits_refuse_everything:
  assumes "lm_legacy_max lm = 0" and "\<forall>d. lm_max lm d = 0" and "limited_path rq"
  shows "fst (rate_limit_call lm rq now) = Too_Many (lm_window lm)"
  using assms
  by (auto simp: rate_limit_call_def layered_mode_def allow_legacy_request_def charge_window_def Let_def)

lemma check_dimensions_unkeyed:
  assumes "non_empty (keys e) = None"
  shows "fst (check_dimensions (lm\<lparr>lm_max := (lm_max lm)(e := n)\<rparr>) keys now ds) = fst (check_dimensions lm keys now ds)"
proof (induction ds arbitrary: lm)
  case (Cons d ds)
  show ?case
  proof (cases "non_empty (keys d)")
    case None
    then show ?thesis
      using Cons.IH by simp
  next
    case (Some key)
    then have "d \<noteq> e"
      using assms by auto
    obtain ok h where c: "check_limit key (lm_max lm d) (lm_hits lm d) (now - real_of_int (lm_window lm)) now = (ok, h)"
      by (cases "check_limit key (lm_max lm d) (lm_hits lm d) (now - real_of_int (lm_window lm)) now")
    let ?h = "(lm_hits lm)(d := h)" and ?m = "(lm_max lm)(e := n)"
    have swap: "lm\<lparr>lm_max := ?m, lm_hits := ?h\<rparr> = lm\<lparr>lm_hits := ?h, lm_max := ?m\<rparr>"
      by simp
    have "fst (check_dimensions (lm\<lparr>lm_max := ?m, lm_hits := ?h\<rparr>) keys now ds) =
        fst (check_dimensions (lm\<lparr>lm_hits := ?h\<rparr>) keys now ds)"
      unfolding swap using Cons.IH[of "lm\<lparr>lm_hits := ?h\<rparr>"] by (simp add: fun_upd_def)
    then show ?thesis
      using Some c \<open>d \<noteq> e\<close> by (simp add: Let_def fun_upd_def)
  qed
qed simp

text \<open>The database limit is never applied: no request has a database key, so the answers are the same
  whatever the limit is.\<close>

theorem database_limit_not_applied:
  assumes "layered_mode lm" and "layered_mode (lm\<lparr>lm_max := (lm_max lm)(By_Database := n)\<rparr>)"
  shows "fst (rate_limit_call (lm\<lparr>lm_max := (lm_max lm)(By_Database := n)\<rparr>) rq now) = fst (rate_limit_call lm rq now)"
proof -
  have keys: "rate_limit_keys (lm\<lparr>lm_max := (lm_max lm)(By_Database := n)\<rparr>) rq = rate_limit_keys lm rq"
    by (rule fun_cong, rule rate_limit_keys_cong) simp
  have "fst (allow_request (lm\<lparr>lm_max := (lm_max lm)(By_Database := n)\<rparr>) (rate_limit_keys lm rq) now) =
      fst (allow_request lm (rate_limit_keys lm rq) now)"
    unfolding allow_request_def by (rule check_dimensions_unkeyed) (simp add: extract_database_id_def)
  then show ?thesis
    using assms unfolding rate_limit_call_def keys
    by (cases "allow_request lm (rate_limit_keys lm rq) now";
        cases "allow_request (lm\<lparr>lm_max := (lm_max lm)(By_Database := n)\<rparr>) (rate_limit_keys lm rq) now")
      (auto split: option.splits)
qed

text \<open>Behind a trusted proxy the address limit can be dodged: a forwarded list that starts with a comma gives
  an empty address, which has no key and so is neither checked nor charged.\<close>

theorem empty_forwarded_address_unlimited:
  assumes "lm_trust_proxy lm" and "hq_forwarded_for rq = Some (CHR '','' # rest)" and "layered_mode lm"
    and "rate_limit_call lm rq now = (out, lm')"
  shows "lm_hits lm' Ip = lm_hits lm Ip"
proof -
  have k: "non_empty (rate_limit_keys lm rq Ip) = None"
    using assms(1,2) by (simp add: get_client_ip_def)
  show ?thesis
  proof (cases "limited_path rq")
    case False
    then show ?thesis
      using assms(4) by (simp add: unlimited_unchanged)
  next
    case True
    obtain r where "allow_request lm (rate_limit_keys lm rq) now = (r, lm')"
      using assms(3,4) True by (auto simp: rate_limit_call_def split: prod.splits option.splits)
    then have "check_dimensions lm (rate_limit_keys lm rq) now [By_Principal, By_Tenant, By_Database] = (r, lm')"
      using k by (simp add: allow_request_def del: rate_limit_keys.simps)
    from check_dimensions_config[OF this, of Ip] show ?thesis
      by simp
  qed
qed

definition example_limiter :: limiter where
  "example_limiter =
     \<lparr>lm_window = 60, lm_trust_proxy = True, lm_legacy_max = 0, lm_max = case_dimension 0 1 0 0, lm_hits = (\<lambda>_. []),
      lm_legacy_hits = []\<rparr>"

definition example_http :: http_request where
  "example_http =
     \<lparr>hq_type = ''http'', hq_path = ''/graphql'', hq_method = ''POST'', hq_client = Some ''10.0.0.1'',
      hq_forwarded_for = Some '',9.9.9.9'',
      hq_principal = Some \<lparr>pr_user_id = ''u'', pr_email = ''u'', pr_org_id = ''acme'', pr_roles = {}, pr_attributes = []\<rparr>\<rparr>"

lemma example_limited: "limited_path example_http"
  by (simp add: limited_path_def example_http_def)

lemma example_layered: "layered_mode example_limiter"
  by (simp add: layered_mode_def example_limiter_def)


lemma zero_limits_refuse_everything_witness:
  "fst (rate_limit_call (example_limiter\<lparr>lm_max := \<lambda>_. 0\<rparr>) example_http 5) = Too_Many 60"
  using zero_limits_refuse_everything[of "example_limiter\<lparr>lm_max := \<lambda>_. 0\<rparr>" example_http 5] example_limited
  by (simp add: example_limiter_def)

lemma database_limit_not_applied_witness:
  "fst (rate_limit_call (example_limiter\<lparr>lm_max := (lm_max example_limiter)(By_Database := 1)\<rparr>) example_http 5) =
   fst (rate_limit_call example_limiter example_http 5)"
  by (rule database_limit_not_applied[OF example_layered]) (simp add: layered_mode_def example_limiter_def)

lemma empty_forwarded_address_unlimited_witness:
  "\<exists>out lm'. rate_limit_call example_limiter example_http 5 = (out, lm') \<and> lm_hits lm' Ip = []"
proof -
  obtain out lm' where run: "rate_limit_call example_limiter example_http 5 = (out, lm')"
    by (cases "rate_limit_call example_limiter example_http 5")
  from empty_forwarded_address_unlimited[OF _ _ example_layered run, of "''9.9.9.9''"] show ?thesis
    using run by (simp add: example_limiter_def example_http_def)
qed

end
