(* ===== verification/Audit_Log.thy ===== *)
theory Audit_Log
  imports Py_Num
begin

text \<open>
  sql\_query\_api/config/app\_logger.py: correlation identifiers, audit events with their hash chain, and
  the audit sinks with their configuration. A log context (the two context variables) is a record. The
  digest, the JSON renderings and the answers of the AWS services are parameters; the clock is read by
  the caller of the model, once per call of \<open>datetime.now\<close>. The telemetry exporter and the console
  format are not modelled.
\<close>

subsection \<open>Correlation identifiers\<close>

definition correlation_char :: "char \<Rightarrow> bool" where
  "correlation_char c \<longleftrightarrow> is_ascii_alpha c \<or> is_digit c \<or> c \<in> {CHR ''.'', CHR ''_'', CHR ''-''}"

definition correlation_safe :: "string \<Rightarrow> bool" where
  "correlation_safe s \<longleftrightarrow> 1 \<le> length s \<and> length s \<le> 128 \<and> list_all correlation_char s"

definition sanitize_correlation_id :: "string option \<Rightarrow> string option" where
  "sanitize_correlation_id v = (case v of Some s \<Rightarrow> if correlation_safe s then Some s else None | None \<Rightarrow> None)"

record log_context =
  lc_correlation_id :: string
  lc_audit_hash :: string

definition fresh_context :: log_context where
  "fresh_context = \<lparr>lc_correlation_id = ''N/A'', lc_audit_hash = []\<rparr>"

definition set_current_correlation_id :: "log_context \<Rightarrow> string \<Rightarrow> log_context \<times> string" where
  "set_current_correlation_id ctx cid = (ctx\<lparr>lc_correlation_id := cid\<rparr>, lc_correlation_id ctx)"

definition reset_current_correlation_id :: "log_context \<Rightarrow> string \<Rightarrow> log_context" where
  "reset_current_correlation_id ctx token = ctx\<lparr>lc_correlation_id := token\<rparr>"

text \<open>The token that undoes a change is the value before it.\<close>

definition set_current_audit_hash :: "log_context \<Rightarrow> string \<Rightarrow> string \<times> log_context" where
  "set_current_audit_hash ctx audit_hash = (lc_audit_hash ctx, ctx\<lparr>lc_audit_hash := audit_hash\<rparr>)"

definition reset_current_audit_hash :: "log_context \<Rightarrow> string \<Rightarrow> log_context" where
  "reset_current_audit_hash ctx token = ctx\<lparr>lc_audit_hash := token\<rparr>"

definition ensure_correlation_id :: "log_context \<Rightarrow> obj \<Rightarrow> obj" where
  "ensure_correlation_id ctx extra =
     (if dict_has extra ''correlation_id'' then extra
      else dict_set extra ''correlation_id'' (JStr (lc_correlation_id ctx)))"

subsection \<open>Sinks\<close>

record cloudwatch =
  cw_group :: string
  cw_stream :: string
  cw_token :: "string option"

record s3_sink =
  s3_bucket :: string
  s3_prefix :: string
  s3_kms_key :: "string option"
  s3_lock_mode :: string
  s3_lock_days :: int
  s3_max_batch :: int
  s3_buffer :: "obj list"

datatype sink = Stdout_Sink | CloudWatch_Sink cloudwatch | S3_Sink s3_sink | Composite_Sink "sink list"

type_synonym date = "int \<times> int \<times> int"

datatype sink_event =
    Printed obj
  | Cw_Put cloudwatch obj
  | S3_Put s3_sink date "obj list"
  | Sink_Failed string

text \<open>What the AWS services answer, and the date on which they are asked. \<open>aws_describe\<close> gives the names of the streams with
  their sequence tokens.\<close>

datatype aws_created = Aws_Created | Aws_Exists | Aws_Refused exn

record aws =
  aws_put_log :: "cloudwatch \<Rightarrow> obj \<Rightarrow> exn + string option"
  aws_put_object :: "s3_sink \<Rightarrow> obj list \<Rightarrow> exn + unit"
  aws_today :: date
  aws_create_group :: "string \<Rightarrow> aws_created"
  aws_create_stream :: "string \<Rightarrow> string \<Rightarrow> aws_created"
  aws_describe :: "string \<Rightarrow> string \<Rightarrow> exn + (string \<times> string option) list"

definition leap_year :: "int \<Rightarrow> bool" where
  "leap_year y \<longleftrightarrow> y mod 4 = 0 \<and> (y mod 100 \<noteq> 0 \<or> y mod 400 = 0)"

text \<open>\<open>now.replace(year=now.year + object_lock_days)\<close>\<close>

definition retain_until :: "date \<Rightarrow> int \<Rightarrow> exn + date" where
  "retain_until today days =
     (case today of (y, m, d) \<Rightarrow>
        if y + days < 1 \<or> 9999 < y + days \<or> (m = 2 \<and> d = 29 \<and> \<not> leap_year (y + days))
        then Inl (ValueError ''year is out of range'') else Inr (y + days, m, d))"

definition s3_flush :: "aws \<Rightarrow> s3_sink \<Rightarrow> (exn + unit) \<times> s3_sink \<times> sink_event list" where
  "s3_flush aws s =
     (if s3_buffer s = [] then (Inr (), s, [])
      else
        let batch = s3_buffer s; s' = s\<lparr>s3_buffer := []\<rparr> in
        (case retain_until (aws_today aws) (s3_lock_days s) of
           Inl e \<Rightarrow> (Inl e, s', [])
         | Inr date \<Rightarrow>
             (case aws_put_object aws s' batch of
                Inr _ \<Rightarrow> (Inr (), s', [S3_Put s' date batch])
              | Inl e \<Rightarrow> (Inl e, s', [Sink_Failed ''s3'']))))"

definition s3_write :: "aws \<Rightarrow> s3_sink \<Rightarrow> obj \<Rightarrow> (exn + unit) \<times> s3_sink \<times> sink_event list" where
  "s3_write aws s event =
     (let s1 = s\<lparr>s3_buffer := s3_buffer s @ [event]\<rparr> in
      if int (length (s3_buffer s1)) \<ge> s3_max_batch s1
      then (case s3_flush aws s1 of
              (Inl e, s2, ev) \<Rightarrow> (Inl e, s2, ev @ [Sink_Failed ''s3''])
            | (Inr _, s2, ev) \<Rightarrow> (Inr (), s2, ev))
      else (Inr (), s1, []))"

definition cloudwatch_write :: "aws \<Rightarrow> cloudwatch \<Rightarrow> obj \<Rightarrow> (exn + unit) \<times> cloudwatch \<times> sink_event list" where
  "cloudwatch_write aws c event =
     (case aws_put_log aws c event of
        Inr token \<Rightarrow> (Inr (), c\<lparr>cw_token := token\<rparr>, [Cw_Put c event])
      | Inl e \<Rightarrow> (Inl e, c, [Sink_Failed ''cloudwatch'']))"

fun sink_write :: "aws \<Rightarrow> sink \<Rightarrow> obj \<Rightarrow> (exn + unit) \<times> sink \<times> sink_event list"
  and sinks_write :: "aws \<Rightarrow> sink list \<Rightarrow> obj \<Rightarrow> (exn + unit) \<times> sink list \<times> sink_event list" where
  "sink_write aws Stdout_Sink event = (Inr (), Stdout_Sink, [Printed event])"
| "sink_write aws (CloudWatch_Sink c) event =
     (case cloudwatch_write aws c event of (r, c', ev) \<Rightarrow> (r, CloudWatch_Sink c', ev))"
| "sink_write aws (S3_Sink s) event = (case s3_write aws s event of (r, s', ev) \<Rightarrow> (r, S3_Sink s', ev))"
| "sink_write aws (Composite_Sink ss) event =
     (case sinks_write aws ss event of (r, ss', ev) \<Rightarrow> (r, Composite_Sink ss', ev))"
| "sinks_write aws [] event = (Inr (), [], [])"
| "sinks_write aws (s # ss) event =
     (case sink_write aws s event of
        (Inl e, s', ev) \<Rightarrow> (Inl e, s' # ss, ev)
      | (Inr _, s', ev) \<Rightarrow>
          (case sinks_write aws ss event of (r, ss', ev') \<Rightarrow> (r, s' # ss', ev @ ev')))"

fun sink_close :: "aws \<Rightarrow> sink \<Rightarrow> (exn + unit) \<times> sink \<times> sink_event list"
  and sinks_close :: "aws \<Rightarrow> sink list \<Rightarrow> (exn + unit) \<times> sink list \<times> sink_event list" where
  "sink_close aws Stdout_Sink = (Inr (), Stdout_Sink, [])"
| "sink_close aws (CloudWatch_Sink c) = (Inr (), CloudWatch_Sink c, [])"
| "sink_close aws (S3_Sink s) = (case s3_flush aws s of (r, s', ev) \<Rightarrow> (r, S3_Sink s', ev))"
| "sink_close aws (Composite_Sink ss) = (case sinks_close aws ss of (r, ss', ev) \<Rightarrow> (r, Composite_Sink ss', ev))"
| "sinks_close aws [] = (Inr (), [], [])"
| "sinks_close aws (s # ss) =
     (case sink_close aws s of
        (Inl e, s', ev) \<Rightarrow> (Inl e, s' # ss, ev)
      | (Inr _, s', ev) \<Rightarrow> (case sinks_close aws ss of (r, ss', ev') \<Rightarrow> (r, s' # ss', ev @ ev')))"

text \<open>\<open>_ensure_stream_exists\<close>: the sequence token to start with. A group that cannot be made raises, a stream that cannot be
  made does not.\<close>

definition ensure_stream_exists :: "aws \<Rightarrow> string \<Rightarrow> string \<Rightarrow> exn + string option" where
  "ensure_stream_exists aws log_group log_stream =
     (case aws_create_group aws log_group of
        Aws_Refused e \<Rightarrow> Inl e
      | _ \<Rightarrow>
          (case aws_create_stream aws log_group log_stream of
             Aws_Exists \<Rightarrow>
               bind_result (aws_describe aws log_group log_stream) (\<lambda>streams.
                 Inr (case dict_get streams log_stream of Some token \<Rightarrow> token | None \<Rightarrow> None))
           | _ \<Rightarrow> Inr None))"

text \<open>The background thread flushes on every tick of its timer; an exception ends it. \<open>alive\<close> tells whether it runs; writes come
  in between, and what a write raises goes to its caller.\<close>

datatype s3_op = Op_Write obj | Op_Tick

fun s3_run :: "(aws \<times> s3_op) list \<Rightarrow> bool \<Rightarrow> s3_sink \<Rightarrow> bool \<times> s3_sink \<times> sink_event list" where
  "s3_run [] alive s = (alive, s, [])"
| "s3_run ((aws, Op_Write event) # ops) alive s =
     (case s3_write aws s event of
        (_, s1, ev) \<Rightarrow> (case s3_run ops alive s1 of (alive', s2, ev') \<Rightarrow> (alive', s2, ev @ ev')))"
| "s3_run ((aws, Op_Tick) # ops) alive s =
     (if \<not> alive then s3_run ops alive s
      else
        (case s3_flush aws s of
           (r, s1, ev) \<Rightarrow> (case s3_run ops (case r of Inl _ \<Rightarrow> False | Inr _ \<Rightarrow> True) s1 of
             (alive', s2, ev') \<Rightarrow> (alive', s2, ev @ ev'))))"

text \<open>\<open>set_audit_sink\<close>: the old sink is closed first; when that fails it stays in place.\<close>

definition set_audit_sink :: "aws \<Rightarrow> sink \<Rightarrow> sink \<Rightarrow> (exn + unit) \<times> sink \<times> sink_event list" where
  "set_audit_sink aws old new =
     (case sink_close aws old of (Inl e, old', ev) \<Rightarrow> (Inl e, old', ev) | (Inr _, old', ev) \<Rightarrow> (Inr (), new, ev))"

subsection \<open>Configuration\<close>

definition getenv_opt :: "os_state \<Rightarrow> string \<Rightarrow> string option" where
  "getenv_opt os name = (case dict_get (os_env os) name of None \<Rightarrow> None | Some v \<Rightarrow> if v = [] then None else Some v)"

definition cloudwatch_from :: "aws \<Rightarrow> os_state \<Rightarrow> (exn + sink) option" where
  "cloudwatch_from aws os =
     (case (getenv_opt os ''AUDIT_CW_GROUP'', getenv_opt os ''AUDIT_CW_STREAM'') of
        (Some g, Some st) \<Rightarrow>
          Some (bind_result (ensure_stream_exists aws g st) (\<lambda>token.
            Inr (CloudWatch_Sink \<lparr>cw_group = g, cw_stream = st, cw_token = token\<rparr>)))
      | _ \<Rightarrow> None)"

definition s3_from :: "os_state \<Rightarrow> string \<Rightarrow> exn + sink" where
  "s3_from os bucket =
     bind_result (env_int os ''AUDIT_S3_LOCK_DAYS'' ''365'') (\<lambda>days.
     bind_result (env_int os ''AUDIT_S3_FLUSH_SECONDS'' ''60'') (\<lambda>_.
     bind_result (env_int os ''AUDIT_S3_MAX_BATCH'' ''100'') (\<lambda>batch.
       Inr (S3_Sink \<lparr>s3_bucket = bucket,
          s3_prefix = rstrip_by (\<lambda>c. c = CHR ''/'') (getenv os ''AUDIT_S3_PREFIX'' ''audit/'') @ ''/'',
          s3_kms_key = dict_get (os_env os) ''AUDIT_S3_KMS_KEY'',
          s3_lock_mode = getenv os ''AUDIT_S3_LOCK_MODE'' ''COMPLIANCE'', s3_lock_days = days,
          s3_max_batch = batch, s3_buffer = []\<rparr>))))"

definition composite_part :: "aws \<Rightarrow> os_state \<Rightarrow> string \<Rightarrow> exn + sink list" where
  "composite_part aws os raw =
     (let name = py_lower (py_strip raw) in
      if name = ''stdout'' then Inr [Stdout_Sink]
      else if name = ''cloudwatch'' then (case cloudwatch_from aws os of None \<Rightarrow> Inr [] | Some r \<Rightarrow> bind_result r (\<lambda>s. Inr [s]))
      else if name = ''s3'' then
        (case getenv_opt os ''AUDIT_S3_BUCKET'' of
           None \<Rightarrow> Inr []
         | Some b \<Rightarrow> bind_result (s3_from os b) (\<lambda>s. Inr [s]))
      else Inr [])"

definition configured_sink :: "aws \<Rightarrow> os_state \<Rightarrow> exn + sink" where
  "configured_sink aws os =
     (let kind = py_lower (getenv os ''AUDIT_SINK'' ''stdout'') in
      if kind = ''stdout'' then Inr Stdout_Sink
      else if kind = ''cloudwatch'' then
        (case cloudwatch_from aws os of
           None \<Rightarrow> Inl (RuntimeError ''AUDIT_CW_GROUP and AUDIT_CW_STREAM required for CloudWatch sink'')
         | Some r \<Rightarrow> r)
      else if kind = ''s3'' then
        (case getenv_opt os ''AUDIT_S3_BUCKET'' of
           None \<Rightarrow> Inl (RuntimeError ''AUDIT_S3_BUCKET required for S3 sink'')
         | Some b \<Rightarrow> s3_from os b)
      else if kind = ''composite'' then
        bind_result (result_map (composite_part aws os) (split_on CHR '','' (getenv os ''AUDIT_SINKS'' ''stdout''))) (\<lambda>parts.
          Inr (Composite_Sink (if concat parts = [] then [Stdout_Sink] else concat parts)))
      else Inl (RuntimeError ''Unknown AUDIT_SINK''))"

definition configure_audit_sink :: "aws \<Rightarrow> os_state \<Rightarrow> sink \<Rightarrow> (exn + unit) \<times> sink \<times> sink_event list" where
  "configure_audit_sink aws os old =
     (case configured_sink aws os of Inl e \<Rightarrow> (Inl e, old, []) | Inr s \<Rightarrow> set_audit_sink aws old s)"
subsection \<open>Audit events\<close>

text \<open>The digest, and the compact JSON text with sorted keys that goes into it.\<close>

record audit_lib =
  al_sha256 :: "string \<Rightarrow> string"
  al_dumps :: "obj \<Rightarrow> string"

definition hash_input :: "audit_lib \<Rightarrow> string \<Rightarrow> string \<Rightarrow> obj \<Rightarrow> string" where
  "hash_input lib event_type now payload =
     al_dumps lib (dict_merge [(''event'', JStr event_type), (''timestamp'', JStr now)]
       (filter (\<lambda>(k, _). k \<notin> {''audit_hash'', ''prev_audit_hash''}) payload))"

definition log_audit_event ::
    "audit_lib \<Rightarrow> aws \<Rightarrow> log_context \<Rightarrow> sink \<Rightarrow> string \<times> string \<Rightarrow> string \<Rightarrow> obj
      \<Rightarrow> (exn + unit) \<times> obj \<times> log_context \<times> sink \<times> sink_event list" where
  "log_audit_event lib aws ctx snk stamps event_type payload0 =
     (case stamps of (hashed_at, stamped_at) \<Rightarrow>
        let classification = obj_get_or payload0 ''data_classification'' (JStr ''INTERNAL'');
            payload = dict_pop payload0 ''data_classification'';
            prev = lc_audit_hash ctx;
            current = al_sha256 lib (prev @ hash_input lib event_type hashed_at payload);
            event = dict_merge (dict_merge [(''event'', JStr event_type), (''timestamp'', JStr stamped_at)] payload)
              [(''correlation_id'', JStr (lc_correlation_id ctx)), (''audit_hash'', JStr current),
               (''prev_audit_hash'', JStr prev), (''data_classification'', classification)];
            ctx' = ctx\<lparr>lc_audit_hash := current\<rparr>
        in (case sink_write aws snk event of (r, snk', ev) \<Rightarrow> (r, event, ctx', snk', ev)))"

record audit_call =
  ca_times :: "string \<times> string"
  ca_type :: string
  ca_payload :: obj

text \<open>The calls made in one context, in order, with the events they built. A sink that fails raises to the
  caller of that one event; later calls of the context go on.\<close>

fun log_run :: "audit_lib \<Rightarrow> aws \<Rightarrow> log_context \<Rightarrow> sink \<Rightarrow> audit_call list \<Rightarrow> obj list \<times> log_context" where
  "log_run lib aws ctx snk [] = ([], ctx)"
| "log_run lib aws ctx snk (c # cs) =
     (case log_audit_event lib aws ctx snk (ca_times c) (ca_type c) (ca_payload c) of
        (_, event, ctx', snk', _) \<Rightarrow>
          (case log_run lib aws ctx' snk' cs of (es, ctx'') \<Rightarrow> (event # es, ctx'')))"

text \<open>The chain as the documentation promises it: every event names the hash of the one before.\<close>

fun chained :: "string \<Rightarrow> obj list \<Rightarrow> string \<Rightarrow> bool" where
  "chained prev [] final \<longleftrightarrow> final = prev"
| "chained prev (e # es) final \<longleftrightarrow>
     obj_get e ''prev_audit_hash'' = JStr prev \<and>
     (case obj_get e ''audit_hash'' of JStr h \<Rightarrow> chained h es final | _ \<Rightarrow> False)"

definition call_input :: "audit_lib \<Rightarrow> audit_call \<Rightarrow> string" where
  "call_input lib c =
     hash_input lib (ca_type c) (fst (ca_times c)) (dict_pop (ca_payload c) ''data_classification'')"

subsection \<open>The chain\<close>

lemma log_audit_event_fields:
  assumes "log_audit_event lib aws ctx snk stamps event_type payload = (r, event, ctx', snk', ev)"
  defines "h \<equiv> al_sha256 lib (lc_audit_hash ctx @
      call_input lib \<lparr>ca_times = stamps, ca_type = event_type, ca_payload = payload\<rparr>)"
  shows "obj_get event ''prev_audit_hash'' = JStr (lc_audit_hash ctx)" and "obj_get event ''audit_hash'' = JStr h"
    and "obj_get event ''correlation_id'' = JStr (lc_correlation_id ctx)"
    and "ctx' = ctx\<lparr>lc_audit_hash := h\<rparr>"
  using assms
  by (auto simp: log_audit_event_def call_input_def obj_get_def dict_get_merge Let_def split: prod.splits)

lemma audit_call_eta [simp]: "\<lparr>ca_times = ca_times c, ca_type = ca_type c, ca_payload = ca_payload c\<rparr> = c"
  by simp

fun chain_hash :: "audit_lib \<Rightarrow> string \<Rightarrow> string list \<Rightarrow> string" where
  "chain_hash lib prev [] = prev"
| "chain_hash lib prev (x # xs) = chain_hash lib (al_sha256 lib (prev @ x)) xs"

lemma log_run_chain:
  assumes "log_run lib aws ctx snk cs = (es, ctx')"
  shows "chained (lc_audit_hash ctx) es (lc_audit_hash ctx') \<and>
     lc_audit_hash ctx' = chain_hash lib (lc_audit_hash ctx) (map (call_input lib) cs) \<and>
     length es = length cs \<and> lc_correlation_id ctx' = lc_correlation_id ctx \<and>
     (\<forall>e \<in> set es. obj_get e ''correlation_id'' = JStr (lc_correlation_id ctx))"
  using assms
proof (induction cs arbitrary: ctx snk es)
  case (Cons c cs)
  obtain r event ctx1 snk1 ev where e: "log_audit_event lib aws ctx snk (ca_times c) (ca_type c) (ca_payload c) = (r, event, ctx1, snk1, ev)"
    by (metis prod_cases5)
  obtain es1 where es: "log_run lib aws ctx1 snk1 cs = (es1, ctx')" "es = event # es1"
    using Cons.prems e by (auto split: prod.splits)
  show ?case
    using Cons.IH[OF es(1)] log_audit_event_fields[OF e] es(2) by auto
qed simp

text \<open>C19. The events of one context form a chain from the hash the context had before: each carries the hash
  of its predecessor and the correlation identifier of the context, also when a sink failed in
  between, and the context ends with the hash of the last.\<close>

theorem audit_events_chained:
  "case log_run lib aws ctx snk cs of (es, ctx') \<Rightarrow>
     chained (lc_audit_hash ctx) es (lc_audit_hash ctx') \<and> length es = length cs \<and>
     list_all (\<lambda>e. obj_get e ''correlation_id'' = JStr (lc_correlation_id ctx)) es"
proof -
  obtain es ctx' where r: "log_run lib aws ctx snk cs = (es, ctx')"
    by (cases "log_run lib aws ctx snk cs")
  show ?thesis
    using log_run_chain[OF r] unfolding r prod.case list_all_iff by blast
qed

lemma chain_hash_snoc: "chain_hash lib prev (xs @ [x]) = al_sha256 lib (chain_hash lib prev xs @ x)"
  by (induction xs arbitrary: prev) simp_all

text \<open>The texts that are digested when the inputs \<open>xs\<close> are logged from an empty chain.\<close>

definition chain_texts :: "audit_lib \<Rightarrow> string list \<Rightarrow> string set" where
  "chain_texts lib xs = (\<lambda>i. chain_hash lib [] (take i xs) @ xs ! i) ` {..<length xs}"

lemma chain_texts_snoc:
  "chain_texts lib (xs @ [x]) = insert (chain_hash lib [] xs @ x) (chain_texts lib xs)"
proof -
  have "(\<lambda>i. chain_hash lib [] (take i (xs @ [x])) @ (xs @ [x]) ! i) ` {..<length xs} = chain_texts lib xs"
    unfolding chain_texts_def by (rule image_cong) (auto simp: nth_append)
  then show ?thesis
    by (simp add: chain_texts_def lessThan_Suc)
qed

text \<open>Documented behaviour of the libraries: a digest is a non-empty hexadecimal text, and the JSON text of
  an object begins with a brace.\<close>

definition audit_lib_ok :: "audit_lib \<Rightarrow> bool" where
  "audit_lib_ok lib \<longleftrightarrow>
     (\<forall>s. al_sha256 lib s \<noteq> [] \<and> CHR 0x7B \<notin> set (al_sha256 lib s)) \<and> (\<forall>d. \<exists>r. al_dumps lib d = CHR 0x7B # r)"

lemma chain_hash_no_brace: "audit_lib_ok lib \<Longrightarrow> CHR 0x7B \<notin> set (chain_hash lib [] xs)"
  by (cases xs rule: rev_cases) (auto simp: chain_hash_snoc audit_lib_ok_def)

lemma takeWhile_brace: "CHR 0x7B \<notin> set a \<Longrightarrow> takeWhile (\<lambda>c. c \<noteq> CHR 0x7B) (a @ CHR 0x7B # r) = a"
  by (induction a) auto

lemma chain_hash_inject:
  assumes "audit_lib_ok lib" and "\<forall>x \<in> set xs \<union> set ys. \<exists>r. x = CHR 0x7B # r"
    and "inj_on (al_sha256 lib) (chain_texts lib xs \<union> chain_texts lib ys)"
    and "chain_hash lib [] xs = chain_hash lib [] ys"
  shows "xs = ys"
  using assms(2-)
proof (induction xs arbitrary: ys rule: rev_induct)
  case Nil
  then show ?case
    using assms(1) by (cases ys rule: rev_cases) (auto simp: chain_hash_snoc audit_lib_ok_def, metis)
next
  case (snoc x xs)
  obtain y ys' where ys: "ys = ys' @ [y]"
    using snoc.prems(3) assms(1) by (cases ys rule: rev_cases) (auto simp: chain_hash_snoc audit_lib_ok_def)
  have "al_sha256 lib (chain_hash lib [] xs @ x) = al_sha256 lib (chain_hash lib [] ys' @ y)"
    using snoc.prems(3) by (simp add: ys chain_hash_snoc)
  then have eq: "chain_hash lib [] xs @ x = chain_hash lib [] ys' @ y"
    by (rule inj_onD[OF snoc.prems(2)]) (simp_all add: ys chain_texts_snoc)
  obtain r r' where "x = CHR 0x7B # r" "y = CHR 0x7B # r'"
    using snoc.prems(1) ys by auto
  then have h: "chain_hash lib [] xs = chain_hash lib [] ys'"
    using eq chain_hash_no_brace[OF assms(1)] takeWhile_brace by metis
  have "inj_on (al_sha256 lib) (chain_texts lib xs \<union> chain_texts lib ys')"
    using snoc.prems(2) by (rule inj_on_subset) (auto simp: ys chain_texts_snoc)
  then have "xs = ys'"
    using snoc.IH h snoc.prems(1) ys by auto
  then show ?case
    using eq h ys by simp
qed

text \<open>C20. The chain is evidence: as long as the digest has no collision among the texts of two logs that start
  an empty chain, equal final hashes mean that the same events (type, time of hashing and payload, as
  JSON text) were logged in the same order, so none was changed, dropped or moved.\<close>

theorem audit_chain_tamper_evident:
  assumes "log_run lib aws fresh_context snk cs = (es, ctx)" and "log_run lib aws' fresh_context snk' cs' = (es', ctx')"
    and "lc_audit_hash ctx = lc_audit_hash ctx'" and "audit_lib_ok lib"
    and "inj_on (al_sha256 lib) (chain_texts lib (map (call_input lib) cs) \<union> chain_texts lib (map (call_input lib) cs'))"
  shows "map (call_input lib) cs = map (call_input lib) cs'"
proof -
  have "\<exists>r. call_input lib c = CHR 0x7B # r" for c
    using assms(4) by (simp add: call_input_def hash_input_def audit_lib_ok_def)
  moreover have "chain_hash lib [] (map (call_input lib) cs) = chain_hash lib [] (map (call_input lib) cs')"
    using log_run_chain[OF assms(1)] log_run_chain[OF assms(2)] assms(3) by (simp add: fresh_context_def)
  ultimately show ?thesis
    using chain_hash_inject[OF assms(4) _ assms(5)] by auto
qed

definition length_lib :: audit_lib where
  "length_lib = \<lparr>al_sha256 = (\<lambda>s. nat_str (length s)), al_dumps = (\<lambda>d. CHR 0x7B # concat (map fst d))\<rparr>"

definition no_aws :: aws where
  "no_aws = \<lparr>aws_put_log = (\<lambda>_ _. Inl (RuntimeError ''down'')), aws_put_object = (\<lambda>_ _. Inl (RuntimeError ''down'')),
     aws_today = (2026, 1, 31), aws_create_group = (\<lambda>_. Aws_Exists), aws_create_stream = (\<lambda>_ _. Aws_Exists), aws_describe = (\<lambda>_ _. Inr [])\<rparr>"

definition one_call :: audit_call where
  "one_call = \<lparr>ca_times = (''t1'', ''t2''), ca_type = ''sql_query'', ca_payload = [(''user'', JStr ''u'')]\<rparr>"

lemma length_lib_ok: "audit_lib_ok length_lib"
proof -
  have "digits_of n \<noteq> []" "CHR 0x7B \<notin> set (digits_of n)" for n
    using digits_of_digits[of n] by (auto simp: list_all_iff is_digit_def py_ord_def)
  then show ?thesis
    by (simp add: audit_lib_ok_def length_lib_def nat_str_def)
qed

lemma audit_chain_tamper_evident_witness:
  "map (call_input length_lib) [one_call] = map (call_input length_lib) [one_call\<lparr>ca_times := (''t1'', ''t9'')\<rparr>]"
proof -
  obtain es ctx where a: "log_run length_lib no_aws fresh_context Stdout_Sink [one_call] = (es, ctx)"
    by (cases "log_run length_lib no_aws fresh_context Stdout_Sink [one_call]")
  obtain es' ctx' where b: "log_run length_lib no_aws fresh_context Stdout_Sink [one_call\<lparr>ca_times := (''t1'', ''t9'')\<rparr>] = (es', ctx')"
    by (cases "log_run length_lib no_aws fresh_context Stdout_Sink [one_call\<lparr>ca_times := (''t1'', ''t9'')\<rparr>]")
  have c: "call_input length_lib (one_call\<lparr>ca_times := (''t1'', ''t9'')\<rparr>) = call_input length_lib one_call"
    by (simp add: call_input_def one_call_def)
  then have "lc_audit_hash ctx = lc_audit_hash ctx'"
    using log_run_chain[OF a] log_run_chain[OF b] by simp
  moreover have "inj_on (al_sha256 length_lib) (chain_texts length_lib (map (call_input length_lib) [one_call]) \<union>
      chain_texts length_lib (map (call_input length_lib) [one_call\<lparr>ca_times := (''t1'', ''t9'')\<rparr>]))"
    using c by (simp add: chain_texts_def lessThan_Suc)
  ultimately show ?thesis
    using audit_chain_tamper_evident[OF a b _ length_lib_ok] by blast
qed

text \<open>What a verifier can recompute from a stored event and the hash it names as its predecessor's.\<close>

definition recomputed_hash :: "audit_lib \<Rightarrow> obj \<Rightarrow> string" where
  "recomputed_hash lib e =
     al_sha256 lib ((case obj_get e ''prev_audit_hash'' of JStr h \<Rightarrow> h | _ \<Rightarrow> []) @
       al_dumps lib (filter (\<lambda>(k, _). k \<notin> {''audit_hash'', ''prev_audit_hash'', ''correlation_id'', ''data_classification''}) e))"

text \<open>The stored hash cannot be checked against the stored event: the clock is read once for the text that
  is hashed and again for the event, so with a digest without collisions the recomputed hash differs as
  soon as the two readings do.\<close>

definition plain_lib :: audit_lib where
  "plain_lib = \<lparr>al_sha256 = (\<lambda>s. ''h'' @ s),
     al_dumps = (\<lambda>d. CHR 0x7B # concat (map (\<lambda>(k, v). k @ '':'' @ (case v of JStr t \<Rightarrow> t | _ \<Rightarrow> []) @ '','') d))\<rparr>"

theorem audit_hash_not_recomputable:
  "(case log_audit_event plain_lib no_aws fresh_context Stdout_Sink (''t1'', ''t2'') ''sql_query'' [(''user'', JStr ''u'')] of
      (_, e, _) \<Rightarrow> obj_get e ''audit_hash'' \<noteq> JStr (recomputed_hash plain_lib e)) \<and>
   (case log_audit_event plain_lib no_aws fresh_context Stdout_Sink (''t1'', ''t1'') ''sql_query'' [(''user'', JStr ''u'')] of
      (_, e, _) \<Rightarrow> obj_get e ''audit_hash'' = JStr (recomputed_hash plain_lib e))"
  by code_simp

subsection \<open>The S3 sink\<close>

fun s3_writes :: "aws \<Rightarrow> s3_sink \<Rightarrow> obj list \<Rightarrow> (exn + unit) list \<times> s3_sink \<times> sink_event list" where
  "s3_writes aws s [] = ([], s, [])"
| "s3_writes aws s (e # es) =
     (case s3_write aws s e of (r, s1, ev) \<Rightarrow>
       (case s3_writes aws s1 es of (rs, s2, ev') \<Rightarrow> (r # rs, s2, ev @ ev')))"

fun stored :: "sink_event list \<Rightarrow> obj list" where
  "stored [] = []"
| "stored (S3_Put s d b # ev) = b @ stored ev"
| "stored (_ # ev) = stored ev"

lemma stored_append [simp]: "stored (ev @ ev') = stored ev @ stored ev'"
  by (induction ev rule: stored.induct) simp_all

lemma s3_write_conserves:
  assumes "s3_write aws s e = (r, s', ev)"
  shows "(r = Inr () \<longrightarrow> stored ev @ s3_buffer s' = s3_buffer s @ [e]) \<and>
     s3_max_batch s' = s3_max_batch s \<and>
     (0 < s3_max_batch s \<longrightarrow> int (length (s3_buffer s')) < s3_max_batch s)"
  using assms
  by (auto simp: s3_write_def s3_flush_def Let_def split: if_splits sum.splits prod.splits)

text \<open>While the store answers, the S3 sink neither loses, duplicates nor reorders: what it has put, in order,
  followed by its buffer is what was written; and the buffer always holds less than one batch, also
  when the store fails.\<close>

theorem s3_sink_conserves_events:
  assumes "s3_writes aws s es = (rs, s', ev)" and "s3_buffer s = []" and "0 < s3_max_batch s"
  shows "(list_all (\<lambda>r. r = Inr ()) rs \<longrightarrow> stored ev @ s3_buffer s' = es) \<and> int (length (s3_buffer s')) < s3_max_batch s"
proof -
  have "(list_all (\<lambda>r. r = Inr ()) rs \<longrightarrow> stored ev @ s3_buffer s' = s3_buffer s @ es) \<and>
      int (length (s3_buffer s')) < s3_max_batch s" if "int (length (s3_buffer s)) < s3_max_batch s"
    using assms(1,3) that
  proof (induction es arbitrary: s rs ev)
    case (Cons e es)
    obtain r s1 ev1 where w: "s3_write aws s e = (r, s1, ev1)"
      by (metis prod_cases3)
    obtain rs1 ev2 where ws: "s3_writes aws s1 es = (rs1, s', ev2)" "rs = r # rs1" "ev = ev1 @ ev2"
      using Cons.prems(1) w by (auto split: prod.splits)
    note c = s3_write_conserves[OF w]
    then show ?case
      using Cons.IH[OF ws(1)] ws(2,3) Cons.prems(2) by auto
  qed auto
  then show ?thesis
    using assms(2,3) by simp
qed

text \<open>A put that fails loses the batch: the buffer was cleared before, so the events are neither stored nor
  kept for the next attempt.\<close>

theorem s3_failed_flush_loses_batch:
  assumes "s3_flush aws s = (Inl e, s', ev)"
  shows "s3_buffer s \<noteq> [] \<and> s3_buffer s' = [] \<and> stored ev = []"
  using assms by (auto simp: s3_flush_def Let_def split: if_splits sum.splits)

text \<open>The retention of an object is a number of years: the configured number of days is added to the year,
  and on a leap day the date may not exist, which fails the flush.\<close>

theorem s3_retention_is_in_years:
  "retain_until (2026, 1, 31) 365 = Inr (2391, 1, 31) \<and> retain_until (2024, 2, 29) 365 = Inl (ValueError ''year is out of range'')"
  by (simp add: retain_until_def leap_year_def)

definition example_s3 :: s3_sink where
  "example_s3 = \<lparr>s3_bucket = ''b'', s3_prefix = ''audit/'', s3_kms_key = None, s3_lock_mode = ''COMPLIANCE'', s3_lock_days = 365,
     s3_max_batch = 2, s3_buffer = []\<rparr>"

lemma s3_sink_conserves_events_witness:
  "case s3_writes no_aws example_s3 [[], []] of (_, s', _) \<Rightarrow> int (length (s3_buffer s')) < 2"
proof -
  obtain rs s' ev where w: "s3_writes no_aws example_s3 [[], []] = (rs, s', ev)"
    by (metis prod_cases3)
  from s3_sink_conserves_events[OF this] show ?thesis
    using w by (simp add: example_s3_def)
qed

lemma s3_failed_flush_loses_batch_witness:
  "\<exists>e s' ev. s3_flush no_aws (example_s3\<lparr>s3_buffer := [[]]\<rparr>) = (Inl e, s', ev) \<and> s3_buffer s' = [] \<and> stored ev = []"
proof -
  have "\<exists>e s' ev. s3_flush no_aws (example_s3\<lparr>s3_buffer := [[]]\<rparr>) = (Inl e, s', ev)"
    by (simp add: s3_flush_def example_s3_def no_aws_def retain_until_def leap_year_def)
  then show ?thesis
    using s3_failed_flush_loses_batch by blast
qed

text \<open>The composite sink is not atomic: when a later sink fails, the earlier ones have the event.\<close>

theorem composite_sink_not_atomic:
  "case sink_write no_aws (Composite_Sink [Stdout_Sink, CloudWatch_Sink \<lparr>cw_group = ''g'', cw_stream = ''s'', cw_token = None\<rparr>]) e of
     (r, _, ev) \<Rightarrow> r = Inl (RuntimeError ''down'') \<and> Printed e \<in> set ev"
  by (simp add: cloudwatch_write_def no_aws_def)

subsection \<open>The flush timer\<close>

text \<open>With the timer stopped no tick writes anything: events stay in the buffer until it is full.\<close>

lemma stopped_timer_keeps_buffer:
  assumes "int (length (s3_buffer s)) + int (length events) < s3_max_batch s"
  shows "s3_run (map (\<lambda>e. (aws, Op_Write e)) events @ replicate n (aws, Op_Tick)) False s =
    (False, s\<lparr>s3_buffer := s3_buffer s @ events\<rparr>, [])"
  using assms
proof (induction events arbitrary: s)
  case Nil
  show ?case
    by (induction n) simp_all
next
  case (Cons e events)
  then show ?case
    by (simp add: s3_write_def Let_def)
qed

text \<open>One refused upload ends the timer and loses its batch; the events after it are not flushed by time any more.\<close>

lemma failed_flush_stops_timer:
  assumes "s3_buffer s = [lost]" and "retain_until (aws_today bad) (s3_lock_days s) = Inr d"
    and "aws_put_object bad (s\<lparr>s3_buffer := []\<rparr>) [lost] = Inl e"
    and "int (length events) < s3_max_batch s"
  shows "s3_run ((bad, Op_Tick) # map (\<lambda>e. (aws, Op_Write e)) events @ replicate n (aws, Op_Tick)) True s =
    (False, s\<lparr>s3_buffer := events\<rparr>, [Sink_Failed ''s3''])"
  using assms stopped_timer_keeps_buffer[of "s\<lparr>s3_buffer := []\<rparr>" events aws n]
  by (simp add: s3_flush_def Let_def)

end
