(* ===== verification/Http_Stack.thy ===== *)
theory Http_Stack
  imports Rbac Rate_Limit Audit_Log
begin

text \<open>
  The HTTP middlewares of the query service and the order in which app\_factory.py stacks them:
  body\_size\_limit\_middleware.py, correlation\_middleware.py, logging\_middleware.py, the security
  headers and the CORS origins of app\_factory.py, and the exception handlers. The RBAC and rate-limit
  middlewares have theories of their own. The routes are the parameter \<open>app\<close>. A layer maps a request
  and the state of the stack to its reply, the request that reached the routes, if any, and the new
  state. Log lines and durations are left out.
\<close>

subsection \<open>Requests and replies\<close>

datatype asgi_message = Chunk string bool | Disconnect | Other_Message

record request = http_scope +
  rq_method :: string
  rq_client :: "string option"
  rq_messages :: "asgi_message list"
  rq_correlation_id :: "string option"

record response =
  rs_status :: nat
  rs_headers :: "(string, string) dict"
  rs_body :: string

datatype reply = Reply response | Raise exn | No_Reply

fun map_reply :: "(response \<Rightarrow> response) \<Rightarrow> reply \<Rightarrow> reply" where
  "map_reply f (Reply r) = Reply (f r)"
| "map_reply f (Raise e) = Raise e"
| "map_reply f No_Reply = No_Reply"

record stack_state =
  ss_limiter :: limiter
  ss_jwks :: "string option"

text \<open>A middleware made from a function awaits a response; when there is none it raises.\<close>

fun settle :: "reply \<Rightarrow> reply" where
  "settle No_Reply = Raise (RuntimeError ''No response returned.'')"
| "settle r = r"

type_synonym layer = "request \<Rightarrow> stack_state \<Rightarrow> reply \<times> request option \<times> stack_state"

definition json_reply :: "nat \<Rightarrow> string \<Rightarrow> response" where
  "json_reply status detail = \<lparr>rs_status = status, rs_headers = [(''content-type'', ''application/json'')], rs_body = detail\<rparr>"

definition set_header :: "string \<Rightarrow> string \<Rightarrow> response \<Rightarrow> response" where
  "set_header name v r = r\<lparr>rs_headers := dict_set (rs_headers r) name v\<rparr>"

subsection \<open>Body size limit\<close>

definition body_limit_from :: "os_state \<Rightarrow> int option \<Rightarrow> exn + int" where
  "body_limit_from os max_bytes =
     (case max_bytes of
        Some n \<Rightarrow> if n \<noteq> 0 then Inr n else env_int os ''GRAPHQL_MAX_BODY_BYTES'' ''1048576''
      | None \<Rightarrow> env_int os ''GRAPHQL_MAX_BODY_BYTES'' ''1048576'')"

text \<open>The first header named content-length decides, whether its value is a number or not.\<close>

definition content_length :: "headers \<Rightarrow> int option" where
  "content_length hs =
     (case List.find (\<lambda>(name, _). bytes_lower name = ''content-length'') hs of
        None \<Rightarrow> None
      | Some (_, v) \<Rightarrow> int_of_text v)"

datatype drained = Drained string | Too_Large | Gone | Waiting

fun drain :: "int \<Rightarrow> string \<Rightarrow> asgi_message list \<Rightarrow> drained" where
  "drain max_bytes body [] = Waiting"
| "drain max_bytes body (Disconnect # ms) = Gone"
| "drain max_bytes body (Other_Message # ms) = drain max_bytes body ms"
| "drain max_bytes body (Chunk b again # ms) =
     (if int (length (body @ b)) > max_bytes then Too_Large
      else if again then drain max_bytes (body @ b) ms else Drained (body @ b))"

definition body_limit_layer :: "int \<Rightarrow> layer \<Rightarrow> layer" where
  "body_limit_layer max_bytes next rq st =
     (if sc_type rq \<noteq> ''http'' \<or> \<not> graphql_path (sc_path rq) then next rq st
      else
        let too_large = (Reply (json_reply 413 ''Request body exceeds the maximum allowed size.''), None, st) in
        if (case content_length (sc_headers rq) of None \<Rightarrow> False | Some n \<Rightarrow> n > max_bytes) then too_large
        else (case drain max_bytes [] (rq_messages rq) of
                Too_Large \<Rightarrow> too_large
              | Drained body \<Rightarrow> next (rq\<lparr>rq_messages := [Chunk body False, Disconnect]\<rparr>) st
              | _ \<Rightarrow> (No_Reply, None, st)))"

subsection \<open>Correlation and logging\<close>

fun first_some :: "'a option list \<Rightarrow> 'a option" where
  "first_some [] = None"
| "first_some (Some x # xs) = Some x"
| "first_some (None # xs) = first_some xs"

definition header_of :: "request \<Rightarrow> string \<Rightarrow> string option" where
  "header_of rq name = map_of (sc_headers rq) name"

definition correlation_id_of :: "string \<Rightarrow> request \<Rightarrow> string" where
  "correlation_id_of fresh rq =
     (case first_some [non_empty (rq_correlation_id rq), sanitize_correlation_id (header_of rq ''x-correlation-id''),
          sanitize_correlation_id (header_of rq ''x-request-id'')] of
        Some c \<Rightarrow> c
      | None \<Rightarrow> fresh)"

definition with_ids :: "string \<Rightarrow> response \<Rightarrow> response" where
  "with_ids cid r = set_header ''X-Request-ID'' cid (set_header ''X-Correlation-ID'' cid r)"

text \<open>\<open>fresh\<close> is the new UUID, \<open>elapsed\<close> the formatted execution time, \<open>show_exn\<close> the text of an exception. A
  client that has gone is an exception of \<open>call_next\<close> here, too.\<close>

definition correlation_layer :: "string \<Rightarrow> string \<Rightarrow> (exn \<Rightarrow> string) \<Rightarrow> layer \<Rightarrow> layer" where
  "correlation_layer fresh elapsed show_exn next rq st =
     (let cid = correlation_id_of fresh rq;
          failed = (\<lambda>e. Reply (set_header ''X-Request-ID'' cid (set_header ''X-Correlation-ID'' cid
             (set_header ''X-Query-Status'' ''Error''
               \<lparr>rs_status = 500, rs_headers = [], rs_body = ''Internal server error: '' @ show_exn e\<rparr>))))
      in (case next (rq\<lparr>rq_correlation_id := Some cid\<rparr>) st of
            (r, reached, st') \<Rightarrow>
              ((case settle r of
                  Reply x \<Rightarrow>
                    Reply (set_header ''X-Query-Status'' ''Success'' (set_header ''X-Execution-Time'' elapsed (with_ids cid x)))
                | Raise e \<Rightarrow> failed e
                | No_Reply \<Rightarrow> No_Reply),
               reached, st')))"

definition logging_layer :: "string \<Rightarrow> layer \<Rightarrow> layer" where
  "logging_layer fresh next rq st =
     (let cid = correlation_id_of fresh rq in
      case next (rq\<lparr>rq_correlation_id := Some cid\<rparr>) st of
        (r, reached, st') \<Rightarrow> (map_reply (with_ids cid) (settle r), reached, st'))"

subsection \<open>Authentication and rate limit as layers\<close>

definition rbac_layer :: "(json \<Rightarrow> string) \<Rightarrow> (jwt_request \<Rightarrow> jwt_outcome) \<Rightarrow> auth_config \<Rightarrow> layer \<Rightarrow> layer" where
  "rbac_layer rep decode cfg next rq st =
     (case rbac_call rep decode cfg (ss_jwks st) (http_scope.truncate rq) of
        (out, _, jwks) \<Rightarrow>
          (let st' = st\<lparr>ss_jwks := jwks\<rparr> in
           case out of
             Forward sc \<Rightarrow> next (rq\<lparr>sc_headers := sc_headers sc, sc_principal := sc_principal sc\<rparr>) st'
           | Reject status detail \<Rightarrow> (Reply (json_reply status detail), None, st')
           | Crash e \<Rightarrow> (Raise e, None, st')))"

definition limiter_view :: "request \<Rightarrow> http_request" where
  "limiter_view rq =
     \<lparr>hq_type = sc_type rq, hq_path = sc_path rq, hq_method = rq_method rq, hq_client = rq_client rq,
      hq_forwarded_for = header_of rq ''x-forwarded-for'', hq_principal = sc_principal rq\<rparr>"

definition rate_limit_layer :: "real \<Rightarrow> layer \<Rightarrow> layer" where
  "rate_limit_layer now next rq st =
     (case rate_limit_call (ss_limiter st) (limiter_view rq) now of
        (Pass_On, lm) \<Rightarrow> next rq (st\<lparr>ss_limiter := lm\<rparr>)
      | (Too_Many retry, lm) \<Rightarrow>
          (Reply (set_header ''Retry-After'' (int_str retry)
             (json_reply 429 ''Rate limit exceeded. Please try again later.'')), None, st\<lparr>ss_limiter := lm\<rparr>))"

subsection \<open>Security headers and CORS origins\<close>

definition quoted :: "string \<Rightarrow> string" where
  "quoted w = [CHR 0x27] @ w @ [CHR 0x27]"

definition none_source :: "string \<Rightarrow> string" where
  "none_source directive = directive @ '' '' @ quoted ''none''"

definition security_headers :: "(string \<times> string) list" where
  "security_headers =
     [(''X-Content-Type-Options'', ''nosniff''), (''X-Frame-Options'', ''DENY''),
      (''Content-Security-Policy'',
        join ''; '' (map none_source [''default-src'', ''script-src'', ''object-src'', ''base-uri'', ''frame-ancestors'', ''form-action''])),
      (''Referrer-Policy'', ''strict-origin-when-cross-origin''),
      (''Permissions-Policy'', ''camera=(), microphone=(), geolocation=(), payment=(), usb=(), fullscreen=(self)''),
      (''Cross-Origin-Opener-Policy'', ''same-origin''), (''Cross-Origin-Embedder-Policy'', ''require-corp''),
      (''Cross-Origin-Resource-Policy'', ''same-origin''),
      (''Strict-Transport-Security'', ''max-age=31536000; includeSubDomains; preload'')]"

definition security_layer :: "layer \<Rightarrow> layer" where
  "security_layer next rq st =
     (case next rq st of
        (r, reached, st') \<Rightarrow>
          (map_reply (\<lambda>x. fold (\<lambda>(name, v). set_header name v) security_headers x) (settle r), reached, st'))"

definition cors_origins :: "os_state \<Rightarrow> string list" where
  "cors_origins os =
     (let env = getenv os ''CORS_ORIGINS'' [] in
      if env \<noteq> [] then map py_strip (split_on CHR '','' env)
      else [''http://localhost:5173'', ''http://localhost:3000'', ''http://127.0.0.1:5173''])"

subsection \<open>Exception handlers\<close>

definition http_exception_handler :: "nat \<Rightarrow> string \<Rightarrow> string \<Rightarrow> nat \<times> (string \<times> string) list" where
  "http_exception_handler status detail path =
     (status, [(''error'', ''HTTPException''), (''message'', detail), (''path'', path)])"

definition validation_exception_handler :: "json \<Rightarrow> string \<Rightarrow> nat \<times> obj" where
  "validation_exception_handler errors path =
     (422, [(''error'', JStr ''Validation Error''), (''message'', JStr ''Invalid request data''), (''details'', errors),
        (''path'', JStr path)])"

subsection \<open>The stack\<close>

text \<open>
  \<open>create_app\<close>: the middleware that is registered last runs first. Registered are CORS (left out: it is
  the framework's), security headers, logging, rate limit, RBAC, body size and correlation.
\<close>

record stack_config =
  sg_fresh_id :: string
  sg_elapsed :: string
  sg_show_exn :: "exn \<Rightarrow> string"
  sg_max_bytes :: int
  sg_rep :: "json \<Rightarrow> string"
  sg_decode :: "jwt_request \<Rightarrow> jwt_outcome"
  sg_auth :: auth_config
  sg_now :: real

definition routes_layer :: "(request \<Rightarrow> reply) \<Rightarrow> layer" where
  "routes_layer app rq st = (app rq, Some rq, st)"

definition app_stack :: "stack_config \<Rightarrow> (request \<Rightarrow> reply) \<Rightarrow> layer" where
  "app_stack g app =
     correlation_layer (sg_fresh_id g) (sg_elapsed g) (sg_show_exn g)
       (body_limit_layer (sg_max_bytes g)
         (rbac_layer (sg_rep g) (sg_decode g) (sg_auth g)
           (rate_limit_layer (sg_now g)
             (logging_layer (sg_fresh_id g)
               (security_layer (routes_layer app))))))"

subsection \<open>Lemmas\<close>

lemma get_set_header [simp]: "dict_get (rs_headers (set_header n v r)) k = (if k = n then Some v else dict_get (rs_headers r) k)"
  by (simp add: set_header_def)

lemma status_set_header [simp]: "rs_status (set_header n v r) = rs_status r"
  by (simp add: set_header_def)

lemma reached_inner:
  "snd (logging_layer f next rq st) = snd (next (rq\<lparr>rq_correlation_id := Some (correlation_id_of f rq)\<rparr>) st)"
  "snd (security_layer next rq st) = snd (next rq st)"
  "snd (routes_layer app rq st) = (Some rq, st)"
  by (auto simp: logging_layer_def security_layer_def routes_layer_def Let_def split: prod.splits)

lemma reached_correlation:
  "fst (snd (correlation_layer f e sh l rq st)) = fst (snd (l (rq\<lparr>rq_correlation_id := Some (correlation_id_of f rq)\<rparr>) st))"
  by (simp add: correlation_layer_def Let_def split: prod.splits)

lemma body_limit_pass:
  "content_length (sc_headers rq) = None \<Longrightarrow> drain m [] (rq_messages rq) = Drained b \<Longrightarrow> sc_type rq = ''http'' \<Longrightarrow>
     graphql_path (sc_path rq) \<Longrightarrow> body_limit_layer m l rq st = l (rq\<lparr>rq_messages := [Chunk b False, Disconnect]\<rparr>) st"
  by (simp add: body_limit_layer_def)

lemma rbac_layer_forward:
  "rbac_call rep decode cfg (ss_jwks st) (http_scope.truncate rq) = (Forward sc, au, jw) \<Longrightarrow>
     rbac_layer rep decode cfg l rq st = l (rq\<lparr>sc_headers := sc_headers sc, sc_principal := sc_principal sc\<rparr>) (st\<lparr>ss_jwks := jw\<rparr>)"
  by (simp add: rbac_layer_def)

lemma rate_limit_layer_pass:
  "rate_limit_call (ss_limiter st) (limiter_view rq) now = (Pass_On, lm) \<Longrightarrow>
     rate_limit_layer now l rq st = l rq (st\<lparr>ss_limiter := lm\<rparr>)"
  by (simp add: rate_limit_layer_def)

definition chunk_bytes :: "asgi_message list \<Rightarrow> string" where
  "chunk_bytes ms = concat (map (\<lambda>m. case m of Chunk b _ \<Rightarrow> b | _ \<Rightarrow> []) ms)"

text \<open>A body that is handed on is the concatenation of the received pieces up to the final one.\<close>

lemma drain_Drained:
  assumes "drain m body ms = Drained b"
  shows "int (length b) \<le> m \<and>
     (\<exists>pre last rest. ms = pre @ Chunk last False # rest \<and> b = body @ chunk_bytes pre @ last \<and>
        (\<forall>x \<in> set pre. x \<noteq> Disconnect \<and> (\<forall>y. x \<noteq> Chunk y False)))"
  using assms
proof (induction m body ms rule: drain.induct)
  case (3 m body ms)
  then obtain pre last rest where "ms = pre @ Chunk last False # rest" "b = body @ chunk_bytes pre @ last"
    "\<forall>x \<in> set pre. x \<noteq> Disconnect \<and> (\<forall>y. x \<noteq> Chunk y False)" "int (length b) \<le> m"
    by auto
  then show ?case
    by (intro conjI exI[of _ "Other_Message # pre"] exI[of _ last] exI[of _ rest]) (auto simp: chunk_bytes_def)
next
  case (4 m body c again ms)
  show ?case
  proof (cases again)
    case True
    then obtain pre last rest where "ms = pre @ Chunk last False # rest" "b = (body @ c) @ chunk_bytes pre @ last"
      "\<forall>x \<in> set pre. x \<noteq> Disconnect \<and> (\<forall>y. x \<noteq> Chunk y False)" "int (length b) \<le> m"
      using 4 by (auto split: if_splits)
    then show ?thesis
      using True by (intro conjI exI[of _ "Chunk c True # pre"] exI[of _ last] exI[of _ rest]) (auto simp: chunk_bytes_def)
  next
    case False
    then show ?thesis
      using 4(2) by (intro conjI exI[of _ "[]"] exI[of _ c] exI[of _ ms]) (auto simp: chunk_bytes_def split: if_splits)
  qed
qed auto

text \<open>The body is only buffered within the limit: at most the limit plus the piece that exceeds it.\<close>

lemma drain_Too_Large:
  "drain m body ms = Too_Large \<Longrightarrow> int (length body) \<le> m \<Longrightarrow>
     \<exists>pre last again rest. ms = pre @ Chunk last again # rest \<and> int (length (body @ chunk_bytes pre)) \<le> m \<and>
       int (length (body @ chunk_bytes pre @ last)) > m"
proof (induction m body ms rule: drain.induct)
  case (3 m body ms)
  then obtain pre last again rest where "ms = pre @ Chunk last again # rest" "int (length (body @ chunk_bytes pre)) \<le> m"
    "int (length (body @ chunk_bytes pre @ last)) > m"
    by auto
  then show ?case
    by (intro exI[of _ "Other_Message # pre"] exI[of _ last] exI[of _ again] exI[of _ rest]) (auto simp: chunk_bytes_def)
next
  case (4 m body c again ms)
  show ?case
  proof (cases "int (length (body @ c)) > m")
    case True
    then show ?thesis
      using 4(3) by (intro exI[of _ "[]"] exI[of _ c] exI[of _ again] exI[of _ ms]) (simp add: chunk_bytes_def)
  next
    case False
    then have m: "again" "drain m (body @ c) ms = Too_Large"
      using 4(2) by (auto split: if_splits)
    then obtain pre last again' rest where "ms = pre @ Chunk last again' # rest"
      "int (length ((body @ c) @ chunk_bytes pre)) \<le> m" "int (length ((body @ c) @ chunk_bytes pre @ last)) > m"
      using 4(1)[OF False m(1,2)] False by auto
    then show ?thesis
      by (intro exI[of _ "Chunk c again # pre"] exI[of _ last] exI[of _ again'] exI[of _ rest]) (auto simp: chunk_bytes_def)
  qed
qed auto

lemma correlation_id_of_safe:
  "rq_correlation_id rq = None \<Longrightarrow> correlation_safe fresh \<Longrightarrow> correlation_safe (correlation_id_of fresh rq)"
  by (auto simp: correlation_id_of_def sanitize_correlation_id_def split: option.splits)

lemma correlation_id_of_set: "c \<noteq> [] \<Longrightarrow> correlation_id_of fresh (rq\<lparr>rq_correlation_id := Some c\<rparr>) = c"
  by (simp add: correlation_id_of_def)

lemma correlation_safe_nonempty: "correlation_safe c \<Longrightarrow> c \<noteq> []"
  by (auto simp: correlation_safe_def)

text \<open>The layers between the body limit and the routes.\<close>

definition guarded_layers :: "stack_config \<Rightarrow> (request \<Rightarrow> reply) \<Rightarrow> layer" where
  "guarded_layers g app =
     rbac_layer (sg_rep g) (sg_decode g) (sg_auth g)
       (rate_limit_layer (sg_now g) (logging_layer (sg_fresh_id g) (security_layer (routes_layer app))))"

lemma guarded_layers_reached:
  assumes "guarded_layers g app rq st = (r, Some rq', st')" and "sc_type rq = ''http''" and "graphql_path (sc_path rq)"
  shows "\<exists>t claims p.
     extract_bearer_token (map_of (filter (\<lambda>(n, v). \<not> spoofable n) (sc_headers rq)) ''authorization'') = Some t \<and>
     sg_decode g (jwt_request_for (sg_auth g) (jwks_url (sg_auth g)) t) = Jwt_Claims claims \<and> scope_ok claims \<and>
     build_principal_from_claims (sg_rep g) (Some claims) = Inr (Some p) \<and>
     sc_principal rq' = Some p \<and> sc_headers rq' = filter (\<lambda>(n, v). \<not> spoofable n) (sc_headers rq) \<and>
     rq_messages rq' = rq_messages rq \<and>
     fst (rate_limit_call (ss_limiter st) (limiter_view rq') (sg_now g)) = Pass_On"
proof -
  obtain out audit jwks where rb: "rbac_call (sg_rep g) (sg_decode g) (sg_auth g) (ss_jwks st) (http_scope.truncate rq) = (out, audit, jwks)"
    by (metis prod_cases3)
  obtain sc where out: "out = Forward sc"
    using assms(1) rb by (cases out) (auto simp: guarded_layers_def rbac_layer_def Let_def)
  have t: "sc_type (http_scope.truncate rq) = sc_type rq" "sc_path (http_scope.truncate rq) = sc_path rq"
    "sc_headers (http_scope.truncate rq) = sc_headers rq"
    by (simp_all add: http_scope.truncate_def)
  note fw = rbac_forward[OF rb[unfolded out]]
  then obtain tok claims p where f: "extract_bearer_token (map_of (filter (\<lambda>(n, v). \<not> spoofable n) (sc_headers rq)) ''authorization'') = Some tok"
    "sg_decode g (jwt_request_for (sg_auth g) (jwks_url (sg_auth g)) tok) = Jwt_Claims claims" "scope_ok claims"
    "build_principal_from_claims (sg_rep g) (Some claims) = Inr (Some p)"
    "sc_headers sc = filter (\<lambda>(n, v). \<not> spoofable n) (sc_headers rq)" "sc_principal sc = Some p"
    using assms(2,3) by (auto simp: t)
  let ?rq = "rq\<lparr>sc_headers := filter (\<lambda>(n, v). \<not> spoofable n) (sc_headers rq), sc_principal := Some p\<rparr>"
  have lim: "rate_limit_layer (sg_now g) (logging_layer (sg_fresh_id g) (security_layer (routes_layer app))) ?rq
      (st\<lparr>ss_jwks := jwks\<rparr>) = (r, Some rq', st')"
    using assms(1) rb out f(5,6) by (simp add: guarded_layers_def rbac_layer_def)
  obtain o1 lm where rl: "rate_limit_call (ss_limiter st) (limiter_view ?rq) (sg_now g) = (o1, lm)"
    by (cases "rate_limit_call (ss_limiter st) (limiter_view ?rq) (sg_now g)")
  then have o1: "o1 = Pass_On"
    using lim by (cases o1) (auto simp: rate_limit_layer_def)
  then have "logging_layer (sg_fresh_id g) (security_layer (routes_layer app)) ?rq
      (st\<lparr>ss_jwks := jwks, ss_limiter := lm\<rparr>) = (r, Some rq', st')"
    using lim rl by (simp add: rate_limit_layer_def)
  then have "Some rq' = fst (snd (logging_layer (sg_fresh_id g) (security_layer (routes_layer app)) ?rq
      (st\<lparr>ss_jwks := jwks, ss_limiter := lm\<rparr>)))"
    by simp
  then have "rq' = ?rq\<lparr>rq_correlation_id := Some (correlation_id_of (sg_fresh_id g) ?rq)\<rparr>"
    by (simp add: reached_inner)
  moreover from this have "limiter_view rq' = limiter_view ?rq"
    by (simp add: limiter_view_def header_of_def)
  ultimately show ?thesis
    using f rl o1 by (intro exI[of _ tok] exI[of _ claims] exI[of _ p]) simp
qed

lemma app_stack_reached:
  assumes "app_stack g app rq st = (r, Some rq', st')" and "sc_type rq = ''http''" and "graphql_path (sc_path rq)"
  shows "\<exists>body r0. drain (sg_max_bytes g) [] (rq_messages rq) = Drained body \<and>
     guarded_layers g app (rq\<lparr>rq_correlation_id := Some (correlation_id_of (sg_fresh_id g) rq),
       rq_messages := [Chunk body False, Disconnect]\<rparr>) st = (r0, Some rq', st')"
  using assms
  by (auto simp: app_stack_def correlation_layer_def body_limit_layer_def guarded_layers_def Let_def
      split: prod.splits if_splits drained.splits)

subsection \<open>Properties\<close>

lemma stack_reached:
  assumes "app_stack g app rq st = (r, Some rq', st')" and "sc_type rq = ''http''" and "graphql_path (sc_path rq)"
  shows "\<exists>t claims p pre last rest.
     extract_bearer_token (map_of (filter (\<lambda>(n, v). \<not> spoofable n) (sc_headers rq)) ''authorization'') = Some t \<and>
     sg_decode g (jwt_request_for (sg_auth g) (jwks_url (sg_auth g)) t) = Jwt_Claims claims \<and> scope_ok claims \<and>
     build_principal_from_claims (sg_rep g) (Some claims) = Inr (Some p) \<and>
     sc_principal rq' = Some p \<and> sc_headers rq' = filter (\<lambda>(n, v). \<not> spoofable n) (sc_headers rq) \<and>
     rq_messages rq = pre @ Chunk last False # rest \<and>
     rq_messages rq' = [Chunk (chunk_bytes pre @ last) False, Disconnect] \<and>
     int (length (chunk_bytes pre @ last)) \<le> sg_max_bytes g \<and>
     fst (rate_limit_call (ss_limiter st) (limiter_view rq') (sg_now g)) = Pass_On"
proof -
  obtain body r0 where b: "drain (sg_max_bytes g) [] (rq_messages rq) = Drained body"
    "guarded_layers g app (rq\<lparr>rq_correlation_id := Some (correlation_id_of (sg_fresh_id g) rq),
       rq_messages := [Chunk body False, Disconnect]\<rparr>) st = (r0, Some rq', st')"
    using app_stack_reached[OF assms] by blast
  obtain pre last rest where d: "rq_messages rq = pre @ Chunk last False # rest" "body = chunk_bytes pre @ last"
    "int (length body) \<le> sg_max_bytes g"
    using drain_Drained[OF b(1)] by auto
  show ?thesis
    using guarded_layers_reached[OF b(2)] assms(2,3) d by simp metis
qed

text \<open>C21. The whole stack guards GraphQL: a GraphQL request reaches the routes only with a principal built from
  the claims verified for its own token, without the headers that name users or organisations, with a
  body within the limit that is exactly what the client sent, and only when the rate limiter let this
  principal pass.\<close>

theorem stack_guards_graphql:
  assumes "app_stack g app rq st = (r, Some rq', st')" and "sc_type rq = ''http''" and "graphql_path (sc_path rq)"
  shows "\<exists>t claims p pre last rest.
     extract_bearer_token (map_of (filter (\<lambda>(n, v). \<not> spoofable n) (sc_headers rq)) ''authorization'') = Some t \<and>
     sg_decode g (jwt_request_for (sg_auth g) (jwks_url (sg_auth g)) t) = Jwt_Claims claims \<and> scope_ok claims \<and>
     build_principal_from_claims (sg_rep g) (Some claims) = Inr (Some p) \<and>
     sc_principal rq' = Some p \<and> sc_headers rq' = filter (\<lambda>(n, v). \<not> spoofable n) (sc_headers rq) \<and>
     rq_messages rq = pre @ Chunk last False # rest \<and>
     rq_messages rq' = [Chunk (chunk_bytes pre @ last) False, Disconnect] \<and>
     int (length (chunk_bytes pre @ last)) \<le> sg_max_bytes g \<and>
     fst (rate_limit_call (ss_limiter st) (limiter_view rq') (sg_now g)) = Pass_On"
  using stack_reached[OF assms] .

text \<open>Every request gets an answer, also when the routes raise or the client goes away, and it carries one
  identifier in both correlation headers: at most 128 harmless characters, whatever the client sent.\<close>

theorem stack_reply_correlated:
  assumes "rq_correlation_id rq = None" and "correlation_safe (sg_fresh_id g)"
  shows "\<exists>x c. fst (app_stack g app rq st) = Reply x \<and> correlation_safe c \<and>
     dict_get (rs_headers x) ''X-Correlation-ID'' = Some c \<and> dict_get (rs_headers x) ''X-Request-ID'' = Some c"
proof -
  let ?c = "correlation_id_of (sg_fresh_id g) rq"
  have "\<exists>x. fst (correlation_layer (sg_fresh_id g) e sh nx rq st) = Reply x \<and>
      dict_get (rs_headers x) ''X-Correlation-ID'' = Some ?c \<and> dict_get (rs_headers x) ''X-Request-ID'' = Some ?c" for e sh nx
  proof -
    obtain r0 reached st' where n: "nx (rq\<lparr>rq_correlation_id := Some ?c\<rparr>) st = (r0, reached, st')"
      by (metis prod_cases3)
    show ?thesis
      by (cases r0) (simp_all add: correlation_layer_def n with_ids_def Let_def)
  qed
  then show ?thesis
    using correlation_id_of_safe[OF assms] unfolding app_stack_def by blast
qed

definition lacks_security :: "response \<Rightarrow> bool" where
  "lacks_security x \<longleftrightarrow> (\<forall>(n, v) \<in> set security_headers. dict_get (rs_headers x) n = None)"

definition guard :: "layer \<Rightarrow> bool" where
  "guard l \<longleftrightarrow> (\<forall>rq st x st'. l rq st = (Reply x, None, st') \<longrightarrow> lacks_security x)"

lemma lacks_json_reply [simp]: "lacks_security (json_reply s d)"
  by (auto simp: lacks_security_def json_reply_def security_headers_def)

lemma lacks_set_header [simp]:
  "n \<notin> fst ` set security_headers \<Longrightarrow> lacks_security (set_header n v x) = lacks_security x"
  by (auto simp: lacks_security_def image_iff split_beta)

lemma own_headers [simp]:
  "''X-Query-Status'' \<notin> fst ` set security_headers" "''X-Execution-Time'' \<notin> fst ` set security_headers"
  "''X-Request-ID'' \<notin> fst ` set security_headers" "''X-Correlation-ID'' \<notin> fst ` set security_headers"
  "''Retry-After'' \<notin> fst ` set security_headers"
  by (simp_all add: security_headers_def)

lemma guard_logging: "guard (logging_layer f (security_layer (routes_layer app)))"
proof -
  have "fst (snd (logging_layer f (security_layer (routes_layer app)) q s)) \<noteq> None" for q s
    by (simp add: reached_inner)
  then show ?thesis
    unfolding guard_def by (metis fst_conv snd_conv)
qed

lemma guard_rate_limit: "guard l \<Longrightarrow> guard (rate_limit_layer now l)"
  by (auto simp: guard_def rate_limit_layer_def split: prod.splits limit_outcome.splits)

lemma guard_rbac: "guard l \<Longrightarrow> guard (rbac_layer rep decode cfg l)"
  by (auto simp: guard_def rbac_layer_def Let_def split: prod.splits rbac_outcome.splits)

lemma guard_body_limit: "guard l \<Longrightarrow> guard (body_limit_layer m l)"
  by (auto simp: guard_def body_limit_layer_def Let_def split: if_splits drained.splits)

lemma lacks_with_ids [simp]: "lacks_security (with_ids c x) = lacks_security x"
  by (simp add: with_ids_def)

lemma lacks_empty [simp]: "lacks_security \<lparr>rs_status = s, rs_headers = [], rs_body = b\<rparr>"
  by (simp add: lacks_security_def)

lemma settle_Reply [simp]: "settle r = Reply x \<longleftrightarrow> r = Reply x" "settle r \<noteq> No_Reply"
  by (cases r; simp)+

lemma guard_correlation: "guard l \<Longrightarrow> guard (correlation_layer f e sh l)"
  by (auto simp: guard_def correlation_layer_def Let_def split: prod.splits reply.splits)

lemma guarded_app_stack: "guard (app_stack g app)"
  unfolding app_stack_def
  by (intro guard_correlation guard_body_limit guard_rbac guard_rate_limit guard_logging)

text \<open>The security headers are set inside the guards: an answer that a guard gives itself (401, 413, 429
  or an error) has none of them.\<close>

theorem guard_answers_lack_security_headers:
  assumes "app_stack g app rq st = (Reply x, None, st')" and "(name, v) \<in> set security_headers"
  shows "dict_get (rs_headers x) name = None"
  using guarded_app_stack[of g app] assms by (force simp: guard_def lacks_security_def)

subsection \<open>A concrete stack\<close>

definition example_stack :: stack_config where
  "example_stack =
     \<lparr>sg_fresh_id = ''id1'', sg_elapsed = ''0.0000s'', sg_show_exn = (\<lambda>_. ''error''), sg_max_bytes = 8, sg_rep = (\<lambda>_. []),
      sg_decode = (\<lambda>_. Jwt_Claims example_claims), sg_auth = example_cfg, sg_now = 1\<rparr>"

definition example_request :: request where
  "example_request =
     \<lparr>sc_type = ''http'', sc_path = ''/graphql'', sc_headers = [(''authorization'', ''Bearer tok''), (''x-org-id'', ''evil'')],
      sc_principal = None, rq_method = ''POST'', rq_client = Some ''10.0.0.1'',
      rq_messages = [Chunk ''ab'' True, Chunk ''cd'' False], rq_correlation_id = None\<rparr>"

definition example_state :: stack_state where
  "example_state =
     \<lparr>ss_limiter = \<lparr>lm_window = 60, lm_trust_proxy = False, lm_legacy_max = 0, lm_max = case_dimension 0 0 0 1,
        lm_hits = (\<lambda>_. []), lm_legacy_hits = []\<rparr>, ss_jwks = None\<rparr>"

definition ok_app :: "request \<Rightarrow> reply" where
  "ok_app rq = Reply (json_reply 200 ''ok'')"

lemma example_rbac:
  "\<exists>sc au jw. rbac_call (\<lambda>_. []) (\<lambda>_. Jwt_Claims example_claims) example_cfg None
     (http_scope.truncate (example_request\<lparr>rq_correlation_id := Some ''id1'', rq_messages := ms\<rparr>)) = (Forward sc, au, jw)"
proof -
  have "http_scope.truncate (example_request\<lparr>rq_correlation_id := Some ''id1'', rq_messages := ms\<rparr>) = http_scope.truncate example_request"
    by (simp add: http_scope.truncate_def)
  moreover have "case rbac_call (\<lambda>_. []) (\<lambda>_. Jwt_Claims example_claims) example_cfg None (http_scope.truncate example_request) of
      (Forward sc, _, _) \<Rightarrow> True | _ \<Rightarrow> False"
    unfolding http_scope.truncate_def example_request_def request.simps http_scope.simps by code_simp
  ultimately show ?thesis
    by (auto split: prod.splits rbac_outcome.splits)
qed

lemma fun_upd_const [simp]: "(\<lambda>_. c)(a := c) = (\<lambda>_. c)"
  by auto

lemma stack_reaches:
  assumes "rbac_call (\<lambda>_. []) decode example_cfg None
      (http_scope.truncate (example_request\<lparr>rq_correlation_id := Some ''id1'', rq_messages := [Chunk ''abcd'' False, Disconnect]\<rparr>)) =
    (Forward sc, au, jw)"
  shows "\<exists>r rq' st'. app_stack (example_stack\<lparr>sg_decode := decode\<rparr>) ok_app example_request example_state = (r, Some rq', st')"
proof -
  have cid: "correlation_id_of ''id1'' example_request = ''id1''"
    by (simp add: correlation_id_of_def example_request_def header_of_def sanitize_correlation_id_def)
  have len: "content_length (sc_headers example_request) = None" "graphql_path (sc_path example_request)"
    unfolding example_request_def http_scope.simps by code_simp+
  have dr: "drain 8 [] (rq_messages example_request) = Drained ''abcd''"
    by (simp add: example_request_def)
  let ?q = "example_request\<lparr>rq_correlation_id := Some ''id1'', rq_messages := [Chunk ''abcd'' False, Disconnect]\<rparr>"
  note rb = assms
  let ?q' = "?q\<lparr>sc_headers := sc_headers sc, sc_principal := sc_principal sc\<rparr>"
  have rl: "rate_limit_call (ss_limiter example_state) (limiter_view ?q') 1 = (Pass_On, ss_limiter example_state)"
    by (simp add: rate_limit_call_def limited_path_def limiter_view_def example_request_def example_state_def layered_mode_def
        allow_request_def check_limit_def extract_database_id_def Let_def split: option.splits)
  have st: "ss_jwks example_state = None" "sc_type example_request = ''http''"
    by (simp_all add: example_state_def example_request_def)
  have rl': "rate_limit_call (ss_limiter (example_state\<lparr>ss_jwks := jw\<rparr>)) (limiter_view ?q') 1 = (Pass_On, ss_limiter example_state)"
    using rl by simp
  have "fst (snd (app_stack (example_stack\<lparr>sg_decode := decode\<rparr>) ok_app example_request example_state)) =
      fst (snd (body_limit_layer 8 (rbac_layer (\<lambda>_. []) decode example_cfg (rate_limit_layer 1
        (logging_layer ''id1'' (security_layer (routes_layer ok_app))))) (example_request\<lparr>rq_correlation_id := Some ''id1''\<rparr>) example_state))"
    by (simp add: app_stack_def reached_correlation example_stack_def cid)
  also have "\<dots> = fst (snd (rbac_layer (\<lambda>_. []) decode example_cfg (rate_limit_layer 1
        (logging_layer ''id1'' (security_layer (routes_layer ok_app)))) ?q example_state))"
    by (subst body_limit_pass[where b = "''abcd''"]) (simp_all add: st len dr)
  also have "\<dots> = fst (snd (rate_limit_layer 1 (logging_layer ''id1'' (security_layer (routes_layer ok_app))) ?q'
        (example_state\<lparr>ss_jwks := jw\<rparr>)))"
    by (subst rbac_layer_forward[OF rb[folded st(1)]]) simp
  also have "\<dots> \<noteq> None"
    by (subst rate_limit_layer_pass[OF rl']) (simp add: reached_inner)
  finally show ?thesis
    by (metis prod_cases3 fst_conv snd_conv option.exhaust)
qed

lemma example_reaches: "\<exists>r rq' st'. app_stack example_stack ok_app example_request example_state = (r, Some rq', st')"
proof -
  have "example_stack\<lparr>sg_decode := \<lambda>_. Jwt_Claims example_claims\<rparr> = example_stack"
    by (simp add: example_stack_def)
  then show ?thesis
    using example_rbac stack_reaches by metis
qed

lemma stack_guards_graphql_witness:
  "\<exists>rq' p. app_stack example_stack ok_app example_request example_state \<in> {(r, q, st'). q = Some rq'} \<and>
     sc_principal rq' = Some p \<and> sc_headers rq' = [(''authorization'', ''Bearer tok'')] \<and>
     rq_messages rq' = [Chunk ''abcd'' False, Disconnect]"
proof -
  obtain r rq' st' where run: "app_stack example_stack ok_app example_request example_state = (r, Some rq', st')"
    using example_reaches by blast
  have "sc_type example_request = ''http''" "graphql_path (sc_path example_request)"
    "filter (\<lambda>(n, v). \<not> spoofable n) (sc_headers example_request) = [(''authorization'', ''Bearer tok'')]"
    unfolding example_request_def http_scope.simps by code_simp+
  moreover have "chunk_bytes pre @ last = ''abcd''" if "rq_messages example_request = pre @ Chunk last False # rest" for pre last rest
    using that by (auto simp: example_request_def chunk_bytes_def Cons_eq_append_conv)
  ultimately show ?thesis
    using stack_guards_graphql[OF run] run by fastforce
qed

lemma stack_reply_correlated_witness:
  "\<exists>x c. fst (app_stack example_stack ok_app example_request example_state) = Reply x \<and> correlation_safe c \<and>
     dict_get (rs_headers x) ''X-Correlation-ID'' = Some c"
proof -
  have "correlation_safe (sg_fresh_id example_stack)"
    by (simp add: correlation_safe_def example_stack_def correlation_char_def is_ascii_alpha_def is_digit_def py_ord_def)
  then show ?thesis
    using stack_reply_correlated[of example_request example_stack ok_app example_state] by (auto simp: example_request_def)
qed

lemma guard_answers_lack_security_headers_witness:
  "\<exists>x st'. app_stack (example_stack\<lparr>sg_max_bytes := 3\<rparr>) ok_app example_request example_state = (Reply x, None, st') \<and>
     rs_status x = 413 \<and> dict_get (rs_headers x) ''X-Frame-Options'' = None"
proof -
  have "content_length (sc_headers example_request) = None" "graphql_path (sc_path example_request)"
    unfolding example_request_def http_scope.simps by code_simp+
  then obtain x st' where run: "app_stack (example_stack\<lparr>sg_max_bytes := 3\<rparr>) ok_app example_request example_state = (Reply x, None, st')"
    "rs_status x = 413"
    by (simp add: app_stack_def correlation_layer_def body_limit_layer_def example_stack_def example_request_def
        with_ids_def json_reply_def Let_def)
  then show ?thesis
    using guard_answers_lack_security_headers[OF run(1), of "''X-Frame-Options''" "''DENY''"] by (auto simp: security_headers_def)
qed

end
