(* ===== verification/Encryption.thy ===== *)
theory Encryption
  imports Secrets
begin

text \<open>
  sql\_query\_api/services/encryption.py: envelope encryption. A fresh data key encrypts the data, a key
  encryption key wraps the data key, and the result is stored as a JSON text of base64 values. Bytes
  are strings of code points below 256; base64 is modelled as the standard library computes it. AES-GCM,
  the key management services, the random source and the JSON text are the record \<open>crypto_lib\<close>; random
  bytes are numbered by the calls of \<open>os.urandom\<close>, so that a fresh value is the value of a later call.
\<close>

subsection \<open>Base64\<close>

definition b64_char :: "nat \<Rightarrow> char" where
  "b64_char n =
     (if n < 26 then char_of (65 + n) else if n < 52 then char_of (71 + n) else if n < 62 then char_of (n - 4)
      else if n = 62 then CHR ''+'' else CHR ''/'')"

definition b64_value :: "char \<Rightarrow> nat option" where
  "b64_value c = (let n = py_ord c in
     if 65 \<le> n \<and> n \<le> 90 then Some (n - 65) else if 97 \<le> n \<and> n \<le> 122 then Some (n - 71)
     else if 48 \<le> n \<and> n \<le> 57 then Some (n + 4) else if n = 43 then Some 62 else if n = 47 then Some 63 else None)"

fun b64encode :: "string \<Rightarrow> string" where
  "b64encode [] = []"
| "b64encode [a] = [b64_char (py_ord a div 4), b64_char (py_ord a mod 4 * 16), CHR ''='', CHR ''='']"
| "b64encode [a, b] =
     [b64_char (py_ord a div 4), b64_char (py_ord a mod 4 * 16 + py_ord b div 16), b64_char (py_ord b mod 16 * 4), CHR ''='']"
| "b64encode (a # b # c # rest) =
     [b64_char (py_ord a div 4), b64_char (py_ord a mod 4 * 16 + py_ord b div 16),
      b64_char (py_ord b mod 16 * 4 + py_ord c div 64), b64_char (py_ord c mod 64)] @ b64encode rest"

text \<open>The decoder keeps its position in the group of four, the bits left over and the padding seen; other
  characters are skipped, and a complete padding ends the text.\<close>

fun b64_decode_from :: "nat \<Rightarrow> nat \<Rightarrow> nat \<Rightarrow> string \<Rightarrow> string option" where
  "b64_decode_from quad left pads [] = (if quad = 0 then Some [] else None)"
| "b64_decode_from quad left pads (c # cs) =
     (if c = CHR ''='' then
        if quad \<ge> 2 \<and> quad + pads + 1 \<ge> 4 then Some []
        else b64_decode_from quad left (if quad \<ge> 2 then pads + 1 else pads) cs
      else case b64_value c of
        None \<Rightarrow> b64_decode_from quad left pads cs
      | Some v \<Rightarrow>
          if quad = 0 then b64_decode_from 1 v 0 cs
          else if quad = 1 then map_option ((#) (char_of (left * 4 + v div 16))) (b64_decode_from 2 (v mod 16) 0 cs)
          else if quad = 2 then map_option ((#) (char_of (left * 16 + v div 4))) (b64_decode_from 3 (v mod 4) 0 cs)
          else map_option ((#) (char_of (left * 64 + v))) (b64_decode_from 0 0 0 cs))"

fun b64decode :: "json \<Rightarrow> exn + string" where
  "b64decode (JStr s) =
     (if list_ex (\<lambda>c. py_ord c > 127) s then Inl (ValueError ''string argument should contain only ASCII characters'')
      else (case b64_decode_from 0 0 0 s of None \<Rightarrow> Inl (ValueError ''Incorrect padding'') | Some b \<Rightarrow> Inr b))"
| "b64decode _ = Inl TypeError"

subsection \<open>Keys\<close>

datatype kek =
    Local_KEK string string
  | Aws_KEK string "string option"
  | Gcp_KEK string
  | Vault_KEK string string string

record crypto_lib =
  cl_seal :: "string \<Rightarrow> string \<Rightarrow> string \<Rightarrow> string option \<Rightarrow> string"
  cl_open :: "string \<Rightarrow> string \<Rightarrow> string \<Rightarrow> string option \<Rightarrow> string option"
  cl_urandom :: "nat \<Rightarrow> nat \<Rightarrow> string"
  cl_kms_encrypt :: "kek \<Rightarrow> string \<Rightarrow> exn + string"
  cl_kms_decrypt :: "kek \<Rightarrow> string \<Rightarrow> exn + string"
  cl_dumps :: "json \<Rightarrow> string"
  cl_loads :: "string \<Rightarrow> json option"

record encrypted_data =
  ed_ciphertext :: string
  ed_wrapped_dek :: string
  ed_nonce :: string
  ed_kek_id :: json
  ed_algorithm :: json

definition aesgcm_params_ok :: "string \<Rightarrow> string \<Rightarrow> bool" where
  "aesgcm_params_ok key nonce \<longleftrightarrow> length key \<in> {16, 24, 32} \<and> 8 \<le> length nonce \<and> length nonce \<le> 128"

definition aesgcm_encrypt :: "crypto_lib \<Rightarrow> string \<Rightarrow> string \<Rightarrow> string \<Rightarrow> string option \<Rightarrow> exn + string" where
  "aesgcm_encrypt lib key nonce data aad =
     (if aesgcm_params_ok key nonce then Inr (cl_seal lib key nonce data aad) else Inl (ValueError ''AESGCM parameters''))"

definition aesgcm_decrypt :: "crypto_lib \<Rightarrow> string \<Rightarrow> string \<Rightarrow> string \<Rightarrow> string option \<Rightarrow> exn + string" where
  "aesgcm_decrypt lib key nonce data aad =
     (if \<not> aesgcm_params_ok key nonce then Inl (ValueError ''AESGCM parameters'')
      else case cl_open lib key nonce data aad of None \<Rightarrow> Inl (LibraryError ''InvalidTag'') | Some p \<Rightarrow> Inr p)"

text \<open>Operations that draw random bytes take and return the number of the next call.\<close>

definition local_kek :: "crypto_lib \<Rightarrow> string \<Rightarrow> string option \<Rightarrow> nat \<Rightarrow> kek \<times> nat" where
  "local_kek lib key_id key n =
     (case key of
        Some (c # cs) \<Rightarrow> (Local_KEK key_id (c # cs), n)
      | _ \<Rightarrow> (Local_KEK key_id (cl_urandom lib n 32), n + 1))"

fun kek_key_id :: "kek \<Rightarrow> string" where
  "kek_key_id (Local_KEK i _) = i"
| "kek_key_id (Aws_KEK i _) = i"
| "kek_key_id (Gcp_KEK i) = i"
| "kek_key_id (Vault_KEK name _ _) = ''vault:'' @ name"

fun wrap_key :: "crypto_lib \<Rightarrow> kek \<Rightarrow> string \<Rightarrow> nat \<Rightarrow> (exn + string) \<times> nat" where
  "wrap_key lib (Local_KEK i master) dek n =
     (let nonce = cl_urandom lib n 12 in
      (bind_result (aesgcm_encrypt lib master nonce dek None) (\<lambda>wrapped. Inr (nonce @ wrapped)), n + 1))"
| "wrap_key lib (Vault_KEK name addr token) dek n = (cl_kms_encrypt lib (Vault_KEK name addr token) (b64encode dek), n)"
| "wrap_key lib kek dek n = (cl_kms_encrypt lib kek dek, n)"

fun unwrap_key :: "crypto_lib \<Rightarrow> kek \<Rightarrow> string \<Rightarrow> exn + string" where
  "unwrap_key lib (Local_KEK i master) wrapped = aesgcm_decrypt lib master (take 12 wrapped) (drop 12 wrapped) None"
| "unwrap_key lib (Vault_KEK name addr token) wrapped =
     bind_result (cl_kms_decrypt lib (Vault_KEK name addr token) wrapped) (\<lambda>plain. b64decode (JStr plain))"
| "unwrap_key lib kek wrapped = cl_kms_decrypt lib kek wrapped"

subsection \<open>Envelope\<close>

definition envelope_encrypt ::
    "crypto_lib \<Rightarrow> kek \<Rightarrow> string \<Rightarrow> string option \<Rightarrow> nat \<Rightarrow> (exn + encrypted_data) \<times> nat" where
  "envelope_encrypt lib kek plaintext aad n =
     (let dek = cl_urandom lib n 32; nonce = cl_urandom lib (n + 1) 12 in
      (case aesgcm_encrypt lib dek nonce plaintext aad of
         Inl e \<Rightarrow> (Inl e, n + 2)
       | Inr ciphertext \<Rightarrow>
           (case wrap_key lib kek dek (n + 2) of
              (Inl e, n') \<Rightarrow> (Inl e, n')
            | (Inr wrapped, n') \<Rightarrow>
                (Inr \<lparr>ed_ciphertext = ciphertext, ed_wrapped_dek = wrapped, ed_nonce = nonce,
                      ed_kek_id = JStr (kek_key_id kek), ed_algorithm = JStr ''AES256-GCM''\<rparr>, n'))))"

definition envelope_decrypt :: "crypto_lib \<Rightarrow> kek \<Rightarrow> encrypted_data \<Rightarrow> string option \<Rightarrow> exn + string" where
  "envelope_decrypt lib kek e aad =
     bind_result (unwrap_key lib kek (ed_wrapped_dek e)) (\<lambda>dek. aesgcm_decrypt lib dek (ed_nonce e) (ed_ciphertext e) aad)"

definition non_blank_env :: "os_state \<Rightarrow> string \<Rightarrow> string option" where
  "non_blank_env os name = (case dict_get (os_env os) name of Some (c # cs) \<Rightarrow> Some (c # cs) | _ \<Rightarrow> None)"

definition get_kek_from_environment :: "crypto_lib \<Rightarrow> os_state \<Rightarrow> nat \<Rightarrow> (exn + kek) \<times> nat" where
  "get_kek_from_environment lib os n =
     (let kek_type = py_lower (getenv os ''ENCRYPTION_KEK_TYPE'' ''local'') in
      if kek_type = ''aws'' then
        (case non_blank_env os ''ENCRYPTION_AWS_KMS_KEY_ID'' of
           None \<Rightarrow> (Inl (RuntimeError ''ENCRYPTION_AWS_KMS_KEY_ID required for AWS KMS''), n)
         | Some i \<Rightarrow> (Inr (Aws_KEK i (dict_get (os_env os) ''ENCRYPTION_AWS_KMS_REGION'')), n))
      else if kek_type = ''gcp'' then
        (case non_blank_env os ''ENCRYPTION_GCP_KMS_KEY_ID'' of
           None \<Rightarrow> (Inl (RuntimeError ''ENCRYPTION_GCP_KMS_KEY_ID required for GCP KMS''), n)
         | Some i \<Rightarrow> (Inr (Gcp_KEK i), n))
      else if kek_type = ''vault'' then
        (case (non_blank_env os ''ENCRYPTION_VAULT_KEY_NAME'', non_blank_env os ''ENCRYPTION_VAULT_ADDR'',
               non_blank_env os ''ENCRYPTION_VAULT_TOKEN'') of
           (Some name, Some addr, Some token) \<Rightarrow> (Inr (Vault_KEK name (rstrip_by ((=) CHR ''/'') addr) token), n)
         | _ \<Rightarrow> (Inl (RuntimeError ''Vault config requires key_name, addr, and token''), n))
      else (case local_kek lib ''local-dev-kek'' None n of (k, n') \<Rightarrow> (Inr k, n')))"

definition encrypt_data :: "crypto_lib \<Rightarrow> os_state \<Rightarrow> string \<Rightarrow> string option \<Rightarrow> nat \<Rightarrow> (exn + encrypted_data) \<times> nat" where
  "encrypt_data lib os plaintext aad n =
     (case get_kek_from_environment lib os n of
        (Inl e, n') \<Rightarrow> (Inl e, n')
      | (Inr kek, n') \<Rightarrow> envelope_encrypt lib kek plaintext aad n')"

definition decrypt_data :: "crypto_lib \<Rightarrow> os_state \<Rightarrow> encrypted_data \<Rightarrow> string option \<Rightarrow> nat \<Rightarrow> (exn + string) \<times> nat" where
  "decrypt_data lib os e aad n =
     (case get_kek_from_environment lib os n of
        (Inl x, n') \<Rightarrow> (Inl x, n')
      | (Inr kek, n') \<Rightarrow> (envelope_decrypt lib kek e aad, n'))"

definition encrypted_doc :: "encrypted_data \<Rightarrow> json" where
  "encrypted_doc e =
     JObj [(''ciphertext'', JStr (b64encode (ed_ciphertext e))), (''wrapped_dek'', JStr (b64encode (ed_wrapped_dek e))),
           (''nonce'', JStr (b64encode (ed_nonce e))), (''kek_id'', ed_kek_id e), (''algorithm'', ed_algorithm e)]"

definition serialize_encrypted :: "crypto_lib \<Rightarrow> encrypted_data \<Rightarrow> string" where
  "serialize_encrypted lib e = cl_dumps lib (encrypted_doc e)"

text \<open>\<open>obj[key]\<close>\<close>

fun subscript :: "json \<Rightarrow> string \<Rightarrow> exn + json" where
  "subscript (JObj d) k = (case dict_get d k of None \<Rightarrow> Inl (LibraryError ''KeyError'') | Some v \<Rightarrow> Inr v)"
| "subscript _ k = Inl TypeError"

fun optional_algorithm :: "json \<Rightarrow> exn + json" where
  "optional_algorithm (JObj d) = Inr (obj_get_or d ''algorithm'' (JStr ''AES256-GCM''))"
| "optional_algorithm _ = Inl (AttributeError ''get'')"

definition deserialize_encrypted :: "crypto_lib \<Rightarrow> string \<Rightarrow> exn + encrypted_data" where
  "deserialize_encrypted lib data =
     (case cl_loads lib data of
        None \<Rightarrow> Inl (ValueError ''JSONDecodeError'')
      | Some obj \<Rightarrow>
          bind_result (bind_result (subscript obj ''ciphertext'') b64decode) (\<lambda>ct.
          bind_result (bind_result (subscript obj ''wrapped_dek'') b64decode) (\<lambda>wd.
          bind_result (bind_result (subscript obj ''nonce'') b64decode) (\<lambda>nonce.
          bind_result (subscript obj ''kek_id'') (\<lambda>kid.
          bind_result (optional_algorithm obj) (\<lambda>alg.
            Inr \<lparr>ed_ciphertext = ct, ed_wrapped_dek = wd, ed_nonce = nonce, ed_kek_id = kid, ed_algorithm = alg\<rparr>))))))"

subsection \<open>Base64 round trip\<close>

lemma b64_char_value [simp]: "n < 64 \<Longrightarrow> b64_value (b64_char n) = Some n"
proof -
  assume n: "n < 64"
  have special: "py_ord CHR ''+'' = 43" "py_ord CHR ''/'' = 47"
    by (simp_all add: py_ord_def)
  show ?thesis
    using n by (auto simp: b64_char_def b64_value_def Let_def special)
qed

lemma b64_char_ascii: "n < 64 \<Longrightarrow> py_ord (b64_char n) \<le> 127"
  by (auto simp: b64_char_def py_ord_def[of "CHR ''+''"] py_ord_def[of "CHR ''/''"])

lemma b64_char_not_pad [simp]: "n < 64 \<Longrightarrow> b64_char n \<noteq> CHR ''=''"
  using b64_char_value[of n] by (auto simp: b64_value_def py_ord_def)

lemma char_of_py_ord [simp]: "char_of (py_ord c) = c"
  by (simp add: py_ord_def)

lemma b64_parts:
  assumes "a < 256" and "b < 256" and "c < (256 :: nat)"
  shows "a div 4 < 64" "a mod 4 * 16 < 64" "a mod 4 * 16 + b div 16 < 64" "b mod 16 * 4 < 64" "b mod 16 * 4 + c div 64 < 64" "c mod 64 < 64"
    "a div 4 * 4 + (a mod 4 * 16 + b div 16) div 16 = a" "a div 4 * 4 + (a mod 4 * 16) div 16 = a"
    "(a mod 4 * 16 + b div 16) mod 16 * 16 + (b mod 16 * 4 + c div 64) div 4 = b"
    "(a mod 4 * 16 + b div 16) mod 16 * 16 + (b mod 16 * 4) div 4 = b"
    "(b mod 16 * 4 + c div 64) mod 4 * 64 + c mod 64 = c"
proof -
  have small: "b div 16 < 16" "c div 64 < 4" "a mod 4 < 4" "b mod 16 < 16"
    using assms by auto
  have split16: "(x * 16 + r) div 16 = x" "(x * 16 + r) mod 16 = r" if "r < 16" for x r :: nat
    using that by simp_all
  have split4: "(x * 4 + r) div 4 = x" "(x * 4 + r) mod 4 = r" if "r < 4" for x r :: nat
    using that by simp_all
  show "a div 4 < 64" "a mod 4 * 16 < 64" "a mod 4 * 16 + b div 16 < 64" "b mod 16 * 4 < 64" "b mod 16 * 4 + c div 64 < 64" "c mod 64 < 64"
    using small assms by linarith+
  show "a div 4 * 4 + (a mod 4 * 16 + b div 16) div 16 = a" "a div 4 * 4 + (a mod 4 * 16) div 16 = a"
    using split16(1)[OF small(1)] by simp_all
  show "(a mod 4 * 16 + b div 16) mod 16 * 16 + (b mod 16 * 4 + c div 64) div 4 = b"
    "(a mod 4 * 16 + b div 16) mod 16 * 16 + (b mod 16 * 4) div 4 = b"
    using split16(2)[OF small(1)] split4(1)[OF small(2)] by simp_all
  show "(b mod 16 * 4 + c div 64) mod 4 * 64 + c mod 64 = c"
    using split4(2)[OF small(2)] by simp
qed

lemma b64_round_trip_from: "b64_decode_from 0 0 p (b64encode s) = Some s"
proof (induction s arbitrary: p rule: b64encode.induct)
  case (4 a b c rest)
  note parts = b64_parts[of "py_ord a" "py_ord b" "py_ord c", simplified]
  show ?case
    using 4 parts by simp
qed (use b64_parts[of "py_ord a" "py_ord b" 0 for a b, simplified] in simp_all)

lemma b64encode_ascii: "c \<in> set (b64encode s) \<Longrightarrow> py_ord c \<le> 127"
proof (induction s rule: b64encode.induct)
  case (4 a b c rest)
  then show ?case
    using b64_parts[of "py_ord a" "py_ord b" "py_ord c", simplified] b64_char_ascii by auto
qed (use b64_parts[of "py_ord a" "py_ord b" 0 for a b, simplified] b64_char_ascii py_ord_def[of "CHR ''=''"] in auto)

lemma b64_round_trip [simp]: "b64decode (JStr (b64encode s)) = Inr s"
  using b64encode_ascii by (fastforce simp: list_ex_iff b64_round_trip_from)

declare b64decode.simps(1) [simp del]

subsection \<open>Keys that unwrap what they wrapped\<close>

text \<open>The documented behaviour of the libraries: decryption with the same key, nonce and associated data
  gives the plaintext back, \<open>os.urandom(k)\<close> is \<open>k\<close> bytes, a key management service decrypts what it
  encrypted.\<close>

definition aead_ok :: "crypto_lib \<Rightarrow> bool" where
  "aead_ok lib \<longleftrightarrow> (\<forall>key nonce p aad. cl_open lib key nonce (cl_seal lib key nonce p aad) aad = Some p)"

definition entropy_ok :: "crypto_lib \<Rightarrow> bool" where
  "entropy_ok lib \<longleftrightarrow> (\<forall>n k. length (cl_urandom lib n k) = k)"

definition kms_ok :: "crypto_lib \<Rightarrow> kek \<Rightarrow> bool" where
  "kms_ok lib k \<longleftrightarrow> (\<forall>x y. cl_kms_encrypt lib k x = Inr y \<longrightarrow> cl_kms_decrypt lib k y = Inr x)"

fun is_local :: "kek \<Rightarrow> bool" where
  "is_local (Local_KEK _ _) = True"
| "is_local _ = False"

definition kek_usable :: "crypto_lib \<times> kek \<Rightarrow> bool" where
  "kek_usable lk \<longleftrightarrow> (case lk of (lib, k) \<Rightarrow> if is_local k then aead_ok lib \<and> entropy_ok lib else kms_ok lib k)"

locale key_wrapping =
  fixes usable :: "'k \<Rightarrow> bool"
    and wrap :: "'k \<Rightarrow> string \<Rightarrow> nat \<Rightarrow> (exn + string) \<times> nat"
    and unwrap :: "'k \<Rightarrow> string \<Rightarrow> exn + string"
  assumes unwrap_wrapped: "usable k \<Longrightarrow> wrap k dek n = (Inr w, n') \<Longrightarrow> unwrap k w = Inr dek"
begin

lemma wrapped_determines_key:
  assumes "usable k" and "wrap k d1 n1 = (Inr w, m1)" and "wrap k d2 n2 = (Inr w, m2)"
  shows "d1 = d2"
  using unwrap_wrapped[OF assms(1,2)] unwrap_wrapped[OF assms(1,3)] by simp

lemma open_after_wrap:
  assumes "usable k" and "wrap k dek n = (Inr w, n')"
  shows "bind_result (unwrap k w) f = f dek"
  using unwrap_wrapped[OF assms] by simp

end

lemma aesgcm_round_trip: "aead_ok lib \<Longrightarrow> aesgcm_encrypt lib key nonce p aad = Inr ct \<Longrightarrow> aesgcm_decrypt lib key nonce ct aad = Inr p"
  by (auto simp: aesgcm_encrypt_def aesgcm_decrypt_def aead_ok_def split: if_splits)

interpretation kek: key_wrapping kek_usable "\<lambda>(lib, k). wrap_key lib k" "\<lambda>(lib, k). unwrap_key lib k"
proof
  show "(case lk of (lib, k) \<Rightarrow> unwrap_key lib k) w = Inr dek"
    if u: "kek_usable lk" and wr: "(case lk of (lib, k) \<Rightarrow> wrap_key lib k) dek n = (Inr w, n')" for lk dek n w n'
  proof -
    obtain lib k where lk: "lk = (lib, k)"
      by fastforce
    show ?thesis
    proof (cases k)
      case (Local_KEK i master)
      have ok: "aead_ok lib" and len: "length (cl_urandom lib n 12) = 12"
        using u lk Local_KEK by (auto simp: kek_usable_def entropy_ok_def)
      obtain ct where ct: "aesgcm_encrypt lib master (cl_urandom lib n 12) dek None = Inr ct" "w = cl_urandom lib n 12 @ ct"
        using wr lk Local_KEK by (auto simp: Let_def)
      show ?thesis
        using aesgcm_round_trip[OF ok ct(1)] ct(2) lk Local_KEK len by simp
    qed (use u wr lk in \<open>auto simp: kek_usable_def kms_ok_def\<close>)
  qed
qed

subsection \<open>Properties\<close>

lemma envelope_decrypt_encrypted:
  assumes "aead_ok lib" and "kek_usable (lib, k)" and "envelope_encrypt lib k p aad n = (Inr e, n')"
  shows "envelope_decrypt lib k e aad = Inr p"
proof -
  let ?dek = "cl_urandom lib n 32" and ?nonce = "cl_urandom lib (n + 1) 12"
  obtain ct w where c: "aesgcm_encrypt lib ?dek ?nonce p aad = Inr ct" "wrap_key lib k ?dek (n + 2) = (Inr w, n')"
    "ed_ciphertext e = ct" "ed_wrapped_dek e = w" "ed_nonce e = ?nonce"
    using assms(3) by (auto simp: envelope_encrypt_def Let_def split: sum.splits prod.splits)
  then have "envelope_decrypt lib k e aad = aesgcm_decrypt lib ?dek ?nonce ct aad"
    using kek.open_after_wrap[OF assms(2), of ?dek "n + 2" w n'] by (simp add: envelope_decrypt_def)
  then show ?thesis
    using aesgcm_round_trip[OF assms(1) c(1)] by simp
qed

text \<open>C26. What is encrypted and stored can be read back: with the key that wrapped it and the same associated
  data, parsing the stored text and decrypting gives the plaintext, for every kind of key.\<close>

theorem envelope_round_trip:
  assumes "aead_ok lib" and "kek_usable (lib, k)" and "envelope_encrypt lib k p aad n = (Inr e, n')"
    and "cl_loads lib (cl_dumps lib (encrypted_doc e)) = Some (encrypted_doc e)"
  shows "bind_result (deserialize_encrypted lib (serialize_encrypted lib e)) (\<lambda>e'. envelope_decrypt lib k e' aad) = Inr p"
proof -
  have "deserialize_encrypted lib (serialize_encrypted lib e) = Inr e"
    using assms(4) by (simp add: deserialize_encrypted_def serialize_encrypted_def encrypted_doc_def obj_get_or_def)
  then show ?thesis
    using envelope_decrypt_encrypted[OF assms(1-3)] by simp
qed

text \<open>A library that is not secret, but behaves as documented.\<close>

definition clear_lib :: "json \<Rightarrow> crypto_lib" where
  "clear_lib doc =
     \<lparr>cl_seal = (\<lambda>key nonce p aad. p), cl_open = (\<lambda>key nonce p aad. Some p), cl_urandom = (\<lambda>n k. replicate k (char_of n)),
      cl_kms_encrypt = (\<lambda>k x. Inr x), cl_kms_decrypt = (\<lambda>k x. Inr x), cl_dumps = (\<lambda>_. []), cl_loads = (\<lambda>_. Some doc)\<rparr>"

definition clear_envelope :: encrypted_data where
  "clear_envelope =
     \<lparr>ed_ciphertext = ''data'', ed_wrapped_dek = replicate 12 (char_of (3 :: nat)) @ replicate 32 (char_of (1 :: nat)),
      ed_nonce = replicate 12 (char_of (2 :: nat)), ed_kek_id = JStr ''k'', ed_algorithm = JStr ''AES256-GCM''\<rparr>"

lemma envelope_round_trip_witness:
  "bind_result (deserialize_encrypted (clear_lib (encrypted_doc clear_envelope)) (serialize_encrypted (clear_lib (encrypted_doc clear_envelope)) clear_envelope))
     (\<lambda>e. envelope_decrypt (clear_lib (encrypted_doc clear_envelope)) (Local_KEK ''k'' (replicate 32 CHR ''m'')) e None) = Inr ''data''"
proof (rule envelope_round_trip[where n = 1])
  let ?lib = "clear_lib (encrypted_doc clear_envelope)"
  show "aead_ok ?lib"
    by (simp add: aead_ok_def clear_lib_def)
  show "kek_usable (?lib, Local_KEK ''k'' (replicate 32 CHR ''m''))"
    by (simp add: kek_usable_def aead_ok_def entropy_ok_def clear_lib_def)
  show "envelope_encrypt ?lib (Local_KEK ''k'' (replicate 32 CHR ''m'')) ''data'' None 1 = (Inr clear_envelope, 4)"
    by (simp add: envelope_encrypt_def aesgcm_encrypt_def aesgcm_params_ok_def clear_lib_def clear_envelope_def Let_def)
  show "cl_loads ?lib (cl_dumps ?lib (encrypted_doc clear_envelope)) = Some (encrypted_doc clear_envelope)"
    by (simp add: clear_lib_def)
qed

text \<open>Unless a key service is configured, every call of \<open>encrypt_data\<close> and \<open>decrypt_data\<close> makes a new key of its
  own: what one call encrypted no later call can decrypt (here under the assumption that a text
  sealed under one key opens under no other).\<close>

lemma local_encryption_is_lost:
  assumes "dict_get (os_env os) ''ENCRYPTION_KEK_TYPE'' = None" and "encrypt_data lib os p aad n = (Inr e, n')"
    and "entropy_ok lib" and "cl_urandom lib m 32 \<noteq> cl_urandom lib n 32"
    and "\<And>k k' nonce nonce' x a a'. k \<noteq> k' \<Longrightarrow> cl_open lib k' nonce' (cl_seal lib k nonce x a) a' = None"
  shows "fst (decrypt_data lib os e aad m) = Inl (LibraryError ''InvalidTag'')"
proof -
  have kt: "py_lower (getenv os ''ENCRYPTION_KEK_TYPE'' ''local'') = ''local''"
    using assms(1) by (simp add: getenv_def) code_simp
  have kek: "get_kek_from_environment lib os i = (Inr (Local_KEK ''local-dev-kek'' (cl_urandom lib i 32)), i + 1)" for i
    by (simp add: get_kek_from_environment_def kt local_kek_def)
  let ?nonce = "cl_urandom lib (n + 1 + 2) 12" and ?dek = "cl_urandom lib (n + 1) 32"
  have len: "length (cl_urandom lib i k) = k" for i k
    using assms(3) by (simp add: entropy_ok_def)
  have w: "ed_wrapped_dek e = ?nonce @ cl_seal lib (cl_urandom lib n 32) ?nonce ?dek None"
    using assms(2) by (auto simp: encrypt_data_def kek envelope_encrypt_def Let_def aesgcm_encrypt_def split: if_splits)
  have "cl_open lib (cl_urandom lib m 32) ?nonce (cl_seal lib (cl_urandom lib n 32) ?nonce ?dek None) None = None"
    using assms(4) by (intro assms(5)) simp
  then show ?thesis
    using len by (simp add: decrypt_data_def kek envelope_decrypt_def w aesgcm_decrypt_def aesgcm_params_ok_def)
qed

end
