(* ===== verification/Py_Url.thy ===== *)
theory Py_Url
  imports Py_Num
begin

text \<open>
  auth0\_api/app/utils/helpers.py over the part of \<open>urllib.parse\<close> it uses: the scheme, host and port of an
  address. Whether the text between brackets is an IP address is the parameter \<open>ip_ok\<close>.
\<close>

record parsed_url =
  pu_scheme :: string
  pu_netloc :: string

definition scheme_char :: "char \<Rightarrow> bool" where
  "scheme_char c \<longleftrightarrow> is_ascii_alpha c \<or> is_digit c \<or> c \<in> {CHR ''+'', CHR ''-'', CHR ''.''}"

text \<open>\<open>urlsplit\<close>: leading control characters and blanks go, tabs and line breaks go everywhere.\<close>

definition url_chars :: "string \<Rightarrow> string" where
  "url_chars url =
     filter (\<lambda>c. c \<notin> {CHR 0x09, CHR 0x0A, CHR 0x0D}) (dropWhile (\<lambda>c. py_ord c \<le> 32) url)"

definition split_scheme :: "string \<Rightarrow> string \<times> string" where
  "split_scheme url =
     (case partition_on CHR '':'' url of
        (c # cs, True, rest) \<Rightarrow>
          if is_ascii_alpha c \<and> list_all scheme_char (c # cs) then (py_lower (c # cs), rest) else ([], url)
      | _ \<Rightarrow> ([], url))"

definition netloc_of :: "string \<Rightarrow> string" where
  "netloc_of rest =
     (if prefix ''//'' rest
      then takeWhile (\<lambda>c. c \<notin> {CHR ''/'', CHR ''?'', CHR ''#''}) (drop 2 rest) else [])"

definition urlparse :: "(string \<Rightarrow> bool) \<Rightarrow> string \<Rightarrow> exn + parsed_url" where
  "urlparse ip_ok url =
     (case split_scheme (url_chars url) of (scheme, rest) \<Rightarrow>
        let netloc = netloc_of rest;
            inside = fst (partition_on CHR '']'' (snd (snd (partition_on CHR ''['' netloc))))
        in if (CHR ''['' \<in> set netloc) \<noteq> (CHR '']'' \<in> set netloc) then Inl (ValueError ''Invalid IPv6 URL'')
           else if CHR ''['' \<in> set netloc \<and> \<not> ip_ok inside then Inl (ValueError ''Invalid IPv6 URL'')
           else Inr \<lparr>pu_scheme = scheme, pu_netloc = netloc\<rparr>)"

text \<open>The part of the net location after the last \<open>@\<close>, as host and port texts.\<close>

definition host_info :: "parsed_url \<Rightarrow> string \<times> string" where
  "host_info u =
     (let info = last (split_on CHR ''@'' (pu_netloc u)) in
      (case partition_on CHR ''['' info of
         (_, True, bracketed) \<Rightarrow>
           (case partition_on CHR '']'' bracketed of (host, _, rest) \<Rightarrow> (host, snd (snd (partition_on CHR '':'' rest))))
       | _ \<Rightarrow> (case partition_on CHR '':'' info of (host, _, port) \<Rightarrow> (host, port))))"

definition url_hostname :: "parsed_url \<Rightarrow> string" where
  "url_hostname u =
     (case partition_on CHR ''%'' (fst (host_info u)) of
        (host, percent, zone) \<Rightarrow> py_lower host @ (if percent then CHR ''%'' # zone else []))"

definition url_port :: "parsed_url \<Rightarrow> exn + nat option" where
  "url_port u =
     (let port = snd (host_info u) in
      if port = [] then Inr None
      else if \<not> list_all is_digit port then Inl (ValueError ''Port could not be cast to integer value'')
      else (case digits_value False 0 port of
              Some n \<Rightarrow> if n \<le> 65535 then Inr (Some n) else Inl (ValueError ''Port out of range 0-65535'')
            | None \<Rightarrow> Inl (ValueError ''Port could not be cast to integer value'')))"

definition port_suffix :: "nat option \<Rightarrow> string" where
  "port_suffix p = (case p of None \<Rightarrow> [] | Some n \<Rightarrow> if n = 0 then [] else CHR '':'' # nat_str n)"

definition origin_of :: "parsed_url \<Rightarrow> exn + string option" where
  "origin_of u =
     (if pu_scheme u \<noteq> [] \<and> url_hostname u \<noteq> []
      then bind_result (url_port u) (\<lambda>p. Inr (Some (pu_scheme u @ ''://'' @ url_hostname u @ port_suffix p)))
      else Inr None)"

subsection \<open>Origins\<close>

definition derive_frontend_origin :: "(string \<Rightarrow> bool) \<Rightarrow> string \<Rightarrow> string \<Rightarrow> exn + string" where
  "derive_frontend_origin ip_ok react_url frontend_url =
     (let url = (if react_url \<noteq> [] then react_url else if frontend_url \<noteq> [] then frontend_url else ''http://localhost:5173'') in
      bind_result (bind_result (urlparse ip_ok url) origin_of) (\<lambda>origin.
        Inr (case origin of Some x \<Rightarrow> x | None \<Rightarrow> url)))"

definition normalize_origin :: "(string \<Rightarrow> bool) \<Rightarrow> string \<Rightarrow> string option" where
  "normalize_origin ip_ok url =
     (case bind_result (urlparse ip_ok url) origin_of of Inl _ \<Rightarrow> None | Inr origin \<Rightarrow> origin)"

definition is_allowed_origin :: "string \<Rightarrow> string list \<Rightarrow> bool" where
  "is_allowed_origin origin allowed \<longleftrightarrow> origin \<in> set allowed"

text \<open>Path, query, credentials and the case of the host do not matter; the brackets of an IPv6 host are
  lost, so what comes out is not an origin any browser sends.\<close>

lemma ipv6_origin_loses_brackets:
  "ip_ok ''::1'' \<Longrightarrow> normalize_origin ip_ok ''http://[::1]:8'' = Some ''http://::1:8''"
proof -
  assume ip: "ip_ok ''::1''"
  have "urlparse ip_ok ''http://[::1]:8'' = Inr \<lparr>pu_scheme = ''http'', pu_netloc = ''[::1]:8''\<rparr>"
    using ip by (simp add: urlparse_def split_scheme_def url_chars_def netloc_of_def py_ord_def is_ascii_alpha_def
        scheme_char_def py_lower_def lower_char_def Let_def)
  moreover have "origin_of \<lparr>pu_scheme = ''http'', pu_netloc = ''[::1]:8''\<rparr> = Inr (Some ''http://::1:8'')"
    by code_simp
  ultimately show ?thesis
    by (simp add: normalize_origin_def)
qed

end
