(* ===== verification/Browser_Auth.thy ===== *)
theory Browser_Auth
  imports Py_Url
begin

text \<open>
  auth0\_api: the browser-facing service. The server-side session store (auth/session\_store.py), the
  defences against cross-site requests (security/csrf.py), login, callback and logout
  (routes/auth\_routes.py) and the guarded calls (routes/user\_routes.py, routes/graphql\_routes.py).
  The browser's signed session cookie is a dictionary of the request. Times are real numbers, fresh
  random tokens are arguments. Redis is the record \<open>redis_ops\<close> over its own state, the token exchange
  with the authorization server an argument.
\<close>

subsection \<open>Settings and requests\<close>

record auth_settings =
  as_cookie_secure :: bool
  as_allowed_origins :: "string list"
  as_react_app_url :: string
  as_frontend_url :: string
  as_session_max_age :: int
  as_domain :: string
  as_client_id :: string
  as_client_secret :: string
  as_org_id_claim :: string
  as_redirect_uri :: string
  as_sql_query_api_url :: string

text \<open>Header names are in lower case.\<close>

record browser_request =
  br_headers :: "(string, string) dict"
  br_cookies :: "(string, string) dict"
  br_session :: obj
  br_body :: string
  br_correlation_id :: "string option"

text \<open>An answer with the cookies it sets (\<open>None\<close> deletes one); their attributes are the same constants everywhere.\<close>

record web_reply =
  wr_status :: nat
  wr_body :: obj
  wr_cookies :: "(string \<times> string option) list"

definition error_reply :: "nat \<Rightarrow> string \<Rightarrow> string option \<Rightarrow> web_reply" where
  "error_reply status detail error =
     \<lparr>wr_status = status,
      wr_body = [(''status_code'', JInt (int status)), (''detail'', JStr detail),
                 (''error'', case error of None \<Rightarrow> JNull | Some e \<Rightarrow> JStr e), (''error_description'', JNull)],
      wr_cookies = []\<rparr>"

subsection \<open>Session store\<close>

text \<open>Redis over its state \<open>'r\<close>; \<open>'t\<close> is the type of the texts \<open>json.dumps\<close> writes, which only \<open>json.loads\<close> reads.\<close>

record ('r, 't) redis_ops =
  ro_get :: "real \<Rightarrow> 'r \<Rightarrow> string \<Rightarrow> 't option"
  ro_setex :: "real \<Rightarrow> 'r \<Rightarrow> string \<Rightarrow> int \<Rightarrow> 't \<Rightarrow> 'r"
  ro_delete :: "'r \<Rightarrow> string \<Rightarrow> 'r"
  ro_dumps :: "obj \<Rightarrow> 't"
  ro_loads :: "'t \<Rightarrow> json option"

record 'r session_store =
  ss_use_redis :: bool
  ss_memory :: "(string, obj) dict"
  ss_redis :: 'r

definition redis_key :: "string \<Rightarrow> string" where
  "redis_key session_id = ''gateway:session:'' @ session_id"

definition validate_session_store :: "os_state \<Rightarrow> exn + unit" where
  "validate_session_store os =
     (if is_environment_production os \<and> py_strip (getenv os ''REDIS_URL'' []) = []
      then Inl (RuntimeError ''REDIS_URL is required in production for shared session storage.'') else Inr ())"

definition session_payload :: "json \<Rightarrow> string \<Rightarrow> string \<Rightarrow> real \<Rightarrow> int \<Rightarrow> obj" where
  "session_payload user access_token csrf now ttl =
     [(''user'', user), (''access_token'', JStr access_token), (''csrf_token'', JStr csrf),
      (''expires_at'', JFloat (now + real_of_int ttl))]"

text \<open>\<open>sid\<close> and \<open>csrf\<close> are the fresh random tokens.\<close>

definition create_session ::
    "('r, 't, 'z) redis_ops_scheme \<Rightarrow> 'r session_store \<Rightarrow> real \<Rightarrow> string \<Rightarrow> string \<Rightarrow> json \<Rightarrow> string \<Rightarrow> int \<Rightarrow> 'r session_store" where
  "create_session ops st now sid csrf user access_token ttl =
     (let payload = session_payload user access_token csrf now ttl in
      if ss_use_redis st
      then st\<lparr>ss_redis := ro_setex ops now (ss_redis st) (redis_key sid) ttl (ro_dumps ops payload)\<rparr>
      else st\<lparr>ss_memory := dict_set (ss_memory st) sid payload\<rparr>)"

fun number_of :: "json \<Rightarrow> real option" where
  "number_of (JInt i) = Some (real_of_int i)"
| "number_of (JBool b) = Some (if b then 1 else 0)"
| "number_of (JFloat r) = Some r"
| "number_of _ = None"

definition expired :: "obj \<Rightarrow> real \<Rightarrow> bool" where
  "expired d now = (case number_of (obj_get d ''expires_at'') of None \<Rightarrow> False | Some t \<Rightarrow> t \<le> now)"

text \<open>The memory path compares without a check of the type: a text raises \<open>TypeError\<close>.\<close>

definition memory_expired :: "obj \<Rightarrow> real \<Rightarrow> exn + bool" where
  "memory_expired d now =
     (case number_of (obj_get_or d ''expires_at'' (JInt 0)) of None \<Rightarrow> Inl TypeError | Some t \<Rightarrow> Inr (t \<le> now))"

definition get_session ::
    "('r, 't, 'z) redis_ops_scheme \<Rightarrow> 'r session_store \<Rightarrow> real \<Rightarrow> json \<Rightarrow> (exn + obj option) \<times> 'r session_store" where
  "get_session ops st now sid =
     (case sid of
        JStr (c # cs) \<Rightarrow>
          (let i = c # cs; forget = st\<lparr>ss_redis := ro_delete ops (ss_redis st) (redis_key i)\<rparr> in
           if ss_use_redis st then
             (case ro_get ops now (ss_redis st) (redis_key i) of
                None \<Rightarrow> (Inr None, st)
              | Some raw \<Rightarrow>
                  (case ro_loads ops raw of
                     None \<Rightarrow> (Inr None, forget)
                   | Some (JObj d) \<Rightarrow> if expired d now then (Inr None, forget) else (Inr (Some d), st)
                   | Some _ \<Rightarrow> (Inl (AttributeError ''get''), st)))
           else
             (let popped = st\<lparr>ss_memory := dict_pop (ss_memory st) i\<rparr> in
              case dict_get (ss_memory st) i of
                None \<Rightarrow> (Inr None, popped)
              | Some [] \<Rightarrow> (Inr None, popped)
              | Some d \<Rightarrow>
                  (case memory_expired d now of
                     Inl e \<Rightarrow> (Inl e, st)
                   | Inr True \<Rightarrow> (Inr None, popped)
                   | Inr False \<Rightarrow> (Inr (Some d), st))))
      | _ \<Rightarrow> (Inr None, st))"

definition revoke_session :: "('r, 't, 'z) redis_ops_scheme \<Rightarrow> 'r session_store \<Rightarrow> json \<Rightarrow> 'r session_store" where
  "revoke_session ops st sid =
     (case sid of
        JStr (c # cs) \<Rightarrow>
          st\<lparr>ss_redis := (if ss_use_redis st then ro_delete ops (ss_redis st) (redis_key (c # cs)) else ss_redis st),
             ss_memory := dict_pop (ss_memory st) (c # cs)\<rparr>
      | _ \<Rightarrow> st)"

subsection \<open>Cross-site requests\<close>

definition csrf_cookie_name :: "auth_settings \<Rightarrow> string" where
  "csrf_cookie_name s = (if as_cookie_secure s then ''__Host-csrf_token'' else ''csrf_token'')"

fun add_origin :: "(string \<Rightarrow> bool) \<Rightarrow> string list \<Rightarrow> string \<Rightarrow> string list" where
  "add_origin ip_ok allowed raw =
     (if raw = [] then allowed
      else case normalize_origin ip_ok (py_strip raw) of
             None \<Rightarrow> allowed
           | Some x \<Rightarrow> if x \<in> set allowed then allowed else allowed @ [x])"

definition get_allowed_origins :: "(string \<Rightarrow> bool) \<Rightarrow> auth_settings \<Rightarrow> string list" where
  "get_allowed_origins ip_ok s =
     foldl (add_origin ip_ok) [] (as_allowed_origins s @ [as_react_app_url s, as_frontend_url s])"

definition origin_from_header :: "(string \<Rightarrow> bool) \<Rightarrow> string option \<Rightarrow> string option" where
  "origin_from_header ip_ok value =
     (case value of
        None \<Rightarrow> None
      | Some v \<Rightarrow> if py_strip v = [] \<or> py_lower (py_strip v) = ''null'' then None else normalize_origin ip_ok (py_strip v))"

definition request_origin_is_allowed :: "(string \<Rightarrow> bool) \<Rightarrow> auth_settings \<Rightarrow> browser_request \<Rightarrow> bool" where
  "request_origin_is_allowed ip_ok s rq =
     (let allowed = get_allowed_origins ip_ok s in
      case origin_from_header ip_ok (dict_get (br_headers rq) ''origin'') of
        Some x \<Rightarrow> x \<in> set allowed
      | None \<Rightarrow> (case origin_from_header ip_ok (dict_get (br_headers rq) ''referer'') of
                 None \<Rightarrow> False | Some x \<Rightarrow> x \<in> set allowed))"

definition csrf_detail :: string where
  "csrf_detail = ''CSRF protection failed''"

definition csrf_cookie :: "auth_settings \<Rightarrow> browser_request \<Rightarrow> string" where
  "csrf_cookie s rq =
     (case dict_get (br_cookies rq) (csrf_cookie_name s) of
        Some (c # cs) \<Rightarrow> c # cs
      | _ \<Rightarrow> (case dict_get (br_cookies rq) ''csrf_token'' of None \<Rightarrow> [] | Some v \<Rightarrow> v))"

definition csrf_failure_reason ::
    "(json \<Rightarrow> string) \<Rightarrow> (string \<Rightarrow> bool) \<Rightarrow> auth_settings \<Rightarrow> browser_request \<Rightarrow> obj option \<Rightarrow> string option" where
  "csrf_failure_reason rep ip_ok s rq session =
     (let header = dict_get (br_headers rq);
          fetch_site = (case header ''sec-fetch-site'' of None \<Rightarrow> [] | Some v \<Rightarrow> v);
          cookie_token = csrf_cookie s rq;
          header_token = (case header ''x-csrf-token'' of None \<Rightarrow> [] | Some v \<Rightarrow> v);
          session_token = obj_get (case session of None \<Rightarrow> [] | Some d \<Rightarrow> d) ''csrf_token''
      in if header ''x-requested-with'' \<noteq> Some ''XMLHttpRequest'' then Some csrf_detail
         else if \<not> request_origin_is_allowed ip_ok s rq then Some csrf_detail
         else if fetch_site \<noteq> [] \<and> py_lower fetch_site \<notin> {''same-origin'', ''same-site''} then Some csrf_detail
         else if cookie_token = [] \<or> header_token = [] then Some csrf_detail
         else if cookie_token \<noteq> header_token then Some csrf_detail
         else if session_token = JNull \<or> cookie_token \<noteq> py_str rep session_token then Some csrf_detail
         else None)"

definition set_csrf_cookie :: "(json \<Rightarrow> string) \<Rightarrow> auth_settings \<Rightarrow> obj option \<Rightarrow> web_reply \<Rightarrow> web_reply" where
  "set_csrf_cookie rep s session r =
     (let token = obj_get (case session of None \<Rightarrow> [] | Some d \<Rightarrow> d) ''csrf_token'' in
      if \<not> truthy token then r
      else r\<lparr>wr_cookies := wr_cookies r @ [(csrf_cookie_name s, Some (py_str rep token))]\<rparr>)"

definition clear_csrf_cookie :: "auth_settings \<Rightarrow> web_reply \<Rightarrow> web_reply" where
  "clear_csrf_cookie s r =
     r\<lparr>wr_cookies := wr_cookies r @ map (\<lambda>n. (n, None)) (remdups [csrf_cookie_name s, ''csrf_token''])\<rparr>"

subsection \<open>Login, callback, logout\<close>

text \<open>The session cookie is part of the state: an operation gives its answer, the new cookie session and
  the new store.\<close>

datatype exchange = Exchanged obj | Oauth_Failed string string | Exchange_Crashed string

text \<open>PKCE: \<open>verifier\<close> and \<open>nonce\<close> are fresh tokens, \<open>challenge_of\<close> is the base64url text of the SHA-256
  digest without padding. The answer is the redirect's parameters.\<close>

definition login :: "auth_settings \<Rightarrow> (string \<Rightarrow> string) \<Rightarrow> string \<Rightarrow> string \<Rightarrow> obj \<Rightarrow> (string, string) dict \<times> obj" where
  "login s challenge_of verifier nonce session =
     ([(''redirect_uri'', as_redirect_uri s), (''code_challenge'', challenge_of verifier),
       (''code_challenge_method'', ''S256''), (''nonce'', nonce)],
      dict_set (dict_set session ''pkce_verifier'' (JStr verifier)) ''oidc_nonce'' (JStr nonce))"

text \<open>Three required texts of the user, as \<open>UserResponse\<close> validates them.\<close>

definition user_response :: "obj \<Rightarrow> exn + obj" where
  "user_response info =
     (case (obj_get info ''sub'', obj_get info ''email'', obj_get info ''name'') of
        (JStr i, JStr e, JStr n) \<Rightarrow>
          Inr [(''id'', JStr i), (''email'', JStr e), (''name'', JStr n), (''org_id'', JNull)]
      | _ \<Rightarrow> Inl (ValueError ''ValidationError''))"

definition token_org_id :: "auth_settings \<Rightarrow> obj \<Rightarrow> obj \<Rightarrow> exn + json" where
  "token_org_id s token info =
     (let org = obj_get info (as_org_id_claim s) in
      if \<not> truthy org \<and> obj_get token ''userinfo'' \<noteq> JNull
      then py_get (py_or (obj_get token ''id_token_claims'') (JObj [])) (as_org_id_claim s)
      else Inr org)"

definition nonce_ok :: "obj \<Rightarrow> obj \<Rightarrow> exn + bool" where
  "nonce_ok token session =
     (let expected = obj_get session ''oidc_nonce'' in
      if expected = JNull then Inr True
      else bind_result (py_get (py_or (obj_get token ''id_token_claims'') (JObj [])) ''nonce'') (\<lambda>got.
        Inr (got = JNull \<or> got = expected)))"

definition callback_user :: "obj \<Rightarrow> json \<Rightarrow> json" where
  "callback_user info org_id =
     JObj [(''id'', obj_get info ''sub''), (''email'', obj_get info ''email''), (''name'', obj_get info ''name''),
           (''org_id'', org_id),
           (''roles'', py_or (py_or (obj_get info ''roles'') (obj_get info ''https://example.com/roles'')) (JArr []))]"

definition non_blank_text :: "json \<Rightarrow> bool" where
  "non_blank_text v = (case v of JStr s \<Rightarrow> py_strip s \<noteq> [] | _ \<Rightarrow> False)"

definition finish_login ::
    "(json \<Rightarrow> string) \<Rightarrow> auth_settings \<Rightarrow> ('r, 't, 'z) redis_ops_scheme \<Rightarrow> real \<Rightarrow> string \<Rightarrow> string \<Rightarrow> obj \<Rightarrow> json \<Rightarrow> string
      \<Rightarrow> obj \<Rightarrow> 'r session_store \<Rightarrow> (exn + web_reply) \<times> obj \<times> 'r session_store" where
  "finish_login rep s ops now sid csrf info org_id access_token session st =
     (let previous = obj_get session ''session_id'';
          st1 = (if truthy previous then revoke_session ops st previous else st);
          st2 = create_session ops st1 now sid csrf (callback_user info org_id) access_token (as_session_max_age s);
          session' = [(''session_id'', JStr sid)]
      in (case user_response info of
            Inl e \<Rightarrow> (Inl e, session', st2)
          | Inr body \<Rightarrow>
              (case get_session ops st2 now (JStr sid) of
                 (Inl e, st3) \<Rightarrow> (Inl e, session', st3)
               | (Inr sess, st3) \<Rightarrow>
                   (Inr (set_csrf_cookie rep s sess
                      \<lparr>wr_status = 200, wr_body = [(''user'', JObj body)], wr_cookies = []\<rparr>), session', st3))))"

definition auth_callback ::
    "(json \<Rightarrow> string) \<Rightarrow> auth_settings \<Rightarrow> ('r, 't, 'z) redis_ops_scheme \<Rightarrow> real \<Rightarrow> string \<Rightarrow> string
      \<Rightarrow> (string option \<Rightarrow> exchange) \<Rightarrow> obj \<Rightarrow> 'r session_store \<Rightarrow> (exn + web_reply) \<times> obj \<times> 'r session_store" where
  "auth_callback rep s ops now sid csrf exchange_code session st =
     (let verifier = (case obj_get session ''pkce_verifier'' of JStr (c # cs) \<Rightarrow> Some (c # cs) | _ \<Rightarrow> None);
          session1 = dict_pop session ''pkce_verifier'';
          session2 = dict_pop session1 ''oidc_nonce'';
          denied = (\<lambda>status detail error. (Inr (error_reply status detail error), session2, st))
      in (case exchange_code verifier of
            Oauth_Failed e description \<Rightarrow>
              (Inr ((error_reply 401 (if e = [] then ''access_denied'' else e) None)\<lparr>wr_body :=
                 dict_set (wr_body (error_reply 401 (if e = [] then ''access_denied'' else e) None)) ''error_description''
                   (JStr (if description = [] then ''Authentication failed'' else description))\<rparr>), session, st)
          | Exchange_Crashed m \<Rightarrow> (Inr (error_reply 401 ''access_denied'' (Some m)), session, st)
          | Exchanged token \<Rightarrow>
              (case nonce_ok token session1 of
                 Inl e \<Rightarrow> (Inl e, session2, st)
               | Inr False \<Rightarrow> denied 401 ''access_denied'' (Some ''Invalid nonce'')
               | Inr True \<Rightarrow>
                   (case py_or (obj_get token ''userinfo'') (obj_get token ''id_token_claims'') of
                      JObj info \<Rightarrow>
                        if info = [] then denied 401 ''access_denied'' (Some ''Could not retrieve user information'')
                        else (case token_org_id s token info of
                                Inl e \<Rightarrow> (Inl e, session2, st)
                              | Inr org_id \<Rightarrow>
                                  if \<not> non_blank_text org_id
                                  then denied 403 ''A trusted tenant claim is required'' (Some ''missing_tenant_claim'')
                                  else (case obj_get token ''access_token'' of
                                          JStr (c # cs) \<Rightarrow>
                                            finish_login rep s ops now sid csrf info org_id (c # cs) session2 st
                                        | _ \<Rightarrow> denied 401 ''access_denied'' (Some ''Missing access token'')))
                    | v \<Rightarrow> if truthy v then (Inl (AttributeError ''get''), session2, st)
                          else denied 401 ''access_denied'' (Some ''Could not retrieve user information'')))))"

text \<open>Revocation at the authorization server is best effort: the third component is the token it is asked
  to revoke.\<close>

definition revocable :: "auth_settings \<Rightarrow> json \<Rightarrow> json option" where
  "revocable s token = (if truthy token \<and> as_domain s \<noteq> [] \<and> as_client_id s \<noteq> [] then Some token else None)"

definition perform_logout ::
    "auth_settings \<Rightarrow> ('r, 't, 'z) redis_ops_scheme \<Rightarrow> real \<Rightarrow> obj \<Rightarrow> 'r session_store
      \<Rightarrow> (exn + json option) \<times> obj \<times> 'r session_store" where
  "perform_logout s ops now session st =
     (let sid = obj_get session ''session_id'' in
      (case (if truthy sid then get_session ops st now sid else (Inr None, st)) of
         (Inl e, st1) \<Rightarrow> (Inl e, session, st1)
       | (Inr sess, st1) \<Rightarrow>
           (Inr (case sess of None \<Rightarrow> None | Some d \<Rightarrow> revocable s (obj_get d ''access_token'')), [], revoke_session ops st1 sid)))"

definition logout_post ::
    "(json \<Rightarrow> string) \<Rightarrow> (string \<Rightarrow> bool) \<Rightarrow> auth_settings \<Rightarrow> ('r, 't, 'z) redis_ops_scheme \<Rightarrow> (string \<Rightarrow> string) \<Rightarrow> real \<Rightarrow> browser_request
      \<Rightarrow> 'r session_store \<Rightarrow> (exn + web_reply) \<times> obj \<times> 'r session_store" where
  "logout_post rep ip_ok s ops logout_url now rq st =
     (let sid = obj_get (br_session rq) ''session_id'' in
      (case (if truthy sid then get_session ops st now sid else (Inr None, st)) of
         (Inl e, st1) \<Rightarrow> (Inl e, br_session rq, st1)
       | (Inr sess, st1) \<Rightarrow>
           (case (case sess of Some (x # xs) \<Rightarrow> csrf_failure_reason rep ip_ok s rq (Some (x # xs)) | _ \<Rightarrow> None) of
              Some reason \<Rightarrow> (Inr (error_reply 403 reason None), br_session rq, st1)
            | None \<Rightarrow>
                (case perform_logout s ops now (br_session rq) st1 of
                   (Inl e, session, st2) \<Rightarrow> (Inl e, session, st2)
                 | (Inr _, session, st2) \<Rightarrow>
                     (Inr (clear_csrf_cookie s
                        \<lparr>wr_status = 200, wr_body = [(''logout_url'', JStr (logout_url (as_client_id s)))], wr_cookies = []\<rparr>),
                      session, st2)))))"

definition logout_get :: web_reply where
  "logout_get = error_reply 405 ''Use POST /api/logout'' None"

subsection \<open>Guarded calls\<close>

definition get_authenticated_session ::
    "('r, 't, 'z) redis_ops_scheme \<Rightarrow> 'r session_store \<Rightarrow> real \<Rightarrow> obj \<Rightarrow> (exn + obj option) \<times> 'r session_store" where
  "get_authenticated_session ops st now session =
     (case get_session ops st now (obj_get session ''session_id'') of
        (Inr (Some (x # xs)), st') \<Rightarrow> (Inr (Some (x # xs)), st')
      | (Inr _, st') \<Rightarrow>
          (Inr (if truthy (obj_get session ''user'') then Some [(''user'', obj_get session ''user'')] else None), st')
      | (Inl e, st') \<Rightarrow> (Inl e, st'))"

definition is_admin :: "(json \<Rightarrow> string) \<Rightarrow> obj \<Rightarrow> exn + bool" where
  "is_admin rep user =
     (let roles = obj_get_or user ''roles'' (JArr []) in
      bind_result (case roles of JStr r \<Rightarrow> Inr [JStr r] | _ \<Rightarrow> py_iter roles) (\<lambda>rs.
        Inr (list_ex (\<lambda>r. py_lower (py_str rep r) = ''admin'') rs)))"

text \<open>The request the proxy sends on: address, headers and the body as it came.\<close>

record upstream_request =
  ur_url :: string
  ur_headers :: "(string, string) dict"
  ur_body :: string

datatype proxy_outcome = Proxy_Reply web_reply | Proxy_Forward upstream_request | Proxy_Raise exn

definition proxy_graphql ::
    "(json \<Rightarrow> string) \<Rightarrow> (string \<Rightarrow> bool) \<Rightarrow> auth_settings \<Rightarrow> ('r, 't, 'z) redis_ops_scheme \<Rightarrow> real \<Rightarrow> browser_request \<Rightarrow> 'r session_store
      \<Rightarrow> proxy_outcome \<times> 'r session_store" where
  "proxy_graphql rep ip_ok s ops now rq st =
     (case get_authenticated_session ops st now (br_session rq) of
        (Inl e, st') \<Rightarrow> (Proxy_Raise e, st')
      | (Inr session, st') \<Rightarrow>
          (case (case session of None \<Rightarrow> JNull | Some d \<Rightarrow> obj_get d ''access_token'') of
             JStr (c # cs) \<Rightarrow>
               (case csrf_failure_reason rep ip_ok s rq session of
                  Some reason \<Rightarrow> (Proxy_Reply (error_reply 403 reason None), st')
                | None \<Rightarrow>
                    (Proxy_Forward
                       \<lparr>ur_url = as_sql_query_api_url s,
                        ur_headers =
                          [(''Authorization'', ''Bearer '' @ c # cs),
                           (''Content-Type'', case dict_get (br_headers rq) ''content-type'' of None \<Rightarrow> ''application/json'' | Some v \<Rightarrow> v)] @
                          (case br_correlation_id rq of
                             Some i \<Rightarrow> if i = [] \<or> i = ''N/A'' then [] else [(''X-Correlation-ID'', i), (''X-Request-ID'', i)]
                           | None \<Rightarrow> []),
                        ur_body = br_body rq\<rparr>, st'))
           | _ \<Rightarrow> (Proxy_Reply (error_reply 401 ''Not authenticated'' None), st')))"


subsection \<open>The contract of the session store\<close>

text \<open>The documented behaviour of Redis: a key set with a time to live is found until then, deleted keys are
  gone, other keys are not touched; what \<open>json.dumps\<close> writes \<open>json.loads\<close> reads.\<close>

definition redis_ok :: "('r, 't, 'z) redis_ops_scheme \<Rightarrow> bool" where
  "redis_ok ops \<longleftrightarrow>
     (\<forall>now t r k k' ttl v. ro_get ops t (ro_setex ops now r k ttl v) k' =
        (if k' = k then (if t < now + real_of_int ttl then Some v else None) else ro_get ops t r k')) \<and>
     (\<forall>t r k k'. ro_get ops t (ro_delete ops r k) k' = (if k' = k then None else ro_get ops t r k')) \<and>
     (\<forall>d. ro_loads ops (ro_dumps ops d) = Some (JObj d))"

lemma redis_ok_get:
  assumes "redis_ok ops"
  shows "ro_get ops t (ro_setex ops now r k ttl v) k' = (if k' = k then (if t < now + real_of_int ttl then Some v else None) else ro_get ops t r k')"
    "ro_get ops t (ro_delete ops r k) k' = (if k' = k then None else ro_get ops t r k')"
    "ro_loads ops (ro_dumps ops d) = Some (JObj d)"
  using assms unfolding redis_ok_def by blast+

lemma redis_key_inject [simp]: "redis_key a = redis_key b \<longleftrightarrow> a = b"
  by (simp add: redis_key_def)

locale session_storage =
  fixes usable :: "'o \<Rightarrow> bool"
    and create :: "'o \<Rightarrow> 's \<Rightarrow> real \<Rightarrow> string \<Rightarrow> string \<Rightarrow> json \<Rightarrow> string \<Rightarrow> int \<Rightarrow> 's"
    and find_session :: "'o \<Rightarrow> 's \<Rightarrow> real \<Rightarrow> json \<Rightarrow> exn + obj option"
    and revoke :: "'o \<Rightarrow> 's \<Rightarrow> json \<Rightarrow> 's"
  assumes created: "usable ops \<Longrightarrow> sid \<noteq> [] \<Longrightarrow> find_session ops (create ops st now sid csrf user tok ttl) t (JStr sid) =
      Inr (if t < now + real_of_int ttl then Some (session_payload user tok csrf now ttl) else None)"
    and created_other: "usable ops \<Longrightarrow> sid' \<noteq> JStr sid \<Longrightarrow>
      find_session ops (create ops st now sid csrf user tok ttl) t sid' = find_session ops st t sid'"
    and revoked: "usable ops \<Longrightarrow> find_session ops (revoke ops st gone) t gone = Inr None"
    and revoked_other: "usable ops \<Longrightarrow> sid' \<noteq> gone \<Longrightarrow> find_session ops (revoke ops st gone) t sid' = find_session ops st t sid'"
begin

text \<open>A session that is gone stays gone, whatever other sessions are opened and closed.\<close>

lemma stays_dead:
  assumes "usable ops" and "list_all (\<lambda>(kind, sid, now, csrf, user, tok, ttl). JStr sid \<noteq> dead) steps"
    and "\<forall>t. find_session ops st t dead = Inr None"
  shows "find_session ops (foldl (\<lambda>st (kind, sid, now, csrf, user, tok, ttl).
      if kind then create ops st now sid csrf user tok ttl else revoke ops st (JStr sid)) st steps) t dead = Inr None"
  using assms(2,3)
proof (induction steps arbitrary: st)
  case (Cons x steps)
  obtain kind sid now csrf user tok ttl where x: "x = (kind, sid, now, csrf, user, tok, ttl)"
    using prod_cases7 by blast
  then show ?case
    using Cons created_other[OF assms(1)] revoked_other[OF assms(1)] by auto
qed simp

end

lemma expired_payload: "expired (session_payload user tok csrf now ttl) t \<longleftrightarrow> now + real_of_int ttl \<le> t"
  "memory_expired (session_payload user tok csrf now ttl) t = Inr (now + real_of_int ttl \<le> t)"
  by (auto simp: expired_def memory_expired_def session_payload_def obj_get_def obj_get_or_def)

lemma get_session_JStr:
  "fst (get_session ops st t (JStr i)) =
     (if i = [] then Inr None
      else if ss_use_redis st then
        (case ro_get ops t (ss_redis st) (redis_key i) of
           None \<Rightarrow> Inr None
         | Some raw \<Rightarrow> (case ro_loads ops raw of
              None \<Rightarrow> Inr None
            | Some (JObj d) \<Rightarrow> if expired d t then Inr None else Inr (Some d)
            | Some _ \<Rightarrow> Inl (AttributeError ''get'')))
      else (case dict_get (ss_memory st) i of
              None \<Rightarrow> Inr None
            | Some d \<Rightarrow> if d = [] then Inr None else bind_result (memory_expired d t) (\<lambda>b. Inr (if b then None else Some d))))"
  by (cases i) (auto simp: get_session_def Let_def split: option.splits json.splits list.splits sum.splits bool.splits)

lemma get_session_other: "(\<And>i. sid \<noteq> JStr i) \<Longrightarrow> get_session ops st t sid = (Inr None, st)"
  by (cases sid) (auto simp: get_session_def)

interpretation sessions: session_storage redis_ok create_session "\<lambda>ops st t sid. fst (get_session ops st t sid)" revoke_session
proof
  note laws = redis_ok_get
  show "fst (get_session ops (create_session ops st now sid csrf user tok ttl) t (JStr sid)) =
      Inr (if t < now + real_of_int ttl then Some (session_payload user tok csrf now ttl) else None)"
    if "redis_ok ops" "sid \<noteq> []" for ops :: "('a, 'b, 'c) redis_ops_scheme" and sid st now csrf user tok ttl t
  proof -
    have "session_payload user tok csrf now ttl \<noteq> []"
      by (simp add: session_payload_def)
    then show ?thesis
      using that(2) laws[OF that(1)] by (simp add: get_session_JStr create_session_def Let_def expired_payload)
  qed
  show "fst (get_session ops (create_session ops st now sid csrf user tok ttl) t sid') = fst (get_session ops st t sid')"
    if "redis_ok ops" "sid' \<noteq> JStr sid" for ops :: "('a, 'b, 'c) redis_ops_scheme" and sid' sid st now csrf user tok ttl t
  proof (cases "\<exists>i. sid' = JStr i")
    case True
    then show ?thesis
      using that(2) laws[OF that(1)] by (auto simp: get_session_JStr create_session_def Let_def)
  qed (simp add: get_session_other)
  show "fst (get_session ops (revoke_session ops st sid) t sid) = Inr None"
    if "redis_ok ops" for ops :: "('a, 'b, 'c) redis_ops_scheme" and st sid t
  proof (cases "\<exists>c cs. sid = JStr (c # cs)")
    case True
    then show ?thesis
      using laws[OF that] by (auto simp: get_session_JStr revoke_session_def)
  next
    case False
    then show ?thesis
      by (cases sid rule: json.exhaust) (auto simp: get_session_def split: list.splits)
  qed
  show "fst (get_session ops (revoke_session ops st sid) t sid') = fst (get_session ops st t sid')"
    if ok: "redis_ok ops" and other: "sid' \<noteq> sid" for ops :: "('a, 'b, 'c) redis_ops_scheme" and sid' sid st t
  proof (cases "\<exists>i. sid' = JStr i")
    case True
    have "revoke_session ops st sid = st \<or> (\<exists>c cs. sid = JStr (c # cs))"
      by (cases sid) (auto simp: revoke_session_def split: list.splits)
    then show ?thesis
    proof
      assume "\<exists>c cs. sid = JStr (c # cs)"
      then obtain i c cs where i: "sid' = JStr i" "sid = JStr (c # cs)" "i \<noteq> c # cs"
        using True other by auto
      show ?thesis
        unfolding i(1,2) get_session_JStr by (simp add: revoke_session_def laws[OF ok] i(3))
    qed simp
  qed (simp add: get_session_other)
qed

subsection \<open>Properties\<close>

lemma csrf_passed:
  assumes "csrf_failure_reason rep ip_ok s rq session = None"
  shows "dict_get (br_headers rq) ''x-requested-with'' = Some ''XMLHttpRequest'' \<and> request_origin_is_allowed ip_ok s rq \<and>
    (\<exists>d t. session = Some d \<and> obj_get d ''csrf_token'' \<noteq> JNull \<and> py_str rep (obj_get d ''csrf_token'') = t \<and> t \<noteq> [] \<and>
       csrf_cookie s rq = t \<and> dict_get (br_headers rq) ''x-csrf-token'' = Some t)"
  using assms unfolding csrf_failure_reason_def Let_def
  by (cases session; cases "dict_get (br_headers rq) ''x-csrf-token''") (simp_all split: if_splits)

lemma forwarded_session:
  assumes "proxy_graphql rep ip_ok s ops now rq st = (Proxy_Forward up, st')"
  shows "\<exists>d token csrf. get_session ops st now (obj_get (br_session rq) ''session_id'') = (Inr (Some d), st') \<and>
    obj_get d ''access_token'' = JStr token \<and> token \<noteq> [] \<and>
    dict_get (ur_headers up) ''Authorization'' = Some (''Bearer '' @ token) \<and>
    ur_url up = as_sql_query_api_url s \<and> ur_body up = br_body rq \<and>
    dict_get (br_headers rq) ''x-requested-with'' = Some ''XMLHttpRequest'' \<and> request_origin_is_allowed ip_ok s rq \<and>
    csrf \<noteq> [] \<and> py_str rep (obj_get d ''csrf_token'') = csrf \<and> csrf_cookie s rq = csrf \<and>
    dict_get (br_headers rq) ''x-csrf-token'' = Some csrf"
proof -
  obtain r st1 where r: "get_authenticated_session ops st now (br_session rq) = (r, st1)"
    by fastforce
  then obtain session where session: "r = Inr session"
    using assms by (cases r) (auto simp: proxy_graphql_def)
  obtain c cs where tok: "(case session of None \<Rightarrow> JNull | Some d \<Rightarrow> obj_get d ''access_token'') = JStr (c # cs)"
    using assms r session by (auto simp: proxy_graphql_def split: json.splits list.splits)
  then obtain d where d: "session = Some d" "obj_get d ''access_token'' = JStr (c # cs)"
    by (cases session) auto
  have csrf: "csrf_failure_reason rep ip_ok s rq session = None"
    using assms r session tok by (auto simp: proxy_graphql_def split: option.splits)
  have up: "dict_get (ur_headers up) ''Authorization'' = Some (''Bearer '' @ c # cs)" "ur_url up = as_sql_query_api_url s"
    "ur_body up = br_body rq" "st' = st1"
    using assms r session tok csrf by (auto simp: proxy_graphql_def)
  have "d \<noteq> [(''user'', obj_get (br_session rq) ''user'')]"
    using d(2) by auto
  then have "get_session ops st now (obj_get (br_session rq) ''session_id'') = (Inr (Some d), st1)"
    using r session d(1) unfolding get_authenticated_session_def
    by (auto split: prod.splits sum.splits option.splits list.splits if_splits)
  then show ?thesis
    using d up csrf_passed[OF csrf] by auto
qed

text \<open>C27. A browser request is forwarded to the SQL service only with everything in place: its cookie names a
  live server-side session, the token forwarded is the one of that session, and the request carries
  the browser marker, an allowed origin, and a CSRF token that is the same in cookie, header and
  session. A signed cookie of the older form, which carries only the user, is never forwarded.\<close>

theorem proxy_forwards_only_guarded:
  assumes "proxy_graphql rep ip_ok s ops now rq st = (Proxy_Forward up, st')"
  shows "\<exists>d token csrf. get_session ops st now (obj_get (br_session rq) ''session_id'') = (Inr (Some d), st') \<and>
    obj_get d ''access_token'' = JStr token \<and> token \<noteq> [] \<and>
    dict_get (ur_headers up) ''Authorization'' = Some (''Bearer '' @ token) \<and>
    ur_url up = as_sql_query_api_url s \<and> ur_body up = br_body rq \<and>
    dict_get (br_headers rq) ''x-requested-with'' = Some ''XMLHttpRequest'' \<and> request_origin_is_allowed ip_ok s rq \<and>
    csrf \<noteq> [] \<and> py_str rep (obj_get d ''csrf_token'') = csrf \<and> csrf_cookie s rq = csrf \<and>
    dict_get (br_headers rq) ''x-csrf-token'' = Some csrf"
  using forwarded_session[OF assms] .


subsection \<open>What a login leaves behind\<close>

lemma get_session_live:
  assumes "fst (get_session ops st t sid) = Inr (Some d)"
  shows "get_session ops st t sid = (Inr (Some d), st)"
proof -
  obtain c cs where sid: "sid = JStr (c # cs)"
    using assms by (cases sid) (auto simp: get_session_def split: list.splits)
  let ?k = "redis_key (c # cs)"
  show ?thesis
  proof (cases "ss_use_redis st")
    case True
    obtain raw where raw: "ro_get ops t (ss_redis st) ?k = Some raw"
      using assms True by (cases "ro_get ops t (ss_redis st) ?k") (simp_all add: sid get_session_JStr)
    obtain v where v: "ro_loads ops raw = Some v"
      using assms True raw by (cases "ro_loads ops raw") (simp_all add: sid get_session_JStr)
    show ?thesis
      using assms True raw v by (cases v) (auto simp: sid get_session_def Let_def split: if_splits)
  next
    case False
    obtain e where e: "dict_get (ss_memory st) (c # cs) = Some e" "e \<noteq> []"
      using assms False by (cases "dict_get (ss_memory st) (c # cs)") (auto simp: sid get_session_JStr split: if_splits)
    then obtain x xs where "e = x # xs"
      by (cases e) simp_all
    then show ?thesis
      using assms False e by (cases "memory_expired e t") (auto simp: sid get_session_def Let_def split: bool.splits)
  qed
qed

lemma finish_login_outcome:
  assumes "redis_ok ops" and "sid \<noteq> []" and "0 < as_session_max_age s"
    and "finish_login rep s ops now sid csrf info org_id tok session st = (Inr r, session', st')"
  shows "wr_status r = 200 \<and> session' = [(''session_id'', JStr sid)] \<and>
    fst (get_session ops st' t (JStr sid)) =
      Inr (if t < now + real_of_int (as_session_max_age s)
           then Some (session_payload (callback_user info org_id) tok csrf now (as_session_max_age s)) else None) \<and>
    (obj_get session ''session_id'' \<noteq> JStr sid \<longrightarrow>
       fst (get_session ops st' t (obj_get session ''session_id'')) = Inr None) \<and>
    (csrf \<noteq> [] \<longrightarrow> wr_cookies r = [(csrf_cookie_name s, Some csrf)])"
proof -
  define previous where "previous = obj_get session ''session_id''"
  define st1 where "st1 = (if truthy previous then revoke_session ops st previous else st)"
  define st2 where "st2 = create_session ops st1 now sid csrf (callback_user info org_id) tok (as_session_max_age s)"
  define d where "d = session_payload (callback_user info org_id) tok csrf now (as_session_max_age s)"
  note fin = assms(4)[unfolded finish_login_def Let_def, folded previous_def, folded st1_def, folded st2_def]
  have created: "fst (get_session ops st2 t (JStr sid)) = Inr (if t < now + real_of_int (as_session_max_age s) then Some d else None)"
    for t unfolding st2_def d_def using sessions.created[OF assms(1,2)] .
  have live: "get_session ops st2 now (JStr sid) = (Inr (Some d), st2)"
    by (rule get_session_live) (use assms(3) in \<open>simp add: created\<close>)
  obtain body where body: "user_response info = Inr body"
    using fin by (cases "user_response info") simp_all
  have parts: "r = set_csrf_cookie rep s (Some d) \<lparr>wr_status = 200, wr_body = [(''user'', JObj body)], wr_cookies = []\<rparr>"
    "session' = [(''session_id'', JStr sid)]" "st' = st2"
    using fin[unfolded body live] by simp_all
  have "fst (get_session ops st1 t previous) = Inr None"
  proof (cases "truthy previous")
    case True
    then show ?thesis
      unfolding st1_def using sessions.revoked[OF assms(1)] by simp
  next
    case False
    then show ?thesis
      by (cases previous) (simp_all add: get_session_def)
  qed
  then have dead: "previous \<noteq> JStr sid \<Longrightarrow> fst (get_session ops st2 t previous) = Inr None"
    unfolding st2_def using sessions.created_other[OF assms(1)] by simp
  have tok: "obj_get d ''csrf_token'' = JStr csrf"
    by (simp add: d_def session_payload_def obj_get_def)
  have cookies: "wr_status r = 200" "csrf \<noteq> [] \<Longrightarrow> wr_cookies r = [(csrf_cookie_name s, Some csrf)]"
    unfolding parts(1) by (simp_all add: set_csrf_cookie_def tok)
  show ?thesis
    unfolding parts(2,3) d_def[symmetric] previous_def[symmetric] using created[of t] cookies dead by blast
qed

lemma denied_reply_status [simp]: "wr_status (error_reply n d e) = n"
  by (simp add: error_reply_def)

lemma auth_callback_cases:
  assumes "auth_callback rep s ops now sid csrf exchange_code session st = (Inr r, session', st')"
  shows "(wr_status r \<noteq> 200 \<and> st' = st) \<or>
    (\<exists>token info org c cs session2.
       exchange_code (case obj_get session ''pkce_verifier'' of JStr (c # cs) \<Rightarrow> Some (c # cs) | _ \<Rightarrow> None) = Exchanged token \<and>
       nonce_ok token (dict_pop session ''pkce_verifier'') = Inr True \<and>
       token_org_id s token info = Inr org \<and> non_blank_text org \<and> obj_get token ''access_token'' = JStr (c # cs) \<and>
       session2 = dict_pop (dict_pop session ''pkce_verifier'') ''oidc_nonce'' \<and>
       finish_login rep s ops now sid csrf info org (c # cs) session2 st = (Inr r, session', st'))"
proof -
  let ?v = "case obj_get session ''pkce_verifier'' of JStr (c # cs) \<Rightarrow> Some (c # cs) | _ \<Rightarrow> None"
  let ?s1 = "dict_pop session ''pkce_verifier''"
  show ?thesis
  proof (cases "exchange_code ?v")
    case (Exchanged token)
    note go = assms[unfolded auth_callback_def Let_def Exchanged exchange.case]
    obtain b where b: "nonce_ok token ?s1 = Inr b"
      using go by (cases "nonce_ok token ?s1") simp_all
    show ?thesis
    proof (cases b)
      case True
      then have bt: "nonce_ok token ?s1 = Inr True"
        using b by simp
      note go = go[unfolded bt sum.case bool.case]
      show ?thesis
      proof (cases "\<exists>info. py_or (obj_get token ''userinfo'') (obj_get token ''id_token_claims'') = JObj info \<and> info \<noteq> []")
        case True
        then obtain info where info: "py_or (obj_get token ''userinfo'') (obj_get token ''id_token_claims'') = JObj info" "info \<noteq> []"
          by blast
        note go = go[unfolded info(1) json.case if_not_P[OF info(2)]]
        obtain org where org: "token_org_id s token info = Inr org"
          using go by (cases "token_org_id s token info") simp_all
        note go = go[unfolded org sum.case]
        show ?thesis
        proof (cases "non_blank_text org \<and> (\<exists>c cs. obj_get token ''access_token'' = JStr (c # cs))")
          case True
          then obtain c cs where tok: "obj_get token ''access_token'' = JStr (c # cs)"
            by blast
          then show ?thesis
            using go True Exchanged bt org by auto
        next
          case False
          then show ?thesis
            using go by (auto split: if_splits json.splits list.splits)
        qed
      next
        case False
        then show ?thesis
          using go by (auto split: if_splits json.splits)
      qed
    next
      case False
      then show ?thesis
        using go b by auto
    qed
  qed (use assms in \<open>auto simp: auth_callback_def Let_def\<close>)
qed

text \<open>A login has exactly two outcomes the browser sees. Refused: no session was made. Accepted: the token
  exchange succeeded with this browser's PKCE verifier and nonce, the token names a tenant, the
  browser's cookie holds only the identifier of a fresh session with that token (found until its
  time to live ends, and not after), the CSRF cookie is the session's, and the session the browser
  had before is dead: no session fixation.\<close>

theorem login_opens_fresh_session:
  assumes "redis_ok ops" and "sid \<noteq> []" and "csrf \<noteq> []" and "0 < as_session_max_age s"
    and "auth_callback rep s ops now sid csrf exchange_code session st = (Inr r, session', st')"
  shows "(wr_status r \<noteq> 200 \<and> st' = st) \<or>
    (\<exists>token info org tok.
       exchange_code (case obj_get session ''pkce_verifier'' of JStr (c # cs) \<Rightarrow> Some (c # cs) | _ \<Rightarrow> None) = Exchanged token \<and>
       nonce_ok token (dict_pop session ''pkce_verifier'') = Inr True \<and>
       token_org_id s token info = Inr org \<and> non_blank_text org \<and> obj_get token ''access_token'' = JStr tok \<and>
       wr_status r = 200 \<and> session' = [(''session_id'', JStr sid)] \<and> wr_cookies r = [(csrf_cookie_name s, Some csrf)] \<and>
       fst (get_session ops st' t (JStr sid)) =
         Inr (if t < now + real_of_int (as_session_max_age s)
              then Some (session_payload (callback_user info org) tok csrf now (as_session_max_age s)) else None) \<and>
       (obj_get session ''session_id'' = JStr sid \<or>
        fst (get_session ops st' t (obj_get session ''session_id'')) = Inr None))"
proof -
  have keep: "obj_get (dict_pop (dict_pop session ''pkce_verifier'') ''oidc_nonce'') ''session_id'' = obj_get session ''session_id''"
    by (simp add: obj_get_def)
  from auth_callback_cases[OF assms(5)] show ?thesis
  proof
    assume "\<exists>token info org c cs session2.
       exchange_code (case obj_get session ''pkce_verifier'' of JStr (c # cs) \<Rightarrow> Some (c # cs) | _ \<Rightarrow> None) = Exchanged token \<and>
       nonce_ok token (dict_pop session ''pkce_verifier'') = Inr True \<and>
       token_org_id s token info = Inr org \<and> non_blank_text org \<and> obj_get token ''access_token'' = JStr (c # cs) \<and>
       session2 = dict_pop (dict_pop session ''pkce_verifier'') ''oidc_nonce'' \<and>
       finish_login rep s ops now sid csrf info org (c # cs) session2 st = (Inr r, session', st')"
    then obtain token info org c cs where x:
       "exchange_code (case obj_get session ''pkce_verifier'' of JStr (c # cs) \<Rightarrow> Some (c # cs) | _ \<Rightarrow> None) = Exchanged token"
       "nonce_ok token (dict_pop session ''pkce_verifier'') = Inr True"
       "token_org_id s token info = Inr org" "non_blank_text org" "obj_get token ''access_token'' = JStr (c # cs)"
       and fin: "finish_login rep s ops now sid csrf info org (c # cs)
         (dict_pop (dict_pop session ''pkce_verifier'') ''oidc_nonce'') st = (Inr r, session', st')"
      by blast
    show ?thesis
      using x finish_login_outcome[OF assms(1,2,4) fin, where t = t] assms(3) unfolding keep by blast
  qed blast
qed

subsection \<open>A browser that logs in, asks and logs out\<close>

text \<open>A Redis that does what is asked of it: keys with an end of life.\<close>

definition timed_redis :: "(string \<Rightarrow> (real \<times> obj) option, obj) redis_ops" where
  "timed_redis =
     \<lparr>ro_get = (\<lambda>t r k. case r k of None \<Rightarrow> None | Some (end_of_life, v) \<Rightarrow> if t < end_of_life then Some v else None),
      ro_setex = (\<lambda>now r k ttl v. r(k \<mapsto> (now + real_of_int ttl, v))),
      ro_delete = (\<lambda>r k. r(k := None)), ro_dumps = (\<lambda>d. d), ro_loads = (\<lambda>d. Some (JObj d))\<rparr>"

lemma timed_redis_ok: "redis_ok timed_redis"
  by (simp add: redis_ok_def timed_redis_def)

definition demo_settings :: auth_settings where
  "demo_settings =
     \<lparr>as_cookie_secure = True, as_allowed_origins = [], as_react_app_url = ''http://app'', as_frontend_url = [],
      as_session_max_age = 60, as_domain = ''idp'', as_client_id = ''client'', as_client_secret = [], as_org_id_claim = ''org_id'',
      as_redirect_uri = ''http://app/callback'', as_sql_query_api_url = ''http://sql/graphql''\<rparr>"

definition demo_user :: json where
  "demo_user = JObj [(''id'', JStr ''u1'')]"

definition demo_payload :: obj where
  "demo_payload = session_payload demo_user ''tok'' ''c5rf'' 0 60"

definition demo_store :: "(string \<Rightarrow> (real \<times> obj) option) session_store" where
  "demo_store = create_session timed_redis \<lparr>ss_use_redis = True, ss_memory = [], ss_redis = Map.empty\<rparr> 0 ''s1'' ''c5rf'' demo_user ''tok'' 60"

definition demo_request :: browser_request where
  "demo_request =
     \<lparr>br_headers = [(''x-requested-with'', ''XMLHttpRequest''), (''origin'', ''http://APP''), (''x-csrf-token'', ''c5rf'')],
      br_cookies = [(''__Host-csrf_token'', ''c5rf'')], br_session = [(''session_id'', JStr ''s1'')], br_body = ''query'',
      br_correlation_id = None\<rparr>"

lemma demo_origin: "request_origin_is_allowed (\<lambda>_. False) demo_settings demo_request"
  by code_simp

lemma demo_session:
  "t < 60 \<Longrightarrow> get_session timed_redis demo_store t (JStr ''s1'') = (Inr (Some demo_payload), demo_store)"
  by (rule get_session_live)
    (simp add: demo_store_def demo_payload_def sessions.created[OF timed_redis_ok])

lemma demo_payload_simps:
  "obj_get demo_payload ''csrf_token'' = JStr ''c5rf''" "obj_get demo_payload ''access_token'' = JStr ''tok''" "demo_payload \<noteq> []"
  by (simp_all add: demo_payload_def session_payload_def obj_get_def)

lemma demo_request_simps:
  "dict_get (br_headers demo_request) ''x-requested-with'' = Some ''XMLHttpRequest''"
  "dict_get (br_headers demo_request) ''sec-fetch-site'' = None" "dict_get (br_headers demo_request) ''x-csrf-token'' = Some ''c5rf''"
  "csrf_cookie demo_settings demo_request = ''c5rf''" "obj_get (br_session demo_request) ''session_id'' = JStr ''s1''"
  by (simp_all add: demo_request_def csrf_cookie_def csrf_cookie_name_def demo_settings_def obj_get_def)

lemma demo_csrf: "csrf_failure_reason (\<lambda>_. []) (\<lambda>_. False) demo_settings demo_request (Some demo_payload) = None"
  by (simp add: csrf_failure_reason_def demo_origin demo_request_simps demo_payload_simps)

lemma demo_authenticated:
  "get_authenticated_session timed_redis demo_store 1 (br_session demo_request) = (Inr (Some demo_payload), demo_store)"
  using demo_payload_simps(3)
  by (auto simp: get_authenticated_session_def demo_request_simps demo_session split: list.splits)

lemma demo_forward:
  "\<exists>up. proxy_graphql (\<lambda>_. []) (\<lambda>_. False) demo_settings timed_redis 1 demo_request demo_store = (Proxy_Forward up, demo_store)"
  unfolding proxy_graphql_def demo_authenticated by (simp add: demo_payload_simps demo_csrf)

lemma proxy_forwards_only_guarded_witness:
  "\<exists>up. dict_get (ur_headers up) ''Authorization'' = Some ''Bearer tok'' \<and>
     fst (proxy_graphql (\<lambda>_. []) (\<lambda>_. False) demo_settings timed_redis 1 demo_request demo_store) = Proxy_Forward up"
proof -
  obtain up where up: "proxy_graphql (\<lambda>_. []) (\<lambda>_. False) demo_settings timed_redis 1 demo_request demo_store = (Proxy_Forward up, demo_store)"
    using demo_forward by blast
  show ?thesis
    using proxy_forwards_only_guarded[OF up] up by (auto simp: demo_request_simps demo_session demo_payload_simps)
qed


definition demo_exchange :: "string option \<Rightarrow> exchange" where
  "demo_exchange verifier =
     (if verifier = Some ''v1''
      then Exchanged [(''access_token'', JStr ''tok''),
             (''userinfo'', JObj [(''sub'', JStr ''u1''), (''email'', JStr ''e''), (''name'', JStr ''n''), (''org_id'', JStr ''o1'')])]
      else Exchange_Crashed [])"

lemma login_opens_fresh_session_witness:
  "\<exists>r session' st'.
     auth_callback (\<lambda>_. []) demo_settings timed_redis 0 ''s2'' ''c2'' demo_exchange
       [(''session_id'', JStr ''s1''), (''pkce_verifier'', JStr ''v1'')] demo_store = (Inr r, session', st') \<and>
     session' = [(''session_id'', JStr ''s2'')] \<and> fst (get_session timed_redis st' 1 (JStr ''s1'')) = Inr None"
proof -
  let ?out = "auth_callback (\<lambda>_. []) demo_settings timed_redis 0 ''s2'' ''c2'' demo_exchange
       [(''session_id'', JStr ''s1''), (''pkce_verifier'', JStr ''v1'')] demo_store"
  let ?info = "[(''sub'', JStr ''u1''), (''email'', JStr ''e''), (''name'', JStr ''n''), (''org_id'', JStr ''o1'')]"
  have o1: "non_blank_text (JStr ''o1'')"
    by code_simp
  have fin: "?out = finish_login (\<lambda>_. []) demo_settings timed_redis 0 ''s2'' ''c2'' ?info (JStr ''o1'') ''tok'' [(''session_id'', JStr ''s1'')] demo_store"
    by (simp add: auth_callback_def demo_exchange_def nonce_ok_def token_org_id_def obj_get_def demo_settings_def o1
        py_or_def Let_def dict_pop_def)
  let ?st1 = "revoke_session timed_redis demo_store (JStr ''s1'')"
  let ?st2 = "create_session timed_redis ?st1 0 ''s2'' ''c2'' (callback_user ?info (JStr ''o1'')) ''tok'' 60"
  have "get_session timed_redis ?st2 0 (JStr ''s2'') =
      (Inr (Some (session_payload (callback_user ?info (JStr ''o1'')) ''tok'' ''c2'' 0 60)), ?st2)"
    by (rule get_session_live) (simp add: sessions.created[OF timed_redis_ok])
  then have "\<exists>r. ?out = (Inr r, [(''session_id'', JStr ''s2'')], ?st2) \<and> wr_status r = 200"
    unfolding fin finish_login_def by (simp add: user_response_def obj_get_def demo_settings_def set_csrf_cookie_def Let_def)
  then obtain r where out: "?out = (Inr r, [(''session_id'', JStr ''s2'')], ?st2)" "wr_status r = 200"
    by blast
  have "(0 :: int) < as_session_max_age demo_settings"
    by (simp add: demo_settings_def)
  then show ?thesis
    using login_opens_fresh_session[OF timed_redis_ok _ _ _ out(1), where t = 1] out by (auto simp: obj_get_def)
qed

end
