(* ===== verification/Ai_Service.thy ===== *)
theory Ai_Service
  imports Py_Json
begin

text \<open>
  auth0\_api/app/services/ai\_service.py and prompts/registry.py: the bounded retry loops around the chat
  and embedding providers, and the prompt files with their substitution. The providers and the clock
  are the record \<open>ai_ops\<close> over a world \<open>'w\<close>; the prompt directory is the record \<open>prompt_store\<close>.
\<close>

subsection \<open>Providers\<close>

record chat_request =
  cr_model :: string
  cr_system :: string
  cr_user :: string
  cr_max_tokens :: int
  cr_disable_reasoning :: bool

text \<open>A chat message has a \<open>content\<close> and a \<open>reasoning\<close>, \<open>JNull\<close> where the attribute is missing.\<close>

datatype chat_reply =
    No_Choices
  | Chat_Message json json
  | Chat_Rate_Limit
  | Chat_Api_Error string
  | Chat_Crash string

record embed_request =
  eq_model :: string
  eq_contents :: string
  eq_dimensions :: int

datatype embed_reply =
    Embedding "real list option"
  | Embed_Rate_Limit
  | Embed_Api_Error string
  | Embed_Crash string

record 'w ai_ops =
  ao_chat :: "chat_request \<Rightarrow> 'w \<Rightarrow> chat_reply \<times> 'w"
  ao_embed :: "embed_request \<Rightarrow> 'w \<Rightarrow> embed_reply \<times> 'w"
  ao_sleep :: "real \<Rightarrow> 'w \<Rightarrow> 'w"

record ai_settings =
  ai_model :: string
  ai_max_tokens :: int
  ai_retries :: int
  ai_backoff_base :: real
  ai_disable_reasoning :: bool
  ai_embedding_model :: string
  ai_embedding_dimensions :: int

text \<open>The exceptions of the text-to-SQL path, with the text \<open>str(e)\<close> gives.\<close>

datatype service_exn =
    AI_Service_Error string
  | Sql_Execution_Error json
  | Value_Exn string
  | Other_Exn string

subsection \<open>Retries\<close>

definition pause :: "('w, 'z) ai_ops_scheme \<Rightarrow> ai_settings \<Rightarrow> int \<Rightarrow> 'w \<Rightarrow> 'w" where
  "pause ops s attempt w =
     (if attempt < ai_retries s then ao_sleep ops (ai_backoff_base s ^ nat attempt) w else w)"

text \<open>A text that is not blank, stripped.\<close>

definition reply_text :: "json \<Rightarrow> string option" where
  "reply_text v = (case v of JStr t \<Rightarrow> if py_strip t = [] then None else Some (py_strip t) | _ \<Rightarrow> None)"

fun greeting_attempts ::
    "('w, 'z) ai_ops_scheme \<Rightarrow> ai_settings \<Rightarrow> chat_request \<Rightarrow> int list \<Rightarrow> 'w \<Rightarrow> (service_exn + string option) \<times> 'w" where
  "greeting_attempts ops s rq [] w = (Inr None, w)"
| "greeting_attempts ops s rq (a # attempts) w =
     (case ao_chat ops rq w of
        (No_Choices, w') \<Rightarrow> greeting_attempts ops s rq attempts (pause ops s a w')
      | (Chat_Message content reasoning, w') \<Rightarrow>
          (case reply_text content of
             Some t \<Rightarrow> (Inr (Some t), w')
           | None \<Rightarrow>
               (case reply_text reasoning of
                  Some t \<Rightarrow> (Inr (Some t), w')
                | None \<Rightarrow> greeting_attempts ops s rq attempts (pause ops s a w')))
      | (Chat_Rate_Limit, w') \<Rightarrow> greeting_attempts ops s rq attempts (pause ops s a w')
      | (Chat_Api_Error m, w') \<Rightarrow> (Inl (AI_Service_Error (''AI service error: '' @ m)), w')
      | (Chat_Crash m, w') \<Rightarrow> (Inl (AI_Service_Error (''Unexpected AI error: '' @ m)), w'))"

definition get_greeting ::
    "('w, 'z) ai_ops_scheme \<Rightarrow> ai_settings \<Rightarrow> string \<Rightarrow> string \<Rightarrow> int \<Rightarrow> 'w \<Rightarrow> (service_exn + string option) \<times> 'w" where
  "get_greeting ops s system user max_tokens w =
     greeting_attempts ops s
       \<lparr>cr_model = ai_model s, cr_system = py_strip system, cr_user = py_strip user, cr_max_tokens = max_tokens,
        cr_disable_reasoning = ai_disable_reasoning s\<rparr>
       [1..ai_retries s] w"

definition checked_embedding :: "int \<Rightarrow> real list option \<Rightarrow> service_exn + real list" where
  "checked_embedding dimensions e =
     (let got = (case e of None \<Rightarrow> 0 | Some v \<Rightarrow> length v);
          refused = Inl (AI_Service_Error (''Invalid embedding response: expected '' @ int_str dimensions @
            '' dimensions, got '' @ nat_str got))
      in case e of
           Some v \<Rightarrow> if v = [] \<or> int (length v) \<noteq> dimensions then refused else Inr v
         | None \<Rightarrow> refused)"

fun embedding_attempts ::
    "('w, 'z) ai_ops_scheme \<Rightarrow> ai_settings \<Rightarrow> embed_request \<Rightarrow> int list \<Rightarrow> 'w \<Rightarrow> (service_exn + real list) \<times> 'w" where
  "embedding_attempts ops s rq [] w = (Inl (AI_Service_Error ''Failed to generate embeddings after retries''), w)"
| "embedding_attempts ops s rq (a # attempts) w =
     (case ao_embed ops rq w of
        (Embedding e, w') \<Rightarrow> (checked_embedding (eq_dimensions rq) e, w')
      | (Embed_Rate_Limit, w') \<Rightarrow> embedding_attempts ops s rq attempts (pause ops s a w')
      | (Embed_Api_Error m, w') \<Rightarrow> (Inl (AI_Service_Error (''Embedding service error: '' @ m)), w')
      | (Embed_Crash m, w') \<Rightarrow> (Inl (AI_Service_Error (''Unexpected embedding error: '' @ m)), w'))"

definition generate_embeddings ::
    "('w, 'z) ai_ops_scheme \<Rightarrow> ai_settings \<Rightarrow> string \<Rightarrow> 'w \<Rightarrow> (service_exn + real list) \<times> 'w" where
  "generate_embeddings ops s text w =
     embedding_attempts ops s
       \<lparr>eq_model = ai_embedding_model s, eq_contents = py_strip text, eq_dimensions = ai_embedding_dimensions s\<rparr>
       [1..ai_retries s] w"

subsection \<open>Prompts\<close>

text \<open>The prompt directory by path: \<open>ps_yaml\<close> is the parsed document of a file (\<open>None\<close> where there is none,
  \<open>[]\<close> for an empty one), \<open>ps_dir\<close> tells whether a path exists and \<open>ps_text\<close> reads a text file.\<close>

record prompt_store =
  ps_yaml :: "string \<Rightarrow> obj option"
  ps_dir :: "string \<Rightarrow> bool"
  ps_text :: "string \<Rightarrow> string option"

text \<open>\<open>name.rsplit("/", 1)\<close>\<close>

definition rsplit_slash :: "string \<Rightarrow> string \<times> string" where
  "rsplit_slash name =
     (let parts = split_on CHR ''/'' name in (join ''/'' (butlast parts), last parts))"

definition prompt_path :: "string \<Rightarrow> string \<times> string" where
  "prompt_path name =
     (if CHR ''/'' \<in> set name
      then case rsplit_slash name of (base, config_name) \<Rightarrow> (base, base @ ''/'' @ config_name @ ''.yaml'')
      else (name, name @ ''/system.yaml''))"

text \<open>\<open>path.with_suffix(".yaml")\<close> for a path whose last part has no suffix, and its parent.\<close>

definition alternate_path :: "string \<Rightarrow> string" where
  "alternate_path base = base @ ''.yaml''"

definition read_config :: "prompt_store \<Rightarrow> string \<Rightarrow> obj \<Rightarrow> exn + obj" where
  "read_config ps path config =
     (case obj_get config ''template_path'' of
        JStr (c # cs) \<Rightarrow>
          (case ps_text ps (fst (rsplit_slash path) @ ''/'' @ c # cs) of
             None \<Rightarrow> Inl (LibraryError ''FileNotFoundError'')
           | Some t \<Rightarrow> Inr (dict_set config ''template'' (JStr t)))
      | v \<Rightarrow> if truthy v then Inl TypeError else Inr config)"

definition load_prompt :: "prompt_store \<Rightarrow> string \<Rightarrow> exn + obj" where
  "load_prompt ps name =
     (case prompt_path name of
        (base, path) \<Rightarrow>
          (case ps_yaml ps path of
             Some config \<Rightarrow> read_config ps path config
           | None \<Rightarrow>
               (if ps_dir ps base
                then case ps_yaml ps (alternate_path base) of
                       Some config \<Rightarrow> read_config ps (alternate_path base) config
                     | None \<Rightarrow> Inl (LibraryError ''FileNotFoundError'')
                else Inl (LibraryError ''FileNotFoundError''))))"

text \<open>Every call passes variables, so a template that is not a text always fails at the first \<open>replace\<close>.\<close>

definition render_prompt :: "obj \<Rightarrow> (string \<times> string) list \<Rightarrow> exn + string" where
  "render_prompt config variables =
     (case obj_get_or config ''template'' (JStr []) of
        JStr template \<Rightarrow> Inr (foldl (\<lambda>t (key, value). replace_all (''{'' @ key @ ''}'') value t) template variables)
      | _ \<Rightarrow> Inl (AttributeError ''replace''))"

subsection \<open>Lemmas\<close>

text \<open>A provider that answers with text is asked once; a rate limit is met with at most \<open>retries\<close> calls and a
  pause between two of them. \<open>W\<close> relates the worlds before and after a run of the loop.\<close>

lemma greeting_attempts_induct:
  assumes "greeting_attempts ops s rq attempts w = (r, w')" and "P 0 w"
    and "\<And>n v. P n v \<Longrightarrow> n < length attempts \<Longrightarrow> P (Suc n) (snd (ao_chat ops rq v))"
    and "\<And>n v t. P n v \<Longrightarrow> P n (ao_sleep ops t v)"
  shows "\<exists>n \<le> length attempts. P n w'"
proof -
  have "\<exists>n \<le> length as + k. P n w'"
    if "greeting_attempts ops s rq as w = (r, w')" "P k w" "length as + k \<le> length attempts" for as k w
    using that
  proof (induction as arbitrary: k w)
    case (Cons a as)
    obtain rep w1 where c: "ao_chat ops rq w = (rep, w1)"
      by fastforce
    have w1: "P (Suc k) w1"
      using assms(3)[OF Cons.prems(2)] Cons.prems(3) c by simp
    have p: "P (Suc k) (pause ops s a w1)"
      using w1 assms(4) by (simp add: pause_def)
    have go: "\<exists>n \<le> length as + Suc k. P n w'" if "greeting_attempts ops s rq as (pause ops s a w1) = (r, w')"
      using Cons.IH[OF that p] Cons.prems(3) by simp
    have stop: "\<exists>n \<le> length as + Suc k. P n w'" if "w' = w1"
      using w1 that by (intro exI[of _ "Suc k"]) simp
    have "\<exists>n \<le> length as + Suc k. P n w'"
      using Cons.prems(1) go stop c by (cases rep) (auto split: option.splits)
    then show ?case
      by simp
  qed auto
  from this[of attempts w 0] show ?thesis
    using assms(1,2) by simp
qed

lemma greeting_text_stripped:
  "greeting_attempts ops s rq attempts w = (Inr (Some t), w') \<Longrightarrow> t \<noteq> [] \<and> py_strip t = t"
  by (induction attempts arbitrary: w)
    (auto simp: reply_text_def split: prod.splits chat_reply.splits option.splits json.splits if_splits)

text \<open>Substitution goes one variable after the other, so a placeholder in the text of one variable is
  replaced by the next.\<close>

lemma substituted_text_is_substituted:
  "render_prompt [(''template'', JStr ''{schema}: {question}'')] [(''schema'', ''t {question}''), (''question'', ''q'')] = Inr ''t q: q''"
  by (simp add: render_prompt_def obj_get_or_def)

end
