(* ===== verification/Text_To_Sql.thy ===== *)
theory Text_To_Sql
  imports Ai_Service Sql_Ast "HOL-Library.List_Lexorder" "HOL-Library.Char_ord"
begin

text \<open>
  auth0\_api/app/services/text\_to\_sql\_service.py: from a question to a statement, and to its rows. The
  language model proposes a statement, a pre-check looks at it, the SQL service executes it, and the
  error of a failed statement may go back to the model; both loops are bounded. The providers, the SQL
  service and the clock are the record \<open>t2s_env\<close> over a world \<open>'w\<close>; the parser is the record \<open>sql_parsers\<close>.
\<close>

subsection \<open>Environment\<close>

record http_post =
  hp_url :: string
  hp_body :: json
  hp_headers :: "(string, string) dict"

text \<open>What a call to the SQL service gives: a decoded document, an \<open>httpx.HTTPError\<close> (a status that is not
  a success included), a body that is not JSON, or another exception.\<close>

datatype http_reply =
    Reply_Json json
  | Reply_Failed string
  | Reply_Bad_Json string
  | Reply_Crash string

record 'w t2s_env = "'w ai_ops" +
  te_post :: "http_post \<Rightarrow> 'w \<Rightarrow> http_reply \<times> 'w"
  te_ai :: ai_settings
  te_url :: string
  te_correlation_id :: string
  te_prompts :: prompt_store
  te_parsers :: sql_parsers
  te_parse_error :: "string \<Rightarrow> string"
  te_rep :: "json \<Rightarrow> string"
  te_crash_text :: "json \<Rightarrow> string"
  te_exn_text :: "exn \<Rightarrow> string"

definition MAX_EXECUTION_ATTEMPTS :: nat where
  "MAX_EXECUTION_ATTEMPTS = 3"

definition RETRYABLE_EXECUTION_ERROR_MARKERS :: "string list" where
  "RETRYABLE_EXECUTION_ERROR_MARKERS =
     [''syntax error'', ''missing from-clause'', ''missing from '', ''does not exist'', ''undefined column'',
      ''undefined table'', ''no such column'', ''no such table'', ''unknown column'', ''unknown table'',
      ''unexpected token'', ''ungrouped column'', ''grouping error'', ''must appear in the group by'']"

text \<open>\<open>(detail or "").lower()\<close> raises for a detail that is not a text.\<close>

definition is_retryable_execution_error :: "json \<Rightarrow> exn + bool" where
  "is_retryable_execution_error detail =
     (case py_or detail (JStr []) of
        JStr d \<Rightarrow> Inr (list_ex (\<lambda>marker. str_contains marker (py_lower d)) RETRYABLE_EXECUTION_ERROR_MARKERS)
      | _ \<Rightarrow> Inl (AttributeError ''lower''))"

subsection \<open>Pre-check\<close>

definition starts_with :: "string \<Rightarrow> string \<Rightarrow> bool" where
  "starts_with p s \<longleftrightarrow> take (length p) s = p"

definition strip_sql_framing :: "string \<Rightarrow> string" where
  "strip_sql_framing raw =
     (let sql = py_strip raw;
          sql1 = (if starts_with ''```'' sql
                  then py_strip (join [CHR 0x0A]
                         (filter (\<lambda>line. \<not> starts_with ''```'' (py_strip line)) (split_on CHR 0x0A sql)))
                  else sql)
      in if starts_with ''SQL:'' (py_upper sql1) then py_strip (drop 4 sql1)
         else if starts_with ''SQL '' (py_upper sql1) then py_strip (drop 4 sql1)
         else sql1)"

text \<open>\<open>expression.alias\<close>: the name of the alias argument.\<close>

definition nd_alias :: "node \<Rightarrow> string" where
  "nd_alias n =
     (case arg_of n ''alias'' of
        None \<Rightarrow> []
      | Some a \<Rightarrow> if list_ex (isinstance a) [''TableAlias'', ''Identifier'', ''Literal'', ''Var'', ''Star'', ''Null''] then nd_name a else [])"

definition declared_names :: "node \<Rightarrow> string list" where
  "declared_names n =
     map py_lower (filter (\<lambda>x. x \<noteq> [])
       (concat (map (\<lambda>t. [nd_alias t, nd_name t]) (find_all n ''Table'')) @
        map nd_alias (find_all n ''CTE'') @ map nd_alias (find_all n ''Subquery'')))"

definition last_segment :: "string \<Rightarrow> string" where
  "last_segment q = last (split_on CHR ''.'' q)"

definition referenced_names :: "node \<Rightarrow> string list" where
  "referenced_names n =
     map (\<lambda>q. py_lower (last_segment q)) (filter (\<lambda>q. q \<noteq> []) (map (\<lambda>c. nt_table (nd_text c)) (find_all n ''Column'')))"

definition quoted :: "string \<Rightarrow> string" where
  "quoted s = [CHR 0x22] @ s @ [CHR 0x22]"

definition unresolved_message :: "string list \<Rightarrow> string" where
  "unresolved_message names =
     ''The statement references '' @ join '', '' (map quoted names) @
     '' which is/are not declared as a table name or alias in any FROM or JOIN clause. Every alias used in '' @
     ''the SELECT list, WHERE clause, or subquery must be declared in a FROM or JOIN clause.''"

definition find_unresolved_table_aliases :: "sql_parsers \<Rightarrow> (string \<Rightarrow> string) \<Rightarrow> string \<Rightarrow> string" where
  "find_unresolved_table_aliases lib parse_error sql =
     (case lib_parse lib sql of
        None \<Rightarrow> ''The SQL failed to parse: '' @ parse_error sql
      | Some [Some n] \<Rightarrow>
          if isinstance n ''Query''
          then (let unresolved = sort (remdups (filter (\<lambda>x. x \<notin> set (declared_names n)) (referenced_names n)))
                in if unresolved = [] then [] else unresolved_message unresolved)
          else ''The SQL must be a single SELECT query.''
      | Some _ \<Rightarrow> ''The SQL must be a single SELECT query.'')"

definition collect_table_names :: "node option \<Rightarrow> string list" where
  "collect_table_names n =
     (case n of
        None \<Rightarrow> []
      | Some t \<Rightarrow>
          if \<not> isinstance t ''Table'' then []
          else if nd_alias t \<noteq> [] then [py_lower (nd_alias t)]
          else if nd_name t \<noteq> [] then [py_lower (nd_name t)] else [])"

definition outer_names :: "node \<Rightarrow> string list" where
  "outer_names select =
     (case arg_of select ''from_'' of None \<Rightarrow> [] | Some f \<Rightarrow> collect_table_names (arg_of f ''this'')) @
     concat (map (\<lambda>j. collect_table_names (arg_of j ''this'')) (args_of select ''joins''))"

text \<open>\<open>projection.this\<close> of an alias, else the projection itself.\<close>

definition projection_inner :: "node \<Rightarrow> node option" where
  "projection_inner p = (if isinstance p ''Alias'' then arg_of p ''this'' else Some p)"

definition grouping_message :: "node \<Rightarrow> string" where
  "grouping_message c =
     ''The statement uses an aggregate function (e.g. COUNT, SUM, MAX) at the top level while a SELECT-list '' @
     ''subquery references an outer-query column ('' @ quoted (nt_table (nd_text c)) @ ''.'' @ nd_name c @
     '') without a GROUP BY clause. PostgreSQL rejects this with '' @ [CHR 0x27] @
     ''subquery uses ungrouped column ... from outer query'' @ [CHR 0x27] @
     ''. Either add a GROUP BY clause that includes every referenced outer column, '' @
     ''or restructure the query so the aggregate and the correlated subquery do '' @
     ''not reference ungrouped outer columns together.''"

definition correlated_columns :: "node \<Rightarrow> node list" where
  "correlated_columns select =
     (let inner = somes (map projection_inner (args_of select ''expressions''))
      in filter (\<lambda>c. nt_table (nd_text c) \<noteq> [] \<and>
             py_lower (last_segment (nt_table (nd_text c))) \<in> set (outer_names select))
           (concat (map (\<lambda>s. find_all s ''Column'') (filter (\<lambda>i. isinstance i ''Subquery'') inner))))"

definition find_ungrouped_correlated_subquery :: "sql_parsers \<Rightarrow> string \<Rightarrow> string" where
  "find_ungrouped_correlated_subquery lib sql =
     (case lib_parse_one lib sql of
        None \<Rightarrow> []
      | Some select \<Rightarrow>
          if \<not> isinstance select ''Select'' \<or> arg_of select ''distinct'' \<noteq> None \<or> arg_of select ''group'' \<noteq> None then []
          else if \<not> list_ex (\<lambda>i. isinstance i ''AggFunc'') (somes (map projection_inner (args_of select ''expressions''))) then []
          else (case correlated_columns select of [] \<Rightarrow> [] | c # _ \<Rightarrow> grouping_message c))"

definition string_literal_rx :: "char \<Rightarrow> rx" where
  "string_literal_rx q =
     rx_cat [Rx_Cls ((=) q), Rx_Star True (Rx_Alt (Rx_Cls (\<lambda>c. c \<noteq> q)) (rx_lit [q, q])), Rx_Cls ((=) q)]"

definition without_strings :: "string \<Rightarrow> string" where
  "without_strings sql =
     rx_sub (string_literal_rx CHR 0x22) [CHR 0x22, CHR 0x22] (rx_sub (string_literal_rx CHR 0x27) [CHR 0x27, CHR 0x27] sql)"

definition rstrip :: "string \<Rightarrow> string" where
  "rstrip s = rstrip_by is_space s"

definition precheck_sql :: "sql_parsers \<Rightarrow> (string \<Rightarrow> string) \<Rightarrow> string \<Rightarrow> bool \<times> string" where
  "precheck_sql lib parse_error raw =
     (let sql = strip_sql_framing raw in
      if \<not> starts_with ''SELECT'' (py_upper sql)
      then (False, ''The SQL must start with SELECT; it started with something else.'')
      else if CHR '';'' \<in> set (butlast (rstrip (without_strings sql)))
      then (False, ''Multiple SQL statements detected. Return exactly one SELECT statement that answers the whole question.'')
      else
        let alias_error = find_unresolved_table_aliases lib parse_error sql;
            grouping_error = find_ungrouped_correlated_subquery lib sql
        in if alias_error \<noteq> [] then (False, alias_error)
           else if grouping_error \<noteq> [] then (False, grouping_error)
           else (True, []))"

subsection \<open>Calls to the SQL service\<close>

definition api_headers :: "string \<Rightarrow> json \<Rightarrow> (json \<Rightarrow> string) \<Rightarrow> (string, string) dict" where
  "api_headers cid access_token rep =
     [(''Content-Type'', ''application/json'')] @
     (if truthy access_token then [(''Authorization'', ''Bearer '' @ py_str rep access_token)] else []) @
     (if cid \<noteq> [] \<and> cid \<noteq> ''N/A'' then [(''X-Correlation-ID'', cid), (''X-Request-ID'', cid)] else [])"

definition graphql_post :: "('w, 'z) t2s_env_scheme \<Rightarrow> json \<Rightarrow> string \<Rightarrow> obj \<Rightarrow> http_post" where
  "graphql_post env access_token query variables =
     \<lparr>hp_url = te_url env, hp_body = JObj [(''query'', JStr query), (''variables'', JObj variables)],
      hp_headers = api_headers (te_correlation_id env) access_token (te_rep env)\<rparr>"

definition text_of_lines :: "string list \<Rightarrow> string" where
  "text_of_lines ls = join [CHR 0x0A] ls"

definition schema_query :: string where
  "schema_query = text_of_lines
     [[], ''        query GetTableSchema($embeddings: [Float!]!, $databaseId: String!) {'',
      ''            getTableSchema(embeddings: $embeddings, databaseId: $databaseId) {'',
      ''                schema'', ''            }'', ''        }'', ''        '']"

definition execute_query :: string where
  "execute_query = text_of_lines
     [[], ''        query ExecuteSql($sql: String!, $databaseId: String!) {'',
      ''            executeSqlStatement(request: { sqlStatement: $sql, databaseId: $databaseId })'',
      ''        }'', ''        '']"

text \<open>\<open>data["errors"][0]\<close> for a list of objects.\<close>

definition first_error :: "json \<Rightarrow> obj option" where
  "first_error errors = (case errors of JArr (JObj e # _) \<Rightarrow> Some e | _ \<Rightarrow> None)"

definition schema_of_reply :: "('w, 'z) t2s_env_scheme \<Rightarrow> json \<Rightarrow> service_exn + json" where
  "schema_of_reply env data =
     (let crash = Inl (Other_Exn (te_crash_text env data)) in
      case data of
        JObj d \<Rightarrow>
          (case dict_get d ''errors'' of
             Some errors \<Rightarrow>
               (case first_error errors of
                  None \<Rightarrow> crash
                | Some e \<Rightarrow> Inl (Other_Exn (''Failed to fetch schema: '' @
                    py_str (te_rep env) (obj_get_or e ''message'' (JStr ''Unknown GraphQL error'')))))
           | None \<Rightarrow>
               (case obj_get_or d ''data'' (JObj []) of
                  JObj fs \<Rightarrow>
                    (case obj_get_or fs ''getTableSchema'' (JObj []) of
                       JObj info \<Rightarrow> Inr (obj_get_or info ''schema'' (JStr []))
                     | _ \<Rightarrow> crash)
                | _ \<Rightarrow> crash))
      | _ \<Rightarrow> crash)"

definition get_relevant_schema ::
    "('w, 'z) t2s_env_scheme \<Rightarrow> real list \<Rightarrow> json \<Rightarrow> string \<Rightarrow> 'w \<Rightarrow> (service_exn + json) \<times> 'w" where
  "get_relevant_schema env embeddings access_token database_id w =
     (let request = graphql_post env access_token schema_query
            [(''embeddings'', JArr (map JFloat embeddings)), (''databaseId'', JStr database_id)]
      in case te_post env request w of
           (Reply_Json data, w') \<Rightarrow> (schema_of_reply env data, w')
         | (Reply_Failed m, w') \<Rightarrow> (Inl (Other_Exn (''Failed to connect to SQL Query API: '' @ m)), w')
         | (Reply_Bad_Json m, w') \<Rightarrow> (Inl (Value_Exn m), w')
         | (Reply_Crash m, w') \<Rightarrow> (Inl (Other_Exn m), w'))"

text \<open>The extension of a failed statement carries the detail that the loop feeds back.\<close>

definition execution_error :: "('w, 'z) t2s_env_scheme \<Rightarrow> json \<Rightarrow> obj \<Rightarrow> service_exn" where
  "execution_error env data e =
     (let message = py_str (te_rep env) (obj_get_or e ''message'' (JStr ''Unknown GraphQL error''));
          crash = Other_Exn (''Failed to execute SQL: '' @ te_crash_text env data)
      in case py_or (obj_get e ''extensions'') (JObj []) of
           JObj x \<Rightarrow>
             (case py_or (obj_get x ''sqlQueryApi'') (JObj []) of
                JObj q \<Rightarrow>
                  if obj_get q ''code'' = JStr ''SQL_EXECUTION_ERROR'' \<and> truthy (obj_get q ''details'')
                  then Sql_Execution_Error (obj_get q ''details'')
                  else Value_Exn (''SQL validation or execution failed: '' @ message)
              | _ \<Rightarrow> crash)
         | _ \<Rightarrow> crash)"

definition rows_of_reply :: "('w, 'z) t2s_env_scheme \<Rightarrow> json \<Rightarrow> service_exn + json" where
  "rows_of_reply env data =
     (let crash = Inl (Other_Exn (''Failed to execute SQL: '' @ te_crash_text env data)) in
      case data of
        JObj d \<Rightarrow>
          (case dict_get d ''errors'' of
             Some errors \<Rightarrow> (case first_error errors of None \<Rightarrow> crash | Some e \<Rightarrow> Inl (execution_error env data e))
           | None \<Rightarrow>
               (case obj_get_or d ''data'' (JObj []) of
                  JObj fs \<Rightarrow> Inr (obj_get_or fs ''executeSqlStatement'' (JArr []))
                | _ \<Rightarrow> crash))
      | _ \<Rightarrow> crash)"

definition execute_post :: "('w, 'z) t2s_env_scheme \<Rightarrow> string \<Rightarrow> json \<Rightarrow> string \<Rightarrow> http_post" where
  "execute_post env sql access_token database_id =
     graphql_post env access_token execute_query [(''sql'', JStr sql), (''databaseId'', JStr database_id)]"

definition execute_sql ::
    "('w, 'z) t2s_env_scheme \<Rightarrow> string \<Rightarrow> json \<Rightarrow> string \<Rightarrow> 'w \<Rightarrow> (service_exn + json) \<times> 'w" where
  "execute_sql env sql access_token database_id w =
     (case te_post env (execute_post env sql access_token database_id) w of
        (Reply_Json data, w') \<Rightarrow> (rows_of_reply env data, w')
      | (Reply_Failed m, w') \<Rightarrow> (Inl (Other_Exn (''Failed to connect to SQL Query API: '' @ m)), w')
      | (Reply_Bad_Json m, w') \<Rightarrow> (Inl (Value_Exn m), w')
      | (Reply_Crash m, w') \<Rightarrow> (Inl (Other_Exn (''Failed to execute SQL: '' @ m)), w'))"

subsection \<open>Generation\<close>

definition exn_to_service :: "('w, 'z) t2s_env_scheme \<Rightarrow> exn \<Rightarrow> service_exn" where
  "exn_to_service env e = Other_Exn (te_exn_text env e)"

definition error_text :: "('w, 'z) t2s_env_scheme \<Rightarrow> service_exn \<Rightarrow> string" where
  "error_text env e =
     (case e of
        AI_Service_Error m \<Rightarrow> m
      | Sql_Execution_Error d \<Rightarrow> ''Failed to execute SQL: '' @ py_str (te_rep env) d
      | Value_Exn m \<Rightarrow> m
      | Other_Exn m \<Rightarrow> m)"

definition corrective_prompt :: "string \<Rightarrow> string \<Rightarrow> string" where
  "corrective_prompt user_prompt feedback =
     (if feedback = [] then user_prompt
      else user_prompt @ [CHR 0x0A, CHR 0x0A] @ ''Your previous answer was rejected:'' @ [CHR 0x0A] @ feedback @
        [CHR 0x0A] @ ''Return a single corrected SELECT statement only.'')"

definition add_feedback :: "string \<Rightarrow> string \<Rightarrow> string" where
  "add_feedback feedback more_feedback =
     (if feedback = [] then more_feedback else feedback @ [CHR 0x0A] @ ''Additionally: '' @ more_feedback)"

fun llm_attempts ::
    "('w, 'z) t2s_env_scheme \<Rightarrow> string \<Rightarrow> (exn + string) \<Rightarrow> string \<Rightarrow> nat list \<Rightarrow> 'w \<Rightarrow> (service_exn + string) \<times> 'w" where
  "llm_attempts env system user feedback [] w =
     (Inl (AI_Service_Error (''Failed to generate valid SQL: '' @ feedback)), w)"
| "llm_attempts env system user feedback (a # attempts) w =
     (case user of
        Inl e \<Rightarrow> (Inl (exn_to_service env e), w)
      | Inr user_prompt \<Rightarrow>
          (case get_greeting env (te_ai env) system (corrective_prompt user_prompt feedback) 500 w of
             (Inl e, w') \<Rightarrow> (Inl (AI_Service_Error (''Failed to generate SQL: '' @ error_text env e)), w')
           | (Inr None, w') \<Rightarrow> (Inl (AI_Service_Error ''LLM returned empty SQL query''), w')
           | (Inr (Some []), w') \<Rightarrow> (Inl (AI_Service_Error ''LLM returned empty SQL query''), w')
           | (Inr (Some sql), w') \<Rightarrow>
               (case precheck_sql (te_parsers env) (te_parse_error env) sql of
                  (True, _) \<Rightarrow> (Inr sql, w')
                | (False, complaint) \<Rightarrow> llm_attempts env system user (add_feedback feedback complaint) attempts w')))"

definition generate_sql_with_llm ::
    "('w, 'z) t2s_env_scheme \<Rightarrow> string \<Rightarrow> json \<Rightarrow> string \<Rightarrow> 'w \<Rightarrow> (service_exn + string) \<times> 'w" where
  "generate_sql_with_llm env question schema feedback w =
     (let schema_text = py_str (te_rep env) schema in
      case bind_result (load_prompt (te_prompts env) ''text_to_sql'') (\<lambda>system_config.
           bind_result (load_prompt (te_prompts env) ''text_to_sql/user'') (\<lambda>user_config.
           bind_result (render_prompt system_config [(''schema'', schema_text), (''question'', question)]) (\<lambda>system.
             Inr (system, user_config)))) of
        Inl e \<Rightarrow> (Inl (exn_to_service env e), w)
      | Inr (system, user_config) \<Rightarrow>
          llm_attempts env system
            (render_prompt user_config [(''schema'', schema_text), (''natural_language'', question)])
            feedback [1, 2] w)"

definition execution_feedback :: "string \<Rightarrow> string" where
  "execution_feedback detail =
     ''The SQL statement you generated was rejected by the database with the following error:'' @ [CHR 0x0A] @ detail @
     [CHR 0x0A] @ ''Fix the statement (for example an undeclared table alias or a misspelled column/table name) '' @
     ''and return a single corrected SELECT statement only.''"

text \<open>What the loop leaves to the handlers at the end of the method: an answer, or an exception with the
  statement at hand when it was raised.\<close>

datatype t2s_step = Answer obj | Raised service_exn json

fun execution_attempts ::
    "('w, 'z) t2s_env_scheme \<Rightarrow> string \<Rightarrow> json \<Rightarrow> json \<Rightarrow> string \<Rightarrow> nat list \<Rightarrow> string \<Rightarrow> json \<Rightarrow> 'w \<Rightarrow> t2s_step \<times> 'w" where
  "execution_attempts env question schema access_token database_id [] feedback sql w = (Answer [], w)"
| "execution_attempts env question schema access_token database_id (attempt # attempts) feedback sql w =
     (case generate_sql_with_llm env question schema feedback w of
        (Inl e, w') \<Rightarrow> (Raised e sql, w')
      | (Inr s, w') \<Rightarrow>
          (case execute_sql env s access_token database_id w' of
             (Inr rows, w'') \<Rightarrow> (Answer [(''sql'', JStr s), (''schema'', schema), (''results'', rows)], w'')
           | (Inl (Sql_Execution_Error detail), w'') \<Rightarrow>
               (case is_retryable_execution_error detail of
                  Inl e \<Rightarrow> (Raised (exn_to_service env e) (JStr s), w'')
                | Inr retryable \<Rightarrow>
                    if \<not> retryable \<or> MAX_EXECUTION_ATTEMPTS \<le> attempt
                    then (Answer [(''error'', detail), (''sql'', JStr s)], w'')
                    else execution_attempts env question schema access_token database_id attempts
                           (execution_feedback (py_str (te_rep env) detail)) (JStr s) w'')
           | (Inl e, w'') \<Rightarrow> (Raised e (JStr s), w'')))"

definition answer_of :: "('w, 'z) t2s_env_scheme \<Rightarrow> t2s_step \<Rightarrow> obj" where
  "answer_of env x =
     (case x of
        Answer d \<Rightarrow> d
      | Raised (AI_Service_Error m) _ \<Rightarrow> [(''error'', JStr (''Failed to generate SQL: '' @ m)), (''sql'', JNull)]
      | Raised (Value_Exn m) sql \<Rightarrow> [(''error'', JStr m), (''sql'', sql)]
      | Raised e _ \<Rightarrow> [(''error'', JStr (''Unexpected error: '' @ error_text env e)), (''sql'', JNull)])"

definition generate_sql_from_text ::
    "('w, 'z) t2s_env_scheme \<Rightarrow> string \<Rightarrow> bool \<Rightarrow> json \<Rightarrow> string \<Rightarrow> 'w \<Rightarrow> obj \<times> 'w" where
  "generate_sql_from_text env question execute access_token database_id w =
     (case generate_embeddings env (te_ai env) question w of
        (Inl e, w1) \<Rightarrow> (answer_of env (Raised e JNull), w1)
      | (Inr embeddings, w1) \<Rightarrow>
          (case get_relevant_schema env embeddings access_token database_id w1 of
             (Inl e, w2) \<Rightarrow> (answer_of env (Raised e JNull), w2)
           | (Inr schema, w2) \<Rightarrow>
               if \<not> execute
               then (case generate_sql_with_llm env question schema [] w2 of
                       (Inl e, w3) \<Rightarrow> (answer_of env (Raised e JNull), w3)
                     | (Inr s, w3) \<Rightarrow> ([(''sql'', JStr s), (''schema'', schema)], w3))
               else (case execution_attempts env question schema access_token database_id
                            [1..<Suc MAX_EXECUTION_ATTEMPTS] [] JNull w2 of
                       (x, w3) \<Rightarrow> (answer_of env x, w3))))"

subsection \<open>What the pre-check establishes\<close>

definition plausible_statement :: "sql_parsers \<Rightarrow> string \<Rightarrow> bool" where
  "plausible_statement lib raw \<longleftrightarrow>
     (let sql = strip_sql_framing raw in
      starts_with ''SELECT'' (py_upper sql) \<and> CHR '';'' \<notin> set (butlast (rstrip (without_strings sql))) \<and>
      (case lib_parse lib sql of
         Some [Some n] \<Rightarrow> isinstance n ''Query'' \<and> list_all (\<lambda>x. x \<in> set (declared_names n)) (referenced_names n)
       | _ \<Rightarrow> False))"

lemma unresolved_message_not_Nil: "unresolved_message names \<noteq> []"
  by (simp add: unresolved_message_def)

lemma no_unresolved_aliases:
  assumes "find_unresolved_table_aliases lib parse_error sql = []"
  obtains n where "lib_parse lib sql = Some [Some n]" and "isinstance n ''Query''"
    and "list_all (\<lambda>x. x \<in> set (declared_names n)) (referenced_names n)"
proof -
  obtain n where n: "lib_parse lib sql = Some [Some n]" "isinstance n ''Query''"
    using assms by (auto simp: find_unresolved_table_aliases_def split: option.splits list.splits if_splits)
  have "sort (remdups (filter (\<lambda>x. x \<notin> set (declared_names n)) (referenced_names n))) = []"
    using assms n by (auto simp: find_unresolved_table_aliases_def Let_def unresolved_message_not_Nil split: if_splits)
  then have "set (filter (\<lambda>x. x \<notin> set (declared_names n)) (referenced_names n)) = {}"
    by (metis set_remdups set_sort empty_set)
  then show ?thesis
    using that n by (auto simp: list_all_iff)
qed

lemma precheck_passed: "fst (precheck_sql lib parse_error raw) \<Longrightarrow> plausible_statement lib raw"
  unfolding precheck_sql_def Let_def
  by (auto split: if_splits elim!: no_unresolved_aliases simp: plausible_statement_def)

subsection \<open>Recorded runs\<close>

datatype t2s_call = Chat_Call chat_request | Embed_Call embed_request | Post_Call http_post

definition recorded :: "'w t2s_env \<Rightarrow> ('w \<times> t2s_call list) t2s_env" where
  "recorded env =
     \<lparr>ao_chat = (\<lambda>rq (w, cs). case ao_chat env rq w of (r, w') \<Rightarrow> (r, w', cs @ [Chat_Call rq])),
      ao_embed = (\<lambda>rq (w, cs). case ao_embed env rq w of (r, w') \<Rightarrow> (r, w', cs @ [Embed_Call rq])),
      ao_sleep = (\<lambda>t (w, cs). (ao_sleep env t w, cs)),
      te_post = (\<lambda>p (w, cs). case te_post env p w of (r, w') \<Rightarrow> (r, w', cs @ [Post_Call p])),
      te_ai = te_ai env, te_url = te_url env, te_correlation_id = te_correlation_id env, te_prompts = te_prompts env,
      te_parsers = te_parsers env, te_parse_error = te_parse_error env, te_rep = te_rep env,
      te_crash_text = te_crash_text env, te_exn_text = te_exn_text env\<rparr>"

fun posts_of :: "t2s_call list \<Rightarrow> http_post list" where
  "posts_of [] = []"
| "posts_of (Post_Call p # cs) = p # posts_of cs"
| "posts_of (_ # cs) = posts_of cs"

fun chats_in :: "t2s_call list \<Rightarrow> nat" where
  "chats_in [] = 0"
| "chats_in (Chat_Call _ # cs) = Suc (chats_in cs)"
| "chats_in (_ # cs) = chats_in cs"

fun embeds_in :: "t2s_call list \<Rightarrow> nat" where
  "embeds_in [] = 0"
| "embeds_in (Embed_Call _ # cs) = Suc (embeds_in cs)"
| "embeds_in (_ # cs) = embeds_in cs"

lemma calls_append [simp]:
  "posts_of (xs @ ys) = posts_of xs @ posts_of ys" "chats_in (xs @ ys) = chats_in xs + chats_in ys"
  "embeds_in (xs @ ys) = embeds_in xs + embeds_in ys"
  by (induction xs rule: posts_of.induct) auto

text \<open>From the calls \<open>cs\<close> to \<open>cs'\<close> the posts are \<open>ps\<close>, with at most \<open>c\<close> chats and \<open>e\<close> embeddings.\<close>

definition spent :: "t2s_call list \<Rightarrow> t2s_call list \<Rightarrow> http_post list \<Rightarrow> nat \<Rightarrow> nat \<Rightarrow> bool" where
  "spent cs cs' ps c e \<longleftrightarrow> (\<exists>new. cs' = cs @ new \<and> posts_of new = ps \<and> chats_in new \<le> c \<and> embeds_in new \<le> e)"

lemma spent_refl: "spent cs cs [] c e"
  by (simp add: spent_def)

lemma spent_trans: "spent cs cs1 ps c e \<Longrightarrow> spent cs1 cs2 qs d f \<Longrightarrow> spent cs cs2 (ps @ qs) (c + d) (e + f)"
  unfolding spent_def by fastforce

lemma spent_mono: "spent cs cs' ps c e \<Longrightarrow> c \<le> d \<Longrightarrow> e \<le> f \<Longrightarrow> spent cs cs' ps d f"
  unfolding spent_def by auto

lemma recorded_simps [simp]:
  "te_ai (recorded env) = te_ai env" "te_url (recorded env) = te_url env" "te_parsers (recorded env) = te_parsers env"
  "te_correlation_id (recorded env) = te_correlation_id env" "te_prompts (recorded env) = te_prompts env"
  "te_parse_error (recorded env) = te_parse_error env" "te_rep (recorded env) = te_rep env"
  "te_crash_text (recorded env) = te_crash_text env" "te_exn_text (recorded env) = te_exn_text env"
  by (simp_all add: recorded_def)

lemma recorded_texts [simp]:
  "exn_to_service (recorded env) = exn_to_service env" "error_text (recorded env) = error_text env"
  "answer_of (recorded env) = answer_of env" "rows_of_reply (recorded env) = rows_of_reply env"
  "schema_of_reply (recorded env) = schema_of_reply env" "execute_post (recorded env) = execute_post env"
  "graphql_post (recorded env) = graphql_post env"
  by (auto simp: fun_eq_iff exn_to_service_def error_text_def answer_of_def rows_of_reply_def schema_of_reply_def
      execution_error_def execute_post_def graphql_post_def Let_def
      split: service_exn.splits t2s_step.splits json.splits option.splits)

lemma greeting_spent:
  assumes "get_greeting (recorded env) s system user n (w, cs) = (r, w', cs')"
  shows "spent cs cs' [] (nat (ai_retries s)) 0"
proof -
  let ?P = "\<lambda>n (v :: 'a \<times> t2s_call list). \<exists>new. snd v = cs @ new \<and> posts_of new = [] \<and> chats_in new = n \<and> embeds_in new = 0"
  have "\<exists>n \<le> length [1..ai_retries s]. ?P n (w', cs')"
    by (rule greeting_attempts_induct[OF assms[unfolded get_greeting_def]])
      (auto simp: recorded_def split: prod.splits)
  then show ?thesis
    by (auto simp: spent_def)
qed

lemma embeddings_spent:
  assumes "generate_embeddings (recorded env) s text (w, cs) = (r, w', cs')"
  shows "spent cs cs' [] 0 (nat (ai_retries s))"
proof -
  have "spent cs cs' [] 0 (length attempts)" if "embedding_attempts (recorded env) s rq attempts (w, cs) = (r, w', cs')" for rq attempts
    using that
  proof (induction attempts arbitrary: w cs)
    case (Cons a attempts)
    obtain rep w1 where c: "ao_embed env rq w = (rep, w1)"
      by fastforce
    have one: "spent cs (cs @ [Embed_Call rq]) [] 0 1"
      by (simp add: spent_def)
    have "\<exists>w2. pause (recorded env) s a (w1, cs @ [Embed_Call rq]) = (w2, cs @ [Embed_Call rq])"
      by (simp add: pause_def recorded_def)
    then obtain w2 where p: "pause (recorded env) s a (w1, cs @ [Embed_Call rq]) = (w2, cs @ [Embed_Call rq])"
      by blast
    have "spent cs cs' [] 0 1 \<or> embedding_attempts (recorded env) s rq attempts (w2, cs @ [Embed_Call rq]) = (r, w', cs')"
      using Cons.prems c p one by (cases rep) (auto simp: recorded_def)
    then show ?case
      using spent_trans[OF one Cons.IH] spent_mono[of cs cs' "[]" 0 1 0 "length (a # attempts)"] by auto
  qed (simp add: spent_refl)
  from this[OF assms[unfolded generate_embeddings_def]] show ?thesis
    by simp
qed

lemma llm_attempts_spent:
  assumes "llm_attempts (recorded env) system user feedback attempts (w, cs) = (r, w', cs')"
  shows "spent cs cs' [] (length attempts * nat (ai_retries (te_ai env))) 0 \<and>
    (\<forall>s. r = Inr s \<longrightarrow> s \<noteq> [] \<and> plausible_statement (te_parsers env) s)"
  using assms
proof (induction attempts arbitrary: feedback w cs)
  case (Cons a attempts)
  let ?R = "nat (ai_retries (te_ai env))"
  show ?case
  proof (cases user)
    case (Inl e)
    then show ?thesis
      using Cons.prems by (auto simp: spent_refl)
  next
    case (Inr base)
    obtain g w1 cs1 where g: "get_greeting (recorded env) (te_ai env) system (corrective_prompt base feedback) 500 (w, cs) = (g, w1, cs1)"
      by (metis prod_cases3)
    have one: "spent cs cs1 [] ?R 0"
      by (rule greeting_spent[OF g])
    have more_room: "spent cs cs1 [] (length (a # attempts) * ?R) 0"
      by (rule spent_mono[OF one]) simp_all
    show ?thesis
    proof (cases "\<exists>c sql. g = Inr (Some (c # sql)) \<and> \<not> fst (precheck_sql (te_parsers env) (te_parse_error env) (c # sql))")
      case True
      then obtain c sql complaint where sql: "g = Inr (Some (c # sql))"
        "precheck_sql (te_parsers env) (te_parse_error env) (c # sql) = (False, complaint)"
        by (metis prod.collapse)
      have rest: "llm_attempts (recorded env) system user (add_feedback feedback complaint) attempts (w1, cs1) = (r, w', cs')"
        using Cons.prems Inr g sql by simp
      show ?thesis
        using spent_trans[OF one] Cons.IH[OF rest] by auto
    next
      case False
      have "spent cs cs' [] (length (a # attempts) * ?R) 0 \<and> (\<forall>s. r = Inr s \<longrightarrow> s \<noteq> [] \<and> plausible_statement (te_parsers env) s)"
        using Cons.prems Inr g False more_room precheck_passed[of "te_parsers env" "te_parse_error env"]
        by (auto split: sum.splits option.splits list.splits prod.splits bool.splits)
      then show ?thesis .
    qed
  qed
qed (auto simp: spent_refl)

lemma generate_spent:
  assumes "generate_sql_with_llm (recorded env) question schema feedback (w, cs) = (r, w', cs')"
  shows "spent cs cs' [] (2 * nat (ai_retries (te_ai env))) 0 \<and>
    (\<forall>s. r = Inr s \<longrightarrow> s \<noteq> [] \<and> plausible_statement (te_parsers env) s)"
proof -
  let ?p = "bind_result (load_prompt (te_prompts env) ''text_to_sql'') (\<lambda>system_config.
           bind_result (load_prompt (te_prompts env) ''text_to_sql/user'') (\<lambda>user_config.
           bind_result (render_prompt system_config [(''schema'', py_str (te_rep env) schema), (''question'', question)]) (\<lambda>system.
             Inr (system, user_config))))"
  show ?thesis
  proof (cases ?p)
    case (Inl e)
    then show ?thesis
      using assms by (auto simp: generate_sql_with_llm_def Let_def spent_refl)
  next
    case (Inr x)
    then obtain system config where x: "?p = Inr (system, config)"
      by (metis prod.collapse)
    have "llm_attempts (recorded env) system
        (render_prompt config [(''schema'', py_str (te_rep env) schema), (''natural_language'', question)]) feedback [1, 2] (w, cs) = (r, w', cs')"
      using assms unfolding generate_sql_with_llm_def Let_def recorded_simps x by simp
    from llm_attempts_spent[OF this] show ?thesis
      by (simp add: numeral_2_eq_2)
  qed
qed

lemma execute_recorded:
  assumes "execute_sql (recorded env) sql token db (w, cs) = (r, w', cs')"
  shows "cs' = cs @ [Post_Call (execute_post env sql token db)] \<and> execute_sql env sql token db w = (r, w')"
proof -
  obtain rep w1 where "te_post env (execute_post env sql token db) w = (rep, w1)"
    by fastforce
  then show ?thesis
    using assms by (cases rep) (auto simp: execute_sql_def recorded_def[of env, THEN arg_cong, of te_post] recorded_texts
        simp del: recorded_simps simp: recorded_simps)
qed

lemma schema_recorded:
  assumes "get_relevant_schema (recorded env) v token db (w, cs) = (r, w', cs')"
  shows "\<exists>variables. cs' = cs @ [Post_Call (graphql_post env token schema_query variables)]"
proof -
  let ?p = "graphql_post env token schema_query [(''embeddings'', JArr (map JFloat v)), (''databaseId'', JStr db)]"
  obtain rep w1 where p: "te_post env ?p w = (rep, w1)"
    by fastforce
  then have "te_post (recorded env) ?p (w, cs) = (rep, w1, cs @ [Post_Call ?p])"
    by (simp add: recorded_def)
  then show ?thesis
    using assms by (cases rep) (auto simp: get_relevant_schema_def Let_def)
qed

text \<open>One round of the loop: a statement is generated and executed.\<close>

lemma execution_attempts_spent:
  assumes "execution_attempts (recorded env) question schema token db attempts feedback sql (w, cs) = (x, w', cs')"
  shows "\<exists>stmts. spent cs cs' (map (\<lambda>s. execute_post env s token db) stmts) (2 * nat (ai_retries (te_ai env)) * length attempts) 0 \<and>
    length stmts \<le> length attempts \<and> list_all (plausible_statement (te_parsers env)) stmts \<and>
    (\<forall>d. x = Answer d \<longrightarrow> attempts \<noteq> [] \<longrightarrow> MAX_EXECUTION_ATTEMPTS \<le> last attempts \<longrightarrow>
       stmts \<noteq> [] \<and> obj_get d ''sql'' = JStr (last stmts))"
  using assms
proof (induction attempts arbitrary: feedback sql w cs)
  case Nil
  then show ?case
    by (intro exI[of _ "[]"]) (auto simp: spent_refl)
next
  case (Cons a attempts)
  let ?R = "2 * nat (ai_retries (te_ai env))"
  let ?room = "?R * length (a # attempts)"
  obtain g w1 cs1 where g: "generate_sql_with_llm (recorded env) question schema feedback (w, cs) = (g, w1, cs1)"
    by (metis prod_cases3)
  note gen = generate_spent[OF g]
  show ?case
  proof (cases g)
    case (Inl e)
    then have "x = Raised e sql" "cs' = cs1"
      using Cons.prems g by auto
    then show ?thesis
      using gen spent_mono[of cs cs1 "[]" ?R 0 ?room 0] by (intro exI[of _ "[]"]) auto
  next
    case (Inr s)
    obtain r w2 cs2 where r: "execute_sql (recorded env) s token db (w1, cs1) = (r, w2, cs2)"
      by (metis prod_cases3)
    have good: "plausible_statement (te_parsers env) s"
      using gen Inr by blast
    have "spent cs1 cs2 [execute_post env s token db] 0 0"
      using execute_recorded[OF r] by (simp add: spent_def)
    then have two: "spent cs cs2 [execute_post env s token db] ?R 0"
      using spent_trans[of cs cs1 "[]" ?R 0 cs2 "[execute_post env s token db]" 0 0] gen by simp
    note go = Cons.prems[unfolded execution_attempts.simps g prod.case Inr sum.case r]
    have stop: ?thesis if "cs' = cs2" "\<forall>d. x = Answer d \<longrightarrow> obj_get d ''sql'' = JStr s"
      using spent_mono[OF two, of ?room 0] that good by (intro exI[of _ "[s]"]) auto
    show ?thesis
    proof (cases "\<exists>detail. r = Inl (Sql_Execution_Error detail) \<and> is_retryable_execution_error detail = Inr True \<and> a < MAX_EXECUTION_ATTEMPTS")
      case True
      then obtain detail where detail: "r = Inl (Sql_Execution_Error detail)" "is_retryable_execution_error detail = Inr True"
        "a < MAX_EXECUTION_ATTEMPTS"
        by blast
      have rest: "execution_attempts (recorded env) question schema token db attempts
          (execution_feedback (py_str (te_rep env) detail)) (JStr s) (w2, cs2) = (x, w', cs')"
        using go detail by simp
      from Cons.IH[OF rest] obtain stmts where stmts:
        "spent cs2 cs' (map (\<lambda>s. execute_post env s token db) stmts) (?R * length attempts) 0"
        "length stmts \<le> length attempts" "list_all (plausible_statement (te_parsers env)) stmts"
        "\<forall>d. x = Answer d \<longrightarrow> attempts \<noteq> [] \<longrightarrow> MAX_EXECUTION_ATTEMPTS \<le> last attempts \<longrightarrow>
           stmts \<noteq> [] \<and> obj_get d ''sql'' = JStr (last stmts)"
        by blast
      show ?thesis
        using spent_trans[OF two stmts(1)] stmts(2,3,4) good detail(3) by (intro exI[of _ "s # stmts"]) auto
    next
      case False
      then show ?thesis
        using go by (intro stop) (auto split: sum.splits service_exn.splits if_splits)
    qed
  qed
qed

lemma answer_of_Raised [simp]: "(dict_get (answer_of env (Raised e v)) ''error'' = None) = False"
  by (cases e) (simp_all add: answer_of_def)

lemma answer_without_error: "dict_get (answer_of env x) ''error'' = None \<Longrightarrow> x = Answer (answer_of env x)"
proof (cases x)
  case (Answer d)
  then show ?thesis
    by (simp add: answer_of_def)
qed simp

definition takes_rounds :: "'w t2s_env \<Rightarrow> string \<Rightarrow> json \<Rightarrow> string \<Rightarrow> nat \<Rightarrow> bool" where
  "takes_rounds env question token db K \<longleftrightarrow>
     (\<forall>schema v cs x v' cs'.
      execution_attempts (recorded env) question schema token db [1..<Suc MAX_EXECUTION_ATTEMPTS] [] JNull (v, cs) = (x, v', cs') \<longrightarrow>
      (\<exists>stmts. spent cs cs' (map (\<lambda>s. execute_post env s token db) stmts) (2 * nat (ai_retries (te_ai env)) * K) 0 \<and>
        length stmts \<le> K \<and> list_all (plausible_statement (te_parsers env)) stmts \<and>
        (\<forall>d. x = Answer d \<longrightarrow> stmts \<noteq> [] \<and> obj_get d ''sql'' = JStr (last stmts))))"

text \<open>The whole conversion, when the loop takes at most \<open>K\<close> rounds.\<close>

lemma generate_from_text_rounds:
  assumes "generate_sql_from_text (recorded env) question execute token db (w, []) = (res, w', calls)"
    and rounds: "takes_rounds env question token db K"
  shows "\<exists>ps stmts. posts_of calls = ps @ map (\<lambda>s. execute_post env s token db) stmts \<and>
    list_all (\<lambda>p. \<exists>variables. p = graphql_post env token schema_query variables) ps \<and> length ps \<le> 1 \<and>
    list_all (plausible_statement (te_parsers env)) stmts \<and>
    length stmts \<le> (if execute then K else 0) \<and>
    chats_in calls \<le> 2 * nat (ai_retries (te_ai env)) * (if execute then K else 1) \<and>
    embeds_in calls \<le> nat (ai_retries (te_ai env)) \<and>
    (dict_get res ''error'' = None \<longrightarrow>
       (\<exists>sql. obj_get res ''sql'' = JStr sql \<and> plausible_statement (te_parsers env) sql \<and>
          (execute \<longrightarrow> stmts \<noteq> [] \<and> sql = last stmts)))"
proof -
  let ?R = "nat (ai_retries (te_ai env))"
  obtain g w1 cs1 where g: "generate_embeddings (recorded env) (te_ai env) question (w, []) = (g, w1, cs1)"
    by (metis prod_cases3)
  note embedded = embeddings_spent[OF g]
  note go = assms[unfolded generate_sql_from_text_def recorded_simps recorded_texts g prod.case]
  show ?thesis
  proof (cases g)
    case (Inl e)
    then show ?thesis
      using go embedded by (intro exI[of _ "[]"]) (auto simp: spent_def)
  next
    case (Inr v)
    obtain h w2 cs2 where h: "get_relevant_schema (recorded env) v token db (w1, cs1) = (h, w2, cs2)"
      by (metis prod_cases3)
    obtain variables where "cs2 = cs1 @ [Post_Call (graphql_post env token schema_query variables)]"
      using schema_recorded[OF h] by blast
    then have asked: "spent [] cs2 [graphql_post env token schema_query variables] 0 ?R"
      using embedded by (auto simp: spent_def)
    note go = go[unfolded Inr sum.case h prod.case]
    show ?thesis
    proof (cases h)
      case (Inl e)
      then show ?thesis
        using go asked by (intro exI[of _ "[graphql_post env token schema_query variables]"] exI[of _ "[]"]) (auto simp: spent_def)
    next
      case (Inr schema)
      note go = go[unfolded Inr sum.case]
      show ?thesis
      proof (cases execute)
        case True
        obtain x w3 cs3 where x: "execution_attempts (recorded env) question schema token db
            [1..<Suc MAX_EXECUTION_ATTEMPTS] [] JNull (w2, cs2) = (x, w3, cs3)"
          by (metis prod_cases3)
        have res: "res = answer_of env x" "calls = cs3"
          using go x True by auto
        from rounds[unfolded takes_rounds_def, rule_format, OF x] obtain stmts where stmts:
          "spent cs2 cs3 (map (\<lambda>s. execute_post env s token db) stmts) (2 * ?R * K) 0"
          "length stmts \<le> K" "list_all (plausible_statement (te_parsers env)) stmts"
          "\<forall>d. x = Answer d \<longrightarrow> stmts \<noteq> [] \<and> obj_get d ''sql'' = JStr (last stmts)"
          by blast
        have good: "dict_get res ''error'' = None \<Longrightarrow> \<exists>sql. obj_get res ''sql'' = JStr sql \<and>
            plausible_statement (te_parsers env) sql \<and> stmts \<noteq> [] \<and> sql = last stmts"
          using answer_without_error[of env x] stmts(3,4) res(1) by (auto simp: list_all_iff)
        show ?thesis
          using spent_trans[OF asked stmts(1)] stmts(2,3) good True res(2)
          by (intro exI[of _ "[graphql_post env token schema_query variables]"] exI[of _ stmts]) (auto simp: spent_def)
      next
        case False
        obtain y w3 cs3 where y: "generate_sql_with_llm (recorded env) question schema [] (w2, cs2) = (y, w3, cs3)"
          by (metis prod_cases3)
        have spent3: "spent [] calls [graphql_post env token schema_query variables] (2 * ?R) ?R"
          using spent_trans[OF asked conjunct1[OF generate_spent[OF y]]] go y False by (auto split: sum.splits)
        have good: "dict_get res ''error'' = None \<Longrightarrow> \<exists>sql. obj_get res ''sql'' = JStr sql \<and> plausible_statement (te_parsers env) sql"
          using go y False generate_spent[OF y] by (cases y) auto
        show ?thesis
          using spent3 good False
          by (intro exI[of _ "[graphql_post env token schema_query variables]"] exI[of _ "[]"]) (auto simp: spent_def)
      qed
    qed
  qed
qed

lemma three_rounds: "takes_rounds env question token db MAX_EXECUTION_ATTEMPTS"
  unfolding takes_rounds_def using execution_attempts_spent[of env question] by (force simp: MAX_EXECUTION_ATTEMPTS_def)

text \<open>Without a detail in the extension of an error the loop ends after the first statement.\<close>

definition carries_detail :: "obj \<Rightarrow> bool" where
  "carries_detail e \<longleftrightarrow>
     (case py_or (obj_get e ''extensions'') (JObj []) of
        JObj x \<Rightarrow> (case py_or (obj_get x ''sqlQueryApi'') (JObj []) of JObj q \<Rightarrow> truthy (obj_get q ''details'') | _ \<Rightarrow> False)
      | _ \<Rightarrow> False)"

definition silent_service :: "('w, 'z) t2s_env_scheme \<Rightarrow> bool" where
  "silent_service env \<longleftrightarrow>
     (\<forall>p w d errors e w'. te_post env p w = (Reply_Json (JObj d), w') \<longrightarrow> dict_get d ''errors'' = Some errors \<longrightarrow>
        first_error errors = Some e \<longrightarrow> \<not> carries_detail e)"

lemma execution_error_detail: "execution_error env data e = Sql_Execution_Error d \<Longrightarrow> carries_detail e"
  by (auto simp: execution_error_def carries_detail_def Let_def split: json.splits if_splits)

lemma silent_execution:
  assumes "silent_service env"
  shows "execute_sql env sql token db w \<noteq> (Inl (Sql_Execution_Error d), w')"
proof
  assume run: "execute_sql env sql token db w = (Inl (Sql_Execution_Error d), w')"
  obtain rep w1 where rep: "te_post env (execute_post env sql token db) w = (rep, w1)"
    by fastforce
  obtain data where data: "rep = Reply_Json data" "rows_of_reply env data = Inl (Sql_Execution_Error d)"
    using run rep by (cases rep) (auto simp: execute_sql_def)
  obtain doc errors e where e: "data = JObj doc" "dict_get doc ''errors'' = Some errors" "first_error errors = Some e"
    "execution_error env data e = Sql_Execution_Error d"
    using data(2) by (auto simp: rows_of_reply_def Let_def split: json.splits option.splits)
  show False
    using assms rep data(1) e execution_error_detail[OF e(4)] unfolding silent_service_def by blast
qed

lemma one_round:
  assumes "silent_service env"
  shows "takes_rounds env question token db 1"
  unfolding takes_rounds_def
proof (intro allI impI)
  fix schema v cs x v' cs'
  assume run: "execution_attempts (recorded env) question schema token db [1..<Suc MAX_EXECUTION_ATTEMPTS] [] JNull (v, cs) = (x, v', cs')"
  have attempts: "[1..<Suc MAX_EXECUTION_ATTEMPTS] = 1 # [2, 3]"
    by (simp add: MAX_EXECUTION_ATTEMPTS_def upt_rec)
  obtain g w1 cs1 where g: "generate_sql_with_llm (recorded env) question schema [] (v, cs) = (g, w1, cs1)"
    by (metis prod_cases3)
  note gen = generate_spent[OF g]
  note go = run[unfolded attempts execution_attempts.simps g prod.case]
  show "\<exists>stmts. spent cs cs' (map (\<lambda>s. execute_post env s token db) stmts) (2 * nat (ai_retries (te_ai env)) * 1) 0 \<and>
    length stmts \<le> 1 \<and> list_all (plausible_statement (te_parsers env)) stmts \<and>
    (\<forall>d. x = Answer d \<longrightarrow> stmts \<noteq> [] \<and> obj_get d ''sql'' = JStr (last stmts))"
  proof (cases g)
    case (Inl e)
    then show ?thesis
      using go gen by (intro exI[of _ "[]"]) auto
  next
    case (Inr s)
    obtain r w2 cs2 where r: "execute_sql (recorded env) s token db (w1, cs1) = (r, w2, cs2)"
      by (metis prod_cases3)
    have sent: "cs2 = cs1 @ [Post_Call (execute_post env s token db)]" "r \<noteq> Inl (Sql_Execution_Error d)" for d
      using execute_recorded[OF r] silent_execution[OF assms(1)] by blast+
    have "cs' = cs2 \<and> (\<forall>d. x = Answer d \<longrightarrow> obj_get d ''sql'' = JStr s)"
      using go[unfolded Inr sum.case r prod.case] sent(2) by (cases r) (auto split: service_exn.splits)
    then show ?thesis
      using gen sent(1) Inr by (intro exI[of _ "[s]"]) (auto simp: spent_def)
  qed
qed

lemma silent_service_once:
  assumes "silent_service env"
    and "generate_sql_from_text (recorded env) question execute token db (w, []) = (res, w', calls)"
  shows "chats_in calls \<le> 2 * nat (ai_retries (te_ai env)) \<and> length (posts_of calls) \<le> 2"
  using generate_from_text_rounds[OF assms(2) one_round[OF assms(1)]] by (auto split: if_splits)

subsection \<open>Properties\<close>

lemma graphql_post_fields:
  "hp_url (graphql_post env token q vs) = te_url env"
  "hp_headers (graphql_post env token q vs) = api_headers (te_correlation_id env) token (te_rep env)"
  by (simp_all add: graphql_post_def)

text \<open>Every request to the SQL service goes to the configured address with the caller's token.\<close>

lemma generate_posts_own:
  assumes "generate_sql_from_text (recorded env) question execute token db (w, []) = (res, w', calls)"
  shows "list_all (\<lambda>p. hp_url p = te_url env \<and> hp_headers p = api_headers (te_correlation_id env) token (te_rep env)) (posts_of calls)"
proof -
  from generate_from_text_rounds[OF assms three_rounds] obtain ps stmts where x:
    "posts_of calls = ps @ map (\<lambda>s. execute_post env s token db) stmts"
    "list_all (\<lambda>p. \<exists>variables. p = graphql_post env token schema_query variables) ps"
    by (elim exE conjE) (rule that; assumption)
  let ?own = "\<lambda>p. hp_url p = te_url env \<and> hp_headers p = api_headers (te_correlation_id env) token (te_rep env)"
  have "?own p" if asked: "p \<in> set ps" for p
  proof -
    obtain variables where "p = graphql_post env token schema_query variables"
      using x(2) asked unfolding list_all_iff by blast
    then show ?thesis
      by (simp only: graphql_post_fields)
  qed
  moreover have "?own p" if sent: "p \<in> set (map (\<lambda>s. execute_post env s token db) stmts)" for p
    using sent by (auto simp only: set_map execute_post_def graphql_post_fields)
  ultimately show ?thesis
    unfolding x(1) list_all_iff set_append by blast
qed

text \<open>C29. The text-to-SQL service talks to the SQL service only as itself on behalf of the caller: every request
  goes to the configured address with exactly the caller's token, and is either the one question for
  the schema or a statement that passed the pre-check (one SELECT, every table qualifier declared). With
  no request to execute, no statement is sent. An answer without an error names a statement that
  passed the pre-check; when it was to be executed, it is the last one that was sent.\<close>

theorem text_to_sql_sends_only_prechecked:
  assumes "generate_sql_from_text (recorded env) question execute token db (w, []) = (res, w', calls)"
  shows "\<exists>ps stmts. posts_of calls = ps @ map (\<lambda>s. execute_post env s token db) stmts \<and> length ps \<le> 1 \<and>
    list_all (\<lambda>p. \<exists>variables. p = graphql_post env token schema_query variables) ps \<and>
    list_all (\<lambda>p. hp_url p = te_url env \<and> hp_headers p = api_headers (te_correlation_id env) token (te_rep env)) (posts_of calls) \<and>
    list_all (plausible_statement (te_parsers env)) stmts \<and> (execute \<or> stmts = []) \<and>
    (dict_get res ''error'' = None \<longrightarrow>
       (\<exists>sql. obj_get res ''sql'' = JStr sql \<and> plausible_statement (te_parsers env) sql \<and>
          (execute \<longrightarrow> stmts \<noteq> [] \<and> sql = last stmts)))"
proof -
  from generate_from_text_rounds[OF assms three_rounds] obtain ps stmts where x:
    "posts_of calls = ps @ map (\<lambda>s. execute_post env s token db) stmts"
    "list_all (\<lambda>p. \<exists>variables. p = graphql_post env token schema_query variables) ps" "length ps \<le> 1"
    "list_all (plausible_statement (te_parsers env)) stmts"
    "length stmts \<le> (if execute then MAX_EXECUTION_ATTEMPTS else 0)"
    "dict_get res ''error'' = None \<longrightarrow>
       (\<exists>sql. obj_get res ''sql'' = JStr sql \<and> plausible_statement (te_parsers env) sql \<and>
          (execute \<longrightarrow> stmts \<noteq> [] \<and> sql = last stmts))"
    by (elim exE conjE) (rule that; assumption)
  have none: "execute \<or> stmts = []"
    using x(5) by (cases execute) simp_all
  show ?thesis
    by (rule exI[of _ ps], rule exI[of _ stmts])
      (rule conjI[OF x(1) conjI[OF x(3) conjI[OF x(2) conjI[OF generate_posts_own[OF assms] conjI[OF x(4) conjI[OF none x(6)]]]]]])
qed

text \<open>C30. The cost of a question is bounded, whatever the providers answer: with \<open>n\<close> retries configured, at most
  \<open>n\<close> embedding calls, \<open>2n\<close> chat calls per generated statement, one schema lookup and three
  executions; without execution one generated statement and no execution.\<close>

theorem text_to_sql_calls_bounded:
  assumes "generate_sql_from_text (recorded env) question execute token db (w, []) = (res, w', calls)"
  shows "embeds_in calls \<le> nat (ai_retries (te_ai env)) \<and>
    chats_in calls \<le> 2 * nat (ai_retries (te_ai env)) * (if execute then 3 else 1) \<and>
    length (posts_of calls) \<le> (if execute then 4 else 1)"
  using generate_from_text_rounds[OF assms three_rounds] by (auto simp: MAX_EXECUTION_ATTEMPTS_def)

subsection \<open>A question answered at the second attempt\<close>

text \<open>The model first forgets to declare an alias; the world is the number of chat calls so far.\<close>

definition demo_tree :: "string \<Rightarrow> node" where
  "demo_tree alias =
     Node [''Select'', ''Query''] \<lparr>nt_name = [], nt_alias_or_name = [], nt_db = [], nt_catalog = [], nt_table = []\<rparr>
       [(''expressions'', Node [''Column''] \<lparr>nt_name = ''id'', nt_alias_or_name = ''id'', nt_db = [], nt_catalog = [], nt_table = alias\<rparr> []),
        (''from_'', Node [''From''] \<lparr>nt_name = [], nt_alias_or_name = [], nt_db = [], nt_catalog = [], nt_table = []\<rparr>
           [(''this'', Node [''Table''] \<lparr>nt_name = ''T'', nt_alias_or_name = ''T'', nt_db = [], nt_catalog = [], nt_table = []\<rparr> [])])]"

definition demo_env :: "nat t2s_env" where
  "demo_env =
     \<lparr>ao_chat = (\<lambda>_ n. (Chat_Message (JStr (if n = 0 then ''select u.id from T'' else ''select t.id from T'')) JNull, Suc n)),
      ao_embed = (\<lambda>_ n. (Embedding (Some [1]), n)), ao_sleep = (\<lambda>_ n. n),
      te_post = (\<lambda>p n. (Reply_Json (JObj [(''data'', if hp_body p = JNull then JNull else
         JObj [(''getTableSchema'', JObj [(''schema'', JStr ''T(id)'')]), (''executeSqlStatement'', JArr [JObj [(''id'', JInt 7)]])])]), n)),
      te_ai = \<lparr>ai_model = [], ai_max_tokens = 10, ai_retries = 1, ai_backoff_base = 2, ai_disable_reasoning = False,
               ai_embedding_model = [], ai_embedding_dimensions = 1\<rparr>,
      te_url = ''http://sql/graphql'', te_correlation_id = ''N/A'',
      te_prompts = \<lparr>ps_yaml = (\<lambda>_. Some []), ps_dir = (\<lambda>_. True), ps_text = (\<lambda>_. None)\<rparr>,
      te_parsers = \<lparr>lib_parse = (\<lambda>s. Some [Some (demo_tree (if s = ''select u.id from T'' then ''u'' else ''t''))]),
         lib_parse_default = (\<lambda>_. None), lib_parse_one = (\<lambda>_. None), lib_sp_parse = (\<lambda>_. None)\<rparr>,
      te_parse_error = (\<lambda>_. []), te_rep = (\<lambda>_. []), te_crash_text = (\<lambda>_. []), te_exn_text = (\<lambda>_. [])\<rparr>"

lemma demo_prechecks:
  "fst (precheck_sql (te_parsers demo_env) (te_parse_error demo_env) ''select u.id from T'') = False"
  "fst (precheck_sql (te_parsers demo_env) (te_parse_error demo_env) ''select t.id from T'') = True"
  by code_simp+

lemma demo_env_simps:
  "te_ai demo_env = \<lparr>ai_model = [], ai_max_tokens = 10, ai_retries = 1, ai_backoff_base = 2, ai_disable_reasoning = False,
     ai_embedding_model = [], ai_embedding_dimensions = 1\<rparr>"
  "te_prompts demo_env = \<lparr>ps_yaml = (\<lambda>_. Some []), ps_dir = (\<lambda>_. True), ps_text = (\<lambda>_. None)\<rparr>"
  "ao_embed (recorded demo_env) rq (n, cs) = (Embedding (Some [1]), n, cs @ [Embed_Call rq])"
  "ao_chat (recorded demo_env) crq (n, cs) =
     (Chat_Message (JStr (if n = 0 then ''select u.id from T'' else ''select t.id from T'')) JNull, Suc n, cs @ [Chat_Call crq])"
  by (simp_all add: demo_env_def recorded_def)

lemma demo_posts:
  "te_post (recorded demo_env) (graphql_post demo_env token q vs) (n, cs) =
     (Reply_Json (JObj [(''data'', JObj [(''getTableSchema'', JObj [(''schema'', JStr ''T(id)'')]),
        (''executeSqlStatement'', JArr [JObj [(''id'', JInt 7)]])])]), n, cs @ [Post_Call (graphql_post demo_env token q vs)])"
  by (simp add: demo_env_def recorded_def graphql_post_def)

lemma demo_texts: "reply_text (JStr ''select u.id from T'') = Some ''select u.id from T''"
  "reply_text (JStr ''select t.id from T'') = Some ''select t.id from T''"
  by code_simp+

lemma demo_generated: "\<exists>cs'. generate_sql_with_llm (recorded demo_env) ''q'' (JStr ''T(id)'') [] (0, cs) = (Inr ''select t.id from T'', 2, cs')"
proof -
  obtain complaint where first: "precheck_sql (te_parsers demo_env) (te_parse_error demo_env) ''select u.id from T'' = (False, complaint)"
    using demo_prechecks(1) by (metis prod.collapse)
  obtain nothing where second: "precheck_sql (te_parsers demo_env) (te_parse_error demo_env) ''select t.id from T'' = (True, nothing)"
    using demo_prechecks(2) by (metis prod.collapse)
  have prompts: "load_prompt (te_prompts demo_env) name = Inr []" for name
    by (simp add: demo_env_simps load_prompt_def read_config_def split: prod.splits)
  have rendered: "render_prompt [] vs = Inr (foldl (\<lambda>t (key, value). replace_all (''{'' @ key @ ''}'') value t) [] vs)" for vs
    by (simp add: render_prompt_def obj_get_or_def)
  have greeted: "get_greeting (recorded demo_env) (te_ai demo_env) system user k (n, cs) =
      (Inr (Some (if n = 0 then ''select u.id from T'' else ''select t.id from T'')), Suc n,
       cs @ [Chat_Call \<lparr>cr_model = [], cr_system = py_strip system, cr_user = py_strip user, cr_max_tokens = k, cr_disable_reasoning = False\<rparr>])"
    for system user k n cs
    by (simp add: get_greeting_def demo_env_simps demo_texts)
  show ?thesis
    unfolding generate_sql_with_llm_def Let_def recorded_simps prompts bind_result.simps rendered sum.case prod.case
    by (simp add: greeted first second numeral_2_eq_2)
qed

lemma demo_conversion:
  "\<exists>res calls. generate_sql_from_text (recorded demo_env) ''q'' True token ''db'' (0, []) = (res, 2, calls) \<and>
     res = [(''sql'', JStr ''select t.id from T''), (''schema'', JStr ''T(id)''), (''results'', JArr [JObj [(''id'', JInt 7)]])]"
proof -
  have embed: "\<exists>cs. generate_embeddings (recorded demo_env) (te_ai demo_env) ''q'' (0, []) = (Inr [1], 0, cs)"
    by (simp add: generate_embeddings_def demo_env_simps checked_embedding_def)
  then obtain cs where cs: "generate_embeddings (recorded demo_env) (te_ai demo_env) ''q'' (0, []) = (Inr [1], 0, cs)"
    by blast
  have "\<exists>cs1. get_relevant_schema (recorded demo_env) [1] token ''db'' (0, cs) = (Inr (JStr ''T(id)''), 0, cs1)"
    by (simp add: get_relevant_schema_def demo_posts schema_of_reply_def obj_get_or_def)
  then obtain cs1 where cs1: "get_relevant_schema (recorded demo_env) [1] token ''db'' (0, cs) = (Inr (JStr ''T(id)''), 0, cs1)"
    by blast
  obtain cs2 where cs2: "generate_sql_with_llm (recorded demo_env) ''q'' (JStr ''T(id)'') [] (0, cs1) = (Inr ''select t.id from T'', 2, cs2)"
    using demo_generated by blast
  have exec: "\<exists>cs3. execute_sql (recorded demo_env) ''select t.id from T'' token ''db'' (2, cs2) = (Inr (JArr [JObj [(''id'', JInt 7)]]), 2, cs3)"
    by (simp add: execute_sql_def execute_post_def demo_posts rows_of_reply_def obj_get_or_def)
  then obtain cs3 where cs3: "execute_sql (recorded demo_env) ''select t.id from T'' token ''db'' (2, cs2) = (Inr (JArr [JObj [(''id'', JInt 7)]]), 2, cs3)"
    by blast
  have "[1..<Suc MAX_EXECUTION_ATTEMPTS] = 1 # [2, 3]"
    by (simp add: MAX_EXECUTION_ATTEMPTS_def upt_rec)
  then show ?thesis
    unfolding generate_sql_from_text_def by (simp add: cs cs1 cs2 cs3 answer_of_def)
qed

lemma text_to_sql_sends_only_prechecked_witness:
  "\<exists>res calls stmts. generate_sql_from_text (recorded demo_env) ''q'' True JNull ''db'' (0, []) = (res, 2, calls) \<and>
     list_all (plausible_statement (te_parsers demo_env)) stmts \<and> last stmts = ''select t.id from T''"
proof -
  from demo_conversion obtain res calls where run:
    "generate_sql_from_text (recorded demo_env) ''q'' True JNull ''db'' (0, []) = (res, 2, calls)"
    "res = [(''sql'', JStr ''select t.id from T''), (''schema'', JStr ''T(id)''), (''results'', JArr [JObj [(''id'', JInt 7)]])]"
    by blast
  show ?thesis
    using text_to_sql_sends_only_prechecked[OF run(1)] run by auto
qed

lemma text_to_sql_calls_bounded_witness:
  "\<exists>res calls. generate_sql_from_text (recorded demo_env) ''q'' True JNull ''db'' (0, []) = (res, 2, calls) \<and> chats_in calls \<le> 6"
proof -
  from demo_conversion obtain res calls where run:
    "generate_sql_from_text (recorded demo_env) ''q'' True JNull ''db'' (0, []) = (res, 2, calls)"
    by blast
  show ?thesis
    using text_to_sql_calls_bounded[OF run] run by (auto simp: demo_env_simps)
qed

end
