(* ===== verification/User_Routes.thy ===== *)
theory User_Routes
  imports Browser_Auth Text_To_Sql
begin

text \<open>
  auth0\_api/app/routes/user\_routes.py: the calls of a signed-in browser. The user record, the
  administrator's overview with the usage numbers of its own organization, the dashboard with its
  optional greeting, and the text-to-SQL call over the service of the previous theory. Prometheus is
  an argument, \<open>number_of_text\<close> is \<open>int(float(x))\<close> with \<open>None\<close> for an exception.
\<close>

subsection \<open>The user of a request\<close>

definition get_authenticated_user ::
    "('r, 't, 'z) redis_ops_scheme \<Rightarrow> 'r session_store \<Rightarrow> real \<Rightarrow> obj \<Rightarrow> (exn + json) \<times> 'r session_store" where
  "get_authenticated_user ops st now session =
     (case get_authenticated_session ops st now session of
        (Inl e, st') \<Rightarrow> (Inl e, st')
      | (Inr None, st') \<Rightarrow> (Inr JNull, st')
      | (Inr (Some d), st') \<Rightarrow> (Inr (obj_get d ''user''), st'))"

definition json_answer :: "nat \<Rightarrow> obj \<Rightarrow> web_reply" where
  "json_answer status body = \<lparr>wr_status = status, wr_body = body, wr_cookies = []\<rparr>"

definition not_authenticated :: web_reply where
  "not_authenticated = error_reply 401 ''Not authenticated'' None"

text \<open>The continuation runs for a user that is a dictionary; the log line of each route reads its email, so
  any other truthy user raises there.\<close>

definition with_user ::
    "(exn + json) \<times> 'r session_store \<Rightarrow> (obj \<Rightarrow> exn + web_reply) \<Rightarrow> (exn + web_reply) \<times> 'r session_store" where
  "with_user u k =
     (case u of
        (Inl e, st) \<Rightarrow> (Inl e, st)
      | (Inr user, st) \<Rightarrow>
          (if \<not> truthy user then (Inr not_authenticated, st)
           else (case user of JObj d \<Rightarrow> (k d, st) | _ \<Rightarrow> (Inl (AttributeError ''get''), st))))"

definition get_user ::
    "('r, 't, 'z) redis_ops_scheme \<Rightarrow> 'r session_store \<Rightarrow> real \<Rightarrow> browser_request \<Rightarrow> (exn + web_reply) \<times> 'r session_store" where
  "get_user ops st now rq =
     with_user (get_authenticated_user ops st now (br_session rq)) (\<lambda>user. Inr (json_answer 200 user))"

subsection \<open>Usage of an organization\<close>

definition usage_of :: "json \<Rightarrow> json \<Rightarrow> string \<Rightarrow> obj" where
  "usage_of queries rows source =
     [(''queries_total'', queries), (''rows_returned_total'', rows), (''source'', JStr source)]"

definition org_id_rx :: rx where
  "org_id_rx = rx_plus (\<lambda>c. is_ascii_alpha c \<or> is_digit c \<or> c = CHR ''_'' \<or> c = CHR ''-'')"

definition safe_org_id :: "string \<Rightarrow> string" where
  "safe_org_id org_id = replace_char CHR 0x22 [CHR 0x5C, CHR 0x22] (replace_char CHR 0x5C [CHR 0x5C, CHR 0x5C] org_id)"

definition hex_digit :: "nat \<Rightarrow> char" where
  "hex_digit n = (if n < 10 then char_of (48 + n) else char_of (55 + n))"

definition quote_safe :: "char \<Rightarrow> bool" where
  "quote_safe c \<longleftrightarrow> is_ascii_alpha c \<or> is_digit c \<or> c \<in> {CHR ''_'', CHR ''.'', CHR ''-'', CHR ''~'', CHR ''/''}"

text \<open>\<open>urllib.parse.quote\<close> of an ASCII text\<close>

definition url_quote :: "string \<Rightarrow> string" where
  "url_quote s =
     concat (map (\<lambda>c. if quote_safe c then [c] else [CHR ''%'', hex_digit (py_ord c div 16), hex_digit (py_ord c mod 16)]) s)"

definition promql :: "string \<Rightarrow> string \<Rightarrow> string" where
  "promql metric org_id = metric @ ''{org_id='' @ quoted (safe_org_id org_id) @ ''}''"

definition prometheus_url :: "string \<Rightarrow> string \<Rightarrow> string \<Rightarrow> string" where
  "prometheus_url base metric org_id = base @ ''/api/v1/query?query='' @ url_quote (promql metric org_id)"

text \<open>\<open>payload.get("data", {}).get("result", [])\<close>; \<open>None\<close> is an exception.\<close>

definition result_of_payload :: "json \<Rightarrow> json option" where
  "result_of_payload payload =
     (case payload of
        JObj d \<Rightarrow> (case obj_get_or d ''data'' (JObj []) of JObj e \<Rightarrow> Some (obj_get_or e ''result'' (JArr [])) | _ \<Rightarrow> None)
      | _ \<Rightarrow> None)"

text \<open>\<open>int(float(item.get("value", [0, 0])[1]))\<close>\<close>

definition sample_value :: "(json \<Rightarrow> int option) \<Rightarrow> json \<Rightarrow> int option" where
  "sample_value number_of_text item =
     (case item of
        JObj d \<Rightarrow> (case obj_get_or d ''value'' (JArr [JInt 0, JInt 0]) of
             JArr (_ # v # _) \<Rightarrow> number_of_text v
           | JStr (_ # c # _) \<Rightarrow> number_of_text (JStr [c])
           | _ \<Rightarrow> None)
      | _ \<Rightarrow> None)"

definition first_sample :: "(json \<Rightarrow> int option) \<Rightarrow> json \<Rightarrow> int option" where
  "first_sample number_of_text result =
     (if \<not> truthy result then Some 0
      else case result of JArr (item # _) \<Rightarrow> sample_value number_of_text item | _ \<Rightarrow> None)"

fun sum_samples :: "(json \<Rightarrow> int option) \<Rightarrow> int \<Rightarrow> json list \<Rightarrow> int option" where
  "sum_samples number_of_text acc [] = Some acc"
| "sum_samples number_of_text acc (item # items) =
     (case sample_value number_of_text item of
        None \<Rightarrow> None
      | Some v \<Rightarrow> sum_samples number_of_text (acc + v) items)"

definition usage_from_replies ::
    "(json \<Rightarrow> int option) \<Rightarrow> json option \<Rightarrow> json option \<Rightarrow> obj" where
  "usage_from_replies number_of_text queries rows =
     (let unavailable = usage_of (JInt 0) (JInt 0) ''unavailable'' in
      case queries of
        None \<Rightarrow> unavailable
      | Some q \<Rightarrow>
          (case Option.bind (result_of_payload q) (first_sample number_of_text) of
             None \<Rightarrow> unavailable
           | Some queries_total \<Rightarrow>
               (case Option.bind rows result_of_payload of
                  None \<Rightarrow> unavailable
                | Some r \<Rightarrow>
                    (case py_iter r of
                       Inl _ \<Rightarrow> unavailable
                     | Inr items \<Rightarrow>
                         (case sum_samples number_of_text 0 items of
                            None \<Rightarrow> unavailable
                          | Some total_rows \<Rightarrow> usage_of (JInt queries_total) (JInt total_rows) ''prometheus'')))))"

text \<open>\<open>fetch\<close> is the decoded answer for an address, \<open>None\<close> an exception.\<close>

definition fetch_usage_summary :: "(json \<Rightarrow> int option) \<Rightarrow> (string \<Rightarrow> json option) \<Rightarrow> string \<Rightarrow> string \<Rightarrow> obj" where
  "fetch_usage_summary number_of_text fetch base org_id =
     (if org_id = [] then usage_of (JInt 0) (JInt 0) ''no-org''
      else if \<not> rx_fullmatch org_id_rx org_id then usage_of (JInt 0) (JInt 0) ''invalid-org''
      else usage_from_replies number_of_text (fetch (prometheus_url base ''sql_query_total'' org_id))
             (fetch (prometheus_url base ''sql_query_rows_returned_bucket'' org_id)))"

definition overview_of :: "obj \<Rightarrow> string \<Rightarrow> web_reply" where
  "overview_of usage org_id =
     json_answer 200 [(''org_id'', JStr org_id), (''organizations'', JArr [JStr org_id]), (''usage'', JObj usage),
       (''source'', JStr (if obj_get usage ''source'' = JStr ''prometheus'' then ''prometheus'' else ''config''))]"

definition get_admin_overview ::
    "(json \<Rightarrow> string) \<Rightarrow> (string \<Rightarrow> obj) \<Rightarrow> ('r, 't, 'z) redis_ops_scheme \<Rightarrow> 'r session_store \<Rightarrow> real \<Rightarrow> browser_request
      \<Rightarrow> (exn + web_reply) \<times> 'r session_store" where
  "get_admin_overview rep usage ops st now rq =
     with_user (get_authenticated_user ops st now (br_session rq)) (\<lambda>user.
       bind_result (is_admin rep user) (\<lambda>admin.
         Inr (if \<not> admin then error_reply 403 ''Administrator role required'' None
              else case obj_get user ''org_id'' of
                     JStr org_id \<Rightarrow>
                       if py_strip org_id = [] then error_reply 403 ''Organisation claim required'' None
                       else overview_of (usage org_id) org_id
                   | _ \<Rightarrow> error_reply 403 ''Organisation claim required'' None)))"

subsection \<open>Dashboard\<close>

definition default_greeting :: string where
  "default_greeting = ''Welcome back! You are successfully authenticated.''"

definition greeting_prompt :: "(json \<Rightarrow> string) \<Rightarrow> obj \<Rightarrow> string" where
  "greeting_prompt rep user =
     ''In 1 line, generate a thoughtful informal quote of the day for '' @ py_str rep (obj_get user ''name'') @ ''.''"

definition dashboard_message :: "json \<Rightarrow> string" where
  "dashboard_message message = (case reply_text message of Some t \<Rightarrow> t | None \<Rightarrow> default_greeting)"

text \<open>Validation by \<open>DashboardResponse\<close>: two texts and an optional one.\<close>

definition dashboard_response :: "obj \<Rightarrow> string \<Rightarrow> exn + obj" where
  "dashboard_response user message =
     (case (obj_get user ''email'', obj_get user ''name'') of
        (JStr e, JStr n) \<Rightarrow>
          if is_str (obj_get user ''org_id'') \<or> obj_get user ''org_id'' = JNull
          then Inr [(''email'', JStr e), (''name'', JStr n), (''org_id'', obj_get user ''org_id''), (''message'', JStr message)]
          else Inl (ValueError ''ValidationError'')
      | _ \<Rightarrow> Inl (ValueError ''ValidationError''))"

text \<open>\<open>greet\<close> is the call of the language model with the user's prompt; an exception counts as no message.\<close>

definition get_dashboard ::
    "(json \<Rightarrow> string) \<Rightarrow> bool \<Rightarrow> (string \<Rightarrow> service_exn + string option) \<Rightarrow> ('r, 't, 'z) redis_ops_scheme \<Rightarrow> 'r session_store
      \<Rightarrow> real \<Rightarrow> browser_request \<Rightarrow> (exn + web_reply) \<times> 'r session_store" where
  "get_dashboard rep greeting_enabled greet ops st now rq =
     with_user (get_authenticated_user ops st now (br_session rq)) (\<lambda>user.
       let message = (if greeting_enabled
                      then (case greet (greeting_prompt rep user) of Inr (Some t) \<Rightarrow> JStr t | _ \<Rightarrow> JNull) else JNull)
       in bind_result (dashboard_response user (dashboard_message message)) (\<lambda>body. Inr (json_answer 200 body)))"

subsection \<open>Text to SQL\<close>

record t2s_request =
  tr_query :: string
  tr_execute :: bool
  tr_database_id :: string

definition t2s_error_reply :: "('w, 'z) t2s_env_scheme \<Rightarrow> obj \<Rightarrow> web_reply" where
  "t2s_error_reply env res =
     (case obj_get res ''error'' of
        JStr m \<Rightarrow>
          json_answer (if str_contains ''validation'' (py_lower m) \<or> str_contains ''SQL validation'' m then 400 else 500)
            [(''error'', JStr m), (''sql'', obj_get res ''sql'')]
      | e \<Rightarrow> error_reply 500 (''Failed to process text-to-SQL request: '' @ te_crash_text env e) None)"

definition t2s_reply :: "('w, 'z) t2s_env_scheme \<Rightarrow> bool \<Rightarrow> obj \<Rightarrow> web_reply" where
  "t2s_reply env execute res =
     (if dict_has res ''error'' then t2s_error_reply env res
      else json_answer 200
        [(''sql'', obj_get res ''sql''), (''results'', if execute then obj_get res ''results'' else JNull),
         (''schema'', obj_get res ''schema'')])"

text \<open>The state is the session store and the world of the services.\<close>

definition text_to_sql ::
    "(string \<Rightarrow> bool) \<Rightarrow> auth_settings \<Rightarrow> ('r, 't, 'z) redis_ops_scheme \<Rightarrow> ('w, 'y) t2s_env_scheme \<Rightarrow> real
      \<Rightarrow> browser_request \<Rightarrow> t2s_request \<Rightarrow> 'r session_store \<times> 'w \<Rightarrow> (exn + web_reply) \<times> 'r session_store \<times> 'w" where
  "text_to_sql ip_ok s ops env now rq body stw =
     (case stw of (st, w) \<Rightarrow>
        (case get_authenticated_session ops st now (br_session rq) of
           (Inl e, st') \<Rightarrow> (Inl e, st', w)
         | (Inr session, st') \<Rightarrow>
             let user = (case session of None \<Rightarrow> JNull | Some d \<Rightarrow> obj_get d ''user'');
                 token = (case session of None \<Rightarrow> JNull | Some d \<Rightarrow> obj_get d ''access_token'') in
             if \<not> truthy user then (Inr not_authenticated, st', w)
             else (case csrf_failure_reason (te_rep env) ip_ok s rq session of
                     Some reason \<Rightarrow> (Inr (error_reply 403 reason None), st', w)
                   | None \<Rightarrow>
                       if tr_query body = [] \<or> py_strip (tr_query body) = []
                       then (Inr (error_reply 400 ''Query cannot be empty'' None), st', w)
                       else (case user of
                               JObj _ \<Rightarrow>
                                 (case generate_sql_from_text env (py_strip (tr_query body)) (tr_execute body) token
                                         (tr_database_id body) w of
                                    (res, w') \<Rightarrow> (Inr (t2s_reply env (tr_execute body) res), st', w'))
                             | _ \<Rightarrow> (Inl (AttributeError ''get''), st', w)))))"

subsection \<open>Properties\<close>

lemma authenticated_session_cases:
  assumes "get_authenticated_session ops st now session = (Inr (Some d), st')"
  shows "get_session ops st now (obj_get session ''session_id'') = (Inr (Some d), st') \<or> d = [(''user'', obj_get session ''user'')]"
  using assms unfolding get_authenticated_session_def
  by (auto split: prod.splits sum.splits option.splits list.splits if_splits)

lemma text_to_sql_cases:
  assumes "text_to_sql ip_ok s ops env now rq body (st, w) = (r, st', w')"
  shows "(w' = w \<and> (\<forall>rep. r = Inr rep \<longrightarrow> wr_status rep \<in> {400, 401, 403})) \<or>
    (\<exists>d res. get_authenticated_session ops st now (br_session rq) = (Inr (Some d), st') \<and>
       csrf_failure_reason (te_rep env) ip_ok s rq (Some d) = None \<and>
       generate_sql_from_text env (py_strip (tr_query body)) (tr_execute body) (obj_get d ''access_token'') (tr_database_id body) w = (res, w') \<and>
       r = Inr (t2s_reply env (tr_execute body) res))"
proof -
  obtain a st1 where a: "get_authenticated_session ops st now (br_session rq) = (a, st1)"
    by fastforce
  note go = assms[unfolded text_to_sql_def Let_def prod.case a]
  show ?thesis
  proof (cases "\<exists>d u. a = Inr (Some d) \<and> obj_get d ''user'' = JObj u \<and> u \<noteq> [] \<and>
      csrf_failure_reason (te_rep env) ip_ok s rq (Some d) = None \<and> py_strip (tr_query body) \<noteq> []")
    case True
    then obtain d u where d: "a = Inr (Some d)" "obj_get d ''user'' = JObj u" "u \<noteq> []"
      "csrf_failure_reason (te_rep env) ip_ok s rq (Some d) = None" "py_strip (tr_query body) \<noteq> []"
      by blast
    have "tr_query body \<noteq> []"
      using d(5) by auto
    then show ?thesis
      using go d a by (auto split: prod.splits)
  next
    case False
    then show ?thesis
      using go by (auto simp: not_authenticated_def split: sum.splits option.splits if_splits json.splits prod.splits)
  qed
qed

text \<open>The services behind text-to-SQL are reached only for a guarded browser request: with a signed-in user,
  the browser marker, an allowed origin and the CSRF token of the live server-side session. Each
  request to the SQL service then carries the access token of exactly that session; otherwise the
  providers and the SQL service are not called at all and the answer is 400, 401 or 403.\<close>

theorem text_to_sql_acts_for_session:
  assumes "text_to_sql ip_ok s ops (recorded env) now rq body (st, w, []) = (r, st', w', calls)"
  shows "(calls = [] \<and> (\<forall>rep. r = Inr rep \<longrightarrow> wr_status rep \<in> {400, 401, 403})) \<or>
    (\<exists>d csrf. get_session ops st now (obj_get (br_session rq) ''session_id'') = (Inr (Some d), st') \<and>
       dict_get (br_headers rq) ''x-requested-with'' = Some ''XMLHttpRequest'' \<and> request_origin_is_allowed ip_ok s rq \<and>
       csrf \<noteq> [] \<and> py_str (te_rep env) (obj_get d ''csrf_token'') = csrf \<and> csrf_cookie s rq = csrf \<and>
       dict_get (br_headers rq) ''x-csrf-token'' = Some csrf \<and>
       list_all (\<lambda>p. hp_url p = te_url env \<and>
         hp_headers p = api_headers (te_correlation_id env) (obj_get d ''access_token'') (te_rep env)) (posts_of calls))"
proof -
  from text_to_sql_cases[OF assms] show ?thesis
  proof (elim disjE exE conjE)
    fix d res
    assume d: "get_authenticated_session ops st now (br_session rq) = (Inr (Some d), st')"
      "csrf_failure_reason (te_rep (recorded env)) ip_ok s rq (Some d) = None"
      "generate_sql_from_text (recorded env) (py_strip (tr_query body)) (tr_execute body) (obj_get d ''access_token'')
         (tr_database_id body) (w, []) = (res, w', calls)"
    obtain t where t: "obj_get d ''csrf_token'' \<noteq> JNull" "py_str (te_rep env) (obj_get d ''csrf_token'') = t" "t \<noteq> []"
      "csrf_cookie s rq = t" "dict_get (br_headers rq) ''x-csrf-token'' = Some t"
      "dict_get (br_headers rq) ''x-requested-with'' = Some ''XMLHttpRequest''" "request_origin_is_allowed ip_ok s rq"
      using csrf_passed[OF d(2)] by auto
    have "d \<noteq> [(''user'', obj_get (br_session rq) ''user'')]"
      using t(1) by auto
    then have "get_session ops st now (obj_get (br_session rq) ''session_id'') = (Inr (Some d), st')"
      using authenticated_session_cases[OF d(1)] by blast
    then show ?thesis
      using t generate_posts_own[OF d(3)] by blast
  qed auto
qed

lemma demo_text_to_sql:
  "\<exists>calls. text_to_sql (\<lambda>_. False) demo_settings timed_redis (recorded demo_env) 1 demo_request
       \<lparr>tr_query = ''q'', tr_execute = True, tr_database_id = ''db''\<rparr> (demo_store, 0, []) =
     (Inr (json_answer 200 [(''sql'', JStr ''select t.id from T''), (''results'', JArr [JObj [(''id'', JInt 7)]]),
        (''schema'', JStr ''T(id)'')]), demo_store, 2, calls)"
proof -
  have user: "obj_get demo_payload ''user'' = demo_user" "truthy demo_user" "demo_user = JObj [(''id'', JStr ''u1'')]"
    by (simp_all add: demo_payload_def session_payload_def demo_user_def)
  have csrf: "csrf_failure_reason (te_rep demo_env) (\<lambda>_. False) demo_settings demo_request (Some demo_payload) = None"
    using demo_csrf by (simp add: demo_env_def)
  have q: "py_strip ''q'' = ''q''"
    by code_simp
  from demo_conversion[of "JStr ''tok''"] obtain calls where run:
    "generate_sql_from_text (recorded demo_env) ''q'' True (JStr ''tok'') ''db'' (0, []) =
      ([(''sql'', JStr ''select t.id from T''), (''schema'', JStr ''T(id)''), (''results'', JArr [JObj [(''id'', JInt 7)]])], 2, calls)"
    by blast
  show ?thesis
    unfolding text_to_sql_def prod.case demo_authenticated
    by (simp add: user csrf q demo_payload_simps run t2s_reply_def dict_has_def)
qed

lemma text_to_sql_acts_for_session_witness:
  "\<exists>calls. snd (snd (snd (text_to_sql (\<lambda>_. False) demo_settings timed_redis (recorded demo_env) 1 demo_request
       \<lparr>tr_query = ''q'', tr_execute = True, tr_database_id = ''db''\<rparr> (demo_store, 0, [])))) = calls \<and>
     list_all (\<lambda>p. dict_get (hp_headers p) ''Authorization'' = Some ''Bearer tok'') (posts_of calls)"
proof -
  obtain calls where run: "text_to_sql (\<lambda>_. False) demo_settings timed_redis (recorded demo_env) 1 demo_request
       \<lparr>tr_query = ''q'', tr_execute = True, tr_database_id = ''db''\<rparr> (demo_store, 0, []) =
     (Inr (json_answer 200 [(''sql'', JStr ''select t.id from T''), (''results'', JArr [JObj [(''id'', JInt 7)]]),
        (''schema'', JStr ''T(id)'')]), demo_store, 2, calls)"
    using demo_text_to_sql by blast
  have "list_all (\<lambda>p. hp_headers p = api_headers (te_correlation_id demo_env) (JStr ''tok'') (te_rep demo_env)) (posts_of calls)"
    using text_to_sql_acts_for_session[OF run]
    by (auto simp: json_answer_def demo_request_simps demo_session demo_payload_simps list_all_iff)
  then show ?thesis
    using run by (auto simp: list_all_iff api_headers_def)
qed

subsection \<open>The administrator's overview\<close>

text \<open>The overview is shown to administrators only, and shows the organization of their own session.\<close>

lemma overview_own_organization:
  assumes "get_admin_overview rep usage ops st now rq = (Inr r, st')" and "wr_status r = 200"
  shows "\<exists>user org_id. get_authenticated_user ops st now (br_session rq) = (Inr (JObj user), st') \<and>
    is_admin rep user = Inr True \<and> obj_get user ''org_id'' = JStr org_id \<and> py_strip org_id \<noteq> [] \<and>
    r = overview_of (usage org_id) org_id"
proof -
  obtain u st1 where u: "get_authenticated_user ops st now (br_session rq) = (u, st1)"
    by fastforce
  obtain user where user: "u = Inr (JObj user)" "user \<noteq> []"
    using assms u by (cases u) (auto simp: get_admin_overview_def with_user_def not_authenticated_def split: if_splits json.splits)
  obtain b where b: "is_admin rep user = Inr b"
    using assms(1) u user by (cases "is_admin rep user") (auto simp: get_admin_overview_def with_user_def)
  note go = assms(1)[unfolded get_admin_overview_def with_user_def u prod.case user sum.case b bind_result.simps]
  show ?thesis
    using go assms(2) u user b by (cases "obj_get user ''org_id''") (auto split: if_splits)
qed

text \<open>The address asked of Prometheus holds the organization as it is: no quote, brace or blank can be injected.\<close>

lemma org_id_chars:
  assumes "list_all (\<lambda>c. is_ascii_alpha c \<or> is_digit c \<or> c = CHR ''_'' \<or> c = CHR ''-'') org_id"
  shows "safe_org_id org_id = org_id \<and> url_quote org_id = org_id"
proof -
  have "\<not> is_ascii_alpha CHR 0x22" "\<not> is_digit CHR 0x22" "\<not> is_ascii_alpha CHR 0x5C" "\<not> is_digit CHR 0x5C"
    by code_simp+
  then have "CHR 0x22 \<notin> set org_id" "CHR 0x5C \<notin> set org_id"
    using assms by (auto simp: list_all_iff)
  moreover have "url_quote org_id = org_id"
    using assms by (induction org_id) (auto simp: url_quote_def quote_safe_def)
  ultimately show ?thesis
    by (simp add: safe_org_id_def replace_char_absent)
qed

end
