(* ===== verification/Auth_App.thy ===== *)
theory Auth_App
  imports User_Routes Secrets
begin

text \<open>
  The application of auth0\_api: its settings (config/settings.py), its mTLS client (utils/mtls\_client.py), its
  OAuth registration (auth/oauth.py) and its middlewares with their order (config/logging.py,
  middleware/setup.py, factory.py). The CORS and session middlewares of the framework are parameters
  of the stack. The process-wide settings object is built once from an \<open>os_state\<close>.
\<close>

subsection \<open>Settings\<close>

record app_settings =
  st_log_level :: string
  st_app_secret_key :: string
  st_session_max_age :: int
  st_cookie_secure :: bool
  st_auth0_domain :: string
  st_auth0_client_id :: string
  st_auth0_client_secret :: string
  st_auth0_audience :: string
  st_frontend_url :: string
  st_react_app_url :: string
  st_redirect_uri :: string
  st_session_store :: string
  st_redis_url :: string
  st_openrouter_api_key :: string
  st_ai_model :: string
  st_ai_base_url :: string
  st_ai_disable_reasoning :: bool
  st_gemini_api_key :: string
  st_embedding_model :: string
  st_embedding_dimensions :: int
  st_sql_query_api_url :: string
  st_prometheus_url :: string
  st_enable_greeting :: bool
  st_allowed_origins :: "string list"
  st_org_db_connections :: "(string, string) dict"

text \<open>\<open>fresh\<close> is the random key of a development process.\<close>

definition get_app_secret_key :: "os_state \<Rightarrow> string \<Rightarrow> exn + string" where
  "get_app_secret_key os fresh =
     bind_result (read_secret os ''APP_SECRET_KEY'' (is_environment_production os) []) (\<lambda>raw.
       Inr (if raw \<noteq> [] then raw else if \<not> is_environment_production os then fresh else []))"

definition switched_on :: "string \<Rightarrow> bool" where
  "switched_on v \<longleftrightarrow> py_lower (py_strip v) \<in> {''1'', ''true'', ''yes''}"

definition switched_off :: "string \<Rightarrow> bool" where
  "switched_off v \<longleftrightarrow> py_lower (py_strip v) \<in> {''0'', ''false'', ''no'', ''off''}"

definition first_text :: "string list \<Rightarrow> string" where
  "first_text vs = (case filter (\<lambda>v. v \<noteq> []) vs of [] \<Rightarrow> [] | v # _ \<Rightarrow> v)"

definition auth0_audience :: "os_state \<Rightarrow> exn + string" where
  "auth0_audience os =
     (let direct = first_text [getenv os ''AUTH0_AUDIENCE'' [], getenv os ''AUTH0_API_AUDIENCE'' []]
      in if direct \<noteq> [] then Inr direct else read_secret os ''AUTH0_AUDIENCE'' (is_environment_production os) [])"

definition allowed_origins_setting :: "os_state \<Rightarrow> string list" where
  "allowed_origins_setting os =
     (let cors = getenv os ''CORS_ORIGINS'' []
      in if cors \<noteq> [] then map py_strip (split_on CHR '','' cors)
         else [''http://localhost:5173'', ''http://localhost:3000'', ''http://127.0.0.1:5173''])"

definition redirect_uri_setting :: "(string \<Rightarrow> bool) \<Rightarrow> os_state \<Rightarrow> string \<Rightarrow> string \<Rightarrow> exn + string" where
  "redirect_uri_setting ip_ok os react_url frontend_url =
     (let configured = py_strip (getenv os ''OAUTH_REDIRECT_URI'' [])
      in if configured \<noteq> [] then Inr configured
         else bind_result (derive_frontend_origin ip_ok react_url frontend_url) (\<lambda>origin.
           Inr (rstrip_by (\<lambda>c. c = CHR ''/'') origin @ ''/auth'')))"

definition org_connections_setting :: "(json \<Rightarrow> string) \<Rightarrow> (string \<Rightarrow> json option) \<Rightarrow> os_state \<Rightarrow> (string, string) dict" where
  "org_connections_setting rep loads os =
     (let raw = getenv os ''ORG_DB_CONNECTIONS'' [] in
      if py_strip raw = [] then []
      else case loads raw of Some (JObj d) \<Rightarrow> map (\<lambda>(k, v). (k, py_str rep v)) d | _ \<Rightarrow> [])"

text \<open>The class body first, in its order, then the constructor.\<close>

definition settings_from_environment ::
    "(json \<Rightarrow> string) \<Rightarrow> (string \<Rightarrow> json option) \<Rightarrow> (string \<Rightarrow> bool) \<Rightarrow> os_state \<Rightarrow> string \<Rightarrow> exn + app_settings" where
  "settings_from_environment rep loads ip_ok os fresh =
     (let production = is_environment_production os; secret = (\<lambda>name. read_secret os name production []);
          optional = (\<lambda>name. read_secret os name False []) in
      bind_result (get_app_secret_key os fresh) (\<lambda>secret_key.
      bind_result (env_int os ''SESSION_MAX_AGE'' ''1800'') (\<lambda>max_age.
      bind_result (secret ''AUTH0_DOMAIN'') (\<lambda>domain.
      bind_result (secret ''AUTH0_CLIENT_ID'') (\<lambda>client_id.
      bind_result (secret ''AUTH0_CLIENT_SECRET'') (\<lambda>client_secret.
      bind_result (auth0_audience os) (\<lambda>audience.
      bind_result (optional ''FRONTEND_URL'') (\<lambda>frontend_url.
      bind_result (optional ''REACT_APP_URL'') (\<lambda>react_url.
      bind_result (optional ''OPENROUTER_API_KEY'') (\<lambda>openrouter_key.
      bind_result (optional ''AI_MODEL'') (\<lambda>model.
      bind_result (optional ''GEMINI_API_KEY'') (\<lambda>gemini_key.
      bind_result (optional ''EMBEDDING_MODEL'') (\<lambda>embedding_model.
      bind_result (env_int os ''EMBEDDING_DIMENSIONS'' ''768'') (\<lambda>dimensions.
      bind_result (read_secret os ''SQL_QUERY_API_URL'' False ''http://localhost:8002/graphql'') (\<lambda>sql_url.
      bind_result (redirect_uri_setting ip_ok os react_url frontend_url) (\<lambda>redirect_uri.
      Inr \<lparr>st_log_level = py_upper (getenv os ''AUTH_LOG_LEVEL'' ''INFO''), st_app_secret_key = secret_key,
         st_session_max_age = max_age,
         st_cookie_secure = switched_on (getenv os ''SESSION_COOKIE_SECURE'' (if production then ''true'' else ''false'')),
         st_auth0_domain = domain, st_auth0_client_id = client_id, st_auth0_client_secret = client_secret,
         st_auth0_audience = audience, st_frontend_url = frontend_url, st_react_app_url = react_url,
         st_redirect_uri = redirect_uri,
         st_session_store = py_lower (py_strip (getenv os ''SESSION_STORE'' ''memory'')),
         st_redis_url = py_strip (getenv os ''REDIS_URL'' []),
         st_openrouter_api_key = openrouter_key, st_ai_model = model,
         st_ai_base_url = getenv os ''AI_BASE_URL'' ''https://openrouter.ai/api/v1'',
         st_ai_disable_reasoning = (\<not> switched_off (getenv os ''AI_DISABLE_REASONING'' ''true'')),
         st_gemini_api_key = gemini_key, st_embedding_model = embedding_model, st_embedding_dimensions = dimensions,
         st_sql_query_api_url = sql_url,
         st_prometheus_url = getenv os ''GRAFANA_PROMETHEUS_URL'' ''http://localhost:9090'',
         st_enable_greeting = (\<not> switched_off (getenv os ''ENABLE_AI_GREETING'' ''true'')),
         st_allowed_origins = allowed_origins_setting os,
         st_org_db_connections = org_connections_setting rep loads os\<rparr>))))))))))))))))"

definition org_id_claim :: string where
  "org_id_claim = ''https://app.secure-db-access-gateway.org/tenant_id''"

text \<open>What the routes read of the settings.\<close>

definition auth_settings_of :: "app_settings \<Rightarrow> auth_settings" where
  "auth_settings_of s =
     \<lparr>as_cookie_secure = st_cookie_secure s, as_allowed_origins = st_allowed_origins s, as_react_app_url = st_react_app_url s,
      as_frontend_url = st_frontend_url s, as_session_max_age = st_session_max_age s, as_domain = st_auth0_domain s,
      as_client_id = st_auth0_client_id s, as_client_secret = st_auth0_client_secret s, as_org_id_claim = org_id_claim,
      as_redirect_uri = st_redirect_uri s, as_sql_query_api_url = st_sql_query_api_url s\<rparr>"

definition ai_settings_of :: "app_settings \<Rightarrow> ai_settings" where
  "ai_settings_of s =
     \<lparr>ai_model = st_ai_model s, ai_max_tokens = 300, ai_retries = 3, ai_backoff_base = 2,
      ai_disable_reasoning = st_ai_disable_reasoning s, ai_embedding_model = st_embedding_model s,
      ai_embedding_dimensions = st_embedding_dimensions s\<rparr>"

subsection \<open>Clients\<close>

record mtls_config =
  mt_enabled :: bool
  mt_cert_path :: string
  mt_key_path :: string
  mt_ca_path :: string
  mt_verify :: bool

definition env_or_secret :: "os_state \<Rightarrow> string \<Rightarrow> exn + string" where
  "env_or_secret os name =
     (if getenv os name [] \<noteq> [] then Inr (getenv os name []) else read_secret os name False [])"

definition mtls_config_from_environment :: "os_state \<Rightarrow> string \<Rightarrow> exn + mtls_config" where
  "mtls_config_from_environment os service =
     bind_result (env_or_secret os (service @ ''_MTLS_CERT_PATH'')) (\<lambda>cert.
     bind_result (env_or_secret os (service @ ''_MTLS_KEY_PATH'')) (\<lambda>key.
     bind_result (env_or_secret os (service @ ''_MTLS_CA_PATH'')) (\<lambda>ca.
       Inr \<lparr>mt_enabled = switched_on (getenv os (service @ ''_MTLS_ENABLED'') []), mt_cert_path = cert, mt_key_path = key,
          mt_ca_path = ca,
          mt_verify = (py_lower (py_strip (getenv os (service @ ''_MTLS_VERIFY'') [])) \<notin> {''false'', ''0'', ''no''})\<rparr>)))"

datatype verify_option = Verify_With string | Verify_Switch bool

record client_args =
  ca_base_url :: string
  ca_timeout :: real
  ca_headers :: "(string, string) dict"
  ca_cert :: "(string \<times> string) option"
  ca_verify :: "verify_option option"

definition create_mtls_client ::
    "os_state \<Rightarrow> string \<Rightarrow> real \<Rightarrow> mtls_config option \<Rightarrow> (string, string) dict \<Rightarrow> exn + client_args" where
  "create_mtls_client os base_url timeout given default_headers =
     bind_result (case given of Some c \<Rightarrow> Inr c | None \<Rightarrow> mtls_config_from_environment os ''SQL_QUERY_API'') (\<lambda>c.
       let plain = \<lparr>ca_base_url = base_url, ca_timeout = timeout,
              ca_headers = dict_merge [(''Content-Type'', ''application/json'')] default_headers, ca_cert = None, ca_verify = None\<rparr>
       in if \<not> mt_enabled c then Inr plain
          else if mt_cert_path c = [] \<or> mt_key_path c = []
          then Inl (RuntimeError ''mTLS enabled but cert/key paths not configured'')
          else Inr (plain\<lparr>ca_cert := Some (mt_cert_path c, mt_key_path c),
                 ca_verify := Some (if mt_ca_path c \<noteq> [] then Verify_With (mt_ca_path c) else Verify_Switch (mt_verify c))\<rparr>))"

record oauth_registration =
  oa_client_id :: string
  oa_client_secret :: string
  oa_metadata_url :: string
  oa_client_kwargs :: "(string, string) dict"
  oa_authorize_params :: "(string, string) dict"

definition setup_oauth :: "app_settings \<Rightarrow> oauth_registration" where
  "setup_oauth s =
     (let audience = (if st_auth0_audience s \<noteq> [] then [(''audience'', st_auth0_audience s)] else []) in
      \<lparr>oa_client_id = st_auth0_client_id s, oa_client_secret = st_auth0_client_secret s,
       oa_metadata_url = ''https://'' @ st_auth0_domain s @ ''/.well-known/openid-configuration'',
       oa_client_kwargs = (''scope'', ''openid profile email organizations'') # audience,
       oa_authorize_params = audience\<rparr>)"

subsection \<open>Middlewares\<close>

record app_response =
  ap_reply :: web_reply
  ap_headers :: "(string, string) dict"

text \<open>A layer answers a request over a state and the correlation identifier of the current context.\<close>

type_synonym 's app_layer = "browser_request \<Rightarrow> 's \<times> string \<Rightarrow> (exn + app_response) \<times> 's \<times> string"

definition safe_id_char :: "char \<Rightarrow> bool" where
  "safe_id_char c \<longleftrightarrow> is_ascii_alpha c \<or> is_digit c \<or> c \<in> {CHR ''.'', CHR ''_'', CHR ''-''}"

text \<open>\<open>^[A-Za-z0-9._-]{1,128}$\<close>\<close>

definition safe_id :: "string \<Rightarrow> bool" where
  "safe_id v \<longleftrightarrow> 1 \<le> length v \<and> length v \<le> 128 \<and> list_all safe_id_char v"

definition sanitize_id :: "string option \<Rightarrow> string option" where
  "sanitize_id v = (case v of None \<Rightarrow> None | Some s \<Rightarrow> if safe_id s then Some s else None)"

definition request_correlation_id :: "string \<Rightarrow> browser_request \<Rightarrow> string" where
  "request_correlation_id fresh rq =
     (case sanitize_id (dict_get (br_headers rq) ''x-correlation-id'') of
        Some i \<Rightarrow> i
      | None \<Rightarrow> (case sanitize_id (dict_get (br_headers rq) ''x-request-id'') of Some i \<Rightarrow> i | None \<Rightarrow> fresh))"

definition put_headers :: "(string \<times> string) list \<Rightarrow> app_response \<Rightarrow> app_response" where
  "put_headers hs r = r\<lparr>ap_headers := foldl (\<lambda>d (k, v). dict_set d k v) (ap_headers r) hs\<rparr>"

definition correlation_middleware :: "string \<Rightarrow> 's app_layer \<Rightarrow> 's app_layer" where
  "correlation_middleware fresh call_next rq st =
     (case st of (s, ctx) \<Rightarrow>
        let cid = request_correlation_id fresh rq in
        (case call_next (rq\<lparr>br_correlation_id := Some cid\<rparr>) (s, cid) of
           (Inl e, s', _) \<Rightarrow> (Inl e, s', ctx)
         | (Inr r, s', _) \<Rightarrow> (Inr (put_headers [(''X-Correlation-ID'', cid), (''X-Request-ID'', cid)] r), s', ctx)))"

text \<open>A keyword in single quotes.\<close>

definition sq :: "string \<Rightarrow> string" where
  "sq s = [CHR 0x27] @ s @ [CHR 0x27]"

definition content_security_policy :: string where
  "content_security_policy =
    ''default-src '' @ sq ''self'' @ ''; script-src '' @ sq ''self'' @ ''; worker-src '' @ sq ''self'' @
    ''; style-src '' @ sq ''self'' @ '' '' @ sq ''unsafe-inline'' @ ''; object-src '' @ sq ''none'' @
    ''; base-uri '' @ sq ''none'' @ ''; frame-ancestors '' @ sq ''none'' @ ''; form-action '' @ sq ''self'' @
    ''; connect-src '' @ sq ''self'' @
    '' https://localhost:8443 https://localhost:5173 https://openrouter.ai; img-src '' @ sq ''self'' @
    '' data:; font-src '' @ sq ''self'' @ '' data:; upgrade-insecure-requests''"

definition app_security_headers :: "(string \<times> string) list" where
  "app_security_headers =
     [(''X-Content-Type-Options'', ''nosniff''), (''X-Frame-Options'', ''DENY''),
      (''Content-Security-Policy'', content_security_policy),
      (''Referrer-Policy'', ''strict-origin-when-cross-origin''),
      (''Permissions-Policy'', ''camera=(), microphone=(), geolocation=(), payment=(), usb=(), fullscreen=(self)''),
      (''Cross-Origin-Opener-Policy'', ''same-origin''), (''Cross-Origin-Embedder-Policy'', ''require-corp''),
      (''Cross-Origin-Resource-Policy'', ''same-origin''),
      (''Strict-Transport-Security'', ''max-age=31536000; includeSubDomains; preload'')]"

definition security_middleware :: "'s app_layer \<Rightarrow> 's app_layer" where
  "security_middleware call_next rq st =
     (case call_next rq st of
        (Inl e, st') \<Rightarrow> (Inl e, st')
      | (Inr r, st') \<Rightarrow> (Inr (put_headers app_security_headers r), st'))"

definition session_cookie_name :: "app_settings \<Rightarrow> string" where
  "session_cookie_name s = (if st_cookie_secure s then ''__Host-gateway_session'' else ''gateway_session'')"

record cors_options =
  co_allow_origins :: "string list"
  co_allow_credentials :: bool
  co_allow_methods :: "string list"
  co_allow_headers :: "string list"
  co_expose_headers :: "string list"
  co_max_age :: int

definition cors_options_of :: "(string \<Rightarrow> bool) \<Rightarrow> app_settings \<Rightarrow> cors_options" where
  "cors_options_of ip_ok s =
     \<lparr>co_allow_origins = get_allowed_origins ip_ok (auth_settings_of s), co_allow_credentials = True,
      co_allow_methods = [''GET'', ''POST'', ''OPTIONS''],
      co_allow_headers = [''Content-Type'', ''Authorization'', ''X-Requested-With'', ''X-CSRF-Token'', ''X-Correlation-ID'', ''X-Request-ID''],
      co_expose_headers = [''X-Total-Count'', ''X-Correlation-ID'', ''X-Request-ID''], co_max_age = 3600\<rparr>"

record session_options =
  so_secret_key :: string
  so_cookie :: string
  so_max_age :: int
  so_same_site :: string
  so_https_only :: bool
  so_path :: string

definition session_options_of :: "app_settings \<Rightarrow> session_options" where
  "session_options_of s =
     \<lparr>so_secret_key = st_app_secret_key s, so_cookie = session_cookie_name s, so_max_age = st_session_max_age s,
      so_same_site = ''lax'', so_https_only = st_cookie_secure s, so_path = ''/''\<rparr>"

text \<open>\<open>add_middleware\<close> puts the newest layer outside; \<open>cors\<close> and \<open>sessions\<close> are the framework's.\<close>

definition setup_middlewares ::
    "(string \<Rightarrow> bool) \<Rightarrow> app_settings \<Rightarrow> (cors_options \<Rightarrow> 's app_layer \<Rightarrow> 's app_layer) \<Rightarrow> (session_options \<Rightarrow> 's app_layer \<Rightarrow> 's app_layer)
      \<Rightarrow> string \<Rightarrow> 's app_layer \<Rightarrow> 's app_layer" where
  "setup_middlewares ip_ok s cors sessions fresh routes =
     (let with_session = sessions (session_options_of s) routes;
          with_cors = cors (cors_options_of ip_ok s) with_session;
          with_security = security_middleware with_cors
      in correlation_middleware fresh with_security)"

definition create_app ::
    "(string \<Rightarrow> bool) \<Rightarrow> os_state \<Rightarrow> app_settings \<Rightarrow> (cors_options \<Rightarrow> 's app_layer \<Rightarrow> 's app_layer)
      \<Rightarrow> (session_options \<Rightarrow> 's app_layer \<Rightarrow> 's app_layer) \<Rightarrow> string \<Rightarrow> 's app_layer \<Rightarrow> exn + 's app_layer" where
  "create_app ip_ok os s cors sessions fresh routes =
     bind_result (validate_session_store os) (\<lambda>_. Inr (setup_middlewares ip_ok s cors sessions fresh routes))"

subsection \<open>Properties\<close>

text \<open>A browser service that starts in production is configured: signing key, identity provider, client and
  audience are not empty, sessions are shared through Redis, and unless the operator switched it off
  both cookies are secure ones with the host prefix.\<close>

theorem production_app_configured:
  assumes "settings_from_environment rep loads ip_ok os fresh = Inr s"
    and "create_app ip_ok os s cors sessions cid routes = Inr app" and "is_environment_production os"
  shows "list_all (\<lambda>v. v \<noteq> []) [st_app_secret_key s, st_auth0_domain s, st_auth0_client_id s, st_auth0_client_secret s,
      st_auth0_audience s, st_redis_url s] \<and>
    (dict_get (os_env os) ''SESSION_COOKIE_SECURE'' = None \<longrightarrow>
       so_https_only (session_options_of s) \<and> so_cookie (session_options_of s) = ''__Host-gateway_session'' \<and>
       csrf_cookie_name (auth_settings_of s) = ''__Host-csrf_token'')"
proof -
  have key: "get_app_secret_key os fresh = Inr (st_app_secret_key s)"
    and domain: "read_secret os ''AUTH0_DOMAIN'' True [] = Inr (st_auth0_domain s)"
    and client: "read_secret os ''AUTH0_CLIENT_ID'' True [] = Inr (st_auth0_client_id s)"
    and secret: "read_secret os ''AUTH0_CLIENT_SECRET'' True [] = Inr (st_auth0_client_secret s)"
    and audience: "auth0_audience os = Inr (st_auth0_audience s)"
    and redis: "st_redis_url s = py_strip (getenv os ''REDIS_URL'' [])"
    and secure: "st_cookie_secure s = switched_on (getenv os ''SESSION_COOKIE_SECURE'' ''true'')"
    using assms(1,3) unfolding settings_from_environment_def Let_def
    by (auto simp: bind_result_Inr)
  have keys: "st_app_secret_key s \<noteq> []" "st_auth0_domain s \<noteq> []" "st_auth0_client_id s \<noteq> []" "st_auth0_client_secret s \<noteq> []"
    using key domain client secret assms(3) read_secret_required
    by (auto simp: get_app_secret_key_def bind_result_Inr)
  have "st_auth0_audience s \<noteq> []"
    using audience assms(3) read_secret_required by (auto simp: auth0_audience_def Let_def split: if_splits)
  moreover have "st_redis_url s \<noteq> []"
    using assms(2,3) redis by (auto simp: create_app_def validate_session_store_def bind_result_Inr split: if_splits)
  moreover have "switched_on ''true''"
    by code_simp
  ultimately show ?thesis
    using keys secure
    by (simp add: getenv_def session_options_of_def session_cookie_name_def csrf_cookie_name_def auth_settings_of_def)
qed

lemma dict_get_foldl_set:
  "dict_get (foldl (\<lambda>d (k, v). dict_set d k v) d hs) k =
     (case find (\<lambda>(k', v). k' = k) (rev hs) of Some (k', v) \<Rightarrow> Some v | None \<Rightarrow> dict_get d k)"
  by (induction hs rule: rev_induct) auto

lemma put_headers_get:
  "dict_get (ap_headers (put_headers hs r)) k =
     (case find (\<lambda>(k', v). k' = k) (rev hs) of Some (k', v) \<Rightarrow> Some v | None \<Rightarrow> dict_get (ap_headers r) k)"
  by (simp add: put_headers_def dict_get_foldl_set)

lemma sanitize_id_safe: "sanitize_id v = Some i \<Longrightarrow> safe_id i"
  by (auto simp: sanitize_id_def split: option.splits if_splits)

lemma request_correlation_id_safe: "safe_id fresh \<Longrightarrow> safe_id (request_correlation_id fresh rq)"
  using sanitize_id_safe by (auto simp: request_correlation_id_def split: option.splits)

text \<open>Every answer of the browser service carries the security headers and the correlation identifier the
  routes saw, which is a safe text; the context is as before afterwards, also after an exception.\<close>

lemma app_answers_marked:
  assumes "setup_middlewares ip_ok s cors sessions fresh routes rq (st, ctx) = (res, st', ctx')" and "safe_id fresh"
  shows "ctx' = ctx \<and> safe_id (request_correlation_id fresh rq) \<and>
    (\<forall>r. res = Inr r \<longrightarrow>
       dict_get (ap_headers r) ''X-Correlation-ID'' = Some (request_correlation_id fresh rq) \<and>
       dict_get (ap_headers r) ''X-Request-ID'' = Some (request_correlation_id fresh rq) \<and>
       list_all (\<lambda>(k, v). dict_get (ap_headers r) k = Some v) app_security_headers)"
proof -
  let ?inner = "security_middleware (cors (cors_options_of ip_ok s) (sessions (session_options_of s) routes))"
  let ?cid = "request_correlation_id fresh rq"
  obtain x st1 ctx1 where x: "cors (cors_options_of ip_ok s) (sessions (session_options_of s) routes)
      (rq\<lparr>br_correlation_id := Some ?cid\<rparr>) (st, ?cid) = (x, st1, ctx1)"
    by (metis prod_cases3)
  have run: "correlation_middleware fresh ?inner rq (st, ctx) = (res, st', ctx')"
    using assms(1) by (simp add: setup_middlewares_def Let_def)
  show ?thesis
  proof (cases x)
    case (Inl e)
    then show ?thesis
      using run x assms(2) by (auto simp: correlation_middleware_def security_middleware_def request_correlation_id_safe Let_def)
  next
    case (Inr r0)
    then have res: "res = Inr (put_headers [(''X-Correlation-ID'', ?cid), (''X-Request-ID'', ?cid)] (put_headers app_security_headers r0))"
      "ctx' = ctx"
      using run x by (auto simp: correlation_middleware_def security_middleware_def Let_def)
    have "list_all (\<lambda>(k, v). dict_get (ap_headers (put_headers [(''X-Correlation-ID'', ?cid), (''X-Request-ID'', ?cid)]
        (put_headers app_security_headers r0))) k = Some v) app_security_headers"
      by (simp add: put_headers_get app_security_headers_def)
    then show ?thesis
      using res assms(2) by (simp add: put_headers_get request_correlation_id_safe)
  qed
qed

text \<open>An mTLS client without certificate is never made; with one the peer is verified unless the operator
  switched that off and gave no authority.\<close>

lemma mtls_client_has_certificate:
  assumes "create_mtls_client os base_url timeout (Some c) hs = Inr args" and "mt_enabled c"
  shows "ca_cert args = Some (mt_cert_path c, mt_key_path c) \<and> mt_cert_path c \<noteq> [] \<and> mt_key_path c \<noteq> [] \<and>
    (ca_verify args = Some (Verify_Switch False) \<longrightarrow> mt_ca_path c = [] \<and> \<not> mt_verify c)"
  using assms by (auto simp: create_mtls_client_def Let_def split: if_splits)

definition demo_os :: os_state where
  "demo_os =
     \<lparr>os_env = [(''APP_SECRET_KEY'', ''k''), (''AUTH0_DOMAIN'', ''idp''), (''AUTH0_CLIENT_ID'', ''c''), (''AUTH0_CLIENT_SECRET'', ''x''),
        (''AUTH0_AUDIENCE'', ''api''), (''REDIS_URL'', ''redis''), (''OAUTH_REDIRECT_URI'', ''cb'')],
      os_files = (\<lambda>_. File_Missing)\<rparr>"

lemma demo_os_production: "is_environment_production demo_os"
  by (rule production_by_default) (simp add: demo_os_def)

lemma demo_settings_read: "\<exists>s. settings_from_environment (\<lambda>_. []) (\<lambda>_. None) (\<lambda>_. False) demo_os [] = Inr s"
proof -
  have "case settings_from_environment (\<lambda>_. []) (\<lambda>_. None) (\<lambda>_. False) demo_os [] of Inl _ \<Rightarrow> False | Inr _ \<Rightarrow> True"
    by code_simp
  then show ?thesis
    by (auto split: sum.splits)
qed

lemma demo_store_valid: "validate_session_store demo_os = Inr ()"
  by code_simp

lemma production_app_configured_witness:
  "\<exists>s. settings_from_environment (\<lambda>_. []) (\<lambda>_. None) (\<lambda>_. False) demo_os [] = Inr s \<and> st_app_secret_key s \<noteq> [] \<and>
     so_cookie (session_options_of s) = ''__Host-gateway_session''"
proof -
  obtain s where s: "settings_from_environment (\<lambda>_. []) (\<lambda>_. None) (\<lambda>_. False) demo_os [] = Inr s"
    using demo_settings_read by blast
  have "create_app (\<lambda>_. False) demo_os s (\<lambda>_ l. l) (\<lambda>_ l. l) [] (undefined :: nat app_layer) =
      Inr (setup_middlewares (\<lambda>_. False) s (\<lambda>_ l. l) (\<lambda>_ l. l) [] undefined)"
    by (simp add: create_app_def demo_store_valid)
  from production_app_configured[OF s this demo_os_production] show ?thesis
    using s by (simp add: demo_os_def)
qed

end
