(* ===== verification/Incident.thy ===== *)
theory Incident
  imports Tenant Opa
begin

text \<open>
  sql\_query\_api/services/incident\_response.py: flags in Redis for blocked addresses, revoked sessions and
  isolated tenants. Redis is the record \<open>kv_ops\<close> over its own state; the text of a dataclass instance (\<open>repr\<close>) is a parameter. An operation
  gives its result, the audit records it writes and the new state.
\<close>

subsection \<open>Redis\<close>

text \<open>\<open>kv_setex\<close> gives \<open>None\<close> for a time to live that is not positive: Redis refuses it. The client's
  \<open>exists\<close> and the count of \<open>delete\<close> are read off \<open>kv_get\<close>.\<close>

record 'r kv_ops =
  kv_get :: "real \<Rightarrow> 'r \<Rightarrow> string \<Rightarrow> string option"
  kv_set :: "'r \<Rightarrow> string \<Rightarrow> string \<Rightarrow> 'r"
  kv_setex :: "real \<Rightarrow> 'r \<Rightarrow> string \<Rightarrow> int \<Rightarrow> string \<Rightarrow> 'r option"
  kv_delete :: "'r \<Rightarrow> string \<Rightarrow> 'r"
  kv_keys :: "real \<Rightarrow> 'r \<Rightarrow> string \<Rightarrow> string list"
  kv_ttl :: "real \<Rightarrow> 'r \<Rightarrow> string \<Rightarrow> int"

definition kv_exists :: "('r, 'z) kv_ops_scheme \<Rightarrow> real \<Rightarrow> 'r \<Rightarrow> string \<Rightarrow> bool" where
  "kv_exists ops now r k \<longleftrightarrow> kv_get ops now r k \<noteq> None"

type_synonym audit_records = "(string \<times> obj) list"

record incident_config =
  ic_session_ttl :: int
  ic_block_duration :: int
  ic_blocklist_key :: string
  ic_revoked_sessions_key :: string
  ic_tenant_isolation_key :: string

definition default_incident_config :: incident_config where
  "default_incident_config =
     \<lparr>ic_session_ttl = 1800, ic_block_duration = 3600, ic_blocklist_key = ''security:blocklist:ip'',
      ic_revoked_sessions_key = ''security:revoked_sessions'', ic_tenant_isolation_key = ''security:tenant_isolation''\<rparr>"

definition flag_key :: "string \<Rightarrow> string \<Rightarrow> string" where
  "flag_key kind name = kind @ '':'' @ name"

subsection \<open>Blocked addresses\<close>

record blocked_ip =
  bi_ip :: string
  bi_reason :: string
  bi_blocked_at :: real
  bi_expires_at :: real
  bi_blocked_by :: string

text \<open>The readings of the clock within one call are the argument \<open>now\<close>.\<close>

definition block_ip ::
    "(blocked_ip \<Rightarrow> string) \<Rightarrow> incident_config \<Rightarrow> ('r, 'z) kv_ops_scheme \<Rightarrow> real \<Rightarrow> string \<Rightarrow> string \<Rightarrow> string \<Rightarrow> int option \<Rightarrow> 'r
      \<Rightarrow> (exn + bool) \<times> audit_records \<times> 'r" where
  "block_ip repr c ops now ip reason blocked_by duration r =
     (let d = (case duration of None \<Rightarrow> ic_block_duration c | Some n \<Rightarrow> if n = 0 then ic_block_duration c else n);
          expires_at = now + real_of_int d;
          key = flag_key (ic_blocklist_key c) ip
      in if kv_get ops now r key \<notin> {None, Some []} then (Inr False, [], r)
         else (case kv_setex ops now r key d
                    (repr \<lparr>bi_ip = ip, bi_reason = reason, bi_blocked_at = now, bi_expires_at = expires_at, bi_blocked_by = blocked_by\<rparr>) of
                 None \<Rightarrow> (Inl (LibraryError ''ResponseError''), [], r)
               | Some r' \<Rightarrow>
                   (Inr True,
                    [(''ip_blocked'', [(''ip'', JStr ip), (''reason'', JStr reason), (''blocked_by'', JStr blocked_by),
                       (''duration'', JInt d), (''expires_at'', JFloat expires_at)])], r')))"

definition unblock_ip ::
    "incident_config \<Rightarrow> ('r, 'z) kv_ops_scheme \<Rightarrow> real \<Rightarrow> string \<Rightarrow> string \<Rightarrow> 'r \<Rightarrow> bool \<times> audit_records \<times> 'r" where
  "unblock_ip c ops now ip unblocked_by r =
     (let key = flag_key (ic_blocklist_key c) ip in
      if kv_exists ops now r key
      then (True, [(''ip_unblocked'', [(''ip'', JStr ip), (''unblocked_by'', JStr unblocked_by)])], kv_delete ops r key)
      else (False, [], kv_delete ops r key))"

definition is_ip_blocked :: "incident_config \<Rightarrow> ('r, 'z) kv_ops_scheme \<Rightarrow> real \<Rightarrow> 'r \<Rightarrow> string \<Rightarrow> bool" where
  "is_ip_blocked c ops now r ip = kv_exists ops now r (flag_key (ic_blocklist_key c) ip)"

definition blocked_entry :: "incident_config \<Rightarrow> ('r, 'z) kv_ops_scheme \<Rightarrow> real \<Rightarrow> 'r \<Rightarrow> string \<Rightarrow> obj list" where
  "blocked_entry c ops now r key =
     (case kv_get ops now r key of
        Some (x # xs) \<Rightarrow>
          [[(''ip'', JStr (replace_all (ic_blocklist_key c @ '':'') [] key)), (''value'', JStr (x # xs)),
            (''ttl_seconds'', JInt (kv_ttl ops now r key))]]
      | _ \<Rightarrow> [])"

definition get_blocked_ips :: "incident_config \<Rightarrow> ('r, 'z) kv_ops_scheme \<Rightarrow> real \<Rightarrow> 'r \<Rightarrow> obj list" where
  "get_blocked_ips c ops now r =
     concat (map (blocked_entry c ops now r) (kv_keys ops now r (ic_blocklist_key c @ '':*'')))"

subsection \<open>Revoked sessions\<close>

record revoked_session =
  rv_session_id :: string
  rv_user_id :: string
  rv_reason :: string
  rv_revoked_at :: real
  rv_revoked_by :: string

definition incident_revoke_session ::
    "(revoked_session \<Rightarrow> string) \<Rightarrow> incident_config \<Rightarrow> ('r, 'z) kv_ops_scheme \<Rightarrow> real \<Rightarrow> string \<Rightarrow> string \<Rightarrow> string \<Rightarrow> string \<Rightarrow> 'r
      \<Rightarrow> (exn + bool) \<times> audit_records \<times> 'r" where
  "incident_revoke_session repr c ops now session_id user_id reason revoked_by r =
     (case kv_setex ops now r (flag_key (ic_revoked_sessions_key c) session_id) (ic_session_ttl c)
             (repr \<lparr>rv_session_id = session_id, rv_user_id = user_id, rv_reason = reason, rv_revoked_at = now,
                rv_revoked_by = revoked_by\<rparr>) of
        None \<Rightarrow> (Inl (LibraryError ''ResponseError''), [], r)
      | Some r' \<Rightarrow>
          (Inr True, [(''session_revoked'', [(''session_id'', JStr session_id), (''user_id'', JStr user_id),
             (''reason'', JStr reason), (''revoked_by'', JStr revoked_by)])], r'))"

definition is_session_revoked :: "incident_config \<Rightarrow> ('r, 'z) kv_ops_scheme \<Rightarrow> real \<Rightarrow> 'r \<Rightarrow> string \<Rightarrow> bool" where
  "is_session_revoked c ops now r session_id = kv_exists ops now r (flag_key (ic_revoked_sessions_key c) session_id)"

fun setex_all :: "('r, 'z) kv_ops_scheme \<Rightarrow> real \<Rightarrow> int \<Rightarrow> string \<Rightarrow> string list \<Rightarrow> nat \<Rightarrow> 'r \<Rightarrow> (exn + nat) \<times> 'r" where
  "setex_all ops now ttl v [] n r = (Inr n, r)"
| "setex_all ops now ttl v (k # ks) n r =
     (case kv_setex ops now r k ttl v of
        None \<Rightarrow> (Inl (LibraryError ''ResponseError''), r)
      | Some r' \<Rightarrow> setex_all ops now ttl v ks (Suc n) r')"

definition revoke_all_user_sessions ::
    "incident_config \<Rightarrow> ('r, 'z) kv_ops_scheme \<Rightarrow> real \<Rightarrow> string \<Rightarrow> string \<Rightarrow> string \<Rightarrow> 'r \<Rightarrow> (exn + nat) \<times> audit_records \<times> 'r" where
  "revoke_all_user_sessions c ops now user_id reason revoked_by r =
     (case setex_all ops now (ic_session_ttl c) (''revoked:'' @ reason @ '':'' @ revoked_by)
             (kv_keys ops now r (ic_revoked_sessions_key c @ '':'' @ user_id @ '':*'')) 0 r of
        (Inl e, r') \<Rightarrow> (Inl e, [], r')
      | (Inr n, r') \<Rightarrow>
          (Inr n,
           (if n = 0 then []
            else [(''user_sessions_revoked'', [(''user_id'', JStr user_id), (''count'', JInt (int n)), (''reason'', JStr reason),
               (''revoked_by'', JStr revoked_by)])]), r'))"

subsection \<open>Isolated tenants\<close>

definition isolate_tenant ::
    "(real \<Rightarrow> string) \<Rightarrow> incident_config \<Rightarrow> ('r, 'z) kv_ops_scheme \<Rightarrow> real \<Rightarrow> string \<Rightarrow> string \<Rightarrow> string \<Rightarrow> 'r
      \<Rightarrow> bool \<times> audit_records \<times> 'r" where
  "isolate_tenant float_str c ops now org_id reason isolated_by r =
     (True,
      [(''tenant_isolated'', [(''org_id'', JStr org_id), (''reason'', JStr reason), (''isolated_by'', JStr isolated_by)])],
      kv_set ops r (flag_key (ic_tenant_isolation_key c) org_id) (reason @ '':'' @ isolated_by @ '':'' @ float_str now))"

definition restore_tenant ::
    "incident_config \<Rightarrow> ('r, 'z) kv_ops_scheme \<Rightarrow> real \<Rightarrow> string \<Rightarrow> string \<Rightarrow> 'r \<Rightarrow> bool \<times> audit_records \<times> 'r" where
  "restore_tenant c ops now org_id restored_by r =
     (let key = flag_key (ic_tenant_isolation_key c) org_id in
      if kv_exists ops now r key
      then (True, [(''tenant_restored'', [(''org_id'', JStr org_id), (''restored_by'', JStr restored_by)])], kv_delete ops r key)
      else (False, [], kv_delete ops r key))"

definition is_tenant_isolated :: "incident_config \<Rightarrow> ('r, 'z) kv_ops_scheme \<Rightarrow> real \<Rightarrow> 'r \<Rightarrow> string \<Rightarrow> bool" where
  "is_tenant_isolated c ops now r org_id = kv_exists ops now r (flag_key (ic_tenant_isolation_key c) org_id)"

subsection \<open>The contract of the flags\<close>

text \<open>The documented behaviour of Redis.\<close>

definition kv_ok :: "('r, 'z) kv_ops_scheme \<Rightarrow> bool" where
  "kv_ok ops \<longleftrightarrow>
     (\<forall>t r k v k'. kv_get ops t (kv_set ops r k v) k' = (if k' = k then Some v else kv_get ops t r k')) \<and>
     (\<forall>t r k k'. kv_get ops t (kv_delete ops r k) k' = (if k' = k then None else kv_get ops t r k')) \<and>
     (\<forall>now r k ttl v r'. kv_setex ops now r k ttl v = Some r' \<longrightarrow> 0 < ttl \<and>
        (\<forall>t k'. kv_get ops t r' k' = (if k' = k then (if t < now + real_of_int ttl then Some v else None) else kv_get ops t r k')))"

lemma kv_ok_get:
  assumes "kv_ok ops"
  shows "kv_get ops t (kv_set ops r k v) k' = (if k' = k then Some v else kv_get ops t r k')"
    "kv_get ops t (kv_delete ops r k) k' = (if k' = k then None else kv_get ops t r k')"
    "kv_setex ops now r k ttl v = Some r' \<Longrightarrow>
       kv_get ops t r' k' = (if k' = k then (if t < now + real_of_int ttl then Some v else None) else kv_get ops t r k')"
    "kv_setex ops now r k ttl v = Some r' \<Longrightarrow> 0 < ttl"
  using assms unfolding kv_ok_def by blast+

lemma flag_key_inject [simp]: "flag_key kind a = flag_key kind b \<longleftrightarrow> a = b"
  by (simp add: flag_key_def)

text \<open>Flags that stand until they are taken down. The state after any sequence of actions is what the last
  action on the name says.\<close>

locale flag_board =
  fixes usable :: "'o \<Rightarrow> bool"
    and raise_flag :: "'o \<Rightarrow> 'r \<Rightarrow> 'n \<Rightarrow> 'a \<Rightarrow> 'r"
    and lower_flag :: "'o \<Rightarrow> 'r \<Rightarrow> 'n \<Rightarrow> 'a \<Rightarrow> 'r"
    and flagged :: "'o \<Rightarrow> real \<Rightarrow> 'r \<Rightarrow> 'n \<Rightarrow> bool"
  assumes flagged_raise: "usable ops \<Longrightarrow> flagged ops t (raise_flag ops r n a) m \<longleftrightarrow> m = n \<or> flagged ops t r m"
    and flagged_lower: "usable ops \<Longrightarrow> flagged ops t (lower_flag ops r n a) m \<longleftrightarrow> m \<noteq> n \<and> flagged ops t r m"
begin

lemma last_action:
  assumes "usable ops"
  shows "flagged ops t (foldl (\<lambda>r (up, n, a). if up then raise_flag ops r n a else lower_flag ops r n a) r actions) m \<longleftrightarrow>
    (case find (\<lambda>(up, n, a). n = m) (rev actions) of Some (up, n, a) \<Rightarrow> up | None \<Rightarrow> flagged ops t r m)"
proof (induction actions rule: rev_induct)
  case (snoc x actions)
  obtain up n a where x: "x = (up, n, a)"
    by (metis prod_cases3)
  show ?case
    using snoc flagged_raise[OF assms] flagged_lower[OF assms] by (auto simp: x)
qed simp

end

text \<open>The actions of the source, with the clock reading and the texts of each.\<close>

interpretation isolation: flag_board
  "\<lambda>e. kv_ok (fst e)"
  "\<lambda>e r org a. snd (snd (isolate_tenant (fst (snd e)) (snd (snd e)) (fst e) (fst a) org (fst (snd a)) (snd (snd a)) r))"
  "\<lambda>e r org a. snd (snd (restore_tenant (snd (snd e)) (fst e) (fst a) org (snd (snd a)) r))"
  "\<lambda>e t r org. is_tenant_isolated (snd (snd e)) (fst e) t r org"
  by unfold_locales
    (auto simp: isolate_tenant_def restore_tenant_def is_tenant_isolated_def kv_exists_def kv_ok_get Let_def split: if_splits)

text \<open>One action on a tenant: isolate (or restore) it, with the clock, the reason and the person.\<close>

fun tenant_step ::
    "(real \<Rightarrow> string) \<Rightarrow> incident_config \<Rightarrow> ('r, 'z) kv_ops_scheme \<Rightarrow> 'r \<Rightarrow> bool \<times> string \<times> real \<times> string \<times> string \<Rightarrow> 'r" where
  "tenant_step float_str c ops r (isolate, org, now, reason, who) =
     (if isolate then snd (snd (isolate_tenant float_str c ops now org reason who r))
      else snd (snd (restore_tenant c ops now org who r)))"

subsection \<open>Properties\<close>

text \<open>C32. Whatever was isolated and restored, in whatever order: a tenant is isolated exactly when the last action
  that named it isolated it (before any such action, when it was at the start), at every later time,
  and actions on other tenants do not matter.\<close>

theorem isolation_is_last_action:
  assumes "kv_ok ops"
  shows "is_tenant_isolated c ops t (foldl (tenant_step float_str c ops) r actions) org \<longleftrightarrow>
    (case find (\<lambda>(isolate, name, a). name = org) (rev actions) of
       Some (isolate, name, a) \<Rightarrow> isolate | None \<Rightarrow> is_tenant_isolated c ops t r org)"
proof -
  have step: "tenant_step float_str c ops = (\<lambda>r (up, n, a).
      if up then snd (snd (isolate_tenant float_str c ops (fst a) n (fst (snd a)) (snd (snd a)) r))
      else snd (snd (restore_tenant c ops (fst a) n (snd (snd a)) r)))"
    by (auto simp: fun_eq_iff)
  show ?thesis
    unfolding step using isolation.last_action[of "(ops, float_str, c)" t r actions org, unfolded fst_conv snd_conv] assms by blast
qed

text \<open>Redis as a function from keys to values with an end of life.\<close>

definition timed_kv :: "(string \<Rightarrow> (real option \<times> string) option) kv_ops" where
  "timed_kv =
     \<lparr>kv_get = (\<lambda>t r k. case r k of None \<Rightarrow> None | Some (None, v) \<Rightarrow> Some v | Some (Some e, v) \<Rightarrow> if t < e then Some v else None),
      kv_set = (\<lambda>r k v. r(k \<mapsto> (None, v))),
      kv_setex = (\<lambda>now r k ttl v. if 0 < ttl then Some (r(k \<mapsto> (Some (now + real_of_int ttl), v))) else None),
      kv_delete = (\<lambda>r k. r(k := None)), kv_keys = (\<lambda>_ _ _. []), kv_ttl = (\<lambda>_ _ _. -1)\<rparr>"

lemma timed_kv_ok: "kv_ok timed_kv"
  by (auto simp: kv_ok_def timed_kv_def split: if_splits)

lemma isolation_is_last_action_witness:
  "is_tenant_isolated default_incident_config timed_kv 9
      (foldl (tenant_step (\<lambda>_. []) default_incident_config timed_kv) Map.empty
        [(True, ''o1'', 1, ''leak'', ''sec''), (False, ''o2'', 2, [], ''sec'')]) ''o1''"
  using isolation_is_last_action[OF timed_kv_ok, of default_incident_config 9 "\<lambda>_. []" Map.empty
      "[(True, ''o1'', 1, ''leak'', ''sec''), (False, ''o2'', 2, [], ''sec'')]" "''o1''"] by simp

text \<open>A block lasts exactly its duration, and blocking an address again while it lasts changes nothing.\<close>

lemma block_ip_lasts:
  assumes "kv_ok ops" and "block_ip repr c ops now ip reason by_whom duration r = (Inr True, audit, r')"
  shows "is_ip_blocked c ops t r' ip \<longleftrightarrow>
    t < now + real_of_int (case duration of None \<Rightarrow> ic_block_duration c | Some n \<Rightarrow> if n = 0 then ic_block_duration c else n)"
  using assms kv_ok_get(3)[OF assms(1)]
  by (auto simp: block_ip_def is_ip_blocked_def kv_exists_def Let_def split: if_splits option.splits)

lemma block_ip_twice:
  assumes "kv_get ops now r (flag_key (ic_blocklist_key c) ip) \<notin> {None, Some []}"
  shows "block_ip repr c ops now ip reason by_whom duration r = (Inr False, [], r)"
  using assms by (simp add: block_ip_def Let_def)

text \<open>Revoking all sessions of a user re-writes revocations that exist already; with none there is nothing to
  do, whatever sessions the user has open.\<close>

lemma revoke_all_finds_only_revoked:
  assumes "kv_keys ops now r (ic_revoked_sessions_key c @ '':'' @ user_id @ '':*'') = []"
  shows "revoke_all_user_sessions c ops now user_id reason by_whom r = (Inr 0, [], r)"
  using assms by (simp add: revoke_all_user_sessions_def)

end
