(* ===== verification/Admin.thy ===== *)
theory Admin
  imports Tenant Opa "HOL-Library.Multiset"
begin

text \<open>
  sql\_query\_api/routes/admin\_routes.py: the access review of an organization, the summary of all of them and
  the effective access of a hypothetical principal. The principal is an argument of every route, as in
  the code. A list the code makes from a set is the set. A route gives its answer (an exception is
  an error answer of the framework) and its audit records.
\<close>

subsection \<open>Requests and answers\<close>

record tenant_binding_response =
  tb_org_id :: string
  tb_database_id :: string
  tb_credential_mode :: string
  tb_data_schema :: string
  tb_metadata_schema :: string
  tb_host :: json
  tb_port :: "int option"
  tb_db_name :: json
  tb_pool_size :: "int option"
  tb_max_overflow :: "int option"
  tb_has_replica :: bool

record access_review =
  ar_org_id :: string
  ar_total_bindings :: nat
  ar_total_policies :: nat
  ar_admin_users :: nat
  ar_viewer_users :: nat
  ar_bindings :: "tenant_binding_response list"
  ar_policies :: "policy list"

datatype admin_error = Admin_Role_Required | Admin_Exn exn

type_synonym admin_audit = "(string \<times> obj) list"

definition admin_event :: "string \<Rightarrow> principal \<Rightarrow> obj \<Rightarrow> string \<times> obj" where
  "admin_event name pr extra = (name, (''user'', JStr (pr_email pr)) # extra)"

text \<open>The reason names the roles, a set printed by the library.\<close>

definition require_admin :: "(string set \<Rightarrow> string) \<Rightarrow> principal \<Rightarrow> (admin_error + principal) \<times> admin_audit" where
  "require_admin show_roles pr =
     (if has_role pr ''admin'' then (Inr pr, [])
      else (Inl Admin_Role_Required,
        [admin_event ''admin_access_denied'' pr
           [(''org_id'', JStr (pr_org_id pr)),
            (''reason'', JStr (''Role '' @ show_roles (pr_roles pr) @ '' not authorized for admin access''))]]))"

definition opt_str :: "json \<Rightarrow> bool" where
  "opt_str v \<longleftrightarrow> v = JNull \<or> is_str v"

definition validation_error :: exn where
  "validation_error = ValueError ''ValidationError''"

definition binding_response :: "tenant_config \<Rightarrow> exn + tenant_binding_response" where
  "binding_response c =
     (let rotated = tc_credential_mode c = ''rotated'';
          host = (if rotated then tc_host c else JNull);
          db_name = (if rotated then tc_db_name c else JNull)
      in case (tc_data_schema c, tc_metadata_schema c) of
           (JStr data_schema, JStr metadata_schema) \<Rightarrow>
             if opt_str host \<and> opt_str db_name
             then Inr \<lparr>tb_org_id = tc_org_id c, tb_database_id = tc_database_id c, tb_credential_mode = tc_credential_mode c,
                tb_data_schema = data_schema, tb_metadata_schema = metadata_schema, tb_host = host,
                tb_port = (if rotated then Some (tc_port c) else None), tb_db_name = db_name,
                tb_pool_size = tc_pool_size c, tb_max_overflow = tc_max_overflow c, tb_has_replica = truthy (tc_replica c)\<rparr>
             else Inl validation_error
         | _ \<Rightarrow> Inl validation_error)"

text \<open>A policy of the review is the policy; its identifiers must be texts or absent.\<close>

definition policy_response :: "policy \<Rightarrow> exn + policy" where
  "policy_response p =
     (if opt_str (pol_org_id p) \<and> opt_str (pol_principal_id p) \<and> opt_str (pol_database_id p) then Inr p
      else Inl validation_error)"

definition reviewed_configs :: "tenant_resolver \<Rightarrow> string \<Rightarrow> tenant_config list" where
  "reviewed_configs r org_id =
     concat (map (\<lambda>((binding_org_id, _), configs). if binding_org_id = org_id then configs else []) (rs_bindings r))"

text \<open>Only the document evaluator has policies to show.\<close>

definition reviewed_policies :: "active_evaluator \<Rightarrow> string \<Rightarrow> policy list" where
  "reviewed_policies ae org_id =
     (case ae of
        Doc_Evaluator e \<Rightarrow> filter (\<lambda>p. is_none_or (pol_org_id p) org_id) (pe_policies e)
      | Opa_Evaluator _ \<Rightarrow> [])"

definition get_access_review ::
    "(string set \<Rightarrow> string) \<Rightarrow> (exn + tenant_resolver) \<Rightarrow> active_evaluator \<Rightarrow> string \<Rightarrow> principal
      \<Rightarrow> (admin_error + access_review) \<times> admin_audit" where
  "get_access_review show_roles resolver ae org_id pr =
     (case require_admin show_roles pr of
        (Inl e, audit) \<Rightarrow> (Inl e, audit)
      | (Inr pr, audit) \<Rightarrow>
          let audit1 = audit @ [admin_event ''admin_access_review'' pr
                [(''org_id'', JStr org_id), (''action'', JStr ''view_access_review''), (''admin_user'', JStr (pr_email pr))]]
          in (case bind_result resolver (\<lambda>r. bind_result (result_map binding_response (reviewed_configs r org_id)) (\<lambda>bindings.
                bind_result (result_map policy_response (reviewed_policies ae org_id)) (\<lambda>policies. Inr (bindings, policies)))) of
                Inl e \<Rightarrow> (Inl (Admin_Exn e), audit1)
              | Inr (bindings, policies) \<Rightarrow>
                  (Inr \<lparr>ar_org_id = org_id, ar_total_bindings = length bindings, ar_total_policies = length policies,
                     ar_admin_users = 0, ar_viewer_users = 0, ar_bindings = bindings, ar_policies = policies\<rparr>,
                   audit1 @ [admin_event ''admin_access_review_completed'' pr
                     [(''org_id'', JStr org_id), (''bindings_count'', JInt (int (length bindings))),
                      (''policies_count'', JInt (int (length policies)))]])))"

subsection \<open>All organizations\<close>

record org_summary =
  os_total_bindings :: nat
  os_databases :: "string set"

definition add_summary ::
    "(string, org_summary) dict \<Rightarrow> (string \<times> string) \<times> tenant_config list \<Rightarrow> (string, org_summary) dict" where
  "add_summary acc entry =
     (case entry of
        ((org, db), configs) \<Rightarrow>
          let old = (case dict_get acc org of None \<Rightarrow> \<lparr>os_total_bindings = 0, os_databases = {}\<rparr> | Some x \<Rightarrow> x)
          in dict_set acc org \<lparr>os_total_bindings = os_total_bindings old + length configs, os_databases = insert db (os_databases old)\<rparr>)"

definition org_summaries :: "tenant_resolver \<Rightarrow> (string, org_summary) dict" where
  "org_summaries r = foldl add_summary [] (rs_bindings r)"

definition summary_doc :: "string \<times> org_summary \<Rightarrow> json" where
  "summary_doc entry =
     (case entry of
        (org, x) \<Rightarrow> JObj [(''org_id'', JStr org), (''total_bindings'', JInt (int (os_total_bindings x))),
           (''database_count'', JInt (int (card (os_databases x))))])"

definition list_all_access_reviews ::
    "(string set \<Rightarrow> string) \<Rightarrow> (exn + tenant_resolver) \<Rightarrow> principal \<Rightarrow> (admin_error + obj) \<times> admin_audit" where
  "list_all_access_reviews show_roles resolver pr =
     (case require_admin show_roles pr of
        (Inl e, audit) \<Rightarrow> (Inl e, audit)
      | (Inr pr, audit) \<Rightarrow>
          let audit1 = audit @ [admin_event ''admin_list_access_reviews'' pr [(''action'', JStr ''list_all_reviews'')]] in
          (case resolver of
             Inl e \<Rightarrow> (Inl (Admin_Exn e), audit1)
           | Inr r \<Rightarrow>
               (Inr [(''organizations'', JArr (map summary_doc (org_summaries r)))],
                audit1 @ [admin_event ''admin_list_access_reviews_completed'' pr
                  [(''count'', JInt (int (length (org_summaries r))))]])))"

subsection \<open>Effective access\<close>

record effective_request =
  er_org_id :: string
  er_database_id :: string
  er_user_id :: "string option"
  er_roles :: "string list"

record effective_answer =
  ef_org_id :: string
  ef_database_id :: string
  ef_user_id :: "string option"
  ef_access :: effective_access

definition target_principal :: "effective_request \<Rightarrow> principal" where
  "target_principal rq =
     \<lparr>pr_user_id = (case er_user_id rq of None \<Rightarrow> ''unknown'' | Some u \<Rightarrow> if u = [] then ''unknown'' else u),
      pr_email = ''target@review.local'', pr_org_id = er_org_id rq, pr_roles = set (er_roles rq), pr_attributes = []\<rparr>"

definition optional_str :: "string option \<Rightarrow> json" where
  "optional_str u = (case u of None \<Rightarrow> JNull | Some s \<Rightarrow> JStr s)"

text \<open>With the OPA evaluator the call gives a coroutine that is not awaited, and reading its attributes raises.\<close>

definition check_effective_access ::
    "(string set \<Rightarrow> string) \<Rightarrow> active_evaluator \<Rightarrow> effective_request \<Rightarrow> principal \<Rightarrow> (admin_error + effective_answer) \<times> admin_audit" where
  "check_effective_access show_roles ae rq pr =
     (case require_admin show_roles pr of
        (Inl e, audit) \<Rightarrow> (Inl e, audit)
      | (Inr pr, audit) \<Rightarrow>
          let audit1 = audit @ [admin_event ''admin_effective_access_check'' pr
                [(''org_id'', JStr (er_org_id rq)), (''target_user'', optional_str (er_user_id rq)),
                 (''database_id'', JStr (er_database_id rq)), (''admin_user'', JStr (pr_email pr))]]
          in (case ae of
                Opa_Evaluator _ \<Rightarrow> (Inl (Admin_Exn (AttributeError ''accessible_tables'')), audit1)
              | Doc_Evaluator e \<Rightarrow>
                  let access = effective_access_of e (target_principal rq) (er_database_id rq) in
                  (Inr \<lparr>ef_org_id = er_org_id rq, ef_database_id = er_database_id rq, ef_user_id = er_user_id rq, ef_access = access\<rparr>,
                   audit1 @ [admin_event ''admin_effective_access_completed'' pr
                     [(''org_id'', JStr (er_org_id rq)), (''tables_count'', JInt (int (card (ea_accessible_tables access)))),
                      (''columns_count'', JInt (int (card (ea_allowed_columns access))))]])))"

subsection \<open>Properties\<close>

definition grouped :: "(string \<times> string, tenant_config list) dict \<Rightarrow> bool" where
  "grouped d \<longleftrightarrow> list_all (\<lambda>((org, db), cs). list_all (\<lambda>c. tc_org_id c = org \<and> tc_database_id c = db) cs) d"

lemma mset_dict_push: "mset (concat (map snd (dict_push d k x))) = add_mset x (mset (concat (map snd d)))"
  unfolding dict_push_def dict_set_def dict_get_def by (induction d) auto

lemma grouped_push: "grouped d \<Longrightarrow> grouped (dict_push d (tc_org_id b, tc_database_id b) b)"
  unfolding grouped_def dict_push_def dict_set_def dict_get_def by (induction d) auto

lemma resolver_groups:
  "grouped (rs_bindings (resolver_init bs)) \<and> mset (concat (map snd (rs_bindings (resolver_init bs)))) = mset bs"
proof -
  have "grouped (foldl (\<lambda>acc b. dict_push acc (tc_org_id b, tc_database_id b) b) d bs) \<and>
      mset (concat (map snd (foldl (\<lambda>acc b. dict_push acc (tc_org_id b, tc_database_id b) b) d bs))) = mset (concat (map snd d)) + mset bs"
    if "grouped d" for d
    using that by (induction bs arbitrary: d) (simp_all add: grouped_push mset_dict_push del: mset_concat)
  from this[of "[]"] show ?thesis
    by (simp add: grouped_def resolver_init_def Let_def)
qed

lemma reviewed_configs_filter:
  assumes "grouped (rs_bindings r)"
  shows "reviewed_configs r org_id = filter (\<lambda>c. tc_org_id c = org_id) (concat (map snd (rs_bindings r)))"
proof -
  have "concat (map (\<lambda>((org, _), cs). if org = org_id then cs else []) d) = filter (\<lambda>c. tc_org_id c = org_id) (concat (map snd d))"
    if "grouped d" for d :: "(string \<times> string, tenant_config list) dict"
    using that by (induction d) (auto simp: grouped_def filter_id_conv filter_empty_conv list_all_iff)
  then show ?thesis
    using assms by (simp add: reviewed_configs_def)
qed

lemma reviewed_configs_init:
  "mset (reviewed_configs (resolver_init bs) org_id) = mset (filter (\<lambda>b. tc_org_id b = org_id) bs)"
  using resolver_groups[of bs] by (metis reviewed_configs_filter mset_filter)

lemma result_map_Inr_map: "result_map f xs = Inr ys \<Longrightarrow> map f xs = map Inr ys"
  by (induction xs arbitrary: ys) (auto simp: bind_result_Inr)

lemma policy_responses: "result_map policy_response ps = Inr qs \<Longrightarrow> qs = ps"
proof (induction ps arbitrary: qs)
  case (Cons p ps)
  obtain q rest where q: "policy_response p = Inr q" "result_map policy_response ps = Inr rest" "qs = q # rest"
    using Cons.prems by (cases "policy_response p"; cases "result_map policy_response ps") auto
  have "q = p"
    using q(1) by (auto simp: policy_response_def split: if_splits)
  then show ?case
    using q Cons.IH by simp
qed simp

lemma require_admin_Inr: "require_admin show_roles pr = (Inr q, audit) \<Longrightarrow> has_role pr ''admin'' \<and> q = pr \<and> audit = []"
  by (auto simp: require_admin_def split: if_splits)


definition demo_binding :: "string \<Rightarrow> tenant_config" where
  "demo_binding org =
     \<lparr>tc_org_id = org, tc_database_id = ''sales'', tc_credential_mode = ''static'', tc_connection_string = JStr ''secret'', tc_replica = JNull,
      tc_use_read_replica = False, tc_role_name = JNull, tc_creds_dir = JNull, tc_host = JNull, tc_port = 5432, tc_db_name = JNull,
      tc_data_schema = JStr ''public'', tc_metadata_schema = JStr ''public'', tc_pool_size = None, tc_max_overflow = None,
      tc_pool_timeout = None, tc_pool_recycle = None\<rparr>"

definition demo_admin :: principal where
  "demo_admin = \<lparr>pr_user_id = ''u1'', pr_email = ''e'', pr_org_id = ''o1'', pr_roles = {''admin''}, pr_attributes = []\<rparr>"

lemma demo_review:
  "\<exists>review audit. get_access_review (\<lambda>_. []) (Inr (resolver_init [demo_binding ''o1'', demo_binding ''o2'']))
      (Doc_Evaluator \<lparr>pe_policies = [], pe_enabled = True\<rparr>) ''o1'' demo_admin = (Inr review, audit)"
proof -
  have admin: "has_role demo_admin ''admin''"
    by (simp add: has_role_def demo_admin_def py_lower_def lower_char_def py_ord_def)
  have reviewed: "reviewed_configs (resolver_init [demo_binding ''o1'', demo_binding ''o2'']) ''o1'' = [demo_binding ''o1'']"
    by (simp add: reviewed_configs_def resolver_init_def dict_push_def dict_set_def dict_get_def demo_binding_def)
  show ?thesis
    by (simp add: get_access_review_def require_admin_def admin reviewed reviewed_policies_def Let_def)
      (simp add: binding_response_def demo_binding_def opt_str_def)
qed


end
