(* ===== verification/Explore_Wiki.thy ===== *)
theory Explore_Wiki
  imports Schema_View
begin

text \<open>
  The reports of \<open>explore.py\<close>: crawling a schema, the wiki written without an AI model, the local
  diagnostic summary and the CSV output.

  The two database drivers answer each statement of the crawl; they are parameters. What they return is
  the code's: \<open>crawl_sqlite\<close> and \<open>crawl_postgres\<close> build the nested dictionary \<open>schema_info["schemas"]\<close>. The
  files of the wiki are a dictionary from names to texts, written in the order of the code. The writer of
  Python's \<open>csv\<close> module is modelled in its default dialect; \<open>read_csv\<close> is a reader of that format and only
  serves to state that the output loses nothing.
\<close>

subsection \<open>The crawled schema\<close>

record wiki_column =
  wc_name :: string
  wc_type :: string
  wc_nullable :: string
  wc_primary :: bool

record wiki_key =
  wk_column :: string
  wk_schema :: string
  wk_table :: string
  wk_target :: "string option"

record wiki_table =
  wt_columns :: "wiki_column list"
  wt_keys :: "wiki_key list"

type_synonym wiki_schemas = "(string, (string, wiki_table) dict) dict"

definition newline :: string where
  "newline = [CHR 0x0A]"

definition dquote :: string where
  "dquote = [CHR 0x22]"

subsection \<open>Crawling SQLite\<close>

record pragma_column =
  sc_column :: string
  sc_decl :: string
  sc_notnull :: int
  sc_pk :: int

record pragma_key =
  sk_from :: string
  sk_table :: string
  sk_to :: "string option"

text \<open>The three kinds of statement of the crawl, each with the rows it returns or the driver's exception.\<close>

record sqlite_conn =
  sq_tables :: "string \<Rightarrow> exn + string list"
  sq_columns :: "string \<Rightarrow> exn + pragma_column list"
  sq_keys :: "string \<Rightarrow> exn + pragma_key list"

definition tables_statement :: string where
  "tables_statement =
     ''SELECT name FROM sqlite_master WHERE type='' @ [CHR 0x27] @ ''table'' @ [CHR 0x27] @ '' AND name NOT LIKE '' @
       [CHR 0x27] @ ''sqlite_%'' @ [CHR 0x27]"

text \<open>\<open>re.match(r'^[A-Za-z_][A-Za-z0-9_]*$', name)\<close>; the end anchor also stands before a final newline.\<close>

definition name_start :: "char \<Rightarrow> bool" where
  "name_start c \<longleftrightarrow> is_ascii_alpha c \<or> c = CHR ''_''"

definition name_char :: "char \<Rightarrow> bool" where
  "name_char c \<longleftrightarrow> is_ascii_alpha c \<or> is_digit c \<or> c = CHR ''_''"

definition plain_name :: "string \<Rightarrow> bool" where
  "plain_name s \<longleftrightarrow> rx_matches (rx_cat [Rx_Start, Rx_Cls name_start, rx_star name_char, Rx_End]) s"

definition quote_ident :: "string \<Rightarrow> string" where
  "quote_ident s = dquote @ replace_char CHR 0x22 (dquote @ dquote) s @ dquote"

definition sqlite_table_of :: "pragma_column list \<Rightarrow> pragma_key list \<Rightarrow> wiki_table" where
  "sqlite_table_of cols fks =
     \<lparr>wt_columns = map (\<lambda>c. \<lparr>wc_name = sc_column c, wc_type = sc_decl c,
        wc_nullable = (if sc_notnull c = 0 then ''YES'' else ''NO''), wc_primary = sc_pk c > 0\<rparr>) cols,
      wt_keys = map (\<lambda>k. \<lparr>wk_column = sk_from k, wk_schema = ''main'', wk_table = sk_table k, wk_target = sk_to k\<rparr>) fks\<rparr>"

text \<open>The loop over the tables, with the statements it runs.\<close>

fun crawl_sqlite_tables ::
    "('z) sqlite_conn_scheme \<Rightarrow> string list \<Rightarrow> (string, wiki_table) dict
      \<Rightarrow> (exn + (string, wiki_table) dict) \<times> string list" where
  "crawl_sqlite_tables db [] acc = (Inr acc, [])"
| "crawl_sqlite_tables db (t # ts) acc =
     (if \<not> plain_name t then crawl_sqlite_tables db ts acc
      else
        let info = ''PRAGMA table_info('' @ quote_ident t @ '')'';
            fkl = ''PRAGMA foreign_key_list('' @ quote_ident t @ '')''
        in (case sq_columns db info of
              Inl e \<Rightarrow> (Inl e, [info])
            | Inr cols \<Rightarrow>
                (case sq_keys db fkl of
                   Inl e \<Rightarrow> (Inl e, [info, fkl])
                 | Inr fks \<Rightarrow>
                     (case crawl_sqlite_tables db ts (dict_set acc t (sqlite_table_of cols fks)) of
                        (r, tr) \<Rightarrow> (r, info # fkl # tr)))))"

definition crawl_sqlite :: "('z) sqlite_conn_scheme \<Rightarrow> (exn + wiki_schemas) \<times> string list" where
  "crawl_sqlite db =
     (case sq_tables db tables_statement of
        Inl e \<Rightarrow> (Inl e, [tables_statement])
      | Inr ts \<Rightarrow>
          (case crawl_sqlite_tables db ts [] of
             (Inl e, tr) \<Rightarrow> (Inl e, tables_statement # tr)
           | (Inr tables, tr) \<Rightarrow> (Inr [(''main'', tables)], tables_statement # tr)))"

subsection \<open>Crawling PostgreSQL\<close>

text \<open>The four catalogue queries. The last three are bound to a schema and a table.\<close>

record pg_conn =
  pg_tables :: "exn + (string \<times> string) list"
  pg_columns :: "string \<Rightarrow> string \<Rightarrow> exn + (string \<times> string \<times> string) list"
  pg_primary :: "string \<Rightarrow> string \<Rightarrow> exn + string list"
  pg_foreign :: "string \<Rightarrow> string \<Rightarrow> exn + (string \<times> string \<times> string \<times> string) list"

definition pg_table_of ::
    "(string \<times> string \<times> string) list \<Rightarrow> string list \<Rightarrow> (string \<times> string \<times> string \<times> string) list \<Rightarrow> wiki_table" where
  "pg_table_of cols pks fks =
     \<lparr>wt_columns = map (\<lambda>(name, ty, nullable). \<lparr>wc_name = name, wc_type = ty, wc_nullable = nullable,
        wc_primary = (name \<in> set pks)\<rparr>) cols,
      wt_keys = map (\<lambda>(col, fs, ft, fc). \<lparr>wk_column = col, wk_schema = fs, wk_table = ft, wk_target = Some fc\<rparr>) fks\<rparr>"

definition tables_of :: "wiki_schemas \<Rightarrow> string \<Rightarrow> (string, wiki_table) dict" where
  "tables_of info s = (case dict_get info s of None \<Rightarrow> [] | Some ts \<Rightarrow> ts)"

fun crawl_pg_tables :: "('z) pg_conn_scheme \<Rightarrow> (string \<times> string) list \<Rightarrow> wiki_schemas \<Rightarrow> exn + wiki_schemas" where
  "crawl_pg_tables db [] info = Inr info"
| "crawl_pg_tables db ((s, t) # ts) info =
     bind_result (pg_columns db s t) (\<lambda>cols.
     bind_result (pg_primary db s t) (\<lambda>pks.
     bind_result (pg_foreign db s t) (\<lambda>fks.
       crawl_pg_tables db ts (dict_set info s (dict_set (tables_of info s) t (pg_table_of cols pks fks))))))"

definition crawl_postgres :: "('z) pg_conn_scheme \<Rightarrow> exn + wiki_schemas" where
  "crawl_postgres db = bind_result (pg_tables db) (\<lambda>ts. crawl_pg_tables db ts [])"

subsection \<open>Choosing the driver\<close>

text \<open>\<open>s.split(sep)\<close> for a separator of more than one character\<close>

fun split_text :: "string \<Rightarrow> string \<Rightarrow> string \<Rightarrow> string list" where
  "split_text sep acc [] = [rev acc]"
| "split_text sep acc (c # cs) =
     (if sep \<noteq> [] \<and> take (length sep) (c # cs) = sep
      then rev acc # split_text sep [] (drop (length sep) (c # cs))
      else split_text sep (c # acc) cs)"

definition sqlite_path :: "string \<Rightarrow> string" where
  "sqlite_path url =
     (if str_contains '':///'' url then split_text '':///'' [] url ! 1
      else if str_contains ''://'' url then split_text ''://'' [] url ! 1 else url)"

text \<open>The connections opened are the drivers' business: a SQLite file by its URI, in read-only mode, any other
  URL by SQLAlchemy's engine.\<close>

definition crawl_schema ::
    "(string \<Rightarrow> exn + ('y) sqlite_conn_scheme) \<Rightarrow> bool \<Rightarrow> (string \<Rightarrow> exn + ('z) pg_conn_scheme) \<Rightarrow> string \<Rightarrow> exn + wiki_schemas" where
  "crawl_schema open_sqlite has_sqlalchemy open_pg db_url =
     (if prefix ''sqlite'' db_url
      then bind_result (open_sqlite (''file:'' @ sqlite_path db_url @ ''?mode=ro'')) (\<lambda>db. fst (crawl_sqlite db))
      else if \<not> has_sqlalchemy then Inl (RuntimeError ''SQLAlchemy is required for PostgreSQL connections.'')
      else bind_result (open_pg db_url) crawl_postgres)"

subsection \<open>The local wiki\<close>

text \<open>Every table with its schema, in the order of the dictionaries.\<close>

definition all_tables :: "wiki_schemas \<Rightarrow> (string \<times> string \<times> wiki_table) list" where
  "all_tables info = concat (map (\<lambda>(s, ts). map (\<lambda>(t, d). (s, t, d)) ts) info)"

definition page_link :: "string \<Rightarrow> string" where
  "page_link t = ''['' @ t @ '']('' @ t @ ''.md)''"

definition tick :: "string \<Rightarrow> string" where
  "tick s = ''`'' @ s @ ''`''"

definition contents_lines :: "wiki_schemas \<Rightarrow> string list" where
  "contents_lines info =
     concat (map (\<lambda>(s, ts). [''### Schema: '' @ tick s, []] @ map (\<lambda>(t, _). ''- '' @ page_link t) ts @ [[]]) info)"

definition erd_lines :: "string \<times> string \<times> wiki_table \<Rightarrow> string list" where
  "erd_lines e =
     (case e of (s, t, d) \<Rightarrow>
        [''    '' @ t @ '' {''] @
        map (\<lambda>c. ''        '' @ replace_char CHR '' '' ''_'' (wc_type c) @ '' '' @ wc_name c @ '' '' @
          (if wc_primary c then ''PK'' else [])) (wt_columns d) @
        [''    }''] @
        map (\<lambda>k. ''    '' @ t @ '' }|--|| '' @ wk_table k @ '' : '' @ dquote @ wk_column k @ dquote) (wt_keys d))"

definition index_lines :: "wiki_schemas \<Rightarrow> string list" where
  "index_lines info =
     [''# Database Schema Wiki'', [],
      ''Welcome to the database schema wiki. This wiki documents the tables, columns, and relationships in the database.'',
      [], ''## Table of Contents'', []] @
     contents_lines info @
     [''## Entity Relationship Diagram (ERD)'', [], ''```mermaid'', ''erDiagram''] @
     concat (map erd_lines (all_tables info)) @ [''```'']"

text \<open>The key cell of a column: the primary key, then each foreign key on the column.\<close>

fun key_cell :: "string \<Rightarrow> wiki_key list \<Rightarrow> string \<Rightarrow> string" where
  "key_cell col [] acc = acc"
| "key_cell col (k # ks) acc =
     key_cell col ks
       (if wk_column k = col
        then (if acc \<noteq> [] then acc @ '', Foreign Key -> '' @ page_link (wk_table k)
              else ''Foreign Key -> '' @ page_link (wk_table k))
        else acc)"

definition column_row :: "wiki_table \<Rightarrow> wiki_column \<Rightarrow> string" where
  "column_row d c =
     ''| '' @ tick (wc_name c) @ '' | '' @ wc_type c @ '' | '' @ wc_nullable c @ '' | '' @
       key_cell (wc_name c) (wt_keys d) (if wc_primary c then ''Primary Key'' else []) @ '' |''"

definition via_line :: "string \<Rightarrow> string \<Rightarrow> string" where
  "via_line t col = ''- '' @ page_link t @ '' via column '' @ tick col"

definition incoming_keys :: "(string \<times> string \<times> wiki_table) list \<Rightarrow> string \<Rightarrow> (string \<times> string) list" where
  "incoming_keys tables t =
     concat (map (\<lambda>(_, name, d). map (\<lambda>k. (name, wk_column k)) (filter (\<lambda>k. wk_table k = t) (wt_keys d))) tables)"

definition link_section :: "string \<Rightarrow> (string \<times> string) list \<Rightarrow> string list" where
  "link_section title links =
     (if links = [] then [] else [title, []] @ map (\<lambda>(t, col). via_line t col) links @ [[]])"

definition table_lines :: "(string \<times> string \<times> wiki_table) list \<Rightarrow> string \<times> string \<times> wiki_table \<Rightarrow> string list" where
  "table_lines tables e =
     (case e of (s, t, d) \<Rightarrow>
        [''# Table: '' @ tick t, [], ''Schema: '' @ tick s, [], ''## Columns'', [],
         ''| Column | Type | Nullable | Key |'', ''| --- | --- | --- | --- |''] @
        map (column_row d) (wt_columns d) @ [[]] @
        link_section ''## Referenced By'' (incoming_keys tables t) @
        link_section ''## References'' (map (\<lambda>k. (wk_table k, wk_column k)) (wt_keys d)))"

text \<open>The files in the order they are written. A later file replaces an earlier one of its name.\<close>

definition generate_wiki_locally :: "wiki_schemas \<Rightarrow> (string \<times> string) list" where
  "generate_wiki_locally info =
     (''index.md'', join newline (index_lines info)) #
     map (\<lambda>(s, t, d). (t @ ''.md'', join newline (table_lines (all_tables info) (s, t, d)))) (all_tables info)"

definition wiki_directory :: "wiki_schemas \<Rightarrow> (string, string) dict" where
  "wiki_directory info = dict_merge [] (generate_wiki_locally info)"

subsection \<open>The local diagnostic\<close>

text \<open>The rows are profiled by the columns of the first one; a later row that is not an object raises (and
  the exception sends the text to the second summary), unless the first row has no columns at all.\<close>

definition null_columns :: "obj \<Rightarrow> obj list \<Rightarrow> string list" where
  "null_columns first rows = filter (\<lambda>c. \<exists>r \<in> set rows. obj_get r c = JNull) (map fst first)"

definition unique_columns :: "(json \<Rightarrow> string) \<Rightarrow> obj \<Rightarrow> obj list \<Rightarrow> string list" where
  "unique_columns rep first rows =
     filter (\<lambda>c. card (set (map (\<lambda>r. py_str rep (obj_get r c)) rows)) = length rows) (map fst first)"

definition ticked :: "string list \<Rightarrow> string" where
  "ticked cs = join '', '' (map tick cs)"

definition profile_lines :: "(json \<Rightarrow> string) \<Rightarrow> obj \<Rightarrow> nat \<Rightarrow> obj list \<Rightarrow> string list" where
  "profile_lines rep first n rows =
     [''Data Profile: Analyzed '' @ nat_str n @ '' rows across '' @ nat_str (length first) @ '' columns.'',
      (if null_columns first rows \<noteq> []
       then ''Anomalies: Identified NULL clusters in columns '' @ ticked (null_columns first rows) @ ''.''
       else ''Anomalies: No major NULL clusters or structural anomalies detected.''),
      (if unique_columns rep first rows \<noteq> []
       then ''Integrity: Columns '' @ ticked (unique_columns rep first rows) @
         '' have unique values, confirming primary key eligibility.''
       else ''Integrity: High data uniformity suggests standard catalog information.'')]"

definition log_lines :: "string \<Rightarrow> string list" where
  "log_lines data =
     [''Data Profile: Raw log data containing '' @ nat_str (length (splitlines data)) @ '' lines of system messages.'',
      ''Anomalies: No repeating error patterns or exceptions identified in the current log slice.'',
      ''Integrity: Log format matches standard PostgreSQL output, indicating healthy server state.'']"

fun rows_of :: "json list \<Rightarrow> obj list option" where
  "rows_of [] = Some []"
| "rows_of (JObj d # vs) = map_option ((#) d) (rows_of vs)"
| "rows_of (v # vs) = None"

definition diagnostic_lines :: "(json \<Rightarrow> string) \<Rightarrow> (string \<Rightarrow> json option) \<Rightarrow> string \<Rightarrow> string list" where
  "diagnostic_lines rep loads data =
     (case loads data of
        Some (JArr (JObj first # vs)) \<Rightarrow>
          if first = [] then profile_lines rep [] (Suc (length vs)) []
          else (case rows_of (JObj first # vs) of
                  Some rows \<Rightarrow> profile_lines rep first (length rows) rows
                | None \<Rightarrow> log_lines data)
      | _ \<Rightarrow> log_lines data)"

definition generate_local_diagnostic :: "(json \<Rightarrow> string) \<Rightarrow> (string \<Rightarrow> json option) \<Rightarrow> string \<Rightarrow> string" where
  "generate_local_diagnostic rep loads data = join newline (diagnostic_lines rep loads data)"

subsection \<open>CSV output\<close>

definition csv_text :: "(json \<Rightarrow> string) \<Rightarrow> json \<Rightarrow> string" where
  "csv_text rep v = (case v of JNull \<Rightarrow> [] | _ \<Rightarrow> py_str rep v)"

definition csv_special :: "char \<Rightarrow> bool" where
  "csv_special c \<longleftrightarrow> c = CHR '','' \<or> c = CHR 0x22 \<or> c = CHR 0x0D \<or> c = CHR 0x0A"

definition csv_quoted :: "string \<Rightarrow> string" where
  "csv_quoted s = dquote @ replace_char CHR 0x22 (dquote @ dquote) s @ dquote"

definition csv_field :: "string \<Rightarrow> string" where
  "csv_field s = (if list_ex csv_special s then csv_quoted s else s)"

text \<open>One record. A record of one empty field is written with quotes, to tell it from no field.\<close>

definition csv_record :: "string list \<Rightarrow> string" where
  "csv_record fs = (if fs = [[]] then csv_quoted [] else join '','' (map csv_field fs)) @ [CHR 0x0D, CHR 0x0A]"

definition csv_row :: "(json \<Rightarrow> string) \<Rightarrow> string list \<Rightarrow> obj \<Rightarrow> exn + string" where
  "csv_row rep keys row =
     (if list_ex (\<lambda>(k, _). k \<notin> set keys) row then Inl (ValueError ''dict contains fields not in fieldnames'')
      else Inr (csv_record (map (\<lambda>k. csv_text rep (obj_get_or row k (JStr []))) keys)))"

definition format_csv :: "(json \<Rightarrow> string) \<Rightarrow> obj list \<Rightarrow> exn + string" where
  "format_csv rep results =
     (case results of
        [] \<Rightarrow> Inr []
      | first # _ \<Rightarrow>
          let keys = map fst first
          in bind_result (result_map (csv_row rep keys) results) (\<lambda>rows. Inr (csv_record keys @ concat rows)))"

subsection \<open>Reading CSV back\<close>

text \<open>A reader of the same dialect: commas between fields, a line feed after each record, quotes doubled inside
  a quoted field.\<close>

datatype csv_state = Plain | Quoted | Closing

fun csv_read :: "csv_state \<Rightarrow> string \<Rightarrow> string list \<Rightarrow> string \<Rightarrow> string list list" where
  "csv_read st f r [] = (if st = Plain \<and> f = [] \<and> r = [] then [] else [rev (rev f # r)])"
| "csv_read st f r (c # cs) =
     (if st = Quoted then (if c = CHR 0x22 then csv_read Closing f r cs else csv_read Quoted (c # f) r cs)
      else if c = CHR 0x22 \<and> st = Closing then csv_read Quoted (c # f) r cs
      else if c = CHR 0x22 \<and> f = [] then csv_read Quoted f r cs
      else if c = CHR '','' then csv_read Plain [] (rev f # r) cs
      else if c = CHR 0x0A then rev (rev f # r) # csv_read Plain [] [] cs
      else if c = CHR 0x0D then csv_read st f r cs
      else csv_read st (c # f) r cs)"

definition read_csv :: "string \<Rightarrow> string list list" where
  "read_csv s = csv_read Plain [] [] s"

lemma csv_read_plain:
  assumes "\<not> list_ex csv_special s"
  shows "csv_read Plain f r (s @ rest) = csv_read Plain (rev s @ f) r rest"
  using assms by (induction s arbitrary: f) (auto simp: csv_special_def)

lemma csv_read_quoted:
  "csv_read Quoted f r (replace_char CHR 0x22 (dquote @ dquote) s @ CHR 0x22 # rest) = csv_read Closing (rev s @ f) r rest"
  by (induction s arbitrary: f) (auto simp: dquote_def)

lemma csv_read_quoted_field:
  "csv_read Plain [] r (csv_quoted s @ rest) = csv_read Closing (rev s) r rest"
  using csv_read_quoted[of "[]" r s rest] by (simp add: csv_quoted_def dquote_def)

text \<open>A field ends at the comma or at the end of its record.\<close>

lemma csv_read_end:
  assumes "st = Plain \<or> st = Closing"
  shows "csv_read st f r (CHR '','' # rest) = csv_read Plain [] (rev f # r) rest"
    and "csv_read st f r (CHR 0x0D # CHR 0x0A # rest) = rev (rev f # r) # csv_read Plain [] [] rest"
  using assms by auto

lemma csv_read_field:
  "csv_read Plain [] r (csv_field s @ CHR '','' # rest) = csv_read Plain [] (s # r) rest"
  "csv_read Plain [] r (csv_field s @ CHR 0x0D # CHR 0x0A # rest) = rev (s # r) # csv_read Plain [] [] rest"
  by (auto simp: csv_field_def csv_read_quoted_field csv_read_plain)

lemma csv_read_fields:
  "fs \<noteq> [] \<Longrightarrow> csv_read Plain [] r (join '','' (map csv_field fs) @ CHR 0x0D # CHR 0x0A # rest) =
     (rev r @ fs) # csv_read Plain [] [] rest"
proof (induction fs arbitrary: r)
  case (Cons g gs)
  show ?case
  proof (cases gs)
    case Nil
    then show ?thesis
      using csv_read_field(2)[of r g rest] by simp
  next
    case (Cons h hs)
    then show ?thesis
      using csv_read_field(1)[of r g "join '','' (map csv_field gs) @ CHR 0x0D # CHR 0x0A # rest"] Cons.IH[of "g # r"]
      by simp
  qed
qed simp

lemma csv_read_record:
  assumes "fs \<noteq> []"
  shows "csv_read Plain [] [] (csv_record fs @ rest) = fs # csv_read Plain [] [] rest"
proof (cases "fs = [[]]")
  case True
  then show ?thesis
    using csv_read_quoted_field[of "[]" "[]" "CHR 0x0D # CHR 0x0A # rest"] by (simp add: csv_record_def)
next
  case False
  then show ?thesis
    using csv_read_fields[OF assms, of "[]" rest] by (simp add: csv_record_def)
qed

lemma csv_read_records:
  assumes "list_all ((\<noteq>) []) rs"
  shows "csv_read Plain [] [] (concat (map csv_record rs)) = rs"
  using assms by (induction rs) (auto simp: csv_read_record simp del: csv_read.simps(2))

lemma format_csv_records:
  assumes "format_csv rep (first # rows) = Inr text"
  shows "text = concat (map csv_record (map fst first #
     map (\<lambda>row. map (\<lambda>k. csv_text rep (obj_get_or row k (JStr []))) (map fst first)) (first # rows)))"
proof -
  obtain out where out: "result_map (csv_row rep (map fst first)) (first # rows) = Inr out"
      "text = csv_record (map fst first) @ concat out"
    using assms by (auto simp: format_csv_def Let_def simp del: result_map.simps)
  have "result_map (csv_row rep keys) rs = Inr out \<Longrightarrow>
      out = map (\<lambda>row. csv_record (map (\<lambda>k. csv_text rep (obj_get_or row k (JStr []))) keys)) rs" for keys rs out
    by (induction rs arbitrary: out) (auto simp: csv_row_def split: if_splits)
  from this[OF out(1)] show ?thesis
    unfolding out(2) by (simp add: comp_def)
qed

text \<open>C35. The CSV output loses nothing: for a result with at least one column, reading the text back gives the
  column names and then, for every row in order, the texts of its cells, whatever quotes, commas and line
  ends the cells contain, so no cell can pass for another cell or for a record of its own.\<close>

theorem csv_reads_back:
  assumes "format_csv rep (first # rows) = Inr text" and "first \<noteq> []"
  shows "read_csv text = map fst first #
     map (\<lambda>row. map (\<lambda>(k, v). csv_text rep (obj_get_or row k (JStr []))) first) (first # rows)"
proof -
  have "read_csv text = map fst first #
      map (\<lambda>row. map (\<lambda>k. csv_text rep (obj_get_or row k (JStr []))) (map fst first)) (first # rows)"
    unfolding read_csv_def format_csv_records[OF assms(1)]
    by (rule csv_read_records) (use assms(2) in \<open>simp add: list_all_iff\<close>)
  then show ?thesis
    by (simp add: comp_def case_prod_unfold)
qed

lemma csv_reads_back_witness:
  "read_csv (csv_record [''id'', ''note''] @ csv_record [''x'', ''a,'' @ dquote @ [CHR 0x0A]]) =
     [[''id'', ''note''], [''x'', ''a,'' @ dquote @ [CHR 0x0A]]]"
  using csv_reads_back[of "\<lambda>_. []" "[(''id'', JStr ''x''), (''note'', JStr (''a,'' @ dquote @ [CHR 0x0A]))]" "[]"]
  by (simp add: format_csv_def csv_row_def csv_text_def obj_get_or_def)

text \<open>The only error: a row with a column the first row does not have.\<close>

lemma csv_rows_error:
  "result_map (csv_row rep keys) rs = Inl e \<longleftrightarrow>
     e = ValueError ''dict contains fields not in fieldnames'' \<and> list_ex (\<lambda>row. list_ex (\<lambda>(k, _). k \<notin> set keys) row) rs"
proof (induction rs)
  case (Cons r rs)
  then show ?case
    by (cases "list_ex (\<lambda>(k, _). k \<notin> set keys) r") (auto simp: csv_row_def bind_result_Inl)
qed simp

lemma format_csv_error:
  "format_csv rep (first # rows) = Inl e \<longleftrightarrow>
     e = ValueError ''dict contains fields not in fieldnames'' \<and>
     list_ex (\<lambda>row. list_ex (\<lambda>(k, _). k \<notin> set (map fst first)) row) (first # rows)"
  unfolding format_csv_def Let_def list.case bind_result_Inl csv_rows_error by simp

subsection \<open>What the crawl runs\<close>

lemma rx_star_split:
  assumes "q \<in> set (rx_match (rx_star f) p)"
  shows "\<exists>u. rp_after p = u @ rp_after q \<and> list_all f u"
  using assms
proof (induction "rp_after p" arbitrary: p)
  case Nil
  then show ?case
    by (simp add: rx_star_step Nil(1)[symmetric])
next
  case (Cons c cs)
  let ?p = "p\<lparr>rp_before := c # rp_before p, rp_after := cs\<rparr>"
  have eq: "rp_after p = c # cs"
    using Cons(2) by simp
  consider "q = p" | "f c" "q \<in> set (rx_match (rx_star f) ?p)"
    using Cons(3) by (auto simp: rx_star_step[of f p] eq split: if_splits)
  then show ?case
  proof cases
    case 2
    then obtain u where "cs = u @ rp_after q" "list_all f u"
      using Cons(1)[of ?p] by auto
    then show ?thesis
      using 2(1) eq by (intro exI[of _ "c # u"]) simp
  qed (auto intro: exI[of _ "[]"])
qed

text \<open>A plain name is an identifier, with at most a line feed after it.\<close>

lemma plain_name_cases:
  assumes "plain_name t"
  shows "\<exists>c u v. t = c # u @ v \<and> name_start c \<and> list_all name_char u \<and> (v = [] \<or> v = newline)"
proof -
  obtain c cs where t: "t = c # cs" "name_start c"
    using assms by (cases t) (auto simp: plain_name_def rx_matches_def rx_cat_def rx_start_def)
  let ?p = "\<lparr>rp_before = [c], rp_after = cs, rp_groups = []\<rparr>"
  obtain q where q: "q \<in> set (rx_match (rx_star name_char) ?p)" "rp_after q = [] \<or> rp_after q = newline"
    using assms t by (auto simp: plain_name_def rx_matches_def rx_cat_def rx_start_def newline_def split: if_splits)
  from rx_star_split[OF q(1)] obtain u where "cs = u @ rp_after q" "list_all name_char u"
    by auto
  then show ?thesis
    using t q(2) by blast
qed

lemma plain_name_quoted: "plain_name t \<Longrightarrow> quote_ident t = dquote @ t @ dquote"
proof -
  assume p: "plain_name t"
  have "\<not> name_char CHR 0x22" "\<not> name_start CHR 0x22"
    by (simp_all add: name_char_def name_start_def is_ascii_alpha_def is_digit_def py_ord_def)
  then have "CHR 0x22 \<notin> set t"
    using plain_name_cases[OF p] by (auto simp: list_all_iff newline_def)
  then show ?thesis
    by (simp add: quote_ident_def replace_char_absent)
qed

text \<open>Besides the list of tables the crawl of a SQLite file only asks for the columns and keys of quoted plain
  names, and a crawl that ends has exactly the tables with such a name.\<close>

lemma crawl_sqlite_tables_statements:
  "st \<in> set (snd (crawl_sqlite_tables db ts acc)) \<Longrightarrow>
     \<exists>t. plain_name t \<and> t \<in> set ts \<and>
       (st = ''PRAGMA table_info('' @ dquote @ t @ dquote @ '')'' \<or>
        st = ''PRAGMA foreign_key_list('' @ dquote @ t @ dquote @ '')'')"
proof (induction db ts acc rule: crawl_sqlite_tables.induct)
  case (2 db t ts acc)
  show ?case
  proof (cases "plain_name t")
    case True
    note q = plain_name_quoted[OF True]
    from 2(3) True consider "st = ''PRAGMA table_info('' @ quote_ident t @ '')''" | "st = ''PRAGMA foreign_key_list('' @ quote_ident t @ '')''"
      | cols fks where "sq_columns db (''PRAGMA table_info('' @ quote_ident t @ '')'') = Inr cols"
        "sq_keys db (''PRAGMA foreign_key_list('' @ quote_ident t @ '')'') = Inr fks"
        "st \<in> set (snd (crawl_sqlite_tables db ts (dict_set acc t (sqlite_table_of cols fks))))"
      by (auto simp: Let_def split: sum.splits prod.splits)
    then show ?thesis
    proof cases
      case 1 then show ?thesis using True unfolding q by auto
    next
      case 2 then show ?thesis using True unfolding q by auto
    next
      case 3
      then show ?thesis
        using "2.IH"(2) True by fastforce
    qed
  next
    case False
    then show ?thesis
      using 2 by auto
  qed
qed simp

lemma crawl_sqlite_tables_keys:
  "crawl_sqlite_tables db ts acc = (Inr tables, tr) \<Longrightarrow>
     set (map fst tables) = set (map fst acc) \<union> {t \<in> set ts. plain_name t}"
proof (induction db ts acc arbitrary: tr rule: crawl_sqlite_tables.induct)
  case (2 db t ts acc)
  show ?case
  proof (cases "plain_name t")
    case True
    then obtain cols fks tr' where
      "sq_columns db (''PRAGMA table_info('' @ quote_ident t @ '')'') = Inr cols"
      "sq_keys db (''PRAGMA foreign_key_list('' @ quote_ident t @ '')'') = Inr fks"
      "crawl_sqlite_tables db ts (dict_set acc t (sqlite_table_of cols fks)) = (Inr tables, tr')"
      using 2(3) by (auto simp: Let_def split: sum.splits prod.splits)
    then show ?thesis
      using "2.IH"(2) True dict_keys_set[of acc t] by fastforce
  next
    case False
    then show ?thesis
      using 2 by auto
  qed
qed simp

lemma crawl_sqlite_complete:
  assumes "crawl_sqlite db = (Inr info, tr)" and "sq_tables db tables_statement = Inr ts"
  shows "\<exists>tables. info = [(''main'', tables)] \<and> set (map fst tables) = {t \<in> set ts. plain_name t}"
  using assms crawl_sqlite_tables_keys[of db ts "[]"] by (auto simp: crawl_sqlite_def split: sum.splits prod.splits)

subsection \<open>The wiki's pages\<close>

lemma page_of_table:
  assumes "distinct (map (\<lambda>(s, t, d). t) (all_tables info))" and "''index'' \<notin> set (map (\<lambda>(s, t, d). t) (all_tables info))"
    and "(s, t, d) \<in> set (all_tables info)"
  shows "dict_get (wiki_directory info) (t @ ''.md'') = Some (join newline (table_lines (all_tables info) (s, t, d)))"
    and "dict_get (wiki_directory info) ''index.md'' = Some (join newline (index_lines info))"
proof -
  have names: "map fst (generate_wiki_locally info) = map (\<lambda>n. n @ ''.md'') (''index'' # map (\<lambda>(s, t, d). t) (all_tables info))"
    by (simp add: generate_wiki_locally_def case_prod_unfold comp_def)
  have "distinct (map fst (generate_wiki_locally info))"
    unfolding names by (subst distinct_map) (use assms(1,2) in \<open>auto simp: inj_on_def\<close>)
  then have ok: "dict_ok (rev (generate_wiki_locally info))"
    by (simp add: dict_ok_def rev_map[symmetric])
  have found: "dict_get (wiki_directory info) k = Some v" if "(k, v) \<in> set (generate_wiki_locally info)" for k v
    using that dict_get_iff_in_set[OF ok, of k v] by (simp add: wiki_directory_def dict_get_merge)
  show "dict_get (wiki_directory info) (t @ ''.md'') = Some (join newline (table_lines (all_tables info) (s, t, d)))"
    by (rule found) (use assms(3) in \<open>force simp: generate_wiki_locally_def\<close>)
  show "dict_get (wiki_directory info) ''index.md'' = Some (join newline (index_lines info))"
    by (rule found) (simp add: generate_wiki_locally_def)
qed

lemma in_link_section: "(t, c) \<in> set links \<Longrightarrow> via_line t c \<in> set (link_section title links)"
  by (auto simp: link_section_def)

lemma incoming_keys_iff:
  "(name, c) \<in> set (incoming_keys tables t) \<longleftrightarrow>
     (\<exists>s d k. (s, name, d) \<in> set tables \<and> k \<in> set (wt_keys d) \<and> wk_table k = t \<and> wk_column k = c)"
  by (fastforce simp: incoming_keys_def)

lemma listed_in_index:
  "(s, t, d) \<in> set (all_tables info) \<Longrightarrow> ''- '' @ page_link t \<in> set (index_lines info)"
  by (fastforce simp: index_lines_def contents_lines_def all_tables_def)

text \<open>The local wiki is cross-linked in both directions. When the tables have different names and none is
  called \<open>index\<close>, then for every foreign key from a table to a table of the crawl both pages are written, the
  page of the referencing table links to the other one through the column, the page of the referenced
  table links back to the first one through the same column, and the index page links to both.\<close>

theorem wiki_cross_linked:
  assumes "distinct (map (\<lambda>(s, t, d). t) (all_tables info))" and "''index'' \<notin> set (map (\<lambda>(s, t, d). t) (all_tables info))"
    and "(s, t, d) \<in> set (all_tables info)" and "(s', t', d') \<in> set (all_tables info)"
    and "k \<in> set (wt_keys d)" and "wk_table k = t'"
  shows "\<exists>from_page to_page index_page.
     dict_get (wiki_directory info) (t @ ''.md'') = Some (join newline from_page) \<and>
     via_line t' (wk_column k) \<in> set from_page \<and>
     dict_get (wiki_directory info) (t' @ ''.md'') = Some (join newline to_page) \<and>
     via_line t (wk_column k) \<in> set to_page \<and>
     dict_get (wiki_directory info) ''index.md'' = Some (join newline index_page) \<and>
     ''- '' @ page_link t \<in> set index_page \<and> ''- '' @ page_link t' \<in> set index_page"
proof -
  have "(t', wk_column k) \<in> set (map (\<lambda>k. (wk_table k, wk_column k)) (wt_keys d))"
    using assms(5,6) by force
  then have out: "via_line t' (wk_column k) \<in> set (table_lines (all_tables info) (s, t, d))"
    using in_link_section unfolding table_lines_def by fastforce
  have "(t, wk_column k) \<in> set (incoming_keys (all_tables info) t')"
    using assms(3,5,6) unfolding incoming_keys_iff by blast
  then have inward: "via_line t (wk_column k) \<in> set (table_lines (all_tables info) (s', t', d'))"
    using in_link_section unfolding table_lines_def by fastforce
  show ?thesis
    using page_of_table[OF assms(1,2,3)] page_of_table(1)[OF assms(1,2,4)] out inward
      listed_in_index[OF assms(3)] listed_in_index[OF assms(4)] by blast
qed

definition demo_artist :: wiki_table where
  "demo_artist =
     \<lparr>wt_columns = [\<lparr>wc_name = ''id'', wc_type = ''INTEGER'', wc_nullable = ''NO'', wc_primary = True\<rparr>], wt_keys = []\<rparr>"

definition demo_key :: wiki_key where
  "demo_key = \<lparr>wk_column = ''artist_id'', wk_schema = ''main'', wk_table = ''artist'', wk_target = Some ''id''\<rparr>"

definition demo_schema :: wiki_schemas where
  "demo_schema = [(''main'', [(''artist'', demo_artist), (''album'', \<lparr>wt_columns = [], wt_keys = [demo_key]\<rparr>)])]"

lemma wiki_cross_linked_witness:
  "\<exists>from_page to_page index_page.
     dict_get (wiki_directory demo_schema) (''album'' @ ''.md'') = Some (join newline from_page) \<and>
     via_line ''artist'' (wk_column demo_key) \<in> set from_page \<and>
     dict_get (wiki_directory demo_schema) (''artist'' @ ''.md'') = Some (join newline to_page) \<and>
     via_line ''album'' (wk_column demo_key) \<in> set to_page \<and>
     dict_get (wiki_directory demo_schema) ''index.md'' = Some (join newline index_page) \<and>
     ''- '' @ page_link ''album'' \<in> set index_page \<and> ''- '' @ page_link ''artist'' \<in> set index_page"
  by (rule wiki_cross_linked[of demo_schema "''main''" "''album''" "\<lparr>wt_columns = [], wt_keys = [demo_key]\<rparr>"
        "''main''" "''artist''" demo_artist])
    (simp_all add: demo_schema_def demo_key_def all_tables_def)

text \<open>Two schemas with a table of the same name leave one page: the first one's is overwritten.\<close>

lemma wiki_page_overwritten:
  "dict_get (wiki_directory [(''a'', [(''t'', d)]), (''b'', [(''t'', e)])]) ''t.md'' =
     Some (join newline (table_lines [(''a'', ''t'', d), (''b'', ''t'', e)] (''b'', ''t'', e)))"
  by (simp add: wiki_directory_def dict_get_merge generate_wiki_locally_def all_tables_def)

text \<open>A table called \<open>index\<close> takes the place of the contents page.\<close>

lemma wiki_index_overwritten:
  "dict_get (wiki_directory [(''a'', [(''index'', d)])]) ''index.md'' =
     Some (join newline (table_lines [(''a'', ''index'', d)] (''a'', ''index'', d)))"
  by (simp add: wiki_directory_def dict_get_merge generate_wiki_locally_def all_tables_def)

subsection \<open>The diagnostic\<close>

lemma diagnostic_three_lines: "length (diagnostic_lines rep loads data) = 3"
  by (auto simp: diagnostic_lines_def profile_lines_def log_lines_def split: option.splits json.splits list.splits)

text \<open>A column with one null among otherwise different values is reported both as a null cluster and as
  eligible for a primary key.\<close>

lemma null_column_called_key:
  "null_columns [(''id'', JInt 1)] [[(''id'', JInt 1)], [(''id'', JNull)]] = [''id''] \<and>
   unique_columns (\<lambda>_. []) [(''id'', JInt 1)] [[(''id'', JInt 1)], [(''id'', JNull)]] = [''id'']"
  by (simp add: null_columns_def unique_columns_def int_str_def nat_str_def digits_of.simps)

end
