(* ===== verification/Tenant_Check.thy ===== *)
theory Tenant_Check
  imports Tenant
begin

text \<open>
  \<open>scripts/validate_tenant_config.py\<close>: the check of a tenant configuration file before it is deployed, and
  what its verdict means for \<open>parse_config\<close>, the gateway's own reader of the same file (theory \<open>Tenant\<close>).

  The loops collect messages; a value of an unexpected type raises, which ends the script with status 1.
  The fields a mode requires are a Python set and so are visited in no fixed order; the model visits them in
  the order of the source. JSON text, the float parser and \<open>repr\<close> are parameters.
\<close>

subsection \<open>The parts\<close>

record validation_result =
  vr_valid :: bool
  vr_errors :: "string list"
  vr_warnings :: "string list"

definition quoted :: "string \<Rightarrow> string" where
  "quoted s = [CHR 0x27] @ s @ [CHR 0x27]"

definition database_id_matches :: "string \<Rightarrow> bool" where
  "database_id_matches s \<longleftrightarrow>
     (case s of [] \<Rightarrow> False
      | c # cs \<Rightarrow> (is_ascii_alpha c \<or> is_digit c) \<and> length cs \<le> 127 \<and> list_all database_id_char cs)"

definition schema_matches :: "string \<Rightarrow> bool" where
  "schema_matches s \<longleftrightarrow>
     (case s of [] \<Rightarrow> False
      | c # cs \<Rightarrow> (is_ascii_alpha c \<or> c = CHR ''_'') \<and> list_all (\<lambda>c. is_ascii_alpha c \<or> is_digit c \<or> c = CHR ''_'') cs)"

definition validate_database_id :: "string \<Rightarrow> string list" where
  "validate_database_id d =
     (if database_id_matches d then []
      else [''Invalid database_id '' @ quoted d @ '': must match ^[A-Za-z0-9][A-Za-z0-9_.-]{0,127}$''])"

definition validate_schema_name :: "json \<Rightarrow> string \<Rightarrow> exn + string list" where
  "validate_schema_name v field_name =
     (case v of
        JStr s \<Rightarrow>
          Inr (if schema_matches s then []
               else [''Invalid '' @ field_name @ '' '' @ quoted s @ '': must be a valid identifier (alphanumeric + underscore)''])
      | _ \<Rightarrow> Inl TypeError)"

definition no_protocol :: "(json \<Rightarrow> string) \<Rightarrow> json \<Rightarrow> exn + string list" where
  "no_protocol rep v =
     (let message = (\<lambda>t. [''connection_string missing protocol (e.g., postgresql+asyncpg://): '' @ t]) in
      case v of
        JStr s \<Rightarrow> Inr (message (take 50 s))
      | JArr xs \<Rightarrow> Inr (message (rep (JArr (take 50 xs))))
      | _ \<Rightarrow> Inl TypeError)"

definition validate_connection_string :: "(json \<Rightarrow> string) \<Rightarrow> json \<Rightarrow> exn + string list" where
  "validate_connection_string rep v =
     (if \<not> truthy v then Inr [''connection_string is empty'']
      else bind_result (mentions_scheme v) (\<lambda>ok. if ok then Inr [] else no_protocol rep v))"

definition validate_rotated_config :: "obj \<Rightarrow> string \<Rightarrow> string list" where
  "validate_rotated_config c prefix_text =
     concat (map (\<lambda>f. if truthy (obj_get c f) then [] else [prefix_text @ '': rotated mode requires '' @ quoted f])
       [''role_name'', ''host'', ''db_name''])"

definition validate_static_config :: "(json \<Rightarrow> string) \<Rightarrow> obj \<Rightarrow> string \<Rightarrow> exn + string list" where
  "validate_static_config rep c prefix_text =
     (if \<not> truthy (obj_get c ''connection_string'')
      then Inr [prefix_text @ '': static mode requires '' @ quoted ''connection_string'']
      else validate_connection_string rep (obj_get c ''connection_string''))"

definition environment_of :: "json \<Rightarrow> exn + string set" where
  "environment_of v =
     (case v of
        JStr s \<Rightarrow>
          let l = py_lower s in
          Inr (if str_contains ''prod'' l then {''prod''}
               else if str_contains ''dev'' l \<or> str_contains ''staging'' l \<or> str_contains ''test'' l then {''dev''} else {})
      | _ \<Rightarrow> Inl (AttributeError ''lower''))"

definition is_number :: "(string \<Rightarrow> real option) \<Rightarrow> string \<Rightarrow> json \<Rightarrow> bool" where
  "is_number pf field v \<longleftrightarrow>
     (if field \<in> {''pool_size'', ''max_overflow'', ''pool_recycle''}
      then (case py_int v of Inl _ \<Rightarrow> False | Inr _ \<Rightarrow> True)
      else (case py_float pf v of Inl _ \<Rightarrow> False | Inr _ \<Rightarrow> True))"

definition pool_errors :: "(string \<Rightarrow> real option) \<Rightarrow> obj \<Rightarrow> string \<Rightarrow> string list" where
  "pool_errors pf c prefix_text =
     concat (map (\<lambda>f. if obj_get c f = JNull \<or> is_number pf f (obj_get c f) then []
         else [prefix_text @ '': '' @ quoted f @ '' must be a number''])
       [''pool_size'', ''max_overflow'', ''pool_timeout'', ''pool_recycle''])"

subsection \<open>One database, one tenant, the file\<close>

text \<open>What one turn of a loop adds: messages, the pairs it has seen with their locations, environments.\<close>

type_synonym findings = "string list \<times> ((string \<times> string) \<times> string) list \<times> string set"

definition no_findings :: "string list \<Rightarrow> findings" where
  "no_findings errors = (errors, [], {})"

definition join_findings :: "findings list \<Rightarrow> findings" where
  "join_findings fs = (concat (map fst fs), concat (map (fst \<circ> snd) fs), \<Union> (set (map (snd \<circ> snd) fs)))"

definition check_database ::
    "(json \<Rightarrow> string) \<Rightarrow> (string \<Rightarrow> real option) \<Rightarrow> string \<Rightarrow> string \<times> json \<Rightarrow> exn + findings" where
  "check_database rep pf tenant_id db =
     (case db of (database_id, v) \<Rightarrow>
        let place = ''Tenant '' @ quoted tenant_id @ '', database '' @ quoted database_id in
        (case v of
           JObj c \<Rightarrow>
             let mode = obj_get_or c ''credential_mode'' (JStr ''static'');
                 id_errors = validate_database_id database_id;
                 seen = [((tenant_id, database_id), place)]
             in (case mode of
                   JArr _ \<Rightarrow> Inl TypeError
                 | JObj _ \<Rightarrow> Inl TypeError
                 | _ \<Rightarrow>
                     if mode \<noteq> JStr ''static'' \<and> mode \<noteq> JStr ''rotated'' then
                       Inr (id_errors @ [place @ '': invalid credential_mode '' @ quoted (py_str rep mode) @ '' (must be '' @
                         quoted ''static'' @ '' or '' @ quoted ''rotated'' @ '')''], seen, {})
                     else
                       bind_result (if mode = JStr ''static'' then validate_static_config rep c place
                                    else Inr (validate_rotated_config c place)) (\<lambda>mode_errors.
                       bind_result (validate_schema_name (obj_get_or c ''data_schema'' (JStr ''public'')) (place @ '' data_schema'')) (\<lambda>e1.
                       bind_result (validate_schema_name (obj_get_or c ''metadata_schema'' (JStr ''meta'')) (place @ '' metadata_schema'')) (\<lambda>e2.
                       bind_result (environment_of (if mode = JStr ''rotated'' then obj_get_or c ''host'' (JStr [])
                                                    else obj_get_or c ''connection_string'' (JStr []))) (\<lambda>env.
                         Inr (id_errors @ mode_errors @ e1 @ e2 @ pool_errors pf c place, seen, env))))))
         | _ \<Rightarrow> Inr (no_findings [place @ '': must be an object''])))"

definition check_tenant ::
    "(json \<Rightarrow> string) \<Rightarrow> (string \<Rightarrow> real option) \<Rightarrow> string \<times> json \<Rightarrow> exn + findings" where
  "check_tenant rep pf tenant =
     (case tenant of (tenant_id, v) \<Rightarrow>
        let place = ''Tenant '' @ quoted tenant_id in
        (case v of
           JObj d \<Rightarrow>
             (case dict_get d ''databases'' of
                None \<Rightarrow> Inr (no_findings [place @ '': missing '' @ quoted ''databases'' @ '' key''])
              | Some (JObj dbs) \<Rightarrow>
                  if dbs = [] then Inr (no_findings [place @ '': at least one database is required''])
                  else bind_result (result_map (check_database rep pf tenant_id) dbs) (\<lambda>fs. Inr (join_findings fs))
              | Some _ \<Rightarrow> Inr (no_findings [place @ '': '' @ quoted ''databases'' @ '' must be an object'']))
         | _ \<Rightarrow> Inr (no_findings [place @ '': must be an object''])))"

text \<open>\<open>seen_pairs\<close> after the loops: each pair with all its locations.\<close>

definition locations :: "((string \<times> string) \<times> string) list \<Rightarrow> (string \<times> string, string list) dict" where
  "locations seen = foldl (\<lambda>d (k, p). dict_push d k p) [] seen"

definition duplicate_errors :: "(string \<times> string \<Rightarrow> string) \<Rightarrow> ((string \<times> string) \<times> string) list \<Rightarrow> string list" where
  "duplicate_errors pair_text seen =
     concat (map (\<lambda>(k, ps). if length ps > 1
         then [''Duplicate (org_id, database_id) pair: '' @ pair_text k @ '' found in '' @ join '', '' ps] else [])
       (locations seen))"

definition environment_warnings :: "string set \<Rightarrow> string list" where
  "environment_warnings envs =
     (if ''dev'' \<in> envs \<and> ''prod'' \<in> envs then [''Mixed environments detected in config: dev, prod''] else [])"

definition rejected :: "string \<Rightarrow> validation_result" where
  "rejected message = \<lparr>vr_valid = False, vr_errors = [message], vr_warnings = []\<rparr>"

definition validate_tenant_config ::
    "(json \<Rightarrow> string) \<Rightarrow> (string \<times> string \<Rightarrow> string) \<Rightarrow> (string \<Rightarrow> real option) \<Rightarrow> json \<Rightarrow> exn + validation_result" where
  "validate_tenant_config rep pair_text pf config =
     (case config of
        JObj root_dict \<Rightarrow>
          (case dict_get root_dict ''tenants'' of
             None \<Rightarrow> Inr (rejected (''Missing '' @ quoted ''tenants'' @ '' key at root''))
           | Some (JObj tenants) \<Rightarrow>
               if tenants = [] then Inr (rejected ''At least one tenant is required'')
               else bind_result (result_map (check_tenant rep pf) tenants) (\<lambda>fs.
                 (case join_findings fs of (errors, seen, envs) \<Rightarrow>
                    let all_errors = errors @ duplicate_errors pair_text seen
                    in Inr \<lparr>vr_valid = (all_errors = []), vr_errors = all_errors, vr_warnings = environment_warnings envs\<rparr>))
           | Some _ \<Rightarrow> Inr (rejected (quoted ''tenants'' @ '' must be an object'')))
      | _ \<Rightarrow> Inr (rejected ''Config must be a JSON object''))"

subsection \<open>The command\<close>

text \<open>The exit status; an exception that is not caught also ends with status 1.\<close>

definition tenant_check_main ::
    "(json \<Rightarrow> string) \<Rightarrow> (string \<times> string \<Rightarrow> string) \<Rightarrow> (string \<Rightarrow> real option) \<Rightarrow> (string \<Rightarrow> json option) \<Rightarrow> os_state
      \<Rightarrow> string list \<Rightarrow> nat" where
  "tenant_check_main rep pair_text pf loads os args =
     (case args of
        [] \<Rightarrow> 1
      | path # _ \<Rightarrow>
          (case os_files os path of
             File_Text text \<Rightarrow>
               (case loads text of
                  None \<Rightarrow> 1
                | Some config \<Rightarrow>
                    (case validate_tenant_config rep pair_text pf config of
                       Inl _ \<Rightarrow> 1
                     | Inr r \<Rightarrow> if vr_errors r \<noteq> [] then 1 else 0))
           | _ \<Rightarrow> 1))"

subsection \<open>What an accepted file gives the gateway\<close>

definition binding_checked :: "tenant_config \<Rightarrow> bool" where
  "binding_checked b \<longleftrightarrow>
     is_valid_database_id (tc_database_id b) \<and>
     (\<exists>s m. tc_data_schema b = JStr s \<and> schema_matches s \<and> tc_metadata_schema b = JStr m \<and> schema_matches m) \<and>
     (tc_credential_mode b = ''static'' \<and> (\<exists>cs. tc_connection_string b = JStr cs \<and> str_contains ''://'' cs) \<or>
      tc_credential_mode b = ''rotated'' \<and> tc_connection_string b = JStr [] \<and> truthy (tc_role_name b) \<and>
      is_str (tc_host b) \<and> truthy (tc_host b) \<and> truthy (tc_db_name b))"

definition bad_port :: "string \<times> json \<Rightarrow> exn \<Rightarrow> bool" where
  "bad_port db e \<longleftrightarrow> (\<exists>c. snd db = JObj c \<and> obj_get c ''credential_mode'' = JStr ''rotated'' \<and>
     py_int (obj_get_or c ''port'' (JInt 5432)) = Inl e)"

definition databases_of :: "json \<Rightarrow> (string \<times> json) list" where
  "databases_of v = (case v of JObj d \<Rightarrow> (case dict_get d ''databases'' of Some (JObj dbs) \<Rightarrow> dbs | _ \<Rightarrow> []) | _ \<Rightarrow> [])"

definition declared_pairs :: "(string \<times> json) list \<Rightarrow> (string \<times> string) list" where
  "declared_pairs tenants = concat (map (\<lambda>(t, v). map (\<lambda>(d, _). (t, d)) (databases_of v)) tenants)"

lemma database_id_matches_valid: "database_id_matches d \<Longrightarrow> is_valid_database_id d"
proof -
  assume m: "database_id_matches d"
  have "\<not> is_space c" if "database_id_char c" for c
    using that by (auto simp: database_id_char_def is_ascii_alpha_def is_digit_def is_space_def py_ord_def Let_def)
  moreover have chars: "list_all database_id_char d"
    using m by (auto simp: database_id_matches_def database_id_char_def split: list.splits)
  ultimately have no_space: "c \<in> set d \<Longrightarrow> \<not> is_space c" for c
    by (auto simp: list_all_iff)
  have drop: "dropWhile is_space xs = xs" if "set xs \<subseteq> set d" for xs
    using that no_space by (cases xs) auto
  have "py_strip d = d"
    by (simp add: py_strip_def strip_by_def lstrip_by_def rstrip_by_def drop)
  then show ?thesis
    using m by (simp add: is_valid_database_id_def database_id_matches_def)
qed

lemma pool_errors_none:
  assumes "pool_errors pf c place = []"
  shows "\<exists>p. pool_fields pf c = Inr p"
proof -
  have i: "\<exists>x. opt_number py_int (obj_get c f) = Inr x" if "obj_get c f = JNull \<or> is_number pf f (obj_get c f)"
    "f \<in> {''pool_size'', ''max_overflow'', ''pool_recycle''}" for f
    using that by (cases "py_int (obj_get c f)") (auto simp: opt_number_def is_number_def)
  have t: "\<exists>x. opt_number (py_float pf) (obj_get c ''pool_timeout'') = Inr x"
    if "obj_get c ''pool_timeout'' = JNull \<or> is_number pf ''pool_timeout'' (obj_get c ''pool_timeout'')"
    using that by (cases "py_float pf (obj_get c ''pool_timeout'')") (auto simp: opt_number_def is_number_def)
  have "obj_get c f = JNull \<or> is_number pf f (obj_get c f)"
    if "f \<in> set [''pool_size'', ''max_overflow'', ''pool_timeout'', ''pool_recycle'']" for f
    using assms that by (auto simp: pool_errors_def split: if_splits)
  then obtain a b x d where "opt_number py_int (obj_get c ''pool_size'') = Inr a"
    "opt_number py_int (obj_get c ''max_overflow'') = Inr b"
    "opt_number (py_float pf) (obj_get c ''pool_timeout'') = Inr x" "opt_number py_int (obj_get c ''pool_recycle'') = Inr d"
    using i t by (metis list.set_intros insertI1 insertI2)
  then show ?thesis
    by (simp add: pool_fields_def)
qed

lemma checked_static:
  assumes "validate_static_config rep c place = Inr []" and "environment_of (obj_get_or c ''connection_string'' (JStr [])) = Inr env"
  shows "\<exists>cs. obj_get c ''connection_string'' = JStr cs \<and> str_contains ''://'' cs"
proof -
  have t: "truthy (obj_get c ''connection_string'')"
    using assms(1) by (auto simp: validate_static_config_def split: if_splits)
  then obtain cs where "obj_get c ''connection_string'' = JStr cs"
    using assms(2) by (auto simp: environment_of_def obj_get_or_def obj_get_def split: json.splits option.splits)
  then show ?thesis
    using assms(1) t by (auto simp: validate_static_config_def validate_connection_string_def no_protocol_def Let_def split: if_splits)
qed

lemma checked_rotated:
  assumes "validate_rotated_config c place = []" and "environment_of (obj_get_or c ''host'' (JStr [])) = Inr env"
  shows "truthy (obj_get c ''role_name'') \<and> truthy (obj_get c ''host'') \<and> is_str (obj_get c ''host'') \<and> truthy (obj_get c ''db_name'')"
proof -
  have t: "truthy (obj_get c ''role_name'')" "truthy (obj_get c ''host'')" "truthy (obj_get c ''db_name'')"
    using assms(1) by (auto simp: validate_rotated_config_def split: if_splits)
  then show ?thesis
    using assms(2) by (auto simp: environment_of_def obj_get_or_def obj_get_def split: json.splits option.splits)
qed

lemma checked_schema: "validate_schema_name v f = Inr [] \<Longrightarrow> \<exists>s. v = JStr s \<and> schema_matches s"
  by (auto simp: validate_schema_name_def split: json.splits if_splits)

lemma check_database_clean:
  assumes "check_database rep pf t (d, v) = Inr ([], seen, envs)"
  shows "\<exists>c mode e. v = JObj c \<and> database_id_matches d \<and> mode = obj_get_or c ''credential_mode'' (JStr ''static'') \<and>
     (mode = JStr ''static'' \<and> (\<exists>place. validate_static_config rep c place = Inr []) \<and>
        (\<exists>env. environment_of (obj_get_or c ''connection_string'' (JStr [])) = Inr env) \<or>
      mode = JStr ''rotated'' \<and> (\<exists>place. validate_rotated_config c place = []) \<and>
        (\<exists>env. environment_of (obj_get_or c ''host'' (JStr [])) = Inr env)) \<and>
     validate_schema_name (obj_get_or c ''data_schema'' (JStr ''public'')) (e @ '' data_schema'') = Inr [] \<and>
     validate_schema_name (obj_get_or c ''metadata_schema'' (JStr ''meta'')) (e @ '' metadata_schema'') = Inr [] \<and>
     pool_errors pf c e = [] \<and> seen = [((t, d), e)]"
proof -
  obtain c where c: "v = JObj c"
    using assms by (cases v) (auto simp: check_database_def no_findings_def Let_def)
  define mode where "mode = obj_get_or c ''credential_mode'' (JStr ''static'')"
  define e where "e = ''Tenant '' @ quoted t @ '', database '' @ quoted d"
  note a = assms[unfolded check_database_def c prod.case json.case Let_def, folded mode_def e_def]
  have m: "mode = JStr ''static'' \<or> mode = JStr ''rotated''"
    using a by (cases mode) (auto split: if_splits)
  have "database_id_matches d"
    using a m by (auto simp: validate_database_id_def split: if_splits)
  moreover have "validate_schema_name (obj_get_or c ''data_schema'' (JStr ''public'')) (e @ '' data_schema'') = Inr [] \<and>
     validate_schema_name (obj_get_or c ''metadata_schema'' (JStr ''meta'')) (e @ '' metadata_schema'') = Inr [] \<and>
     pool_errors pf c e = [] \<and> seen = [((t, d), e)]"
    using a m by auto
  moreover have "mode = JStr ''static'' \<and> (\<exists>place. validate_static_config rep c place = Inr []) \<and>
        (\<exists>env. environment_of (obj_get_or c ''connection_string'' (JStr [])) = Inr env) \<or>
      mode = JStr ''rotated'' \<and> (\<exists>place. validate_rotated_config c place = []) \<and>
        (\<exists>env. environment_of (obj_get_or c ''host'' (JStr [])) = Inr env)"
    using a m by auto
  ultimately show ?thesis
    using c mode_def by blast
qed

lemma checked_entry_loads:
  assumes "check_database rep pf t (d, v) = Inr ([], seen, envs)"
  shows "case config_entry pf t (d, v) of
     Inr b \<Rightarrow> tc_org_id b = t \<and> tc_database_id b = d \<and> binding_checked b
   | Inl e \<Rightarrow> bad_port (d, v) e"
proof -
  obtain c e where c: "v = JObj c" "database_id_matches d"
    "obj_get_or c ''credential_mode'' (JStr ''static'') = JStr ''static'' \<and> (\<exists>place. validate_static_config rep c place = Inr []) \<and>
        (\<exists>env. environment_of (obj_get_or c ''connection_string'' (JStr [])) = Inr env) \<or>
     obj_get_or c ''credential_mode'' (JStr ''static'') = JStr ''rotated'' \<and> (\<exists>place. validate_rotated_config c place = []) \<and>
        (\<exists>env. environment_of (obj_get_or c ''host'' (JStr [])) = Inr env)"
    "validate_schema_name (obj_get_or c ''data_schema'' (JStr ''public'')) (e @ '' data_schema'') = Inr []"
    "validate_schema_name (obj_get_or c ''metadata_schema'' (JStr ''meta'')) (e @ '' metadata_schema'') = Inr []"
    "pool_errors pf c e = []"
    using check_database_clean[OF assms] by blast
  obtain ds ms where schemas: "obj_get_or c ''data_schema'' (JStr ''public'') = JStr ds" "schema_matches ds"
    "obj_get_or c ''metadata_schema'' (JStr ''meta'') = JStr ms" "schema_matches ms"
    using checked_schema[OF c(4)] checked_schema[OF c(5)] by blast
  obtain p1 p2 p3 p4 where p: "pool_fields pf c = Inr (p1, p2, p3, p4)"
    using pool_errors_none[OF c(6)] by (metis prod_cases4)
  note id_ok = database_id_matches_valid[OF c(2)]
  from c(3) show ?thesis
  proof
    assume s: "obj_get_or c ''credential_mode'' (JStr ''static'') = JStr ''static'' \<and>
        (\<exists>place. validate_static_config rep c place = Inr []) \<and>
        (\<exists>env. environment_of (obj_get_or c ''connection_string'' (JStr [])) = Inr env)"
    then obtain cs where "obj_get c ''connection_string'' = JStr cs" "str_contains ''://'' cs"
      using checked_static by blast
    moreover from this have "cs \<noteq> []"
      by auto
    ultimately show ?thesis
      using s p schemas id_ok
      by (simp add: config_entry_def c(1) as_obj_def Let_def require_that_def base_args_def tenant_config_init_def binding_checked_def)
  next
    assume r: "obj_get_or c ''credential_mode'' (JStr ''static'') = JStr ''rotated'' \<and>
        (\<exists>place. validate_rotated_config c place = []) \<and>
        (\<exists>env. environment_of (obj_get_or c ''host'' (JStr [])) = Inr env)"
    then have t: "truthy (obj_get c ''role_name'') \<and> truthy (obj_get c ''host'') \<and> is_str (obj_get c ''host'') \<and>
        truthy (obj_get c ''db_name'')"
      using checked_rotated by blast
    have mode: "obj_get c ''credential_mode'' = JStr ''rotated''"
      using r by (auto simp: obj_get_or_def obj_get_def split: option.splits)
    show ?thesis
    proof (cases "py_int (obj_get_or c ''port'' (JInt 5432))")
      case (Inl e)
      then show ?thesis
        using r t p mode
        by (simp add: config_entry_def c(1) as_obj_def Let_def require_that_def bad_port_def)
    next
      case (Inr n)
      then show ?thesis
        using r t p schemas id_ok
        by (simp add: config_entry_def c(1) as_obj_def Let_def require_that_def base_args_def tenant_config_init_def
            binding_checked_def py_or_def)
    qed
  qed
qed

text \<open>A loop whose every turn either gives a good value or fails for a reason of its own.\<close>

lemma result_map_cases:
  assumes "\<And>x. x \<in> set xs \<Longrightarrow> case g x of Inr y \<Rightarrow> P x y | Inl e \<Rightarrow> Q x e"
  shows "case result_map g xs of Inr ys \<Rightarrow> list_all2 P xs ys | Inl e \<Rightarrow> \<exists>x \<in> set xs. Q x e"
  using assms
proof (induction xs)
  case (Cons x xs)
  have "case g x of Inr y \<Rightarrow> P x y | Inl e \<Rightarrow> Q x e" "case result_map g xs of Inr ys \<Rightarrow> list_all2 P xs ys | Inl e \<Rightarrow> \<exists>x \<in> set xs. Q x e"
    using Cons by auto
  then show ?case
    by (cases "g x"; cases "result_map g xs") auto
qed simp

lemma join_findings_clean:
  "fst (join_findings fs) = [] \<longleftrightarrow> (\<forall>f \<in> set fs. fst f = [])"
  by (auto simp: join_findings_def)

lemma result_map_found:
  assumes "result_map f xs = Inr ys" and "x \<in> set xs"
  shows "\<exists>y \<in> set ys. f x = Inr y"
  using assms by (induction xs arbitrary: ys) auto

lemma checked_tenant_loads:
  assumes "check_tenant rep pf (t, v) = Inr f" and "fst f = []"
  shows "case tenant_entries pf (t, v) of
     Inr bs \<Rightarrow> list_all2 (\<lambda>(d, _) b. tc_org_id b = t \<and> tc_database_id b = d \<and> binding_checked b) (databases_of v) bs
   | Inl e \<Rightarrow> \<exists>db \<in> set (databases_of v). bad_port db e"
proof -
  obtain d where d: "v = JObj d"
    using assms by (cases v) (auto simp: check_tenant_def no_findings_def)
  have "\<exists>x. dict_get d ''databases'' = Some x"
    using assms unfolding check_tenant_def d by (cases "dict_get d ''databases''") (auto simp: no_findings_def Let_def)
  then obtain x where x: "dict_get d ''databases'' = Some x" ..
  obtain dbs where dbs: "x = JObj dbs"
    using assms unfolding check_tenant_def d by (cases x) (auto simp: x no_findings_def Let_def)
  obtain fs where fs: "result_map (check_database rep pf t) dbs = Inr fs" "f = join_findings fs"
    using assms unfolding check_tenant_def d
    by (auto simp: x dbs no_findings_def Let_def split: if_splits)
  have "case config_entry pf t db of Inr b \<Rightarrow> (\<lambda>(d, _) b. tc_org_id b = t \<and> tc_database_id b = d \<and> binding_checked b) db b
      | Inl e \<Rightarrow> bad_port db e" if db: "db \<in> set dbs" for db
  proof -
    obtain g where g: "g \<in> set fs" "check_database rep pf t db = Inr g"
      using result_map_found[OF fs(1) db] by blast
    have "fst g = []"
      using assms(2) g(1) unfolding fs(2) join_findings_clean by blast
    then show ?thesis
      using g(2) checked_entry_loads[of rep pf t "fst db" "snd db" "fst (snd g)" "snd (snd g)"]
      by (cases db; cases g) (auto split: sum.splits)
  qed
  from result_map_cases[OF this] have "case result_map (config_entry pf t) dbs of
      Inr bs \<Rightarrow> list_all2 (\<lambda>(d, _) b. tc_org_id b = t \<and> tc_database_id b = d \<and> binding_checked b) dbs bs
    | Inl e \<Rightarrow> \<exists>db \<in> set dbs. bad_port db e" .
  moreover have "databases_of (JObj d) = dbs"
    by (simp add: databases_of_def x dbs)
  ultimately show ?thesis
    by (simp add: tenant_entries_def as_obj_def obj_get_or_def x dbs d split: sum.splits)
qed

lemma loaded_bindings:
  assumes "list_all2 (\<lambda>(t, v) bs. list_all2 (\<lambda>(d, _) b. tc_org_id b = t \<and> tc_database_id b = d \<and> binding_checked b)
      (databases_of v) bs) tenants bss"
  shows "map (\<lambda>b. (tc_org_id b, tc_database_id b)) (concat bss) = declared_pairs tenants \<and> list_all binding_checked (concat bss)"
  using assms
proof (induction tenants bss rule: list_all2_induct)
  case (Cons tenant tenants bs bss)
  obtain t v where t: "tenant = (t, v)"
    by (cases tenant)
  have "list_all2 (\<lambda>(d, _) b. tc_org_id b = t \<and> tc_database_id b = d \<and> binding_checked b) dbs bs \<Longrightarrow>
      map (\<lambda>b. (tc_org_id b, tc_database_id b)) bs = map (\<lambda>(d, _). (t, d)) dbs \<and> list_all binding_checked bs" for dbs
    by (induction dbs bs rule: list_all2_induct) auto
  then show ?case
    using Cons by (auto simp: t declared_pairs_def)
qed (simp add: declared_pairs_def)

text \<open>C38. A configuration that the check accepts is one the gateway can load: its own reader gives one binding for
  every database declared, in order, each with a valid identifier, proper schema names and the fields its
  mode needs; the one thing the check does not look at is the port of a rotated database, and a port that
  is no number is the only way the reader still fails.\<close>

theorem checked_config_loads:
  assumes "validate_tenant_config rep pair_text pf config = Inr r" and "vr_valid r"
  shows "\<exists>d tenants. config = JObj d \<and> dict_get d ''tenants'' = Some (JObj tenants) \<and>
     (case parse_config pf d of
        Inr bs \<Rightarrow> map (\<lambda>b. (tc_org_id b, tc_database_id b)) bs = declared_pairs tenants \<and> list_all binding_checked bs
      | Inl e \<Rightarrow> \<exists>tenant \<in> set tenants. \<exists>db \<in> set (databases_of (snd tenant)). bad_port db e)"
proof -
  obtain d where d: "config = JObj d"
    using assms by (cases config) (auto simp: validate_tenant_config_def rejected_def)
  obtain x where x: "dict_get d ''tenants'' = Some x"
    using assms unfolding validate_tenant_config_def d by (cases "dict_get d ''tenants''") (auto simp: rejected_def)
  obtain tenants where t: "x = JObj tenants"
    using assms unfolding validate_tenant_config_def d by (cases x) (auto simp: x rejected_def)
  obtain fs where fs: "result_map (check_tenant rep pf) tenants = Inr fs" "fst (join_findings fs) = []"
    using assms unfolding validate_tenant_config_def d
    by (auto simp: x t rejected_def Let_def case_prod_unfold split: if_splits)
  have "case tenant_entries pf tenant of
      Inr bs \<Rightarrow> (\<lambda>(t, v) bs. list_all2 (\<lambda>(d, _) b. tc_org_id b = t \<and> tc_database_id b = d \<and> binding_checked b)
        (databases_of v) bs) tenant bs
    | Inl e \<Rightarrow> \<exists>db \<in> set (databases_of (snd tenant)). bad_port db e" if mem: "tenant \<in> set tenants" for tenant
  proof -
    obtain f where f: "f \<in> set fs" "check_tenant rep pf tenant = Inr f"
      using result_map_found[OF fs(1) mem] by blast
    moreover have "fst f = []"
      using fs(2) f(1) unfolding join_findings_clean by blast
    moreover obtain t v where "tenant = (t, v)"
      by (cases tenant)
    ultimately show ?thesis
      using checked_tenant_loads[of rep pf t v f] by (simp split: sum.splits)
  qed
  from result_map_cases[OF this] have "case result_map (tenant_entries pf) tenants of
      Inr bss \<Rightarrow> list_all2 (\<lambda>(t, v) bs. list_all2 (\<lambda>(d, _) b. tc_org_id b = t \<and> tc_database_id b = d \<and> binding_checked b)
        (databases_of v) bs) tenants bss
    | Inl e \<Rightarrow> \<exists>tenant \<in> set tenants. \<exists>db \<in> set (databases_of (snd tenant)). bad_port db e" .
  then have "case parse_config pf d of
        Inr bs \<Rightarrow> map (\<lambda>b. (tc_org_id b, tc_database_id b)) bs = declared_pairs tenants \<and> list_all binding_checked bs
      | Inl e \<Rightarrow> \<exists>tenant \<in> set tenants. \<exists>db \<in> set (databases_of (snd tenant)). bad_port db e"
    using loaded_bindings[of tenants]
    by (cases "result_map (tenant_entries pf) tenants") (simp_all add: parse_config_def as_obj_def obj_get_or_def x t)
  then show ?thesis
    using d x t by blast
qed

definition small_config :: json where
  "small_config = JObj [(''tenants'', JObj [(''acme'', JObj [(''databases'', JObj [(''main'',
     JObj [(''connection_string'', JStr ''x://y'')])])])])]"

lemma checked_config_loads_witness:
  "\<exists>b. parse_config (\<lambda>_. None) [(''tenants'', JObj [(''acme'', JObj [(''databases'', JObj [(''main'',
     JObj [(''connection_string'', JStr ''x://y'')])])])])] = Inr [b] \<and> binding_checked b"
proof -
  have v: "validate_tenant_config (\<lambda>_. []) (\<lambda>_. []) (\<lambda>_. None) small_config =
      Inr \<lparr>vr_valid = True, vr_errors = [], vr_warnings = []\<rparr>"
    by code_simp
  have ok: "vr_valid \<lparr>vr_valid = True, vr_errors = [], vr_warnings = []\<rparr>"
    by simp
  show ?thesis
    using checked_config_loads[OF v ok]
    by (auto simp: small_config_def declared_pairs_def databases_of_def bad_port_def split: sum.splits)
qed

text \<open>The class's own validation, which the constructor does not run, agrees except for two things the check
  lets pass: a blank organisation and a schema name of underscores only.\<close>

lemma not_blank_kept: "c \<in> set s \<Longrightarrow> \<not> is_space c \<Longrightarrow> py_strip s \<noteq> []"
  unfolding py_strip_def strip_by_def lstrip_by_def rstrip_by_def rev_is_Nil_conv dropWhile_eq_Nil_conv set_rev
  by (metis list.set_sel(1) dropWhile_eq_Nil_conv hd_dropWhile)

lemma checked_binding_post_init:
  assumes "binding_checked b" and "py_strip (tc_org_id b) \<noteq> []"
    and "\<exists>s m. tc_data_schema b = JStr s \<and> tc_metadata_schema b = JStr m \<and> list_ex ((\<noteq>) CHR ''_'') s \<and> list_ex ((\<noteq>) CHR ''_'') m"
  shows "post_init b = Inr ()"
proof -
  have name_ok: "schema_name_ok (JStr s) = Inr True" if "schema_matches s" "list_ex ((\<noteq>) CHR ''_'') s" for s
  proof -
    have "is_alnum c \<or> c = CHR ''_''" if "c \<in> set s" for c
      using \<open>schema_matches s\<close> that unfolding is_alnum_def
      by (cases s) (auto simp: schema_matches_def list_all_iff)
    moreover have "filter (\<lambda>c. c \<noteq> CHR ''_'') s \<noteq> []"
      using that(2) unfolding list_ex_iff filter_empty_conv by metis
    ultimately show ?thesis
      by (auto simp: schema_name_ok_def Let_def list_all_iff)
  qed
  have colon: "str_contains ''://'' cs \<Longrightarrow> CHR '':'' \<in> set cs" for cs
    by (induction cs) (auto simp: prefix_def)
  have blank: "py_strip cs \<noteq> []" if "str_contains ''://'' cs" for cs
    using colon[OF that] by (auto simp: not_blank_kept is_space_def py_ord_def)
  have "py_strip (tc_database_id b) \<noteq> []" "is_valid_database_id (tc_database_id b)"
    using assms(1) by (auto simp: binding_checked_def is_valid_database_id_def)
  moreover obtain ds ms where "tc_data_schema b = JStr ds" "schema_name_ok (JStr ds) = Inr True"
    "tc_metadata_schema b = JStr ms" "schema_name_ok (JStr ms) = Inr True"
    using assms(1,3) name_ok by (auto simp: binding_checked_def)
  ultimately have names: "post_init b =
      (if tc_credential_mode b = ''static'' then
         (case tc_connection_string b of
            JStr s \<Rightarrow> require_that (py_strip s \<noteq> []) ''Static mode requires connection_string.''
          | _ \<Rightarrow> Inl (AttributeError ''strip''))
       else if tc_credential_mode b = ''rotated'' then
         bind_result (require_that (truthy (tc_role_name b)) ''Rotated mode requires role_name.'') (\<lambda>_.
         bind_result (require_that (truthy (tc_host b)) ''Rotated mode requires host.'') (\<lambda>_.
         require_that (truthy (tc_db_name b)) ''Rotated mode requires db_name.''))
       else Inl (ValueError ''Unknown credential_mode''))"
    using assms(2) by (simp add: post_init_def require_that_def)
  from assms(1) consider cs where "tc_credential_mode b = ''static''" "tc_connection_string b = JStr cs" "str_contains ''://'' cs"
    | "tc_credential_mode b = ''rotated''" "truthy (tc_role_name b)" "truthy (tc_host b)" "truthy (tc_db_name b)"
    unfolding binding_checked_def by blast
  then show ?thesis
    by cases (simp_all add: names blank require_that_def)
qed

lemma underscore_schema_passes_check: "schema_matches ''_'' \<and> schema_name_ok (JStr ''_'') = Inr False"
  by code_simp

subsection \<open>Duplicates\<close>

lemma dict_set_new: "k \<notin> set (map fst d) \<Longrightarrow> dict_set d k v = d @ [(k, v)]"
  unfolding dict_set_def by (induction d) auto

lemma locations_distinct:
  "distinct (map fst seen) \<Longrightarrow> locations seen = map (\<lambda>(k, p). (k, [p])) seen"
proof (induction seen rule: rev_induct)
  case (snoc s seen)
  obtain k p where s: "s = (k, p)"
    by (cases s)
  have "locations seen = map (\<lambda>(k, p). (k, [p])) seen" "k \<notin> set (map fst seen)"
    using snoc by (auto simp: s)
  moreover from this have "dict_get (locations seen) k = None"
    by (auto simp: dict_get_def map_of_eq_None_iff image_iff)
  ultimately show ?case
    by (simp add: locations_def s dict_push_def) (subst dict_set_new; force)
qed (simp add: locations_def)

lemma distinct_no_duplicates: "distinct (map fst seen) \<Longrightarrow> duplicate_errors pair_text seen = []"
  by (auto simp: duplicate_errors_def locations_distinct)

lemma seen_in_database: "check_database rep pf t (d, v) = Inr f \<Longrightarrow> map fst (fst (snd f)) = [] \<or> map fst (fst (snd f)) = [(t, d)]"
  by (auto simp: check_database_def Let_def no_findings_def split: json.splits if_splits)

definition seen_keys :: "findings list \<Rightarrow> (string \<times> string) list" where
  "seen_keys fs = concat (map (\<lambda>f. map fst (fst (snd f))) fs)"

lemma seen_keys_joined: "map fst (fst (snd (join_findings fs))) = seen_keys fs"
  by (simp add: seen_keys_def join_findings_def map_concat comp_def)

lemma seen_keys_Cons: "seen_keys (f # fs) = map fst (fst (snd f)) @ seen_keys fs"
  by (simp add: seen_keys_def)

lemma seen_in_databases:
  "result_map (check_database rep pf t) dbs = Inr fs \<Longrightarrow> distinct (map fst dbs) \<Longrightarrow>
     distinct (seen_keys fs) \<and> set (seen_keys fs) \<subseteq> {t} \<times> set (map fst dbs)"
proof (induction dbs arbitrary: fs)
  case (Cons db dbs)
  obtain f gs where f: "fs = f # gs" "check_database rep pf t db = Inr f" "result_map (check_database rep pf t) dbs = Inr gs"
    using Cons.prems by auto
  have ih: "distinct (seen_keys gs)" "set (seen_keys gs) \<subseteq> {t} \<times> set (map fst dbs)"
    using Cons.IH[OF f(3)] Cons.prems(2) by simp_all
  have "map fst (fst (snd f)) = [] \<or> map fst (fst (snd f)) = [(t, fst db)]"
    using seen_in_database[of rep pf t "fst db" "snd db" f] f(2) by simp
  moreover have "fst db \<notin> set (map fst dbs)"
    using Cons.prems(2) by simp
  ultimately show ?case
    using ih unfolding f(1) seen_keys_Cons by auto
qed (simp add: seen_keys_def)

lemma seen_in_tenant:
  assumes "check_tenant rep pf (t, v) = Inr f" and "dict_ok (databases_of v)"
  shows "distinct (map fst (fst (snd f))) \<and> set (map fst (fst (snd f))) \<subseteq> {t} \<times> UNIV"
proof (cases "\<exists>dbs fs. databases_of v = dbs \<and> result_map (check_database rep pf t) dbs = Inr fs \<and> f = join_findings fs")
  case True
  then obtain fs where "result_map (check_database rep pf t) (databases_of v) = Inr fs" "f = join_findings fs"
    by blast
  then show ?thesis
    using seen_in_databases assms(2) unfolding dict_ok_def by (fastforce simp: seen_keys_joined simp del: map_map)
next
  case False
  then have "fst (snd f) = []"
    using assms(1) by (auto simp: check_tenant_def databases_of_def no_findings_def Let_def
        split: json.splits option.splits if_splits)
  then show ?thesis
    by simp
qed

lemma seen_in_tenants:
  "result_map (check_tenant rep pf) tenants = Inr fs \<Longrightarrow> distinct (map fst tenants) \<Longrightarrow>
     list_all (\<lambda>(_, v). dict_ok (databases_of v)) tenants \<Longrightarrow>
     distinct (seen_keys fs) \<and> set (seen_keys fs) \<subseteq> set (map fst tenants) \<times> UNIV"
proof (induction tenants arbitrary: fs)
  case (Cons tenant tenants)
  obtain t v where t: "tenant = (t, v)"
    by (cases tenant)
  obtain f gs where f: "fs = f # gs" "check_tenant rep pf (t, v) = Inr f" "result_map (check_tenant rep pf) tenants = Inr gs"
    using Cons.prems(1) by (auto simp: t)
  have ih: "distinct (seen_keys gs)" "set (seen_keys gs) \<subseteq> set (map fst tenants) \<times> UNIV"
    using Cons.IH[OF f(3)] Cons.prems(2,3) by simp_all
  have "distinct (map fst (fst (snd f))) \<and> set (map fst (fst (snd f))) \<subseteq> {t} \<times> UNIV"
    using seen_in_tenant[OF f(2)] Cons.prems(3) by (simp add: t)
  moreover have "t \<notin> set (map fst tenants)"
    using Cons.prems(2) by (simp add: t)
  ultimately show ?case
    using ih unfolding f(1) seen_keys_Cons distinct_append set_append t by fastforce
qed (simp add: seen_keys_def)

text \<open>A JSON object has each key once (\<open>json.load\<close> keeps the last of several), so the pairs seen are distinct and
  the duplicate check of the script never reports anything.\<close>

lemma duplicates_never_reported:
  assumes "dict_ok tenants" and "list_all (\<lambda>(_, v). dict_ok (databases_of v)) tenants"
    and "result_map (check_tenant rep pf) tenants = Inr fs"
  shows "duplicate_errors pair_text (fst (snd (join_findings fs))) = []"
proof (rule distinct_no_duplicates)
  show "distinct (map fst (fst (snd (join_findings fs))))"
    using seen_in_tenants[OF assms(3)] assms(1,2) unfolding seen_keys_joined dict_ok_def by blast
qed

end
