(* ===== verification/Load_Test.thy ===== *)
theory Load_Test
  imports Py_Num
begin

text \<open>
  \<open>loadtest/run.py\<close>: the load harness that decides whether a concurrency level is inside the documented
  budgets. Modelled are the fixture rows, the query mix, the client addresses, the classification of
  replies, the summary of a step with its percentiles, and the verdict of \<open>main\<close>.

  What a request took and answered comes from the running application and is an argument, in the order the
  answers arrived (the users of a step share one summary, so their interleaving is that order). Random
  choices are arguments. Floating point numbers are real numbers.
\<close>

subsection \<open>Fixture\<close>

definition statuses :: "string list" where
  "statuses = [''completed'', ''pending'', ''failed'', ''refunded'', ''processing'']"

definition user_row :: "nat \<Rightarrow> nat \<times> string \<times> string \<times> string" where
  "user_row i = (i, ''user'' @ nat_str i @ ''@example.com'', ''org-acme'',
     if i mod 7 \<noteq> 0 then ''2026-01-01T00:00:00Z'' else ''2026-03-03T00:00:00Z'')"

definition transaction_row :: "nat \<Rightarrow> nat \<Rightarrow> nat \<times> nat \<times> real \<times> string \<times> string" where
  "transaction_row users i =
     (i, i mod users + 1, real ((i * 7) mod 1000) / 10, statuses ! (i mod length statuses), ''2026-01-01T00:00:00Z'')"

text \<open>The rows inserted; without users a transaction divides by zero.\<close>

definition seed_rows ::
    "nat \<Rightarrow> nat \<Rightarrow> exn + (nat \<times> string \<times> string \<times> string) list \<times> (nat \<times> nat \<times> real \<times> string \<times> string) list" where
  "seed_rows users transactions =
     (if users = 0 \<and> transactions \<noteq> 0 then Inl (LibraryError ''ZeroDivisionError'')
      else Inr (map user_row [1..<Suc users], map (transaction_row users) [1..<Suc transactions]))"

subsection \<open>Query mix\<close>

definition newline_indent :: string where
  "newline_indent = [CHR 0x0A]"

definition execute_query_text :: string where
  "execute_query_text =
     join newline_indent
       [''query Exec($sql: String!) {'',
        ''  executeSqlStatement(request: { sqlStatement: $sql, databaseId: '' @ [CHR 0x22] @ ''default'' @ [CHR 0x22] @ '' })'', ''}'']"

definition introspect_query_text :: string where
  "introspect_query_text =
     join newline_indent
       [''query Introspect {'',
        ''  introspectSchema(databaseId: '' @ [CHR 0x22] @ ''default'' @ [CHR 0x22] @ '') {'', ''    tables {'', ''      name'',
        ''      schemaName'', ''      columns { name type nullable isPrimary }'',
        ''      foreignKeys { column foreignSchema foreignTable foreignColumn }'', ''    }'', ''  }'', ''}'']"

definition cost_query_text :: string where
  "cost_query_text =
     join newline_indent
       [''query Cost($sql: String!) {'',
        ''  estimateQueryCost(sqlStatement: $sql, databaseId: '' @ [CHR 0x22] @ ''default'' @ [CHR 0x22] @ '') { score level }'', ''}'']"

definition execute_payload :: "string \<Rightarrow> json" where
  "execute_payload sql = JObj [(''query'', JStr execute_query_text), (''variables'', JObj [(''sql'', JStr sql)])]"

text \<open>\<open>point_id\<close> and \<open>status\<close> are what the generator of random numbers picks.\<close>

definition weighted_payloads :: "int \<Rightarrow> string \<Rightarrow> bool \<Rightarrow> (json \<times> nat) list" where
  "weighted_payloads point_id status row_cap_heavy =
     (let simple = ''SELECT id, user_id, amount, status, created_at FROM transactions WHERE status = '' @ [CHR 0x27] @ status @
            [CHR 0x27] @ '' ORDER BY created_at DESC LIMIT 100''
      in [(JObj [(''query'', JStr ''query { ping }'')], 3),
          (JObj [(''query'', JStr cost_query_text), (''variables'', JObj [(''sql'', JStr simple)])], 4),
          (JObj [(''query'', JStr introspect_query_text)], 12),
          (execute_payload (''SELECT id, email, org_id, created_at FROM users WHERE id = '' @ int_str point_id), 18),
          (execute_payload simple, 24),
          (execute_payload (''SELECT u.email, count(*) AS n FROM users u '' @
             ''JOIN transactions t ON t.user_id = u.id GROUP BY u.email ORDER BY n DESC LIMIT 20''), 16),
          (execute_payload ''SELECT status, count(*) AS n, sum(amount) AS total FROM transactions GROUP BY status'', 10),
          (execute_payload (''SELECT t.id, t.user_id, t.amount, u.email FROM transactions t '' @
             ''JOIN users u ON u.id = t.user_id ORDER BY t.amount DESC LIMIT 2000''), 8),
          (execute_payload ''SELECT * FROM transactions'', if row_cap_heavy then 5 else 0)])"

definition seed_sql_payloads :: "int \<Rightarrow> string \<Rightarrow> bool \<Rightarrow> json list" where
  "seed_sql_payloads point_id status row_cap_heavy =
     concat (map (\<lambda>(item, weight). replicate weight item) (weighted_payloads point_id status row_cap_heavy))"

definition client_ip :: "nat \<Rightarrow> string" where
  "client_ip i = ''10.'' @ nat_str ((i * 37) mod 255) @ ''.'' @ nat_str ((i * 13) mod 255) @ ''.'' @ nat_str ((i * 7) mod 255)"

definition client_ips :: "nat \<Rightarrow> string list" where
  "client_ips users = map client_ip [0..<users]"

subsection \<open>Replies\<close>

definition error_texts :: "(json \<Rightarrow> string) \<Rightarrow> json \<Rightarrow> exn + string list" where
  "error_texts rep item =
     (case item of
        JObj d \<Rightarrow>
          bind_result (py_get (py_or (obj_get d ''extensions'') (JObj [])) ''sqlQueryApi'') (\<lambda>api.
          bind_result (py_get (py_or api (JObj [])) ''details'') (\<lambda>detail.
            Inr (py_str rep (obj_get_or d ''message'' (JStr [])) # (if truthy detail then [py_str rep detail] else []))))
      | _ \<Rightarrow> Inl (AttributeError ''get''))"

definition classify_graphql_error :: "(json \<Rightarrow> string) \<Rightarrow> obj \<Rightarrow> exn + string" where
  "classify_graphql_error rep body =
     (case dict_get body ''errors'' of
        None \<Rightarrow> Inr ''ok''
      | Some v \<Rightarrow>
          bind_result (py_iter v) (\<lambda>items.
          bind_result (result_map (error_texts rep) items) (\<lambda>texts.
            Inr (if str_contains ''maximum allowed row limit'' (py_lower (join '' '' (concat texts)))
                 then ''row_cap'' else ''exception''))))"

text \<open>What comes back from the transport: no answer, or a status and a body that may not be JSON. A body that is
  no object is taken as in the code: only an object can have errors.\<close>

datatype load_reply = No_Answer | Answered nat "obj option"

definition reply_kind :: "(json \<Rightarrow> string) \<Rightarrow> load_reply \<Rightarrow> exn + string" where
  "reply_kind rep reply =
     (case reply of
        No_Answer \<Rightarrow> Inr ''timeout''
      | Answered status body \<Rightarrow>
          if status \<ge> 500 then Inr ''http_5xx''
          else if status = 429 then Inr ''rate_limited''
          else (case body of None \<Rightarrow> Inr ''http_error'' | Some d \<Rightarrow> classify_graphql_error rep d))"

subsection \<open>The summary of a step\<close>

record run_summary =
  sm_users :: nat
  sm_duration :: real
  sm_total :: nat
  sm_ok :: nat
  sm_errors :: "(string, nat) dict"
  sm_latencies :: "real list"

definition new_summary :: "nat \<Rightarrow> real \<Rightarrow> run_summary" where
  "new_summary users duration =
     \<lparr>sm_users = users, sm_duration = duration, sm_total = 0, sm_ok = 0, sm_errors = [], sm_latencies = []\<rparr>"

definition error_count :: "run_summary \<Rightarrow> string \<Rightarrow> nat" where
  "error_count s kind = (case dict_get (sm_errors s) kind of None \<Rightarrow> 0 | Some n \<Rightarrow> n)"

definition record_result :: "run_summary \<Rightarrow> real \<times> string \<Rightarrow> run_summary" where
  "record_result s x =
     (case x of (elapsed, kind) \<Rightarrow>
        (if kind = ''ok'' then s\<lparr>sm_ok := Suc (sm_ok s)\<rparr>
         else s\<lparr>sm_errors := dict_set (sm_errors s) kind (Suc (error_count s kind))\<rparr>)
          \<lparr>sm_latencies := sm_latencies s @ [elapsed], sm_total := Suc (sm_total s)\<rparr>)"

definition run_step :: "nat \<Rightarrow> real \<Rightarrow> (real \<times> string) list \<Rightarrow> run_summary" where
  "run_step users duration results = foldl record_result (new_summary users duration) results"

definition run_attack_step :: "real \<Rightarrow> (real \<times> string) list \<Rightarrow> run_summary" where
  "run_attack_step duration results =
     (let s = run_step 1 duration results in
      if sm_total s = 0 then s\<lparr>sm_errors := dict_set (sm_errors s) ''no_requests'' (Suc (error_count s ''no_requests''))\<rparr> else s)"

definition hard_error_kinds :: "string list" where
  "hard_error_kinds = [''http_5xx'', ''timeout'', ''connection'', ''exception'']"

definition hard_errors :: "run_summary \<Rightarrow> nat" where
  "hard_errors s = sum_list (map snd (filter (\<lambda>(kind, _). kind \<in> set hard_error_kinds) (sm_errors s)))"

definition qps :: "run_summary \<Rightarrow> real" where
  "qps s = real (sm_total s) / max (sm_duration s) (1 / 10 ^ 9)"

definition hard_error_rate :: "run_summary \<Rightarrow> real" where
  "hard_error_rate s = real (hard_errors s) / real (max (sm_total s) 1)"

definition percentile :: "real list \<Rightarrow> real \<Rightarrow> real" where
  "percentile latencies p =
     (if latencies = [] then 0
      else sort latencies ! nat (min (int (length latencies) - 1) (max 0 (\<lceil>real (length latencies) * p\<rceil> - 1))))"

definition within_budget :: "run_summary \<Rightarrow> bool" where
  "within_budget s \<longleftrightarrow>
     percentile (sm_latencies s) (95 / 100) \<le> 1000 \<and> percentile (sm_latencies s) (99 / 100) \<le> 2000 \<and>
     hard_error_rate s \<le> 1 / 100"

subsection \<open>Verdict\<close>

definition envelope :: "run_summary list \<Rightarrow> run_summary option" where
  "envelope steps = (case filter within_budget steps of [] \<Rightarrow> None | honored \<Rightarrow> Some (last honored))"

definition attack_verdict :: "run_summary \<Rightarrow> nat" where
  "attack_verdict s = (if error_count s ''rate_limited'' > 0 \<and> hard_error_rate s \<le> 1 / 100 then 0 else 1)"

definition ramp_counts :: "string \<Rightarrow> exn + int list" where
  "ramp_counts ramp = result_map (\<lambda>v. py_int (JStr v)) (filter (\<lambda>v. py_strip v \<noteq> []) (split_on CHR '','' ramp))"

text \<open>\<open>main\<close> after the fixture is built, with the step each scenario produced. The attack branch does not set the
  resource peaks that a requested report needs.\<close>

definition load_main :: "bool \<Rightarrow> string \<Rightarrow> bool \<Rightarrow> run_summary \<Rightarrow> (int \<Rightarrow> run_summary) \<Rightarrow> exn + nat" where
  "load_main attack ramp report attack_step step =
     (if attack then (if report then Inl (LibraryError ''UnboundLocalError'') else Inr (attack_verdict attack_step))
      else bind_result (ramp_counts ramp) (\<lambda>counts.
        if counts = [] then Inr 2
        else Inr (if list_ex within_budget (map step counts) then 0 else 1)))"

subsection \<open>Percentiles\<close>

lemma length_filter_mono:
  "(\<And>x. P x \<Longrightarrow> Q x) \<Longrightarrow> length (filter P xs) \<le> length (filter Q xs)"
  by (induction xs) auto

lemma length_filter_sort: "length (filter P (sort xs)) = length (filter P xs)"
proof (induction xs)
  case (Cons x xs)
  have "length (filter P (insort x ys)) = length (filter P (x # ys))" for ys
    by (induction ys) auto
  then show ?case
    using Cons by simp
qed simp

lemma sorted_rank:
  assumes "sorted ys" and "i < length ys"
  shows "Suc i \<le> length (filter (\<lambda>x. x \<le> ys ! i) ys)" and "length (filter (\<lambda>x. x < ys ! i) ys) \<le> i"
proof -
  have split: "ys = take (Suc i) ys @ drop (Suc i) ys" "ys = take i ys @ drop i ys"
    by simp_all
  have "filter (\<lambda>x. x \<le> ys ! i) (take (Suc i) ys) = take (Suc i) ys"
    using assms by (intro filter_True) (auto simp: in_set_conv_nth sorted_iff_nth_mono)
  then have "length (filter (\<lambda>x. x \<le> ys ! i) ys) = Suc i + length (filter (\<lambda>x. x \<le> ys ! i) (drop (Suc i) ys))"
    by (subst split(1)) (use assms(2) in \<open>simp only: filter_append length_append, simp\<close>)
  then show "Suc i \<le> length (filter (\<lambda>x. x \<le> ys ! i) ys)"
    by simp
  have "filter (\<lambda>x. x < ys ! i) (drop i ys) = []"
    using assms by (auto simp: filter_empty_conv in_set_conv_nth sorted_iff_nth_mono not_less)
  then have "length (filter (\<lambda>x. x < ys ! i) ys) = length (filter (\<lambda>x. x < ys ! i) (take i ys))"
    by (subst split(2)) (simp only: filter_append length_append, simp)
  then show "length (filter (\<lambda>x. x < ys ! i) ys) \<le> i"
    by (metis assms(2) length_filter_le length_take min.absorb4)
qed

text \<open>The percentile is the nearest rank: a measured value such that at least the given share is at most it, and
  less than that share lies below it.\<close>

lemma percentile_rank:
  fixes p :: real
  assumes "xs \<noteq> []" and "0 < p" and "p \<le> 1"
  shows "percentile xs p \<in> set xs" and "p * length xs \<le> length (filter (\<lambda>x. x \<le> percentile xs p) xs)"
    and "length (filter (\<lambda>x. x < percentile xs p) xs) < p * length xs"
proof -
  let ?n = "length xs"
  define k where "k = nat (\<lceil>real ?n * p\<rceil> - 1)"
  have n: "0 < ?n"
    using assms(1) by simp
  then have "0 < real ?n * p" "real ?n * p \<le> real ?n"
    using assms(2,3) by (simp_all add: mult_le_cancel_left1)
  then have c: "1 \<le> \<lceil>real ?n * p\<rceil>" "\<lceil>real ?n * p\<rceil> \<le> int ?n"
    by linarith+
  have i: "nat (min (int ?n - 1) (max 0 (\<lceil>real ?n * p\<rceil> - 1))) = k" "k < length (sort xs)"
    using c n unfolding k_def length_sort by (simp, linarith)
  have v: "percentile xs p = sort xs ! k"
    using assms(1) i(1) by (simp add: percentile_def)
  have ceil: "real (Suc k) = of_int \<lceil>real ?n * p\<rceil>"
    using c(1) by (simp add: k_def)
  show "percentile xs p \<in> set xs"
    unfolding v using nth_mem[OF i(2)] by simp
  have "real (Suc k) \<le> length (filter (\<lambda>x. x \<le> percentile xs p) xs)"
    using sorted_rank(1)[OF sorted_sort i(2)] unfolding v length_filter_sort by linarith
  then show "p * ?n \<le> length (filter (\<lambda>x. x \<le> percentile xs p) xs)"
    using ceil le_of_int_ceiling[of "real ?n * p"] unfolding mult.commute[of p] by linarith
  have "length (filter (\<lambda>x. x < percentile xs p) xs) \<le> k"
    using sorted_rank(2)[OF sorted_sort i(2)] unfolding v length_filter_sort by simp
  moreover have "real k < real ?n * p"
    using ceil ceiling_correct[of "real ?n * p"] by linarith
  ultimately show "length (filter (\<lambda>x. x < percentile xs p) xs) < p * ?n"
    by (simp add: mult.commute)
qed

lemma percentile_bound:
  fixes p :: real
  assumes "percentile xs p \<le> b" and "0 < p" and "p \<le> 1"
  shows "p * length xs \<le> length (filter (\<lambda>x. x \<le> b) xs)"
proof (cases "xs = []")
  case False
  have "length (filter (\<lambda>x. x \<le> percentile xs p) xs) \<le> length (filter (\<lambda>x. x \<le> b) xs)"
    by (rule length_filter_mono) (use assms(1) in auto)
  then show ?thesis
    using percentile_rank(2)[OF False assms(2,3)] by linarith
qed simp

subsection \<open>A step within budget\<close>

lemma counter_increment:
  "sum_list (map snd (filter (\<lambda>(k, _). P k) (dict_set d k (Suc (case dict_get d k of None \<Rightarrow> 0 | Some n \<Rightarrow> n))))) =
     sum_list (map snd (filter (\<lambda>(k, _). P k) d)) + (if P k then 1 else 0)"
  unfolding dict_set_def dict_get_def by (induction d) auto

lemma run_step_counts:
  "sm_latencies (run_step users duration results) = map fst results \<and>
   sm_total (run_step users duration results) = length results \<and>
   hard_errors (run_step users duration results) = length (filter (\<lambda>(_, kind). kind \<in> set hard_error_kinds) results)"
proof (induction results rule: rev_induct)
  case (snoc x results)
  obtain ms kind where x: "x = (ms, kind)"
    by (cases x)
  have "''ok'' \<notin> set hard_error_kinds"
    by (simp add: hard_error_kinds_def)
  then show ?case
    using snoc counter_increment[of "\<lambda>k. k \<in> set hard_error_kinds" "sm_errors (run_step users duration results)" kind]
    by (auto simp: run_step_def x record_result_def hard_errors_def error_count_def)
qed (simp add: run_step_def new_summary_def hard_errors_def)

text \<open>A step that is reported within budget kept it: of its requests at least 95 in a hundred took at most one
  second, at least 99 in a hundred at most two, and at most one in a hundred ended in a hard error, however
  the answers of its users interleaved.\<close>

theorem within_budget_kept:
  assumes "within_budget (run_step users duration results)"
  shows "95 / 100 * real (length results) \<le> length (filter (\<lambda>(ms, _). ms \<le> 1000) results) \<and>
    99 / 100 * real (length results) \<le> length (filter (\<lambda>(ms, _). ms \<le> 2000) results) \<and>
    length (filter (\<lambda>(_, kind). kind \<in> set hard_error_kinds) results) \<le> 1 / 100 * real (length results)"
proof -
  note c = run_step_counts[of users duration results]
  have f: "length (filter (\<lambda>x. x \<le> b) (map fst results)) = length (filter (\<lambda>(ms, _). ms \<le> b) results)" for b :: real
    by (simp add: filter_map comp_def case_prod_unfold)
  have p: "percentile (map fst results) (95 / 100) \<le> 1000" "percentile (map fst results) (99 / 100) \<le> 2000"
    "hard_error_rate (run_step users duration results) \<le> 1 / 100"
    using assms c by (simp_all add: within_budget_def)
  have "length (filter (\<lambda>(_, kind). kind \<in> set hard_error_kinds) results) \<le> 1 / 100 * real (length results)"
    using p(3) c by (cases results) (auto simp: hard_error_rate_def field_simps)
  then show ?thesis
    using percentile_bound[OF p(1)] percentile_bound[OF p(2)] unfolding f by simp
qed

text \<open>A step in which nothing was sent is within budget.\<close>

lemma empty_step_within_budget: "within_budget (run_step users duration [])"
  by (simp add: run_step_def new_summary_def within_budget_def percentile_def hard_error_rate_def hard_errors_def)

lemma within_budget_kept_witness:
  "95 / 100 * real (length [(5 :: real, ''ok'')]) \<le> length (filter (\<lambda>(ms, _). ms \<le> 1000) [(5 :: real, ''ok'')])"
proof -
  have "within_budget (run_step 1 1 [(5, ''ok'')])"
    by (simp add: run_step_def new_summary_def record_result_def within_budget_def percentile_def hard_error_rate_def
        hard_errors_def)
  from within_budget_kept[OF this] show ?thesis
    by simp
qed

text \<open>The last step in budget is reported, not the largest: a ramp that goes down reports the smaller one.\<close>

lemma envelope_last:
  assumes "within_budget a" and "within_budget b"
  shows "envelope [a, b] = Some b"
  using assms by (simp add: envelope_def)

subsection \<open>Addresses\<close>

lemma nat_str_inj: "nat_str m = nat_str n \<Longrightarrow> m = n"
  using int_of_text_int_str[of "int m"] int_of_text_int_str[of "int n"] by (simp add: int_str_def)

lemma client_ip_octet: "takeWhile ((\<noteq>) CHR ''.'') (drop 3 (client_ip i)) = nat_str ((i * 37) mod 255)"
proof -
  have "\<forall>c \<in> set (nat_str n). CHR ''.'' \<noteq> c" for n
    using digits_of_digits[of n] by (auto simp: nat_str_def list_all_iff is_digit_def py_ord_def)
  then show ?thesis
    by (simp add: client_ip_def takeWhile_append)
qed

text \<open>The multiplier is invertible modulo 255.\<close>

lemma octet_inverse: "(i * 37 mod 255 * 193) mod 255 = i mod (255 :: nat)"
proof -
  have "(i * 37 mod 255 * 193) mod 255 = (i * 37 * 193) mod 255"
    by (rule mod_mult_left_eq)
  also have "i * 37 * 193 = i * (7141 :: nat)"
    by simp
  also have "i * 7141 = i + 255 * (28 * i)"
    by simp
  also have "(i + 255 * (28 * i)) mod 255 = i mod 255"
    by (rule mod_mult_self2)
  finally show ?thesis .
qed

text \<open>Every virtual user has an address of its own exactly up to 255 users; the 256th shares the first one's, and
  with it the rate limit per address.\<close>

theorem client_ips_distinct: "distinct (client_ips users) \<longleftrightarrow> users \<le> 255"
proof
  assume d: "distinct (client_ips users)"
  show "users \<le> 255"
  proof (rule ccontr)
    assume "\<not> users \<le> 255"
    then have l: "0 < length (client_ips users)" "255 < length (client_ips users)"
      by (simp_all add: client_ips_def)
    have "client_ip 0 = client_ip 255"
      by (simp add: client_ip_def)
    then have "client_ips users ! 0 = client_ips users ! 255"
      using l by (simp add: client_ips_def)
    then show False
      using nth_eq_iff_index_eq[OF d l] by simp
  qed
next
  assume u: "users \<le> 255"
  have "inj_on client_ip {0..<users}"
  proof (rule inj_onI)
    fix i j
    assume ij: "i \<in> {0..<users}" "j \<in> {0..<users}" "client_ip i = client_ip j"
    then have "nat_str ((i * 37) mod 255) = nat_str ((j * 37) mod 255)"
      unfolding client_ip_octet[symmetric] by simp
    then have "i mod 255 = j mod 255"
      using nat_str_inj octet_inverse[of i] octet_inverse[of j] by metis
    moreover have "i < 255" "j < 255"
      using ij(1,2) u by simp_all
    ultimately show "i = j"
      by simp
  qed
  then show "distinct (client_ips users)"
    by (simp add: client_ips_def distinct_map)
qed

text \<open>The attack scenario cannot write its report.\<close>

lemma attack_report_fails: "load_main True ramp True s step = Inl (LibraryError ''UnboundLocalError'')"
  by (simp add: load_main_def)

lemma payload_weights: "length (seed_sql_payloads i s row_cap_heavy) = (if row_cap_heavy then 100 else 95)"
  by (simp add: seed_sql_payloads_def weighted_payloads_def Let_def length_concat)

end
