(* ===== verification/Security_Register.thy ===== *)
theory Security_Register
  imports Py_Json
begin

text \<open>
  \<open>scripts/check-security-exceptions.py\<close>: the gate that every security control which does not fail the build is
  covered by a current entry of the exception register.

  Workflows and the register are given as parsed YAML (with text keys), \<open>date_of\<close> is
  \<open>date.fromisoformat\<close> as a day number, \<open>today\<close> the day number of today. The result is the list of problems,
  or the exception that ends the script. Messages keep the ids and places they name but some are shortened; the
  order in which problems are printed, and the listing of the registered controls, are left out.
\<close>

subsection \<open>Downgraded controls\<close>

definition non_blocking_inputs :: "(string \<times> string \<times> string) list" where
  "non_blocking_inputs =
     [(''anchore/scan-action'', ''fail-build'', ''false''), (''aquasecurity/trivy-action'', ''exit-code'', ''0'')]"

definition non_blocking_default_prefixes :: "(string \<times> string) list" where
  "non_blocking_default_prefixes =
     [(''zaproxy/action-'', ''fail_action''), (''zaproxy/zap-baseline-action'', ''fail_action'')]"

text \<open>The controls found so far with their places, and the ambiguous names.\<close>

type_synonym controls = "(string, string) dict \<times> string list"

definition tick_text :: "string \<Rightarrow> string" where
  "tick_text s = ''`'' @ s @ ''`''"

definition record_control :: "string \<Rightarrow> string \<Rightarrow> controls \<Rightarrow> controls" where
  "record_control control location st =
     (case st of (found, ambiguous) \<Rightarrow>
        (case dict_get found control of
           Some earlier \<Rightarrow>
             (found, ambiguous @ [''control id '' @ tick_text control @ '' is ambiguous: '' @ earlier @ '' and '' @ location @
                '' cannot be distinguished; give the steps unique names''])
         | None \<Rightarrow> (dict_set found control location, ambiguous)))"

text \<open>\<open>k in v\<close> and \<open>v[k]\<close>\<close>

definition contains_key :: "string \<Rightarrow> json \<Rightarrow> exn + bool" where
  "contains_key k v =
     (case v of
        JObj d \<Rightarrow> Inr (dict_has d k)
      | JArr xs \<Rightarrow> Inr (JStr k \<in> set xs)
      | JStr s \<Rightarrow> Inr (str_contains k s)
      | _ \<Rightarrow> Inl TypeError)"

definition value_at :: "string \<Rightarrow> json \<Rightarrow> exn + json" where
  "value_at k v = (case v of JObj d \<Rightarrow> (case dict_get d k of None \<Rightarrow> Inl (LibraryError ''KeyError'') | Some x \<Rightarrow> Inr x) | _ \<Rightarrow> Inl TypeError)"

text \<open>The two loops over one step's inputs. \<open>place\<close> names the step, \<open>control\<close> is its id.\<close>

fun check_inputs ::
    "(json \<Rightarrow> string) \<Rightarrow> string \<Rightarrow> string \<Rightarrow> string \<Rightarrow> json \<Rightarrow> (string \<times> string \<times> string) list \<Rightarrow> controls \<Rightarrow> exn + controls" where
  "check_inputs rep control place uses inputs [] st = Inr st"
| "check_inputs rep control place uses inputs ((action, key, bad_value) # rest) st =
     (if str_contains action uses
      then bind_result (py_get inputs key) (\<lambda>v.
        check_inputs rep control place uses inputs rest
          (if py_str rep v = bad_value
           then record_control control (place @ '' sets '' @ tick_text (key @ '': '' @ bad_value)) st else st))
      else check_inputs rep control place uses inputs rest st)"

fun check_defaults ::
    "(json \<Rightarrow> string) \<Rightarrow> string \<Rightarrow> string \<Rightarrow> string \<Rightarrow> json \<Rightarrow> (string \<times> string) list \<Rightarrow> controls \<Rightarrow> exn + controls" where
  "check_defaults rep control place uses inputs [] st = Inr st"
| "check_defaults rep control place uses inputs ((action, key) # rest) st =
     (if \<not> str_contains action uses then check_defaults rep control place uses inputs rest st
      else
        bind_result (contains_key key inputs) (\<lambda>present.
          if \<not> present
          then check_defaults rep control place uses inputs rest
            (record_control control (place @ '' omits '' @ tick_text key @ '', which defaults to False'') st)
          else
            bind_result (value_at key inputs) (\<lambda>v.
              check_defaults rep control place uses inputs rest
                (if py_lower (py_str rep v) \<in> {''false'', ''0'', ''no''}
                 then record_control control (place @ '' sets '' @ tick_text (key @ '': '' @ py_str rep v)) st else st))))"

definition check_step ::
    "(json \<Rightarrow> string) \<Rightarrow> string \<Rightarrow> string \<Rightarrow> nat \<Rightarrow> json \<Rightarrow> controls \<Rightarrow> exn + controls" where
  "check_step rep file job_name index step st =
     (case step of
        JObj d \<Rightarrow>
          let label = py_str rep (py_or (obj_get d ''name'') (JStr (''step '' @ nat_str index)));
              uses = py_str rep (py_or (obj_get d ''uses'') (JStr []));
              inputs = py_or (obj_get d ''with'') (JObj []);
              control = job_name @ ''/'' @ label;
              place = file @ '': step '' @ tick_text label @ '' in job '' @ tick_text job_name
          in if obj_get d ''continue-on-error'' = JBool True then Inr (record_control control place st)
             else bind_result (check_inputs rep control place uses inputs non_blocking_inputs st)
                    (check_defaults rep control place uses inputs non_blocking_default_prefixes)
      | _ \<Rightarrow> Inr st)"

fun check_steps :: "(json \<Rightarrow> string) \<Rightarrow> string \<Rightarrow> string \<Rightarrow> nat \<Rightarrow> json list \<Rightarrow> controls \<Rightarrow> exn + controls" where
  "check_steps rep file job_name index [] st = Inr st"
| "check_steps rep file job_name index (step # steps) st =
     bind_result (check_step rep file job_name index step st) (check_steps rep file job_name (Suc index) steps)"

definition check_job :: "(json \<Rightarrow> string) \<Rightarrow> string \<Rightarrow> string \<times> json \<Rightarrow> controls \<Rightarrow> exn + controls" where
  "check_job rep file entry st =
     (case entry of (job_name, v) \<Rightarrow>
        (case v of
           JObj job \<Rightarrow>
             let st1 = (if obj_get job ''continue-on-error'' = JBool True
                        then record_control job_name (file @ '': job '' @ tick_text job_name) st else st)
             in bind_result (py_iter (py_or (obj_get job ''steps'') (JArr []))) (\<lambda>steps.
                  check_steps rep file job_name 0 steps st1)
         | _ \<Rightarrow> Inr st))"

fun check_jobs :: "(json \<Rightarrow> string) \<Rightarrow> string \<Rightarrow> (string \<times> json) list \<Rightarrow> controls \<Rightarrow> exn + controls" where
  "check_jobs rep file [] st = Inr st"
| "check_jobs rep file (j # js) st = bind_result (check_job rep file j st) (check_jobs rep file js)"

definition find_non_blocking_controls :: "(json \<Rightarrow> string) \<Rightarrow> json \<Rightarrow> string \<Rightarrow> string list \<Rightarrow> exn + controls" where
  "find_non_blocking_controls rep workflow file ambiguous =
     bind_result (py_get (py_or workflow (JObj [])) ''jobs'') (\<lambda>jobs.
       (case py_or jobs (JObj []) of
          JObj d \<Rightarrow> check_jobs rep file d ([], ambiguous)
        | _ \<Rightarrow> Inl (AttributeError ''items'')))"

text \<open>All workflows: a control of two files is a collision, and the later place is kept.\<close>

fun merge_found :: "(string \<times> string) list \<Rightarrow> controls \<Rightarrow> controls" where
  "merge_found [] st = st"
| "merge_found ((control, location) # rest) st =
     (case st of (non_blocking, collisions) \<Rightarrow>
        merge_found rest
          (dict_set non_blocking control location,
           collisions @
           (case dict_get non_blocking control of
              None \<Rightarrow> []
            | Some earlier \<Rightarrow> [''control id '' @ tick_text control @ '' is ambiguous: produced by both '' @ earlier @ '' and '' @ location])))"

fun scan_workflows :: "(json \<Rightarrow> string) \<Rightarrow> (string \<times> json) list \<Rightarrow> controls \<Rightarrow> exn + controls" where
  "scan_workflows rep [] st = Inr st"
| "scan_workflows rep ((file, workflow) # rest) st =
     (case st of (non_blocking, collisions) \<Rightarrow>
        bind_result (find_non_blocking_controls rep workflow file collisions) (\<lambda>r.
          case r of (found, collisions') \<Rightarrow> scan_workflows rep rest (merge_found found (non_blocking, collisions'))))"

subsection \<open>The register\<close>

definition load_register :: "json option \<Rightarrow> exn + json list" where
  "load_register file =
     (case file of
        None \<Rightarrow> Inl (RuntimeError ''missing exception register'')
      | Some v \<Rightarrow>
          bind_result (py_get (py_or v (JObj [])) ''version'') (\<lambda>version.
            if version \<noteq> JInt 1 \<and> version \<noteq> JBool True \<and> version \<noteq> JFloat 1
            then Inl (RuntimeError ''exception register must declare `version: 1`'')
            else bind_result (py_get (py_or v (JObj [])) ''exceptions'') (\<lambda>exceptions.
              case exceptions of
                JArr xs \<Rightarrow> Inr xs
              | _ \<Rightarrow> Inl (RuntimeError ''exception register must contain an `exceptions` list''))))"

definition MAX_EXPIRY_DAYS :: int where
  "MAX_EXPIRY_DAYS = 180"

definition REASON_MIN_CHARS :: nat where
  "REASON_MIN_CHARS = 80"

text \<open>\<open>^SEC-EXC-\d{3,}$\<close>; the end anchor also stands before a final line feed.\<close>

definition exception_id_ok :: "string \<Rightarrow> bool" where
  "exception_id_ok s \<longleftrightarrow>
     prefix ''SEC-EXC-'' s \<and>
     (let r = drop 8 s; digits = (if r \<noteq> [] \<and> last r = CHR 0x0A then butlast r else r)
      in length digits \<ge> 3 \<and> list_all is_digit digits)"

definition filled :: "json \<Rightarrow> bool" where
  "filled v \<longleftrightarrow> (case v of JStr s \<Rightarrow> py_strip s \<noteq> [] | _ \<Rightarrow> False)"

definition claimed_controls :: "json \<Rightarrow> string list" where
  "claimed_controls v =
     (case v of
        JStr s \<Rightarrow> remdups (filter (\<lambda>p. p \<noteq> []) (map py_strip (split_on CHR '','' s)))
      | _ \<Rightarrow> [])"

definition expiry_errors :: "(json \<Rightarrow> string) \<Rightarrow> (string \<Rightarrow> int option) \<Rightarrow> int \<Rightarrow> string \<Rightarrow> json \<Rightarrow> string list" where
  "expiry_errors rep date_of today entry_id v =
     (case v of
        JStr s \<Rightarrow>
          (case date_of s of
             None \<Rightarrow> [entry_id @ '': `expires` is not a valid ISO date: '' @ rep v]
           | Some d \<Rightarrow>
               if d < today then [entry_id @ '': exception expired; make the control blocking or record a renewal decision'']
               else if d - today > MAX_EXPIRY_DAYS
               then [entry_id @ '': `expires` is '' @ int_str (d - today) @ '' days out, more than the 180-day maximum'']
               else [])
      | _ \<Rightarrow> [entry_id @ '': `expires` must be an ISO date string, got '' @ rep v])"

definition field_errors :: "string \<Rightarrow> obj \<Rightarrow> string list" where
  "field_errors entry_id d =
     concat (map (\<lambda>f. if filled (obj_get d f) then [] else [entry_id @ '': missing required field '' @ tick_text f])
       [''control'', ''scope'', ''owner'', ''tracking'']) @
     (case obj_get d ''reason'' of
        JStr s \<Rightarrow> if length (py_strip s) < REASON_MIN_CHARS
          then [entry_id @ '': `reason` must be a real decision record (at least 80 characters)''] else []
      | _ \<Rightarrow> [entry_id @ '': `reason` must be a real decision record (at least 80 characters)'']) @
     (case obj_get d ''compensating_controls'' of
        JArr (x # xs) \<Rightarrow> []
      | _ \<Rightarrow> [entry_id @ '': `compensating_controls` must list at least one control''])"

text \<open>The errors of one entry and the controls it covers. A status that cannot be hashed raises.\<close>

definition validate_entry ::
    "(json \<Rightarrow> string) \<Rightarrow> (string \<Rightarrow> int option) \<Rightarrow> int \<Rightarrow> json \<Rightarrow> exn + string list \<times> string list" where
  "validate_entry rep date_of today entry =
     (case entry of
        JObj d \<Rightarrow>
          let id_json = obj_get d ''id'';
              entry_id = py_str rep id_json;
              id_errors = (case id_json of
                  JStr s \<Rightarrow> if exception_id_ok s then [] else [''invalid exception id '' @ rep id_json @ '': expected SEC-EXC-NNN'']
                | _ \<Rightarrow> [''invalid exception id '' @ rep id_json @ '': expected SEC-EXC-NNN'']);
              status = obj_get d ''status''
          in (case status of
                JArr _ \<Rightarrow> Inl TypeError
              | JObj _ \<Rightarrow> Inl TypeError
              | _ \<Rightarrow>
                  let errors = id_errors @ field_errors entry_id d @
                        (if status = JStr ''accepted'' \<or> status = JStr ''revoked'' then []
                         else [entry_id @ '': `status` must be one of accepted, revoked''])
                  in if status = JStr ''revoked'' then Inr (errors, [])
                     else Inr (errors @ expiry_errors rep date_of today entry_id (obj_get d ''expires''),
                               claimed_controls (obj_get d ''control'')))
      | _ \<Rightarrow> Inr ([''register entry must be a mapping''], []))"

subsection \<open>The whole check\<close>

text \<open>The loop over the register: the errors, who covers a control, and the ids seen so far.\<close>

fun claim_controls :: "string \<Rightarrow> string list \<Rightarrow> (string, string) dict \<Rightarrow> string list \<times> (string, string) dict" where
  "claim_controls entry_id [] claimed_by = ([], claimed_by)"
| "claim_controls entry_id (c # cs) claimed_by =
     (case dict_get claimed_by c of
        Some other \<Rightarrow>
          (case claim_controls entry_id cs claimed_by of
             (errs, m) \<Rightarrow> ((entry_id @ '': control '' @ tick_text c @ '' is already covered by '' @ other) # errs, m))
      | None \<Rightarrow> claim_controls entry_id cs (dict_set claimed_by c entry_id))"

definition entry_id_of :: "json \<Rightarrow> json" where
  "entry_id_of entry = (case entry of JObj d \<Rightarrow> obj_get d ''id'' | _ \<Rightarrow> JStr ''?'')"

fun check_register ::
    "(json \<Rightarrow> string) \<Rightarrow> (string \<Rightarrow> int option) \<Rightarrow> int \<Rightarrow> json list \<Rightarrow> string list \<Rightarrow> (string, string) dict
      \<Rightarrow> exn + string list \<times> (string, string) dict" where
  "check_register rep date_of today [] seen claimed_by = Inr ([], claimed_by)"
| "check_register rep date_of today (entry # entries) seen claimed_by =
     (let entry_id = entry_id_of entry;
          dup = (case entry_id of JStr s \<Rightarrow> if s \<in> set seen then [s @ '': duplicate exception id''] else [] | _ \<Rightarrow> []);
          seen' = (case entry_id of JStr s \<Rightarrow> s # seen | _ \<Rightarrow> seen)
      in bind_result (validate_entry rep date_of today entry) (\<lambda>r.
           case r of (errs, claimed) \<Rightarrow>
             (case claim_controls (py_str rep entry_id) claimed claimed_by of (conflicts, claimed_by') \<Rightarrow>
                bind_result (check_register rep date_of today entries seen' claimed_by') (\<lambda>s.
                  case s of (errs', m) \<Rightarrow> Inr (dup @ errs @ conflicts @ errs', m)))))"

definition unregistered :: "(string, string) dict \<Rightarrow> (string, string) dict \<Rightarrow> string list" where
  "unregistered non_blocking claimed_by =
     concat (map (\<lambda>(control, location). if dict_has claimed_by control then []
        else [''non-blocking control '' @ tick_text control @ '' has no registered exception ('' @ location @ '')'']) non_blocking)"

definition stale :: "(string, string) dict \<Rightarrow> (string, string) dict \<Rightarrow> string list" where
  "stale non_blocking claimed_by =
     concat (map (\<lambda>(control, entry_id). if dict_has non_blocking control then []
        else [entry_id @ '': exception covers '' @ tick_text control @ '', which is no longer non-blocking; delete the stale entry''])
       claimed_by)"

definition register_errors ::
    "(json \<Rightarrow> string) \<Rightarrow> (string \<Rightarrow> int option) \<Rightarrow> int \<Rightarrow> (string \<times> json) list \<Rightarrow> json option \<Rightarrow> exn + string list" where
  "register_errors rep date_of today workflows register =
     (if workflows = [] then Inl (RuntimeError ''no workflows found'')
      else
        bind_result (scan_workflows rep workflows ([], [])) (\<lambda>r.
        case r of (non_blocking, collisions) \<Rightarrow>
          bind_result (load_register register) (\<lambda>entries.
          bind_result (check_register rep date_of today entries [] []) (\<lambda>s.
          case s of (errs, claimed_by) \<Rightarrow>
            Inr (remdups collisions @ errs @ unregistered non_blocking claimed_by @ stale non_blocking claimed_by)))))"

definition register_main ::
    "(json \<Rightarrow> string) \<Rightarrow> (string \<Rightarrow> int option) \<Rightarrow> int \<Rightarrow> (string \<times> json) list \<Rightarrow> json option \<Rightarrow> nat" where
  "register_main rep date_of today workflows register =
     (case register_errors rep date_of today workflows register of Inr [] \<Rightarrow> 0 | _ \<Rightarrow> 1)"

subsection \<open>What is recorded stays recorded\<close>

definition has_control :: "string \<Rightarrow> controls \<Rightarrow> bool" where
  "has_control c st \<longleftrightarrow> dict_has (fst st) c"

lemma has_control_record: "has_control c (record_control control place st) \<longleftrightarrow> c = control \<or> has_control c st"
  by (auto simp: has_control_def record_control_def dict_has_iff split: prod.splits option.splits)

lemma check_inputs_mono: "check_inputs rep control place uses inputs xs st = Inr st' \<Longrightarrow> has_control c st \<Longrightarrow> has_control c st'"
proof (induction xs arbitrary: st)
  case (Cons x xs)
  obtain action key bad_value where x: "x = (action, key, bad_value)"
    by (cases x)
  show ?case
    using Cons.prems by (auto simp: x has_control_record split: if_splits dest!: Cons.IH)
qed simp

lemma check_defaults_mono: "check_defaults rep control place uses inputs xs st = Inr st' \<Longrightarrow> has_control c st \<Longrightarrow> has_control c st'"
proof (induction xs arbitrary: st)
  case (Cons x xs)
  obtain action key where x: "x = (action, key)"
    by (cases x)
  show ?case
    using Cons.prems by (auto simp: x has_control_record split: if_splits dest!: Cons.IH)
qed simp

lemma check_step_mono: "check_step rep file job index step st = Inr st' \<Longrightarrow> has_control c st \<Longrightarrow> has_control c st'"
  by (auto simp: check_step_def Let_def has_control_record dest: check_inputs_mono check_defaults_mono
      split: json.splits if_splits)

lemma check_steps_mono: "check_steps rep file job index steps st = Inr st' \<Longrightarrow> has_control c st \<Longrightarrow> has_control c st'"
  by (induction steps arbitrary: index st) (auto dest: check_step_mono)

lemma check_job_mono: "check_job rep file j st = Inr st' \<Longrightarrow> has_control c st \<Longrightarrow> has_control c st'"
  by (auto simp: check_job_def Let_def has_control_record dest!: check_steps_mono[where c = c] split: json.splits if_splits prod.splits)

lemma check_jobs_mono: "check_jobs rep file js st = Inr st' \<Longrightarrow> has_control c st \<Longrightarrow> has_control c st'"
  by (induction js arbitrary: st) (auto dest: check_job_mono)

lemma merge_found_has: "has_control c (merge_found xs st) \<longleftrightarrow> c \<in> set (map fst xs) \<or> has_control c st"
  by (induction xs st rule: merge_found.induct) (auto simp: has_control_def dict_has_iff split: prod.splits)

subsection \<open>A step or job that may fail is found\<close>

definition step_label :: "(json \<Rightarrow> string) \<Rightarrow> nat \<Rightarrow> obj \<Rightarrow> string" where
  "step_label rep index d = py_str rep (py_or (obj_get d ''name'') (JStr (''step '' @ nat_str index)))"

definition may_fail :: "obj \<Rightarrow> bool" where
  "may_fail d \<longleftrightarrow> obj_get d ''continue-on-error'' = JBool True"

definition declared_downgrade :: "(json \<Rightarrow> string) \<Rightarrow> json \<Rightarrow> string \<Rightarrow> bool" where
  "declared_downgrade rep workflow c \<longleftrightarrow>
     (\<exists>w jobs job_name job. workflow = JObj w \<and> obj_get w ''jobs'' = JObj jobs \<and> (job_name, JObj job) \<in> set jobs \<and>
       (may_fail job \<and> c = job_name \<or>
        (\<exists>steps i d. obj_get job ''steps'' = JArr steps \<and> i < length steps \<and> steps ! i = JObj d \<and> may_fail d \<and>
           c = job_name @ ''/'' @ step_label rep i d)))"

lemma check_steps_finds:
  assumes "check_steps rep file job index steps st = Inr st'" and "i < length steps" and "steps ! i = JObj d" and "may_fail d"
  shows "has_control (job @ ''/'' @ step_label rep (index + i) d) st'"
  using assms
proof (induction steps arbitrary: index i st)
  case (Cons s steps)
  obtain st1 where st1: "check_step rep file job index s st = Inr st1" "check_steps rep file job (Suc index) steps st1 = Inr st'"
    using Cons.prems(1) by auto
  show ?case
  proof (cases i)
    case 0
    then have "has_control (job @ ''/'' @ step_label rep index d) st1"
      using st1(1) Cons.prems(3,4) by (auto simp: check_step_def Let_def may_fail_def step_label_def has_control_record)
    then show ?thesis
      using check_steps_mono[OF st1(2)] 0 by simp
  next
    case (Suc k)
    then show ?thesis
      using Cons.IH[OF st1(2), of k] Cons.prems(2-4) by simp
  qed
qed simp

lemma check_job_finds:
  assumes "check_job rep file (job_name, JObj job) st = Inr st'"
    and "may_fail job \<and> c = job_name \<or>
        (\<exists>steps i d. obj_get job ''steps'' = JArr steps \<and> i < length steps \<and> steps ! i = JObj d \<and> may_fail d \<and>
           c = job_name @ ''/'' @ step_label rep i d)"
  shows "has_control c st'"
proof -
  define st1 where "st1 = (if obj_get job ''continue-on-error'' = JBool True
      then record_control job_name (file @ '': job '' @ tick_text job_name) st else st)"
  obtain steps where s: "py_iter (py_or (obj_get job ''steps'') (JArr [])) = Inr steps"
    "check_steps rep file job_name 0 steps st1 = Inr st'"
    using assms(1) by (auto simp: check_job_def Let_def st1_def)
  from assms(2) show ?thesis
  proof
    assume "may_fail job \<and> c = job_name"
    then have "has_control c st1"
      by (simp add: st1_def may_fail_def has_control_record)
    then show ?thesis
      by (rule check_steps_mono[OF s(2)])
  next
    assume "\<exists>steps i d. obj_get job ''steps'' = JArr steps \<and> i < length steps \<and> steps ! i = JObj d \<and> may_fail d \<and>
           c = job_name @ ''/'' @ step_label rep i d"
    then obtain ss i d where d: "obj_get job ''steps'' = JArr ss" "i < length ss" "ss ! i = JObj d" "may_fail d"
      "c = job_name @ ''/'' @ step_label rep i d"
      by blast
    then have "steps = ss"
      using s(1) by (auto simp: py_or_def split: if_splits)
    then show ?thesis
      using check_steps_finds[OF s(2), of i d] d by simp
  qed
qed

lemma check_jobs_finds:
  assumes "check_jobs rep file js st = Inr st'" and "(job_name, JObj job) \<in> set js"
    and "may_fail job \<and> c = job_name \<or>
        (\<exists>steps i d. obj_get job ''steps'' = JArr steps \<and> i < length steps \<and> steps ! i = JObj d \<and> may_fail d \<and>
           c = job_name @ ''/'' @ step_label rep i d)"
  shows "has_control c st'"
  using assms(1,2)
proof (induction js arbitrary: st)
  case (Cons j js)
  obtain st1 where st1: "check_job rep file j st = Inr st1" "check_jobs rep file js st1 = Inr st'"
    using Cons.prems(1) by auto
  show ?case
  proof (cases "j = (job_name, JObj job)")
    case True
    then show ?thesis
      using check_job_finds[OF _ assms(3)] st1 check_jobs_mono by blast
  next
    case False
    then show ?thesis
      using Cons.IH[OF st1(2)] Cons.prems(2) by simp
  qed
qed simp

lemma find_controls_finds:
  assumes "find_non_blocking_controls rep workflow file amb = Inr st" and "declared_downgrade rep workflow c"
  shows "has_control c st"
proof -
  obtain w jobs job_name job where w: "workflow = JObj w" "obj_get w ''jobs'' = JObj jobs" "(job_name, JObj job) \<in> set jobs"
    "may_fail job \<and> c = job_name \<or>
        (\<exists>steps i d. obj_get job ''steps'' = JArr steps \<and> i < length steps \<and> steps ! i = JObj d \<and> may_fail d \<and>
           c = job_name @ ''/'' @ step_label rep i d)"
    using assms(2) unfolding declared_downgrade_def by blast
  have "w \<noteq> []" "jobs \<noteq> []"
    using w(2,3) by auto
  then have "check_jobs rep file jobs ([], amb) = Inr st"
    using assms(1) w(1,2) by (simp add: find_non_blocking_controls_def py_or_def)
  then show ?thesis
    using check_jobs_finds w(3,4) by blast
qed

lemma dict_has_fst: "dict_has d k \<longleftrightarrow> k \<in> set (map fst d)"
  by (simp add: dict_has_def map_of_eq_None_iff)

lemma scan_workflows_finds:
  assumes "scan_workflows rep ws st = Inr st'" and "has_control c st \<or> (\<exists>(file, workflow) \<in> set ws. declared_downgrade rep workflow c)"
  shows "has_control c st'"
  using assms
proof (induction rep ws st rule: scan_workflows.induct)
  case (2 rep name workflow rest st)
  obtain nb cs where st: "st = (nb, cs)"
    by (cases st)
  obtain found cs' where f: "find_non_blocking_controls rep workflow name cs = Inr (found, cs')"
    "scan_workflows rep rest (merge_found found (nb, cs')) = Inr st'"
    using 2(2) st by auto
  have "declared_downgrade rep workflow c \<Longrightarrow> has_control c (merge_found found (nb, cs'))"
    using find_controls_finds[OF f(1)] unfolding merge_found_has by (simp add: has_control_def dict_has_fst)
  moreover have "has_control c st \<Longrightarrow> has_control c (merge_found found (nb, cs'))"
    unfolding merge_found_has by (simp add: st has_control_def)
  ultimately show ?case
    using 2(1)[OF st[symmetric] f(2)] 2(3) by fastforce
qed auto

subsection \<open>A current entry\<close>

definition entry_current :: "(string \<Rightarrow> int option) \<Rightarrow> int \<Rightarrow> obj \<Rightarrow> bool" where
  "entry_current date_of today d \<longleftrightarrow>
     (\<exists>i. obj_get d ''id'' = JStr i \<and> exception_id_ok i) \<and>
     (\<forall>f \<in> {''scope'', ''owner'', ''tracking''}. filled (obj_get d f)) \<and>
     (\<exists>r. obj_get d ''reason'' = JStr r \<and> length (py_strip r) \<ge> 80) \<and>
     (\<exists>x xs. obj_get d ''compensating_controls'' = JArr (x # xs)) \<and> obj_get d ''status'' = JStr ''accepted'' \<and>
     (\<exists>s n. obj_get d ''expires'' = JStr s \<and> date_of s = Some n \<and> today \<le> n \<and> n \<le> today + 180)"

lemma field_errors_none:
  assumes "field_errors i d = []"
  shows "(\<forall>f \<in> {''scope'', ''owner'', ''tracking''}. filled (obj_get d f)) \<and>
     (\<exists>r. obj_get d ''reason'' = JStr r \<and> length (py_strip r) \<ge> 80) \<and>
     (\<exists>x xs. obj_get d ''compensating_controls'' = JArr (x # xs))"
  using assms
  by (auto simp: field_errors_def REASON_MIN_CHARS_def split: if_splits json.splits list.splits)

lemma expiry_errors_none:
  "expiry_errors rep date_of today i v = [] \<Longrightarrow> \<exists>s n. v = JStr s \<and> date_of s = Some n \<and> today \<le> n \<and> n \<le> today + 180"
  by (auto simp: expiry_errors_def MAX_EXPIRY_DAYS_def split: json.splits option.splits if_splits)

lemma validate_entry_clean:
  assumes "validate_entry rep date_of today entry = Inr ([], claimed)" and "c \<in> set claimed"
  shows "\<exists>d. entry = JObj d \<and> entry_current date_of today d \<and> c \<in> set (claimed_controls (obj_get d ''control''))"
proof -
  obtain d where d: "entry = JObj d"
    using assms by (cases entry) (auto simp: validate_entry_def)
  note a = assms(1)[unfolded validate_entry_def d json.case Let_def]
  have st: "obj_get d ''status'' = JStr ''accepted''" "field_errors (py_str rep (obj_get d ''id'')) d = []"
    "expiry_errors rep date_of today (py_str rep (obj_get d ''id'')) (obj_get d ''expires'') = []"
    "claimed = claimed_controls (obj_get d ''control'')"
    using a assms(2) by (auto split: json.splits if_splits)
  have "\<exists>i. obj_get d ''id'' = JStr i \<and> exception_id_ok i"
    using a st(1) by (cases "obj_get d ''id''") (auto split: if_splits)
  then show ?thesis
    using st d assms(2) field_errors_none[OF st(2)] expiry_errors_none[OF st(3)] by (auto simp: entry_current_def)
qed

lemma claim_controls_keys:
  "claim_controls i cs m = (errs, m') \<Longrightarrow> dict_has m' c \<longleftrightarrow> c \<in> set cs \<or> dict_has m c"
  by (induction i cs m arbitrary: errs m' rule: claim_controls.induct)
    (auto simp: dict_has_iff split: option.splits prod.splits if_splits)

lemma check_register_clean:
  assumes "check_register rep date_of today entries seen claimed_by = Inr ([], m)" and "dict_has m c"
  shows "dict_has claimed_by c \<or>
     (\<exists>d. JObj d \<in> set entries \<and> entry_current date_of today d \<and> c \<in> set (claimed_controls (obj_get d ''control'')))"
  using assms(1)
proof (induction entries arbitrary: seen claimed_by)
  case Nil
  then show ?case
    using assms(2) by simp
next
  case (Cons entry entries)
  obtain seen' claimed claimed_by' where x: "validate_entry rep date_of today entry = Inr ([], claimed)"
    "claim_controls (py_str rep (entry_id_of entry)) claimed claimed_by = ([], claimed_by')"
    "check_register rep date_of today entries seen' claimed_by' = Inr ([], m)"
    using Cons.prems by (fastforce simp: Let_def case_prod_unfold prod_eq_iff)
  from Cons.IH[OF x(3)] show ?case
    using claim_controls_keys[OF x(2)] validate_entry_clean[OF x(1)] by fastforce
qed


subsection \<open>An unquoted false\<close>

text \<open>YAML reads \<open>fail-build: false\<close> as a boolean, whose text is \<open>False\<close>: the downgrade the script names in its own
  documentation is only seen when it is written in quotes.\<close>

definition grype_workflow :: "json \<Rightarrow> json" where
  "grype_workflow v = JObj [(''jobs'', JObj [(''scan'', JObj [(''steps'', JArr [JObj [(''name'', JStr ''Grype''),
     (''uses'', JStr ''anchore/scan-action@v6''), (''with'', JObj [(''fail-build'', v)])]])])])]"

lemma unquoted_false_missed:
  "find_non_blocking_controls rep (grype_workflow (JBool False)) ''ci.yml'' [] = Inr ([], [])"
  "find_non_blocking_controls (\<lambda>_. []) (grype_workflow (JStr ''false'')) ''ci.yml'' [] =
     Inr ([(''scan/Grype'', ''ci.yml: step `Grype` in job `scan` sets `fail-build: false`'')], [])"
proof -
  have "str_contains ''anchore/scan-action'' ''anchore/scan-action@v6''" "\<not> str_contains ''aquasecurity/trivy-action'' ''anchore/scan-action@v6''"
    "\<not> str_contains ''zaproxy/action-'' ''anchore/scan-action@v6''" "\<not> str_contains ''zaproxy/zap-baseline-action'' ''anchore/scan-action@v6''"
    by code_simp+
  then show "find_non_blocking_controls rep (grype_workflow (JBool False)) ''ci.yml'' [] = Inr ([], [])"
    by (simp add: find_non_blocking_controls_def grype_workflow_def py_or_def check_job_def check_step_def Let_def
        non_blocking_inputs_def non_blocking_default_prefixes_def)
  show "find_non_blocking_controls (\<lambda>_. []) (grype_workflow (JStr ''false'')) ''ci.yml'' [] =
     Inr ([(''scan/Grype'', ''ci.yml: step `Grype` in job `scan` sets `fail-build: false`'')], [])"
    by code_simp
qed

subsection \<open>A concrete register\<close>

definition demo_workflow :: json where
  "demo_workflow = JObj [(''jobs'', JObj [(''scan'', JObj [(''continue-on-error'', JBool True)])])]"

definition demo_entry :: obj where
  "demo_entry = [(''id'', JStr ''SEC-EXC-001''), (''control'', JStr ''scan''), (''scope'', JStr ''ci''), (''owner'', JStr ''sec''),
     (''tracking'', JStr ''#1''), (''reason'', JStr (replicate 80 CHR ''x'')), (''compensating_controls'', JArr [JStr ''review'']),
     (''status'', JStr ''accepted''), (''expires'', JStr ''2026-01-02'')]"

definition demo_register :: json where
  "demo_register = JObj [(''version'', JInt 1), (''exceptions'', JArr [JObj demo_entry])]"


end
