(* ===== verification/Backup.thy ===== *)
theory Backup
  imports Tenant Schema_View
begin

text \<open>
  \<open>scripts/backup-databases.py\<close>: the backup of the tenants' databases.

  \<open>loads\<close> is \<open>json.loads\<close> and \<open>rep\<close> the text of a float, array or object; \<open>pg_dump\<close> and \<open>pg_restore --list\<close> are
  arguments that give what a run of them returned and, for a dump, the size of the file it left. The backup
  directory maps the names of its files to their sizes. A \<open>BackupConfigError\<close> is a \<open>RuntimeError\<close>; what is printed
  is left out, apart from the message of an error. Paths are taken as already expanded, and labels are taken not
  to contain the bracket of a glob set; creating the directory and deleting a file in it are taken to succeed.
\<close>

subsection \<open>Reading the configuration\<close>

text \<open>\<open>value.strip().strip('"').strip("'")\<close>\<close>

definition unquote_value :: "string \<Rightarrow> string" where
  "unquote_value v = strip_by (\<lambda>c. c = CHR 0x27) (strip_by (\<lambda>c. c = CHR 0x22) (py_strip v))"

fun read_env_lines :: "string list \<Rightarrow> string \<times> string \<Rightarrow> string \<times> string" where
  "read_env_lines [] st = st"
| "read_env_lines (l # ls) (raw_json, raw_file) =
     (let line = py_strip l in
      if CHR ''='' \<notin> set line \<or> prefix ''#'' line then read_env_lines ls (raw_json, raw_file)
      else (case partition_on CHR ''='' line of (key, _, value) \<Rightarrow>
        if key = ''TENANT_DATABASES_JSON'' \<and> raw_json = [] then read_env_lines ls (unquote_value value, raw_file)
        else if key = ''TENANT_DATABASES_JSON_FILE'' \<and> raw_file = [] then read_env_lines ls (raw_json, unquote_value value)
        else read_env_lines ls (raw_json, raw_file)))"

definition configured_sources :: "os_state \<Rightarrow> string option \<Rightarrow> exn + string \<times> string" where
  "configured_sources os env_file =
     (let raw_json = py_strip (getenv os ''TENANT_DATABASES_JSON'' []);
          raw_file = py_strip (getenv os ''TENANT_DATABASES_JSON_FILE'' [])
      in case env_file of
           Some (c # cs) \<Rightarrow>
             if raw_json = [] \<and> raw_file = []
             then (case os_files os (c # cs) of
                     File_Text t \<Rightarrow> Inr (read_env_lines (splitlines t) (raw_json, raw_file))
                   | File_Missing \<Rightarrow> Inr (raw_json, raw_file)
                   | File_OSError \<Rightarrow> Inl (LibraryError ''OSError''))
             else Inr (raw_json, raw_file)
         | _ \<Rightarrow> Inr (raw_json, raw_file))"

definition parse_config_text :: "(string \<Rightarrow> json option) \<Rightarrow> string \<Rightarrow> string \<Rightarrow> exn + obj" where
  "parse_config_text loads name text =
     (case loads text of
        None \<Rightarrow> Inl (RuntimeError (name @ '' is not valid JSON''))
      | Some (JObj d) \<Rightarrow> Inr d
      | Some _ \<Rightarrow> Inl (RuntimeError ''tenant database config must be a JSON object keyed by org_id''))"

definition load_tenant_config :: "(string \<Rightarrow> json option) \<Rightarrow> os_state \<Rightarrow> string option \<Rightarrow> exn + obj" where
  "load_tenant_config loads os env_file =
     bind_result (configured_sources os env_file) (\<lambda>sources.
       case sources of (raw_json, raw_file) \<Rightarrow>
         if raw_json = [] \<and> raw_file = []
         then Inl (RuntimeError ''no tenant database config: set TENANT_DATABASES_JSON (or *_FILE, or --env-file)'')
         else if raw_json \<noteq> [] then parse_config_text loads ''TENANT_DATABASES_JSON'' raw_json
         else (case os_files os raw_file of
                 File_Missing \<Rightarrow> Inl (RuntimeError (''TENANT_DATABASES_JSON_FILE does not exist: '' @ raw_file))
               | File_OSError \<Rightarrow> Inl (LibraryError ''OSError'')
               | File_Text t \<Rightarrow> parse_config_text loads ''TENANT_DATABASES_JSON_FILE'' t))"

subsection \<open>The targets\<close>

text \<open>\<open>(entry.get("replica") or {}).get("connection_string", "")\<close>\<close>

definition replica_of :: "obj \<Rightarrow> exn + json" where
  "replica_of entry =
     (if truthy (obj_get entry ''replica_connection_string'') then Inr (obj_get entry ''replica_connection_string'')
      else if truthy (obj_get entry ''read_replica_connection_string'') then Inr (obj_get entry ''read_replica_connection_string'')
      else (case py_or (obj_get entry ''replica'') (JObj []) of
              JObj r \<Rightarrow> Inr (obj_get_or r ''connection_string'' (JStr []))
            | _ \<Rightarrow> Inl (AttributeError ''get'')))"

definition primary_of :: "(json \<Rightarrow> string) \<Rightarrow> obj \<Rightarrow> string" where
  "primary_of rep entry =
     py_strip (py_str rep (py_or (py_or (obj_get entry ''connection_string'') (obj_get entry ''primary'')) (JStr [])))"

definition binding_targets :: "(json \<Rightarrow> string) \<Rightarrow> bool \<Rightarrow> string \<Rightarrow> json \<Rightarrow> exn + (string \<times> string) list" where
  "binding_targets rep include_replicas label entry =
     (case entry of
        JStr s \<Rightarrow> Inr [(label, s)]
      | JObj d \<Rightarrow>
          bind_result (replica_of d) (\<lambda>r.
            let primary = primary_of rep d; replica = py_strip (py_str rep r) in
            if primary = [] then Inl (RuntimeError (''tenant '' @ label @ '': missing connection_string''))
            else Inr ((if replica \<noteq> [] \<and> include_replicas then [(label @ '' (replica)'', replica)] else []) @ [(label, primary)]))
      | _ \<Rightarrow> Inl (RuntimeError (''tenant '' @ label @ '': entry must be a string or object'')))"

definition org_targets :: "(json \<Rightarrow> string) \<Rightarrow> bool \<Rightarrow> obj \<Rightarrow> string \<Rightarrow> exn + (string \<times> string) list" where
  "org_targets rep include_replicas config org_id =
     (case obj_get config org_id of
        JObj bindings \<Rightarrow>
          bind_result
            (result_map (\<lambda>database_id. binding_targets rep include_replicas (org_id @ ''/'' @ database_id) (obj_get bindings database_id))
               (sort (map fst bindings)))
            (\<lambda>tss. Inr (concat tss))
      | _ \<Rightarrow> Inl (RuntimeError (''tenant '' @ org_id @ '': bindings must be a JSON object'')))"

definition target_urls :: "(json \<Rightarrow> string) \<Rightarrow> obj \<Rightarrow> bool \<Rightarrow> exn + (string \<times> string) list" where
  "target_urls rep config include_replicas =
     bind_result (result_map (org_targets rep include_replicas config) (sort (map fst config))) (\<lambda>tss. Inr (concat tss))"

subsection \<open>Connection strings\<close>

definition driver_suffixes :: "string list" where
  "driver_suffixes = [''+asyncpg'', ''+psycopg'', ''+psycopg2'', ''+pg8000'']"

text \<open>The prefix is a prefix, so replacing its first occurrence replaces it.\<close>

fun strip_driver :: "string list \<Rightarrow> string \<Rightarrow> string" where
  "strip_driver [] s = s"
| "strip_driver (sfx # rest) s =
     (let marker = ''postgresql'' @ sfx @ ''://''; short = ''postgres'' @ sfx @ ''://'' in
      if prefix marker s then ''postgresql://'' @ drop (length marker) s
      else if prefix short s then ''postgres://'' @ drop (length short) s
      else strip_driver rest s)"

definition portable_pg_url :: "string \<Rightarrow> string" where
  "portable_pg_url s = strip_driver driver_suffixes s"

text \<open>\<open>s.partition(sep)\<close> for a text \<open>sep\<close>: what stands before its first occurrence, and after it.\<close>

fun partition_text :: "string \<Rightarrow> string \<Rightarrow> string \<times> string" where
  "partition_text sep [] = ([], [])"
| "partition_text sep (c # cs) =
     (if prefix sep (c # cs) then ([], drop (length sep) (c # cs))
      else (case partition_text sep cs of (a, b) \<Rightarrow> (c # a, b)))"

definition REDACT_MARKER :: string where
  "REDACT_MARKER = ''****''"

definition redact :: "string \<Rightarrow> string" where
  "redact s =
     (case partition_text ''://'' s of (scheme, rest) \<Rightarrow>
        (case partition_text ''@'' rest of (userinfo, remainder) \<Rightarrow>
           if CHR ''@'' \<in> set s \<and> CHR '':'' \<in> set userinfo
           then scheme @ ''://'' @ fst (partition_on CHR '':'' userinfo) @ '':'' @ REDACT_MARKER @ ''@'' @ remainder
           else s))"

subsection \<open>One dump\<close>

type_synonym directory = "(string, nat) dict"

record run_result =
  rn_code :: int
  rn_stdout :: string
  rn_stderr :: string

text \<open>\<open>None\<close> where the program cannot be started; a dump also tells the size of the file it wrote, if it wrote one.\<close>

record backup_tools =
  bt_pg_dump :: "string \<Rightarrow> string \<Rightarrow> (run_result \<times> nat option) option"
  bt_pg_restore :: "string \<Rightarrow> run_result option"

definition safe_label :: "string \<Rightarrow> string" where
  "safe_label label = replace_all ''(replica)'' ''replica'' (replace_char CHR '' '' ''_'' (replace_char CHR ''/'' ''__'' label))"

definition dump_name :: "string \<Rightarrow> string \<Rightarrow> string" where
  "dump_name timestamp label = safe_label label @ ''__'' @ timestamp @ ''.dump''"

definition is_postgres_url :: "string \<Rightarrow> bool" where
  "is_postgres_url url \<longleftrightarrow> prefix ''postgres://'' url \<or> prefix ''postgresql://'' url"

definition backup_one ::
    "backup_tools \<Rightarrow> string \<Rightarrow> string \<Rightarrow> string \<Rightarrow> directory \<Rightarrow> (exn + string) \<times> directory" where
  "backup_one tools connection_string label timestamp files =
     (let url = portable_pg_url connection_string; name = dump_name timestamp label in
      if \<not> is_postgres_url url
      then (Inl (RuntimeError (label @ '': only PostgreSQL targets are backed up here ('' @ url @ '')'')), files)
      else
        (case bt_pg_dump tools url name of
           None \<Rightarrow> (Inl (LibraryError ''FileNotFoundError''), files)
         | Some (result, written) \<Rightarrow>
             let files1 = (case written of None \<Rightarrow> files | Some n \<Rightarrow> dict_set files name n) in
             if rn_code result \<noteq> 0
             then (Inl (RuntimeError (label @ '': pg_dump failed: '' @
                     (if py_strip (rn_stderr result) \<noteq> [] then py_strip (rn_stderr result) else py_strip (rn_stdout result)))),
                   dict_pop files1 name)
             else
               (case dict_get files1 name of
                  None \<Rightarrow> (Inl (LibraryError ''FileNotFoundError''), files1)
                | Some n \<Rightarrow>
                    if n = 0 then (Inl (RuntimeError (label @ '': pg_dump produced an empty file'')), dict_pop files1 name)
                    else
                      (case bt_pg_restore tools name of
                         None \<Rightarrow> (Inl (LibraryError ''FileNotFoundError''), files1)
                       | Some verify \<Rightarrow>
                           if rn_code verify \<noteq> 0
                           then (Inl (RuntimeError (label @ '': pg_restore --list failed: '' @ py_strip (rn_stderr verify))),
                                 dict_pop files1 name)
                           else (Inr name, files1)))))"

subsection \<open>Retention\<close>

text \<open>A pattern of \<open>Path.glob\<close> within one directory.\<close>

fun glob_match :: "string \<Rightarrow> string \<Rightarrow> bool" where
  "glob_match [] s \<longleftrightarrow> s = []"
| "glob_match (p # ps) [] \<longleftrightarrow> p = CHR ''*'' \<and> glob_match ps []"
| "glob_match (p # ps) (c # cs) \<longleftrightarrow>
     (if p = CHR ''*'' then glob_match ps (c # cs) \<or> glob_match (p # ps) cs
      else (p = CHR ''?'' \<or> p = c) \<and> glob_match ps cs)"

definition dump_pattern :: "string \<Rightarrow> string" where
  "dump_pattern label = safe_label label @ ''__*.dump''"

definition enforce_retention :: "string \<Rightarrow> int \<Rightarrow> directory \<Rightarrow> directory" where
  "enforce_retention label keep files =
     (if keep < 1 then files
      else
        let dumps = sort (filter (glob_match (dump_pattern label)) (map fst files)) in
        foldl dict_pop files (if length dumps > nat keep then take (length dumps - nat keep) dumps else []))"

subsection \<open>The run\<close>

definition caught :: "exn \<Rightarrow> bool" where
  "caught e \<longleftrightarrow> (case e of RuntimeError _ \<Rightarrow> True | _ \<Rightarrow> False)"

fun backup_all ::
    "backup_tools \<Rightarrow> string \<Rightarrow> int \<Rightarrow> (string \<times> string) list \<Rightarrow> string list \<times> bool \<Rightarrow> directory
      \<Rightarrow> (exn + string list \<times> bool) \<times> directory" where
  "backup_all tools timestamp keep [] st files = (Inr st, files)"
| "backup_all tools timestamp keep ((label, url) # rest) (created, failed) files =
     (case backup_one tools url label timestamp files of
        (Inr name, files1) \<Rightarrow>
          backup_all tools timestamp keep rest (created @ [name], failed) (enforce_retention label keep files1)
      | (Inl e, files1) \<Rightarrow>
          if caught e then backup_all tools timestamp keep rest (created, True) files1 else (Inl e, files1))"

record backup_args =
  ba_env_file :: "string option"
  ba_retention :: int
  ba_include_replicas :: bool
  ba_dry_run :: bool

definition backup_targets ::
    "(json \<Rightarrow> string) \<Rightarrow> (string \<Rightarrow> json option) \<Rightarrow> os_state \<Rightarrow> backup_args \<Rightarrow> exn + (string \<times> string) list" where
  "backup_targets rep loads os args =
     bind_result (load_tenant_config loads os (ba_env_file args)) (\<lambda>config.
     bind_result (target_urls rep config (ba_include_replicas args)) (\<lambda>targets.
       if targets = [] then Inl (RuntimeError ''tenant config resolved to zero backup targets'') else Inr targets))"

text \<open>\<open>offload\<close> is what the offload command returned, \<open>None\<close> where none is configured.\<close>

definition backup_main ::
    "(json \<Rightarrow> string) \<Rightarrow> (string \<Rightarrow> json option) \<Rightarrow> os_state \<Rightarrow> backup_args \<Rightarrow> backup_tools \<Rightarrow> int option \<Rightarrow> string
      \<Rightarrow> directory \<Rightarrow> (exn + nat) \<times> directory" where
  "backup_main rep loads os args tools offload timestamp files =
     (case backup_targets rep loads os args of
        Inl e \<Rightarrow> (if caught e then Inr 2 else Inl e, files)
      | Inr targets \<Rightarrow>
          if ba_dry_run args then (Inr 0, files)
          else
            (case backup_all tools timestamp (ba_retention args) targets ([], False) files of
               (Inl e, files1) \<Rightarrow> (Inl e, files1)
             | (Inr (created, failed), files1) \<Rightarrow>
                 (Inr (if failed then 1
                       else (case offload of Some code \<Rightarrow> if code \<noteq> 0 then 1 else 0 | None \<Rightarrow> 0)), files1)))"

subsection \<open>Connection strings for the tools\<close>

text \<open>A connection string of the gateway, with or without a driver, becomes one the tools read.\<close>

lemma strip_driver_none:
  "(\<And>x. x \<in> set xs \<Longrightarrow> \<not> prefix (''postgresql'' @ x @ ''://'') s \<and> \<not> prefix (''postgres'' @ x @ ''://'') s) \<Longrightarrow>
   strip_driver xs s = s"
  by (induction xs) (simp_all del: append_Cons append_Nil)

lemma portable_postgres:
  assumes "is_postgres_url s"
  shows "portable_pg_url s = s"
  unfolding portable_pg_url_def
proof (rule strip_driver_none)
  fix x
  assume "x \<in> set driver_suffixes"
  then obtain y where "x = CHR ''+'' # y"
    by (auto simp: driver_suffixes_def)
  then show "\<not> prefix (''postgresql'' @ x @ ''://'') s \<and> \<not> prefix (''postgres'' @ x @ ''://'') s"
    using assms by (auto simp: is_postgres_url_def prefix_def)
qed

lemma portable_with_driver:
  assumes "x \<in> set driver_suffixes"
  shows "is_postgres_url (portable_pg_url (''postgresql'' @ x @ ''://'' @ rest))"
    and "is_postgres_url (portable_pg_url (''postgres'' @ x @ ''://'' @ rest))"
proof -
  have x: "x = ''+asyncpg'' \<or> x = ''+psycopg'' \<or> x = ''+psycopg2'' \<or> x = ''+pg8000''"
    using assms by (simp add: driver_suffixes_def)
  show "is_postgres_url (portable_pg_url (''postgresql'' @ x @ ''://'' @ rest))"
    using x by (elim disjE) (simp_all add: is_postgres_url_def portable_pg_url_def driver_suffixes_def Let_def)
  show "is_postgres_url (portable_pg_url (''postgres'' @ x @ ''://'' @ rest))"
    using x by (elim disjE) (simp_all add: is_postgres_url_def portable_pg_url_def driver_suffixes_def Let_def)
qed

subsection \<open>Retention keeps the newest\<close>

lemma glob_star: "glob_match (CHR ''*'' # p) s \<longleftrightarrow> (\<exists>a b. s = a @ b \<and> glob_match p b)"
proof (induction s)
  case (Cons c cs)
  have "(\<exists>a b. c # cs = a @ b \<and> glob_match p b) \<longleftrightarrow> glob_match p (c # cs) \<or> (\<exists>a b. cs = a @ b \<and> glob_match p b)"
    by (metis append_Cons append_Nil append_eq_Cons_conv)
  then show ?case
    using Cons by simp
qed auto

lemma dict_get_foldl_pop: "dict_get (foldl dict_pop d ks) k = (if k \<in> set ks then None else dict_get d k)"
  by (induction ks arbitrary: d) auto

lemma dict_ok_foldl_pop: "dict_ok d \<Longrightarrow> dict_ok (foldl dict_pop d ks)"
  by (induction ks arbitrary: d) auto

lemma dict_get_key: "dict_get d k \<noteq> None \<longleftrightarrow> k \<in> set (map fst d)"
  by (force simp: dict_get_def map_of_eq_None_iff)

lemma retention_ok: "dict_ok files \<Longrightarrow> dict_ok (enforce_retention label keep files)"
  by (simp add: enforce_retention_def Let_def dict_ok_foldl_pop)

lemma retention_only_removes: "dict_get (enforce_retention label keep files) f \<in> {None, dict_get files f}"
  by (simp add: enforce_retention_def Let_def dict_get_foldl_pop)

lemma retention_others:
  "\<not> glob_match (dump_pattern label) f \<Longrightarrow> dict_get (enforce_retention label keep files) f = dict_get files f"
  by (auto simp: enforce_retention_def Let_def dict_get_foldl_pop dest!: in_set_takeD)

lemma retention_newest:
  assumes "dict_ok files"
    and "\<And>g. dict_get files g \<noteq> None \<Longrightarrow> glob_match (dump_pattern label) g \<Longrightarrow> g \<le> f"
  shows "dict_get (enforce_retention label keep files) f = dict_get files f"
proof -
  define dumps where "dumps = sort (filter (glob_match (dump_pattern label)) (map fst files))"
  have dumps: "sorted dumps" "distinct dumps" "\<And>g. g \<in> set dumps \<Longrightarrow> g \<le> f"
    using assms(1) assms(2) dict_get_key[of files] by (auto simp: dumps_def dict_ok_def)
  have "f \<notin> set (take (length dumps - nat keep) dumps)" if "nat keep < length dumps" "0 < nat keep"
  proof
    assume "f \<in> set (take (length dumps - nat keep) dumps)"
    then obtain i where i: "i < length dumps - nat keep" "dumps ! i = f"
      by (auto simp: in_set_conv_nth)
    have "dumps ! i \<le> dumps ! (length dumps - 1)"
      using i(1) dumps(1) by (intro sorted_nth_mono) auto
    moreover have "dumps ! i \<noteq> dumps ! (length dumps - 1)"
      using i(1) that dumps(2) by (auto simp: nth_eq_iff_index_eq)
    moreover have "dumps ! (length dumps - 1) \<le> f"
      using i(1) by (intro dumps(3) nth_mem) linarith
    ultimately show False
      using i(2) by simp
  qed
  then show ?thesis
    by (auto simp: enforce_retention_def Let_def dict_get_foldl_pop simp flip: dumps_def)
qed

subsection \<open>What a successful run leaves\<close>

definition dumped :: "backup_tools \<Rightarrow> string \<Rightarrow> string \<Rightarrow> bool" where
  "dumped tools url name \<longleftrightarrow>
     is_postgres_url url \<and>
     (case bt_pg_dump tools url name of Some (result, _) \<Rightarrow> rn_code result = 0 | None \<Rightarrow> False) \<and>
     (case bt_pg_restore tools name of Some verify \<Rightarrow> rn_code verify = 0 | None \<Rightarrow> False)"

lemma backup_one_success:
  assumes "backup_one tools conn label timestamp files = (Inr name, files1)"
  shows "name = dump_name timestamp label"
    and "dumped tools (portable_pg_url conn) (dump_name timestamp label)"
    and "\<exists>n > 0. dict_get files1 (dump_name timestamp label) = Some n"
    and "f \<noteq> dump_name timestamp label \<Longrightarrow> dict_get files1 f = dict_get files f"
    and "dict_ok files \<Longrightarrow> dict_ok files1"
  using assms by (auto simp: backup_one_def Let_def dumped_def split: if_splits option.splits prod.splits)

lemma backup_all_failed: "fst (backup_all tools timestamp keep targets (created, True) files) \<noteq> Inr (created', False)"
proof (induction targets arbitrary: created files)
  case (Cons t targets)
  then show ?case
    by (cases t) (auto split: prod.splits sum.splits)
qed simp

definition labels_apart :: "string \<Rightarrow> string \<Rightarrow> string \<Rightarrow> bool" where
  "labels_apart timestamp a b \<longleftrightarrow>
     \<not> glob_match (dump_pattern a) (dump_name timestamp b) \<and> \<not> glob_match (dump_pattern b) (dump_name timestamp a)"

definition newest_name :: "string \<Rightarrow> directory \<Rightarrow> string \<Rightarrow> bool" where
  "newest_name timestamp files label \<longleftrightarrow>
     list_all (\<lambda>f. glob_match (dump_pattern label) f \<longrightarrow> f \<le> dump_name timestamp label) (map fst files)"

lemma newest_name_iff:
  "newest_name timestamp files label \<longleftrightarrow>
     (\<forall>f. dict_get files f \<noteq> None \<longrightarrow> glob_match (dump_pattern label) f \<longrightarrow> f \<le> dump_name timestamp label)"
  unfolding newest_name_def list_all_iff dict_get_key by blast

lemma glob_self: "glob_match q r \<Longrightarrow> glob_match (x @ q) (x @ r)"
proof (induction x)
  case (Cons c x)
  have "glob_match (CHR ''*'' # ps) (c # cs)" if "glob_match ps cs" for ps cs
    unfolding glob_star using that by (intro exI[of _ "[c]"] exI[of _ cs]) simp
  then show ?case
    using Cons by auto
qed simp

lemma own_dump: "glob_match (dump_pattern label) (dump_name timestamp label)"
proof -
  have "glob_match ''.dump'' ''.dump''"
    by simp
  then have "glob_match ''*.dump'' (timestamp @ ''.dump'')"
    unfolding glob_star by blast
  then have "glob_match (''__'' @ ''*.dump'') (''__'' @ timestamp @ ''.dump'')"
    by (rule glob_self)
  then show ?thesis
    unfolding dump_pattern_def dump_name_def by (intro glob_self) simp
qed

text \<open>Labels whose names are plain (no underscore in particular) are apart.\<close>

definition plain_label_name :: "string \<Rightarrow> bool" where
  "plain_label_name s \<longleftrightarrow> list_all (\<lambda>c. c \<notin> {CHR ''_'', CHR ''/'', CHR '' '', CHR ''('', CHR ''*'', CHR ''?''}) s"

lemma glob_literal: "glob_match (x @ q) s \<Longrightarrow> CHR ''*'' \<notin> set x \<Longrightarrow> CHR ''?'' \<notin> set x \<Longrightarrow> \<exists>r. s = x @ r"
proof (induction x arbitrary: s)
  case (Cons c x)
  then show ?case
    by (cases s) auto
qed simp

lemma replace_char_append: "replace_char c r (x @ y) = replace_char c r x @ replace_char c r y"
  by (induction x) auto

lemma plain_absent:
  "plain_label_name s \<Longrightarrow> CHR ''_'' \<notin> set s \<and> CHR ''/'' \<notin> set s \<and> CHR '' '' \<notin> set s \<and> CHR ''('' \<notin> set s \<and> CHR ''*'' \<notin> set s \<and> CHR ''?'' \<notin> set s"
  unfolding plain_label_name_def list_all_iff by blast

lemma safe_plain:
  assumes "plain_label_name a" and "plain_label_name b"
  shows "safe_label (a @ ''/'' @ b) = a @ ''__'' @ b"
proof -
  note p = plain_absent[OF assms(1)] plain_absent[OF assms(2)]
  have slash: "replace_char CHR ''/'' ''__'' (a @ ''/'' @ b) = a @ ''__'' @ b"
    by (simp add: replace_char_append replace_char_absent p)
  have clean: "CHR ''('' \<notin> set (a @ ''__'' @ b)" "CHR '' '' \<notin> set (a @ ''__'' @ b)"
    by (simp_all add: p)
  show ?thesis
    unfolding safe_label_def slash replace_char_absent[OF clean(2)] by (rule replace_all_absent[OF _ clean(1)]) simp
qed

lemma plain_head: "plain_label_name a \<Longrightarrow> takeWhile (\<lambda>c. c \<noteq> CHR ''_'') (a @ CHR ''_'' # r) = a"
  by (subst takeWhile_append2) (auto dest: plain_absent)

lemma plain_labels_match:
  assumes "plain_label_name a" "plain_label_name b" "plain_label_name a'" "plain_label_name b'"
    and "glob_match (dump_pattern (a @ ''/'' @ b)) (dump_name timestamp (a' @ ''/'' @ b'))"
  shows "a = a' \<and> b = b'"
proof -
  have m: "glob_match ((a @ ''__'' @ b @ ''__'') @ ''*.dump'') (a' @ ''__'' @ b' @ ''__'' @ timestamp @ ''.dump'')"
    using assms(5) unfolding dump_pattern_def dump_name_def safe_plain[OF assms(1,2)] safe_plain[OF assms(3,4)] by simp
  have lit: "CHR ''*'' \<notin> set (a @ ''__'' @ b @ ''__'')" "CHR ''?'' \<notin> set (a @ ''__'' @ b @ ''__'')"
    by (simp_all add: plain_absent[OF assms(1)] plain_absent[OF assms(2)])
  obtain r where "a' @ ''__'' @ b' @ ''__'' @ timestamp @ ''.dump'' = (a @ ''__'' @ b @ ''__'') @ r"
    using glob_literal[OF m lit] by blast
  then have eq: "a' @ CHR ''_'' # CHR ''_'' # b' @ CHR ''_'' # CHR ''_'' # timestamp @ ''.dump'' = a @ CHR ''_'' # CHR ''_'' # b @ CHR ''_'' # CHR ''_'' # r"
    by simp
  then have a: "a = a'"
    using plain_head[OF assms(1)] plain_head[OF assms(3)] by metis
  then have "b' @ CHR ''_'' # CHR ''_'' # timestamp @ ''.dump'' = b @ CHR ''_'' # CHR ''_'' # r"
    using eq by simp
  then show ?thesis
    using a plain_head[OF assms(2)] plain_head[OF assms(4)] by metis
qed

lemma plain_labels_apart:
  assumes "plain_label_name a" "plain_label_name b" "plain_label_name a'" "plain_label_name b'" and "(a, b) \<noteq> (a', b')"
  shows "labels_apart timestamp (a @ ''/'' @ b) (a' @ ''/'' @ b')"
  using plain_labels_match[OF assms(1-4)] plain_labels_match[OF assms(3,4,1,2)] assms(5)
  unfolding labels_apart_def by blast

text \<open>One successful dump and its retention: its own file is there, the files of labels apart from it are untouched, and
  nothing newer appears.\<close>

lemma backup_step:
  assumes "backup_one tools conn label timestamp files = (Inr name, files1)" and "dict_ok files"
    and "newest_name timestamp files label"
  shows "\<exists>n > 0. dict_get (enforce_retention label keep files1) (dump_name timestamp label) = Some n"
    and "\<not> glob_match (dump_pattern label) f \<Longrightarrow> dict_get (enforce_retention label keep files1) f = dict_get files f"
    and "dict_ok (enforce_retention label keep files1)"
    and "labels_apart timestamp label other \<Longrightarrow> newest_name timestamp files other \<Longrightarrow>
      newest_name timestamp (enforce_retention label keep files1) other"
proof -
  note one = backup_one_success[OF assms(1)]
  have "newest_name timestamp files1 label"
    using assms(3) one(4) unfolding newest_name_iff by (metis order_refl)
  then show "\<exists>n > 0. dict_get (enforce_retention label keep files1) (dump_name timestamp label) = Some n"
    using one(3) retention_newest[OF one(5)[OF assms(2)]] unfolding newest_name_iff by simp
  show others: "\<not> glob_match (dump_pattern label) f \<Longrightarrow> dict_get (enforce_retention label keep files1) f = dict_get files f"
    using retention_others[of label f keep files1] one(4)[of f] own_dump[of label timestamp] by metis
  show "dict_ok (enforce_retention label keep files1)"
    by (rule retention_ok[OF one(5)[OF assms(2)]])
  show "newest_name timestamp (enforce_retention label keep files1) other"
    if "labels_apart timestamp label other" "newest_name timestamp files other"
    using that one(4) retention_only_removes[of label keep files1] unfolding newest_name_iff labels_apart_def
    by (metis insertE singletonD)
qed

text \<open>The first target of a run without failures; the rest runs on from the directory it leaves.\<close>

lemma backup_all_first:
  assumes "backup_all tools timestamp keep ((label0, url0) # targets) (created, False) files = (Inr (created', False), files')"
    and "dict_ok files" and "list_all (newest_name timestamp files) (label0 # map fst targets)"
    and "sorted_wrt (labels_apart timestamp) (label0 # map fst targets)"
  shows "\<exists>name files2. backup_all tools timestamp keep targets (created @ [name], False) files2 = (Inr (created', False), files') \<and>
      dumped tools (portable_pg_url url0) (dump_name timestamp label0) \<and>
      (\<exists>n > 0. dict_get files2 (dump_name timestamp label0) = Some n) \<and>
      (\<forall>f. \<not> glob_match (dump_pattern label0) f \<longrightarrow> dict_get files2 f = dict_get files f) \<and> dict_ok files2 \<and>
      list_all (newest_name timestamp files2) (map fst targets) \<and> sorted_wrt (labels_apart timestamp) (map fst targets) \<and>
      list_all (\<lambda>l. \<not> glob_match (dump_pattern l) (dump_name timestamp label0)) (map fst targets)"
proof -
  obtain name files1 where one: "backup_one tools url0 label0 timestamp files = (Inr name, files1)"
    "backup_all tools timestamp keep targets (created @ [name], False) (enforce_retention label0 keep files1) = (Inr (created', False), files')"
    using assms(1) backup_all_failed[of tools timestamp keep targets created _ created']
    by (auto split: prod.splits sum.splits if_splits) (metis fst_conv)+
  have n: "newest_name timestamp files label0"
    using assms(3) by simp
  show ?thesis
    using one(2) backup_one_success(2)[OF one(1)] backup_step[OF one(1) assms(2) n, where keep = keep] assms(3,4)
    by (intro exI[of _ name] exI[of _ "enforce_retention label0 keep files1"]) (auto simp: list_all_iff labels_apart_def)
qed

lemma backup_all_keeps:
  assumes "backup_all tools timestamp keep targets (created, False) files = (Inr (created', False), files')"
    and "dict_ok files" and "list_all (newest_name timestamp files) (map fst targets)"
    and "sorted_wrt (labels_apart timestamp) (map fst targets)"
  shows "(\<forall>f. list_all (\<lambda>l. \<not> glob_match (dump_pattern l) f) (map fst targets) \<longrightarrow> dict_get files' f = dict_get files f) \<and>
    (\<forall>(label, url) \<in> set targets. dumped tools (portable_pg_url url) (dump_name timestamp label) \<and>
      (\<exists>n > 0. dict_get files' (dump_name timestamp label) = Some n))"
  using assms
proof (induction targets arbitrary: created files)
  case (Cons t targets)
  obtain label0 url0 where t: "t = (label0, url0)"
    by (cases t)
  obtain name files2 where r:
    "backup_all tools timestamp keep targets (created @ [name], False) files2 = (Inr (created', False), files')"
    "dumped tools (portable_pg_url url0) (dump_name timestamp label0)"
    "\<exists>n > 0. dict_get files2 (dump_name timestamp label0) = Some n"
    "\<forall>f. \<not> glob_match (dump_pattern label0) f \<longrightarrow> dict_get files2 f = dict_get files f" "dict_ok files2"
    "list_all (newest_name timestamp files2) (map fst targets)" "sorted_wrt (labels_apart timestamp) (map fst targets)"
    "list_all (\<lambda>l. \<not> glob_match (dump_pattern l) (dump_name timestamp label0)) (map fst targets)"
    using backup_all_first Cons.prems unfolding t list.map fst_conv by metis
  note ih = Cons.IH[OF r(1,5,6,7)]
  have "dict_get files' (dump_name timestamp label0) = dict_get files2 (dump_name timestamp label0)"
    using ih r(8) by blast
  then show ?case
    using ih r(2-4) by (auto simp: t)
qed simp

subsection \<open>Every binding is a target\<close>

definition entry_url :: "(json \<Rightarrow> string) \<Rightarrow> json \<Rightarrow> string" where
  "entry_url rep entry = (case entry of JStr s \<Rightarrow> s | JObj d \<Rightarrow> primary_of rep d | _ \<Rightarrow> [])"

lemma result_map_each: "result_map f xs = Inr ys \<Longrightarrow> x \<in> set xs \<Longrightarrow> \<exists>y \<in> set ys. f x = Inr y"
  by (induction xs arbitrary: ys) auto

lemma binding_is_target:
  assumes "target_urls rep config include_replicas = Inr targets"
    and "dict_get config org_id = Some (JObj bindings)" and "dict_get bindings database_id = Some entry"
  shows "(org_id @ ''/'' @ database_id, entry_url rep entry) \<in> set targets"
proof -
  have k: "org_id \<in> set (sort (map fst config))" "database_id \<in> set (sort (map fst bindings))"
    using assms(2,3) dict_get_key by (metis option.simps(3) set_sort)+
  obtain tss where tss: "result_map (org_targets rep include_replicas config) (sort (map fst config)) = Inr tss" "targets = concat tss"
    using assms(1) by (auto simp: target_urls_def)
  obtain ts where ts: "org_targets rep include_replicas config org_id = Inr ts" "ts \<in> set tss"
    using tss(1) k(1) result_map_each by (metis (no_types, lifting))
  obtain bss where bss: "result_map (\<lambda>d. binding_targets rep include_replicas (org_id @ ''/'' @ d) (obj_get bindings d))
      (sort (map fst bindings)) = Inr bss" "ts = concat bss"
    using ts(1) assms(2) by (auto simp: org_targets_def obj_get_def)
  obtain bs where bs: "binding_targets rep include_replicas (org_id @ ''/'' @ database_id) (obj_get bindings database_id) = Inr bs"
    "bs \<in> set bss"
    using bss(1) k(2) result_map_each by (metis (no_types, lifting))
  have "(org_id @ ''/'' @ database_id, entry_url rep entry) \<in> set bs"
    using bs(1) assms(3) by (auto simp: binding_targets_def obj_get_def entry_url_def Let_def split: json.splits if_splits)
  then have "(org_id @ ''/'' @ database_id, entry_url rep entry) \<in> set ts"
    using bs(2) unfolding bss(2) by auto
  then show ?thesis
    using ts(2) unfolding tss(2) set_concat by blast
qed


definition demo_os :: os_state where
  "demo_os = \<lparr>os_env = [(''TENANT_DATABASES_JSON'', ''cfg'')], os_files = \<lambda>_. File_Missing\<rparr>"

definition demo_config :: obj where
  "demo_config = [(''acme'', JObj [(''main'', JStr ''postgresql+asyncpg://u:p@h/d''), (''logs'', JObj [(''primary'', JStr ''postgres://h/l'')])])]"

definition demo_tools :: backup_tools where
  "demo_tools = \<lparr>bt_pg_dump = \<lambda>_ _. Some (\<lparr>rn_code = 0, rn_stdout = [], rn_stderr = []\<rparr>, Some 9),
     bt_pg_restore = \<lambda>_. Some \<lparr>rn_code = 0, rn_stdout = [], rn_stderr = []\<rparr>\<rparr>"

definition demo_args :: backup_args where
  "demo_args = \<lparr>ba_env_file = None, ba_retention = 1, ba_include_replicas = False, ba_dry_run = False\<rparr>"

definition demo_files :: directory where
  "demo_files = [(''acme__main__20250101_000000.dump'', 5)]"

definition demo_targets :: "(string \<times> string) list" where
  "demo_targets = [(''acme/logs'', ''postgres://h/l''), (''acme/main'', ''postgresql+asyncpg://u:p@h/d'')]"

lemma backup_demo_run:
  "backup_main (\<lambda>_. []) (\<lambda>_. Some (JObj demo_config)) demo_os demo_args demo_tools None ''20260101_000000'' demo_files =
   (Inr 0, [(''acme__logs__20260101_000000.dump'', 9), (''acme__main__20260101_000000.dump'', 9)])"
  by code_simp


subsection \<open>Where the backup falls short\<close>

text \<open>The pattern of a database also matches the dumps of a database whose name continues it with two underscores, and a
  digit sorts before a letter: the retention of \<open>db\<close> removes the dump it has just made and keeps an old one of
  \<open>db__x\<close>.\<close>

lemma retention_crosses_databases:
  "enforce_retention ''acme/db'' 1
     [(''acme__db__20260101_000000.dump'', 9), (''acme__db__x__20250101_000000.dump'', 5)] =
   [(''acme__db__x__20250101_000000.dump'', 5)]"
  by code_simp

text \<open>A connection string that is not for PostgreSQL is printed whole, password included, in the message of the error;
  \<open>redact\<close> is only used by the plan of a dry run.\<close>

lemma unsupported_url_printed:
  "backup_one tools ''mysql://u:secret@h/d'' ''acme/db'' timestamp files =
   (Inl (RuntimeError ''acme/db: only PostgreSQL targets are backed up here (mysql://u:secret@h/d)''), files)"
  by (simp add: backup_one_def Let_def portable_pg_url_def driver_suffixes_def is_postgres_url_def)

text \<open>The password ends at the first at sign for \<open>redact\<close>: what follows it in a password is printed.\<close>

lemma redact_first_at: "redact ''postgresql://u:pa@ss@h/d'' = ''postgresql://u:****@ss@h/d''"
  by code_simp

text \<open>A binding with rotated credentials has no connection string: one of them ends the whole run with status 2 before
  any database is dumped.\<close>

lemma rotated_binding_stops_backup:
  assumes "load_tenant_config loads os (ba_env_file args) = Inr [(org_id, JObj [(database_id,
     JObj [(''credential_mode'', JStr ''rotated''), (''role_name'', JStr r), (''host'', JStr h), (''db_name'', JStr b)])])]"
  shows "backup_main rep loads os args tools offload timestamp files = (Inr 2, files)"
  using assms
  by (simp add: backup_main_def backup_targets_def target_urls_def org_targets_def binding_targets_def replica_of_def
      py_or_def primary_of_def obj_get_or_def dict_get_empty Let_def caught_def)

text \<open>The gateway reads its configuration file before the variable; the backup only reads the variable, so what it saves
  need not be what the gateway serves.\<close>

lemma config_file_not_backed_up:
  assumes "getenv os ''TENANT_DATABASES_JSON'' [] = raw" and "py_strip raw \<noteq> []" and "loads (py_strip raw) = Some (JObj d)"
    and "file_exists os (default_config_file os)"
  shows "load_tenant_config loads os env_file = Inr d \<and>
    resolver_from_environment rep parse_float loads os =
      resolver_from_config_file parse_float loads os (Some (default_config_file os))"
proof -
  have "configured_sources os env_file = Inr (py_strip raw, py_strip (getenv os ''TENANT_DATABASES_JSON_FILE'' []))"
    using assms(1,2) by (auto simp: configured_sources_def Let_def split: option.splits list.splits)
  then have "load_tenant_config loads os env_file = Inr d"
    using assms(2,3) by (simp add: load_tenant_config_def parse_config_text_def)
  then show ?thesis
    using assms(4) by (simp add: resolver_from_environment_def)
qed

end
