(* ===== verification/Probe.thy ===== *)
theory Probe
  imports Provider Py_Url
begin

text \<open>
  \<open>sql_query_api/probe/run.py\<close>: the connectivity probe over every configured database.

  A database answers as in \<open>Repository\<close> (\<open>db_driver\<close>); which one stands behind a connection string is the argument
  \<open>driver_of\<close>. \<open>rep\<close> is \<open>repr\<close> and \<open>ip_ok\<close> whether a bracketed host is an IP address. The time limit of a probe is the
  answer \<open>Db_Timeout\<close>. What is printed is left out.
\<close>

subsection \<open>Redaction of a target\<close>

text \<open>The path, query and fragment of \<open>urlsplit\<close>, and \<open>urlunsplit\<close> for an address with a net location.\<close>

definition after_netloc :: "string \<Rightarrow> string" where
  "after_netloc url =
     (let rest = snd (split_scheme (url_chars url)) in
      if prefix ''//'' rest then drop (length (netloc_of rest)) (drop 2 rest) else rest)"

definition unsplit :: "string \<Rightarrow> string \<Rightarrow> string \<Rightarrow> string" where
  "unsplit scheme netloc tl_part =
     (case partition_on CHR ''#'' tl_part of (before, _, fragment) \<Rightarrow>
        (case partition_on CHR ''?'' before of (path, _, query) \<Rightarrow>
           (if scheme \<noteq> [] then scheme @ '':'' else []) @ ''//'' @ netloc @
           (if path \<noteq> [] \<and> hd path \<noteq> CHR ''/'' then CHR ''/'' # path else path) @
           (if query \<noteq> [] then CHR ''?'' # query else []) @ (if fragment \<noteq> [] then CHR ''#'' # fragment else [])))"

text \<open>\<open>parts.username\<close>: before the last at sign, up to the first colon.\<close>

definition url_username :: "parsed_url \<Rightarrow> string option" where
  "url_username u =
     (if CHR ''@'' \<notin> set (pu_netloc u) then None
      else Some (fst (partition_on CHR '':'' (join ''@'' (butlast (split_on CHR ''@'' (pu_netloc u)))))))"

definition redact_url :: "(string \<Rightarrow> bool) \<Rightarrow> string \<Rightarrow> string" where
  "redact_url ip_ok s =
     (case urlparse ip_ok s of
        Inl _ \<Rightarrow> s
      | Inr parts \<Rightarrow>
          (case url_username parts of
             None \<Rightarrow> s
           | Some username \<Rightarrow>
               if username = [] then s
               else
                 (case url_port parts of
                    Inl _ \<Rightarrow> s
                  | Inr port \<Rightarrow>
                      unsplit (pu_scheme parts)
                        (filter (\<lambda>c. c \<noteq> CHR '' '') (username @ ''@'' @ url_hostname parts @ port_suffix port)) (after_netloc s))))"

subsection \<open>Resource controls\<close>

definition budget_names :: "string list" where
  "budget_names = [''statement_timeout'', ''lock_timeout'', ''idle_in_transaction_session_timeout'']"

definition disabled_budget :: "(json \<Rightarrow> string) \<Rightarrow> json \<Rightarrow> bool" where
  "disabled_budget rep v \<longleftrightarrow> v = JNull \<or> py_lower (py_strip (py_str rep v)) \<in> {''0'', ''0s'', ''off'', ''none'', []}"

definition check_db_side_resource_controls :: "(json \<Rightarrow> string) \<Rightarrow> obj \<Rightarrow> json \<Rightarrow> exn + string list" where
  "check_db_side_resource_controls rep settings connection_limit =
     (let violations = concat (map (\<lambda>name.
            if disabled_budget rep (obj_get settings name)
            then [name @ '' is not configured (SHOW '' @ name @ '' = '' @ rep (obj_get settings name) @ '')''] else []) budget_names);
          no_limit = [''role has no connection limit (rolconnlimit <= 0)'']
      in (case connection_limit of
            JNull \<Rightarrow> Inr (violations @ no_limit)
          | JInt i \<Rightarrow> Inr (violations @ (if i \<le> 0 then no_limit else []))
          | JBool b \<Rightarrow> Inr (violations @ (if b then [] else no_limit))
          | JFloat r \<Rightarrow> Inr (violations @ (if r \<le> 0 then no_limit else []))
          | _ \<Rightarrow> Inl TypeError))"

subsection \<open>The address of a probe\<close>

text \<open>\<open>connection_string.split("://", 1)\<close> of an address that starts with its scheme.\<close>

fun split_address :: "string \<Rightarrow> string \<times> string" where
  "split_address [] = ([], [])"
| "split_address (c # cs) =
     (if prefix ''://'' (c # cs) then ([], drop 3 (c # cs)) else (case split_address cs of (a, b) \<Rightarrow> (c # a, b)))"

definition normalize_connection_string :: "string \<Rightarrow> string" where
  "normalize_connection_string s =
     (if (prefix ''sqlite://'' s \<or> prefix ''sqlite+aiosqlite://'' s) \<and> \<not> str_contains '':memory:'' s \<and> \<not> str_contains ''mode=ro'' s
      then
        (case split_address s of (pre, path) \<Rightarrow>
           let s2 = (if \<not> prefix ''/file:'' path then pre @ '':///file:/'' @ lstrip_by (\<lambda>c. c = CHR ''/'') path else s) in
           if CHR ''?'' \<in> set s2 then s2 @ ''&mode=ro&uri=true'' else s2 @ ''?mode=ro&uri=true'')
      else s)"

subsection \<open>One probe\<close>

text \<open>A step of a probe: its value or the exception, and the statements that were sent.\<close>

type_synonym 'a step_result = "(exn + 'a) \<times> string list"

definition and_then :: "'a step_result \<Rightarrow> ('a \<Rightarrow> 'b step_result) \<Rightarrow> 'b step_result" where
  "and_then m f =
     (case m of
        (Inl e, tr) \<Rightarrow> (Inl e, tr)
      | (Inr x, tr) \<Rightarrow> (case f x of (r, tr') \<Rightarrow> (r, tr @ tr')))"

definition send :: "db_driver \<Rightarrow> string \<Rightarrow> db_result step_result" where
  "send dr q =
     (case dr_exec dr q [] of
        Db_Error e \<Rightarrow> (Inl e, [q])
      | Db_Timeout \<Rightarrow> (Inl (LibraryError ''TimeoutError''), [q])
      | r \<Rightarrow> (Inr r, [q]))"

text \<open>\<open>(await conn.execute(...)).one()[0]\<close>\<close>

definition first_value :: "db_result \<Rightarrow> exn + json" where
  "first_value r =
     (case r of
        Db_Rows [row] \<Rightarrow> (case row of [] \<Rightarrow> Inl (LibraryError ''IndexError'') | (_, v) # _ \<Rightarrow> Inr v)
      | _ \<Rightarrow> Inl (LibraryError ''NoResultFound''))"

definition ask :: "db_driver \<Rightarrow> string \<Rightarrow> json step_result" where
  "ask dr q = and_then (send dr q) (\<lambda>r. (first_value r, []))"

fun show_settings :: "db_driver \<Rightarrow> string list \<Rightarrow> obj \<Rightarrow> obj step_result" where
  "show_settings dr [] acc = (Inr acc, [])"
| "show_settings dr (name # names) acc =
     and_then (ask dr (''SHOW '' @ name)) (\<lambda>v. show_settings dr names (dict_set acc name v))"

definition limit_query :: string where
  "limit_query = ''SELECT rolconnlimit FROM pg_roles WHERE rolname = current_user''"

definition read_only_statement :: string where
  "read_only_statement = ''SET SESSION CHARACTERISTICS AS TRANSACTION READ ONLY;''"

definition set_probe_role :: "os_state \<Rightarrow> db_driver \<Rightarrow> unit step_result" where
  "set_probe_role os dr =
     (let role_name = py_strip (getenv os ''SQL_READONLY_ROLE'' []) in
      if role_name = [] then (Inr (), [])
      else (case validate_readonly_role_name (Some role_name) of
              Inl e \<Rightarrow> (Inl e, [])
            | Inr r \<Rightarrow> and_then (send dr (''SET ROLE '' @ (case r of None \<Rightarrow> ''None'' | Some t \<Rightarrow> t) @ '';'')) (\<lambda>_. (Inr (), []))))"

definition check_controls :: "(json \<Rightarrow> string) \<Rightarrow> db_driver \<Rightarrow> unit step_result" where
  "check_controls rep dr =
     and_then (show_settings dr budget_names []) (\<lambda>settings.
     and_then (ask dr limit_query) (\<lambda>limit.
       case check_db_side_resource_controls rep settings limit of
         Inl e \<Rightarrow> (Inl e, [])
       | Inr [] \<Rightarrow> (Inr (), [])
       | Inr vs \<Rightarrow> (Inl (RuntimeError (''PostgreSQL resource controls not provisioned: '' @ join ''; '' vs)), [])))"

definition prove_read_only :: "(json \<Rightarrow> string) \<Rightarrow> os_state \<Rightarrow> db_driver \<Rightarrow> unit step_result" where
  "prove_read_only rep os dr =
     and_then (send dr read_only_statement) (\<lambda>_.
     and_then (set_probe_role os dr) (\<lambda>_.
     and_then (ask dr ''SHOW transaction_read_only'') (\<lambda>v.
       (if py_lower (py_strip (py_str rep v)) \<noteq> ''on'' then Inl (RuntimeError ''PostgreSQL session is not read-only'')
        else Inr (), []))))"

definition attempt :: "(json \<Rightarrow> string) \<Rightarrow> os_state \<Rightarrow> db_driver \<Rightarrow> string \<Rightarrow> unit step_result" where
  "attempt rep os dr normalized =
     (case dr_connect dr of
        Inl e \<Rightarrow> (Inl e, [])
      | Inr _ \<Rightarrow>
          and_then
            (if prefix ''postgresql:'' normalized \<or> prefix ''postgresql+'' normalized
             then and_then (check_controls rep dr) (\<lambda>_. prove_read_only rep os dr)
             else (Inr (), []))
            (\<lambda>_. and_then (send dr ''SELECT 1'') (\<lambda>_. (Inr (), []))))"

record probe_result =
  pb_target :: string
  pb_ok :: bool

definition probe_one ::
    "(json \<Rightarrow> string) \<Rightarrow> (string \<Rightarrow> bool) \<Rightarrow> os_state \<Rightarrow> (string \<Rightarrow> db_driver) \<Rightarrow> string \<Rightarrow> probe_result \<times> string list" where
  "probe_one rep ip_ok os driver_of s =
     (let normalized = normalize_connection_string s in
      case attempt rep os (driver_of normalized) normalized of
        (r, tr) \<Rightarrow> (\<lparr>pb_target = redact_url ip_ok s, pb_ok = (case r of Inl _ \<Rightarrow> False | Inr _ \<Rightarrow> True)\<rparr>, tr))"

subsection \<open>All targets\<close>

text \<open>The targets with their labels; \<open>targets.setdefault\<close> for the primary, an assignment for the replica.\<close>

definition add_targets :: "(json, string) dict \<Rightarrow> tenant_config \<Rightarrow> (json, string) dict" where
  "add_targets targets c =
     (let label = tc_org_id c @ ''/'' @ tc_database_id c;
          t1 = (if dict_has targets (tc_connection_string c) then targets else dict_set targets (tc_connection_string c) label)
      in if truthy (tc_replica c) then dict_set t1 (tc_replica c) (label @ '' (replica)'') else t1)"

definition effective_targets :: "tenant_config list \<Rightarrow> (json, string) dict" where
  "effective_targets configs = foldl add_targets [] configs"

text \<open>A target that is no string fails in \<open>startswith\<close>, outside the probe's own error handling.\<close>

fun probe_targets ::
    "(string \<Rightarrow> probe_result \<times> string list) \<Rightarrow> json list \<Rightarrow> exn + probe_result list" where
  "probe_targets probe [] = Inr []"
| "probe_targets probe (t # ts) =
     (case t of
        JStr s \<Rightarrow> bind_result (probe_targets probe ts) (\<lambda>rs. Inr (fst (probe s) # rs))
      | _ \<Rightarrow> Inl (AttributeError ''startswith''))"

definition probe_all :: "(string \<Rightarrow> probe_result \<times> string list) \<Rightarrow> tenant_config list \<Rightarrow> exn + probe_result list" where
  "probe_all probe configs = probe_targets probe (map fst (effective_targets configs))"

definition load_and_probe ::
    "(json \<Rightarrow> string) \<Rightarrow> (string \<Rightarrow> real option) \<Rightarrow> (string \<Rightarrow> json option) \<Rightarrow> (string \<Rightarrow> bool) \<Rightarrow> os_state
      \<Rightarrow> (string \<Rightarrow> db_driver) \<Rightarrow> exn + probe_result list" where
  "load_and_probe rep parse_float loads ip_ok os driver_of =
     bind_result (resolver_from_environment rep parse_float loads os) (\<lambda>resolver.
       probe_all (probe_one rep ip_ok os driver_of) (concat (map snd (rs_bindings resolver))))"

definition probe_main ::
    "(json \<Rightarrow> string) \<Rightarrow> (string \<Rightarrow> real option) \<Rightarrow> (string \<Rightarrow> json option) \<Rightarrow> (string \<Rightarrow> bool) \<Rightarrow> os_state
      \<Rightarrow> (string \<Rightarrow> db_driver) \<Rightarrow> nat" where
  "probe_main rep parse_float loads ip_ok os driver_of =
     (case load_and_probe rep parse_float loads ip_ok os driver_of of
        Inl _ \<Rightarrow> 1
      | Inr results \<Rightarrow> if filter (\<lambda>r. \<not> pb_ok r) results \<noteq> [] then 1 else 0)"

subsection \<open>The probe opens what the gateway opens\<close>

text \<open>The address of a probe is the one the gateway connects to: the two routines agree on every text.\<close>

lemma normalize_is_gateway: "normalize_connection_string s = sqlite_read_only_url s"
proof -
  have "split_address (''sqlite://'' @ p) = (''sqlite'', p)" "split_address (''sqlite+aiosqlite://'' @ p) = (''sqlite+aiosqlite'', p)" for p
    by (simp_all add: numeral_3_eq_3)
  then have "split_address s = after_scheme s" if "prefix ''sqlite://'' s \<or> prefix ''sqlite+aiosqlite://'' s"
    using that by (auto simp: after_scheme_def prefix_def simp del: append_Cons split_address.simps)
  then show ?thesis
    by (auto simp: normalize_connection_string_def sqlite_read_only_url_def Let_def split: prod.splits)
qed

subsection \<open>What a probe sends\<close>

text \<open>The statements of a probe that runs to its end, and the role it takes.\<close>

definition role_statements :: "os_state \<Rightarrow> string list" where
  "role_statements os =
     (let role_name = py_strip (getenv os ''SQL_READONLY_ROLE'' []) in
      if role_name = [] then [] else [''SET ROLE '' @ role_name @ '';''])"

definition probe_statements :: "os_state \<Rightarrow> string \<Rightarrow> string list" where
  "probe_statements os url =
     (if prefix ''postgresql:'' url \<or> prefix ''postgresql+'' url
      then map (\<lambda>n. ''SHOW '' @ n) budget_names @ [limit_query, read_only_statement] @ role_statements os @
        [''SHOW transaction_read_only'']
      else []) @ [''SELECT 1'']"

definition sends :: "'a step_result \<Rightarrow> string list \<Rightarrow> bool" where
  "sends m qs \<longleftrightarrow> prefix (snd m) qs \<and> (\<forall>x. fst m = Inr x \<longrightarrow> snd m = qs)"

lemma sends_value: "sends (r, []) []"
  by (simp add: sends_def)

lemma sends_and_then:
  assumes "sends m p" and "\<And>x. fst m = Inr x \<Longrightarrow> sends (f x) q"
  shows "sends (and_then m f) (p @ q)"
  using assms by (cases m; cases "fst m") (auto simp: sends_def and_then_def split: prod.splits)

lemma sends_if: "sends m p \<Longrightarrow> sends m' p' \<Longrightarrow> sends (if c then m else m') (if c then p else p')"
  by simp

lemma sends_send: "sends (send dr q) [q]"
  by (simp add: sends_def send_def split: db_result.splits)

lemma sends_last: "sends m p \<Longrightarrow> (\<And>x. fst m = Inr x \<Longrightarrow> sends (f x) []) \<Longrightarrow> sends (and_then m f) p"
  using sends_and_then[of m p f "[]"] by simp

lemma sends_ask: "sends (ask dr q) [q]"
  unfolding ask_def by (intro sends_last[OF sends_send]) (simp add: sends_value)

lemma sends_settings: "sends (show_settings dr names acc) (map (\<lambda>n. ''SHOW '' @ n) names)"
proof (induction names arbitrary: acc)
  case (Cons n names)
  have "sends (show_settings dr (n # names) acc) ([''SHOW '' @ n] @ map (\<lambda>n. ''SHOW '' @ n) names)"
    unfolding show_settings.simps by (intro sends_and_then sends_ask Cons)
  then show ?case
    by simp
qed (simp add: sends_value)

lemma role_name_stripped: "validate_readonly_role_name (Some t) = Inr r \<Longrightarrow> r = Some (py_strip t)"
  by (auto simp: validate_readonly_role_name_def split: if_splits)

lemma sends_role: "sends (set_probe_role os dr) (role_statements os)"
proof -
  define t where "t = py_strip (getenv os ''SQL_READONLY_ROLE'' [])"
  have send: "sends (and_then (send dr q) (\<lambda>_. (Inr (), []))) [q]" for q
    by (intro sends_last[OF sends_send]) (simp add: sends_value)
  show ?thesis
  proof (cases "validate_readonly_role_name (Some t)")
    case (Inl e)
    then show ?thesis
      by (simp add: set_probe_role_def role_statements_def Let_def flip: t_def) (simp add: sends_def)
  next
    case (Inr r)
    then have "r = Some t"
      using role_name_stripped unfolding t_def by force
    then show ?thesis
      using Inr send by (simp add: set_probe_role_def role_statements_def Let_def sends_value flip: t_def)
  qed
qed

lemma sends_controls: "sends (check_controls rep dr) (map (\<lambda>n. ''SHOW '' @ n) budget_names @ [limit_query])"
  unfolding check_controls_def
  by (intro sends_and_then sends_settings sends_last sends_ask) (auto simp: sends_value split: sum.splits list.splits)

lemma sends_prove: "sends (prove_read_only rep os dr) ([read_only_statement] @ role_statements os @ [''SHOW transaction_read_only''])"
  unfolding prove_read_only_def
  by (intro sends_and_then sends_send sends_role sends_last[OF sends_ask]) (simp add: sends_value)

text \<open>Whatever the database answers, a probe sends a beginning of its fixed list, and all of it when it succeeds.\<close>

lemma attempt_sends: "sends (attempt rep os dr url) (probe_statements os url)"
proof -
  have fin: "sends (and_then (send dr ''SELECT 1'') (\<lambda>_. (Inr (), []))) [''SELECT 1'']"
    by (intro sends_last[OF sends_send]) (simp add: sends_value)
  have pg: "sends (and_then (check_controls rep dr) (\<lambda>_. prove_read_only rep os dr))
      (map (\<lambda>n. ''SHOW '' @ n) budget_names @ [limit_query, read_only_statement] @ role_statements os @ [''SHOW transaction_read_only''])"
    using sends_and_then[OF sends_controls sends_prove] by simp
  have stop: "sends (Inl e, []) qs" for e :: exn and qs
    by (simp add: sends_def)
  show ?thesis
  proof (cases "dr_connect dr")
    case (Inr u)
    show ?thesis
      unfolding attempt_def probe_statements_def Inr sum.case
      by (intro sends_and_then[OF _ fin] sends_if pg sends_value)
  qed (simp add: attempt_def stop)
qed

subsection \<open>What success means\<close>

text \<open>The database answered a statement with one row, whose first column is the value.\<close>

definition answers :: "db_driver \<Rightarrow> string \<Rightarrow> json \<Rightarrow> bool" where
  "answers dr q v \<longleftrightarrow> (case dr_exec dr q [] of Db_Rows [row] \<Rightarrow> row \<noteq> [] \<and> snd (hd row) = v | _ \<Rightarrow> False)"

definition positive_limit :: "json \<Rightarrow> bool" where
  "positive_limit v \<longleftrightarrow> (case v of JInt i \<Rightarrow> i > 0 | JBool b \<Rightarrow> b | JFloat r \<Rightarrow> r > 0 | _ \<Rightarrow> False)"

lemma and_then_Inr: "fst (and_then m f) = Inr y \<longleftrightarrow> (\<exists>x. fst m = Inr x \<and> fst (f x) = Inr y)"
  by (cases m; cases "fst m") (auto simp: and_then_def split: prod.splits)

lemma ask_answers: "fst (ask dr q) = Inr v \<Longrightarrow> answers dr q v"
  by (auto simp: ask_def and_then_Inr send_def first_value_def answers_def split: db_result.splits list.splits)

lemma show_settings_keep: "fst (show_settings dr names acc) = Inr s \<Longrightarrow> n \<notin> set names \<Longrightarrow> obj_get s n = obj_get acc n"
proof (induction names arbitrary: acc)
  case (Cons m names)
  then show ?case
    by (auto simp: and_then_Inr obj_get_def dest!: Cons.IH)
qed simp

lemma show_settings_answers:
  "fst (show_settings dr names acc) = Inr s \<Longrightarrow> distinct names \<Longrightarrow> n \<in> set names \<Longrightarrow> answers dr (''SHOW '' @ n) (obj_get s n)"
proof (induction names arbitrary: acc)
  case (Cons m names)
  obtain v where v: "fst (ask dr (''SHOW '' @ m)) = Inr v" "fst (show_settings dr names (dict_set acc m v)) = Inr s"
    using Cons.prems(1) by (auto simp: and_then_Inr)
  show ?case
  proof (cases "n = m")
    case True
    then have "obj_get s n = v"
      using show_settings_keep[OF v(2), of n] Cons.prems(2) by (simp add: obj_get_def)
    then show ?thesis
      using ask_answers[OF v(1)] True by simp
  next
    case False
    then show ?thesis
      using Cons.IH[OF v(2)] Cons.prems by simp
  qed
qed simp

lemma controls_met:
  "check_db_side_resource_controls rep settings limit = Inr [] \<Longrightarrow>
   list_all (\<lambda>n. \<not> disabled_budget rep (obj_get settings n)) budget_names \<and> positive_limit limit"
  by (auto simp: check_db_side_resource_controls_def Let_def budget_names_def positive_limit_def split: json.splits if_splits)

definition provisioned :: "(json \<Rightarrow> string) \<Rightarrow> db_driver \<Rightarrow> bool" where
  "provisioned rep dr \<longleftrightarrow>
     (\<forall>n \<in> set budget_names. \<exists>v. answers dr (''SHOW '' @ n) v \<and> \<not> disabled_budget rep v) \<and>
     (\<exists>v. answers dr limit_query v \<and> positive_limit v)"

definition session_read_only :: "(json \<Rightarrow> string) \<Rightarrow> db_driver \<Rightarrow> bool" where
  "session_read_only rep dr \<longleftrightarrow> (\<exists>v. answers dr ''SHOW transaction_read_only'' v \<and> py_lower (py_strip (py_str rep v)) = ''on'')"

lemma check_controls_provisioned: "fst (check_controls rep dr) = Inr () \<Longrightarrow> provisioned rep dr"
proof -
  assume "fst (check_controls rep dr) = Inr ()"
  then obtain settings limit where s: "fst (show_settings dr budget_names []) = Inr settings"
    "fst (ask dr limit_query) = Inr limit"
    and c: "fst (case check_db_side_resource_controls rep settings limit of Inl e \<Rightarrow> (Inl e, [] :: string list)
       | Inr [] \<Rightarrow> (Inr (), [])
       | Inr vs \<Rightarrow> (Inl (RuntimeError (''PostgreSQL resource controls not provisioned: '' @ join ''; '' vs)), [])) = Inr ()"
    unfolding check_controls_def and_then_Inr by blast
  from c have "check_db_side_resource_controls rep settings limit = Inr []"
    by (auto split: sum.splits list.splits)
  note s = s this
  have "distinct budget_names"
    by (simp add: budget_names_def)
  then show ?thesis
    using show_settings_answers[OF s(1)] ask_answers[OF s(2)] controls_met[OF s(3)]
    unfolding provisioned_def list_all_iff by blast
qed

lemma prove_read_only_holds: "fst (prove_read_only rep os dr) = Inr () \<Longrightarrow> session_read_only rep dr"
  by (auto simp: prove_read_only_def and_then_Inr session_read_only_def dest!: ask_answers split: if_splits)

text \<open>A successful probe of one address: the gateway's own address was opened, every statement of the list was sent, and
  a PostgreSQL server showed its resource controls and a read-only session.\<close>

definition verified_target :: "(json \<Rightarrow> string) \<Rightarrow> os_state \<Rightarrow> (string \<Rightarrow> db_driver) \<Rightarrow> string \<Rightarrow> bool" where
  "verified_target rep os driver_of s \<longleftrightarrow>
     (let url = sqlite_read_only_url s; dr = driver_of url in
      dr_connect dr = Inr () \<and> snd (attempt rep os dr url) = probe_statements os url \<and>
      (prefix ''postgresql:'' url \<or> prefix ''postgresql+'' url \<longrightarrow> provisioned rep dr \<and> session_read_only rep dr))"

lemma probe_ok_verified:
  assumes "pb_ok (fst (probe_one rep ip_ok os driver_of s))"
  shows "verified_target rep os driver_of s"
proof -
  define url where "url = sqlite_read_only_url s"
  have ok: "fst (attempt rep os (driver_of url) url) = Inr ()"
    using assms by (auto simp: probe_one_def normalize_is_gateway Let_def url_def split: prod.splits sum.splits)
  then have c: "dr_connect (driver_of url) = Inr ()"
    by (auto simp: attempt_def split: sum.splits)
  moreover have "snd (attempt rep os (driver_of url) url) = probe_statements os url"
    using attempt_sends[of rep os "driver_of url" url] ok by (simp add: sends_def)
  moreover have "provisioned rep (driver_of url) \<and> session_read_only rep (driver_of url)"
    if pg: "prefix ''postgresql:'' url \<or> prefix ''postgresql+'' url"
  proof -
    have "fst (check_controls rep (driver_of url)) = Inr ()" "fst (prove_read_only rep os (driver_of url)) = Inr ()"
      using ok pg c by (simp_all add: attempt_def and_then_Inr)
    then show ?thesis
      using check_controls_provisioned prove_read_only_holds by blast
  qed
  ultimately show ?thesis
    by (simp add: verified_target_def Let_def flip: url_def)
qed

subsection \<open>The whole probe\<close>

lemma add_targets_keys:
  "set (map fst (add_targets d c)) = set (map fst d) \<union> {tc_connection_string c} \<union> (if truthy (tc_replica c) then {tc_replica c} else {})"
proof -
  have "dict_has d k \<longleftrightarrow> k \<in> set (map fst d)" for d :: "(json, string) dict" and k
    by (auto simp: dict_has_def map_of_eq_None_iff)
  then show ?thesis
    by (auto simp: add_targets_def Let_def simp del: set_map)
qed

lemma effective_targets_cover:
  assumes "c \<in> set configs"
  shows "tc_connection_string c \<in> set (map fst (effective_targets configs))"
    and "truthy (tc_replica c) \<Longrightarrow> tc_replica c \<in> set (map fst (effective_targets configs))"
proof -
  have keys: "set (map fst (foldl add_targets d configs)) =
      set (map fst d) \<union> tc_connection_string ` set configs \<union> tc_replica ` {c \<in> set configs. truthy (tc_replica c)}" for d
    by (induction configs arbitrary: d) (auto simp: add_targets_keys simp del: set_map)
  show "tc_connection_string c \<in> set (map fst (effective_targets configs))"
    and "truthy (tc_replica c) \<Longrightarrow> tc_replica c \<in> set (map fst (effective_targets configs))"
    using assms unfolding effective_targets_def keys by auto
qed

lemma probe_targets_each:
  "probe_targets probe ts = Inr rs \<Longrightarrow> t \<in> set ts \<Longrightarrow> \<exists>s. t = JStr s \<and> fst (probe s) \<in> set rs"
  by (induction ts arbitrary: rs) (auto split: json.splits)

lemma probe_zero:
  assumes "probe_main rep parse_float loads ip_ok os driver_of = 0"
    and "resolver_from_environment rep parse_float loads os = Inr resolver"
    and "t \<in> set (map fst (effective_targets (concat (map snd (rs_bindings resolver)))))"
  shows "\<exists>s. t = JStr s \<and> verified_target rep os driver_of s"
proof -
  obtain rs where rs: "probe_targets (probe_one rep ip_ok os driver_of)
      (map fst (effective_targets (concat (map snd (rs_bindings resolver))))) = Inr rs" "filter (\<lambda>r. \<not> pb_ok r) rs = []"
    using assms(1,2) by (auto simp: probe_main_def load_and_probe_def probe_all_def split: sum.splits if_splits)
  obtain s where s: "t = JStr s" "fst (probe_one rep ip_ok os driver_of s) \<in> set rs"
    using probe_targets_each[OF rs(1) assms(3)] by blast
  then have "pb_ok (fst (probe_one rep ip_ok os driver_of s))"
    using rs(2) by (auto simp: filter_empty_conv)
  then show ?thesis
    using probe_ok_verified s(1) by blast
qed


definition probe_loads :: "string \<Rightarrow> json option" where
  "probe_loads t = Some (JObj [(''acme'', JObj [(''main'', JStr ''postgresql+asyncpg://u:p@h/d'')])])"

definition probe_os :: os_state where
  "probe_os = \<lparr>os_env = [(''TENANT_DATABASES_JSON'', ''cfg''), (''SQL_READONLY_ROLE'', ''ro'')], os_files = \<lambda>_. File_Missing\<rparr>"

definition probe_server :: db_driver where
  "probe_server = \<lparr>dr_dialect = ''postgresql'', dr_connect = Inr (),
     dr_exec = (\<lambda>q ps. if prefix ''SHOW t'' q then Db_Rows [[(''v'', JStr ''on'')]]
       else if prefix ''SHOW'' q then Db_Rows [[(''v'', JStr ''30s'')]]
       else if prefix ''SELECT'' q then Db_Rows [[(''v'', JInt 10)]] else Db_No_Rows)\<rparr>"

lemma probe_run: "probe_main (\<lambda>_. []) (\<lambda>_. None) probe_loads (\<lambda>_. True) probe_os (\<lambda>_. probe_server) = 0"
  by code_simp

definition probe_binding :: tenant_config where
  "probe_binding = \<lparr>tc_org_id = ''acme'', tc_database_id = ''main'', tc_credential_mode = ''static'',
     tc_connection_string = JStr ''postgresql+asyncpg://u:p@h/d'', tc_replica = JNull, tc_use_read_replica = False,
     tc_role_name = JStr [], tc_creds_dir = JStr ''/creds'', tc_host = JStr [], tc_port = 5432, tc_db_name = JStr [],
     tc_data_schema = JStr ''public'', tc_metadata_schema = JStr ''meta'', tc_pool_size = None, tc_max_overflow = None,
     tc_pool_timeout = None, tc_pool_recycle = None\<rparr>"

lemma probe_bindings:
  "resolver_from_environment (\<lambda>_. []) (\<lambda>_. None) probe_loads probe_os =
   Inr \<lparr>rs_bindings = [((''acme'', ''main''), [probe_binding])], rs_explicit = True\<rparr>"
  by code_simp


text \<open>A rotated binding has an empty connection string (its credentials are read on use), and no engine can be made for an
  empty address: one such binding makes every probe fail.\<close>

lemma rotated_binding_fails_probe:
  assumes "resolver_from_environment rep parse_float loads os = Inr resolver"
    and "(key, bindings) \<in> set (rs_bindings resolver)" and "c \<in> set bindings"
    and "tc_connection_string c = JStr []" and "dr_connect (driver_of []) = Inl e"
  shows "probe_main rep parse_float loads ip_ok os driver_of \<noteq> 0"
proof
  assume z: "probe_main rep parse_float loads ip_ok os driver_of = 0"
  have c: "c \<in> set (concat (map snd (rs_bindings resolver)))"
    using assms(2,3) by force
  have "verified_target rep os driver_of []"
    using probe_zero[OF z assms(1) effective_targets_cover(1)[OF c]] assms(4) by simp
  then show False
    using assms(5) by (simp add: verified_target_def Let_def sqlite_read_only_url_def)
qed

text \<open>The password is only taken out where the rest of the address is well formed: with a port that is no number, or
  without a user name, the whole text is the target that would be reported.\<close>

lemma redact_url_keeps_password:
  "redact_url (\<lambda>_. True) ''postgresql://u:secret@h/d'' = ''postgresql://u@h/d''"
  "redact_url (\<lambda>_. True) ''postgresql://u:secret@h:5x/d'' = ''postgresql://u:secret@h:5x/d''"
  "redact_url (\<lambda>_. True) ''postgresql://:secret@h/d'' = ''postgresql://:secret@h/d''"
  by code_simp+

end
