(* ===== verification/Runbooks.thy ===== *)
theory Runbooks
  imports Py_Regex
begin

text \<open>
  \<open>scripts/check-runbooks.py\<close>: the check that the runbook only names services, files and addresses that exist.

  The files of the machine are the argument \<open>machine\<close>, by absolute path; \<open>root_dir\<close> is the directory of the
  repository. The result is the list of problems.
\<close>

record machine =
  mc_exists :: "string \<Rightarrow> bool"
  mc_text :: "string \<Rightarrow> string"

text \<open>\<open>root / p\<close> of \<open>pathlib\<close>: an absolute \<open>p\<close> replaces the root.\<close>

definition join_path :: "string \<Rightarrow> string \<Rightarrow> string" where
  "join_path root_dir p = (if prefix ''/'' p then p else root_dir @ ''/'' @ p)"

subsection \<open>Services\<close>

definition service_char :: "char \<Rightarrow> bool" where
  "service_char c \<longleftrightarrow> py_ord c \<in> {97..122} \<or> is_digit c \<or> c = CHR ''_'' \<or> c = CHR ''-''"

text \<open>The rest after \<open>\s*$\<close> in multiline mode, as long as possible: it stops before a line feed or at the end.\<close>

fun to_line_end :: "string \<Rightarrow> string option" where
  "to_line_end [] = Some []"
| "to_line_end (c # cs) =
     (case (if is_space c then to_line_end cs else None) of
        Some rest \<Rightarrow> Some rest
      | None \<Rightarrow> if c = CHR 0x0A then Some (c # cs) else None)"

text \<open>A match of \<open>^\s{2}([a-z0-9_-]+):\s*$\<close> at the start of a line: the name, whether the match ends at the
  start of a line, and the text after it.\<close>

definition service_at :: "string \<Rightarrow> (string \<times> bool \<times> string) option" where
  "service_at s =
     (case s of
        a # b # cs \<Rightarrow>
          if is_space a \<and> is_space b then
            (let name = takeWhile service_char cs; rest = dropWhile service_char cs in
             if name \<noteq> [] \<and> rest \<noteq> [] \<and> hd rest = CHR '':'' then
               (case to_line_end (tl rest) of
                  None \<Rightarrow> None
                | Some r \<Rightarrow> (let blank = take (length (tl rest) - length r) (tl rest) in
                    Some (name, blank \<noteq> [] \<and> last blank = CHR 0x0A, r)))
             else None)
          else None
      | _ \<Rightarrow> None)"

text \<open>\<open>findall\<close>: \<open>start\<close> tells whether the position is the start of a line. The text gets shorter with every step, so its
  length is enough fuel.\<close>

fun service_names :: "nat \<Rightarrow> bool \<Rightarrow> string \<Rightarrow> string list" where
  "service_names 0 start s = []"
| "service_names (Suc n) start s =
     (case (if start then service_at s else None) of
        Some (name, at_start, rest) \<Rightarrow> name # service_names n at_start rest
      | None \<Rightarrow> (case s of [] \<Rightarrow> [] | c # cs \<Rightarrow> service_names n (c = CHR 0x0A) cs))"

lemma service_names_example:
  "service_names 99 True ([CHR 0x0A] @ ''  nginx:'' @ [CHR 0x0A] @ ''    image: x'' @ [CHR 0x0A] @ ''  auth0_api: '' @ [CHR 0x0A, CHR 0x0A] @ ''  web:'') =
   [''nginx'', ''auth0_api'', ''web'']"
  by code_simp

text \<open>What follows the first \<open>services:\<close>, and nothing where there is none.\<close>

fun after_text :: "string \<Rightarrow> string \<Rightarrow> string" where
  "after_text sep [] = []"
| "after_text sep (c # cs) = (if prefix sep (c # cs) then drop (length sep) (c # cs) else after_text sep cs)"

definition services_in_compose :: "string \<Rightarrow> string list" where
  "services_in_compose text =
     (let block = after_text ''services:'' text in service_names (Suc (length block)) True block)"

definition service_ref_rx :: rx where
  "service_ref_rx =
     rx_cat [rx_lit ''$C '',
       rx_any_of [rx_cat [rx_lit ''logs --tail='', rx_plus is_digit, rx_lit '' -f''], rx_lit ''logs'', rx_lit ''restart''],
       rx_lit '' <'', Rx_Group (rx_plus (\<lambda>c. c \<noteq> CHR ''>'')), rx_lit ''>'']"

definition services_referenced :: "string \<Rightarrow> string list" where
  "services_referenced runbook =
     filter (\<lambda>n. n \<noteq> [] \<and> n \<noteq> ''service'')
       (concat (map (\<lambda>m. map (\<lambda>n. strip_by (\<lambda>c. c = CHR ''<'' \<or> c = CHR ''>'') (py_strip n)) (split_on CHR ''|'' (group1 m)))
          (rx_finditer service_ref_rx runbook)))"

subsection \<open>Paths\<close>

definition ticked_rx :: rx where
  "ticked_rx = rx_cat [rx_lit [CHR 0x60], Rx_Group (rx_plus (\<lambda>c. c \<noteq> CHR 0x60)), rx_lit [CHR 0x60]]"

definition path_ext :: "string list" where
  "path_ext = [''.md'', ''.yml'', ''.yaml'', ''.py'', ''.sh'', ''.conf'', ''.toml'', ''.json'', ''.example'']"

definition path_like :: "string \<Rightarrow> bool" where
  "path_like token \<longleftrightarrow>
     \<not> list_ex (\<lambda>p. prefix p token) [''http'', ''$C'', ''$'', [CHR 0x5C], ''curl'', ''echo'', ''ssh''] \<and>
     \<not> (CHR '' '' \<in> set token \<or> CHR ''|'' \<in> set token \<or> suffix '')'' token \<or> suffix '','' token) \<and>
     \<not> list_ex (\<lambda>p. prefix p token) [''<'', ''/etc'', ''https''] \<and>
     (CHR ''/'' \<in> set token \<or> list_ex (\<lambda>e. suffix e token) path_ext \<or> prefix ''.'' token)"

definition path_tokens :: "string \<Rightarrow> string list" where
  "path_tokens runbook =
     map (\<lambda>t. CHR ''/'' # lstrip_by (\<lambda>c. c = CHR ''/'') t)
       (filter path_like (map (\<lambda>m. py_strip (group1 m)) (rx_finditer ticked_rx runbook)))"

subsection \<open>Endpoints\<close>

definition endpoint_sources :: "(string \<times> string list) list" where
  "endpoint_sources =
     [(''/healthz'', [''auth0_api/app/routes/health_routes.py'']),
      (''/readyz'', [''auth0_api/app/routes/health_routes.py'', ''sql_query_api/routes/health_routes.py'']),
      (''/api/graphql'', [''auth0_api/app/routes/graphql_routes.py'']),
      (''/metrics'', [''sql_query_api/app_factory.py'']),
      (''/nginx-health'', [''nginx/nginx.conf''])]"

definition endpoint_missing :: "machine \<Rightarrow> string \<Rightarrow> string \<times> string list \<Rightarrow> bool" where
  "endpoint_missing mc root_dir entry =
     (case entry of (endpoint, sources) \<Rightarrow>
        let found = filter (mc_exists mc) (map (join_path root_dir) sources) in
        if endpoint = ''/api/graphql''
        then (case found of
                [] \<Rightarrow> True
              | source # _ \<Rightarrow> \<not> (str_contains ''prefix=\"/api\"'' (mc_text mc source) \<and> str_contains ''post(\"/graphql\")'' (mc_text mc source)))
        else \<not> list_ex (\<lambda>source. str_contains endpoint (mc_text mc source)) found)"

definition endpoints_defined :: "machine \<Rightarrow> string \<Rightarrow> string list" where
  "endpoints_defined mc root_dir = map fst (filter (endpoint_missing mc root_dir) endpoint_sources)"

subsection \<open>The check\<close>

definition automation :: "string list" where
  "automation =
     [''sql_query_api/probe/run.py'', ''scripts/probe-production.sh'', ''.github/workflows/probe.yml'',
      ''.github/ISSUE_TEMPLATE/incident.md'', ''scripts/incident-start.sh'', ''BACKUP_DR.md'', ''scripts/backup-databases.py'',
      ''.github/workflows/backup.yml'', ''scripts/drills/drill-restore.sh'']"

definition runbook_problems :: "machine \<Rightarrow> string \<Rightarrow> string list" where
  "runbook_problems mc root_dir =
     (let runbook = mc_text mc (join_path root_dir ''RUNBOOKS.md'');
          known = services_in_compose (mc_text mc (join_path root_dir ''docker-compose.yml''))
      in map (\<lambda>s. ''runbook references unknown compose service: '' @ s)
           (filter (\<lambda>s. s \<notin> set known) (sort (remdups (services_referenced runbook)))) @
         map (\<lambda>t. ''runbook references missing path: '' @ t)
           (filter (\<lambda>t. \<not> mc_exists mc (join_path root_dir t)) (sort (path_tokens runbook))) @
         map (\<lambda>e. ''runbook references endpoint that is not defined in source: '' @ e) (endpoints_defined mc root_dir) @
         map (\<lambda>p. ''runbook automation missing: '' @ p) (filter (\<lambda>p. \<not> mc_exists mc (join_path root_dir p)) automation))"

definition runbook_main :: "machine \<Rightarrow> string \<Rightarrow> nat" where
  "runbook_main mc root_dir = (if runbook_problems mc root_dir = [] then 0 else 1)"

subsection \<open>What a passing check shows\<close>

lemma path_token_absolute: "t \<in> set (path_tokens runbook) \<Longrightarrow> join_path root_dir t = t"
  by (auto simp: path_tokens_def join_path_def)

text \<open>The check passes exactly when the services the runbook names are declared, the endpoints and the automation are there,
  and every path it names exists as an absolute path of the machine.\<close>

theorem runbook_check_iff:
  "runbook_main mc root_dir = 0 \<longleftrightarrow>
     set (services_referenced (mc_text mc (join_path root_dir ''RUNBOOKS.md''))) \<subseteq>
       set (services_in_compose (mc_text mc (join_path root_dir ''docker-compose.yml''))) \<and>
     list_all (mc_exists mc) (path_tokens (mc_text mc (join_path root_dir ''RUNBOOKS.md''))) \<and>
     list_all (\<lambda>e. \<not> endpoint_missing mc root_dir e) endpoint_sources \<and>
     list_all (\<lambda>p. mc_exists mc (join_path root_dir p)) automation"
proof -
  have "filter (\<lambda>s. s \<notin> set known) (sort (remdups xs)) = [] \<longleftrightarrow> set xs \<subseteq> set known" for xs known :: "string list"
    by (auto simp: filter_empty_conv)
  moreover have "filter (\<lambda>t. \<not> mc_exists mc (join_path root_dir t)) (sort (path_tokens r)) = [] \<longleftrightarrow>
      list_all (mc_exists mc) (path_tokens r)" for r
    by (auto simp: filter_empty_conv list_all_iff path_token_absolute)
  moreover have "endpoints_defined mc root_dir = [] \<longleftrightarrow> list_all (\<lambda>e. \<not> endpoint_missing mc root_dir e) endpoint_sources"
    by (auto simp: endpoints_defined_def filter_empty_conv list_all_iff)
  moreover have "filter (\<lambda>p. \<not> mc_exists mc (join_path root_dir p)) automation = [] \<longleftrightarrow>
      list_all (\<lambda>p. mc_exists mc (join_path root_dir p)) automation"
    by (auto simp: filter_empty_conv list_all_iff)
  ultimately show ?thesis
    unfolding runbook_main_def runbook_problems_def Let_def by simp
qed

text \<open>A repository in which the named script exists is rejected: the script is looked for at the root of the file system.\<close>

definition demo_machine :: "string \<Rightarrow> machine" where
  "demo_machine runbook =
     \<lparr>mc_exists = (\<lambda>p. prefix ''/repo/'' p),
      mc_text = (\<lambda>p. if p = ''/repo/RUNBOOKS.md'' then runbook
        else ''prefix=\"/api\" post(\"/graphql\") /healthz /readyz /metrics /nginx-health'')\<rparr>"

lemma named_script_not_found:
  "runbook_problems (demo_machine ''Run `scripts/probe.sh`.'') ''/repo'' = [''runbook references missing path: /scripts/probe.sh''] \<and>
   mc_exists (demo_machine ''Run `scripts/probe.sh`.'') ''/repo/scripts/probe.sh''"
  by code_simp

text \<open>Of the services operators are told to look at, only those in angle brackets are checked.\<close>

lemma plain_service_unchecked:
  "services_referenced ''$C logs --tail=5 -f <nginx|web>'' = [''nginx'', ''web'']"
  "services_referenced ''$C logs --tail=5 -f gone'' = []"
  by code_simp+

end
