(* ===== verification/Ruff_Diff.thy ===== *)
theory Ruff_Diff
  imports Schema_View Py_Num
begin

text \<open>
  \<open>sql_query_api/.pre-commit-scripts/ruff-diff-check.py\<close>: findings of the linter on the staged lines.

  The staged diff of a file is the argument \<open>diff_of\<close> (\<open>None\<close> where git fails), the linter's output \<open>ruff\<close> (\<open>None\<close> where it
  cannot be run), \<open>absolute\<close> is \<open>os.path.abspath\<close> and \<open>loads\<close> is \<open>json.loads\<close>. Printing is left out.
\<close>

text \<open>The lines of one hunk header; anything that cannot be read is skipped.\<close>

definition hunk_lines :: "string \<Rightarrow> int list" where
  "hunk_lines line =
     (case split_on CHR '' '' line of
        _ # _ # hunk # _ \<Rightarrow>
          (case split_on CHR '','' (drop 1 hunk) of
             [start, len] \<Rightarrow>
               (case (int_of_text start, int_of_text len) of
                  (Some s, Some l) \<Rightarrow> [s .. s + l - 1]
                | _ \<Rightarrow> [])
           | _ \<Rightarrow> [])
      | _ \<Rightarrow> [])"

definition get_changed_lines :: "(string \<Rightarrow> string option) \<Rightarrow> string \<Rightarrow> int list" where
  "get_changed_lines diff_of name =
     (case diff_of name of
        None \<Rightarrow> []
      | Some diff \<Rightarrow> concat (map hunk_lines (filter (prefix ''@@'') (splitlines diff))))"

text \<open>\<open>line in changed\<close> for the row of a finding; a list or object cannot be hashed.\<close>

definition row_changed :: "json \<Rightarrow> int list \<Rightarrow> exn + bool" where
  "row_changed row changed =
     (case row of
        JInt i \<Rightarrow> Inr (i \<in> set changed)
      | JBool b \<Rightarrow> Inr ((if b then 1 else 0) \<in> set changed)
      | JFloat r \<Rightarrow> Inr (r \<in> set (map real_of_int changed))
      | JArr _ \<Rightarrow> Inl TypeError
      | JObj _ \<Rightarrow> Inl TypeError
      | _ \<Rightarrow> Inr False)"

definition is_violation :: "(string \<Rightarrow> string) \<Rightarrow> (string, int list) dict \<Rightarrow> json \<Rightarrow> exn + bool" where
  "is_violation absolute changed_map p =
     bind_result (py_get p ''filename'') (\<lambda>reported.
     bind_result (case p of JObj d \<Rightarrow> py_get (obj_get_or d ''location'' (JObj [])) ''row'' | _ \<Rightarrow> Inl (AttributeError ''get'')) (\<lambda>row.
       if \<not> truthy reported then Inr False
       else (case reported of
               JStr f \<Rightarrow>
                 (case dict_get changed_map (absolute f) of
                    None \<Rightarrow> Inr False
                  | Some changed \<Rightarrow> row_changed row changed)
             | _ \<Rightarrow> Inl TypeError)))"

definition changed_map_of :: "(string \<Rightarrow> string) \<Rightarrow> (string \<Rightarrow> string option) \<Rightarrow> string list \<Rightarrow> (string, int list) dict" where
  "changed_map_of absolute diff_of names =
     foldl (\<lambda>m f. dict_set m (absolute f) (get_changed_lines diff_of f)) [] names"

definition ruff_main ::
    "(string \<Rightarrow> json option) \<Rightarrow> (string \<Rightarrow> string) \<Rightarrow> (string \<Rightarrow> string option) \<Rightarrow> bool \<Rightarrow> string option \<Rightarrow> string list \<Rightarrow> exn + nat" where
  "ruff_main loads absolute diff_of found ruff names =
     (if \<not> found then Inr 1
      else
        (case ruff of
           None \<Rightarrow> Inr 1
         | Some out \<Rightarrow>
             if py_strip out = [] then Inr 0
             else
               (case loads out of
                  None \<Rightarrow> Inr 1
                | Some v \<Rightarrow>
                    bind_result (py_iter v) (\<lambda>problems.
                    bind_result (result_map (is_violation absolute (changed_map_of absolute diff_of names)) problems) (\<lambda>bs.
                      Inr (if True \<in> set bs then 1 else 0))))))"

subsection \<open>Hunks\<close>

text \<open>The header of a hunk of \<open>l\<close> new lines from line \<open>s\<close> is read as exactly these lines.\<close>

lemma nat_str_plain: "CHR '' '' \<notin> set (nat_str n)" "CHR '','' \<notin> set (nat_str n)"
proof -
  have "is_digit c" if "c \<in> set (nat_str n)" for c
    using digits_of_digits[of n] that by (auto simp: nat_str_def list_all_iff)
  moreover have "\<not> is_digit CHR '' ''" "\<not> is_digit CHR '',''"
    by (simp_all add: is_digit_def py_ord_def)
  ultimately show "CHR '' '' \<notin> set (nat_str n)" "CHR '','' \<notin> set (nat_str n)"
    by blast+
qed

lemma int_of_nat_str: "int_of_text (nat_str n) = Some (int n)"
  using int_of_text_int_str[of "int n"] by (simp add: int_str_def)

lemma hunk_lines_exact:
  assumes "CHR '' '' \<notin> set old"
  shows "hunk_lines (''@@ '' @ old @ '' +'' @ nat_str s @ '','' @ nat_str l @ '' '' @ rest) = [int s .. int s + int l - 1]"
proof -
  note d = nat_str_plain
  have "split_on CHR '' '' (''@@'' @ CHR '' '' # old @ CHR '' '' # (''+'' @ nat_str s @ '','' @ nat_str l) @ CHR '' '' # rest) =
      ''@@'' # old # (''+'' @ nat_str s @ '','' @ nat_str l) # split_on CHR '' '' rest"
    by (subst split_on_append_sep, simp, subst split_on_append_sep, simp add: assms, subst split_on_append_sep) (simp_all add: d)
  moreover have "split_on CHR '','' (nat_str s @ CHR '','' # nat_str l) = [nat_str s, nat_str l]"
    by (simp add: split_on_append_sep split_on_absent d)
  ultimately show ?thesis
    by (simp add: hunk_lines_def int_of_nat_str)
qed

text \<open>With \<open>-U0\<close> git leaves the count out when it is 1: a change of a single line is not seen, and no finding on it is
  ever reported.\<close>

lemma single_line_hunk_skipped:
  assumes "CHR '' '' \<notin> set old"
  shows "hunk_lines (''@@ '' @ old @ '' +'' @ nat_str s @ '' '' @ rest) = []"
proof -
  note d = nat_str_plain
  have "split_on CHR '' '' (''@@'' @ CHR '' '' # old @ CHR '' '' # (''+'' @ nat_str s) @ CHR '' '' # rest) =
      ''@@'' # old # (''+'' @ nat_str s) # split_on CHR '' '' rest"
    by (subst split_on_append_sep, simp, subst split_on_append_sep, simp add: assms, subst split_on_append_sep) (simp_all add: d)
  moreover have "split_on CHR '','' (nat_str s) = [nat_str s]"
    by (simp add: split_on_absent d)
  ultimately show ?thesis
    by (simp add: hunk_lines_def)
qed

end
