(* ===== verification/Request_Path.thy ===== *)
theory Request_Path
  imports Controller Http_Stack
begin

text \<open>
  A GraphQL request on its whole way: through the middlewares of \<open>app_factory.py\<close> (theory \<open>Http_Stack\<close>), the fields of
  \<open>sql_query_controller.py\<close> (\<open>Controller\<close>), the gateway and the provider of tenant services to a database.
\<close>


definition acme_claims :: obj where
  "acme_claims = [(''sub'', JStr ''u''), (TENANT_ID_CLAIM, JStr ''acme'')]"

lemma acme_principal: "build_principal_from_claims (\<lambda>_. []) (Some acme_claims) = Inr (Some acme_user)"
proof -
  have "normalized_roles (\<lambda>_. []) acme_claims = Inr {}"
    by (simp add: normalized_roles_def acme_claims_def TENANT_ID_CLAIM_def ROLES_CLAIM_def py_or_def)
  then show ?thesis
    unfolding acme_user_def by (simp add: build_principal_from_claims_def acme_claims_def) code_simp
qed

lemma acme_rbac:
  "\<exists>sc au jw. rbac_call (\<lambda>_. []) (\<lambda>_. Jwt_Claims acme_claims) example_cfg None
     (http_scope.truncate (example_request\<lparr>rq_correlation_id := Some ''id1'', rq_messages := ms\<rparr>)) = (Forward sc, au, jw)"
proof -
  have "http_scope.truncate (example_request\<lparr>rq_correlation_id := Some ''id1'', rq_messages := ms\<rparr>) = http_scope.truncate example_request"
    by (simp add: http_scope.truncate_def)
  moreover have "case rbac_call (\<lambda>_. []) (\<lambda>_. Jwt_Claims acme_claims) example_cfg None (http_scope.truncate example_request) of
      (Forward sc, _, _) \<Rightarrow> True | _ \<Rightarrow> False"
    unfolding http_scope.truncate_def example_request_def request.simps http_scope.simps by code_simp
  ultimately show ?thesis
    by (auto split: prod.splits rbac_outcome.splits)
qed

lemma acme_reaches:
  "\<exists>reply rq' st'. app_stack (example_stack\<lparr>sg_decode := \<lambda>_. Jwt_Claims acme_claims\<rparr>) ok_app example_request example_state =
     (reply, Some rq', st') \<and> sc_type example_request = ''http'' \<and> graphql_path (sc_path example_request) \<and>
     sc_principal rq' = Some acme_user"
proof -
  let ?g = "example_stack\<lparr>sg_decode := \<lambda>_. Jwt_Claims acme_claims\<rparr>"
  obtain reply rq' st' where run: "app_stack ?g ok_app example_request example_state = (reply, Some rq', st')"
    using acme_rbac stack_reaches by metis
  have http: "sc_type example_request = ''http''" "graphql_path (sc_path example_request)"
    unfolding example_request_def http_scope.simps by code_simp+
  have "sg_rep ?g = (\<lambda>_. [])" "sg_decode ?g = (\<lambda>_. Jwt_Claims acme_claims)"
    by (simp_all add: example_stack_def)
  then have "sc_principal rq' = Some acme_user"
    using stack_reached[OF run http] acme_principal by auto
  then show ?thesis
    using run http by blast
qed


end
