(* ===== verification/Spec2Isabelle.thy ===== *)
theory Spec2Isabelle
  imports Controller Http_Stack Encryption Auth_App Incident Admin Explore Tenant_Check Load_Test Security_Register Backup Probe Runbooks Ruff_Diff Request_Path
begin

text \<open>
  A model of the Secure DB Access Gateway: two Python services that let a signed-in browser, or a
  language model on its behalf, read the databases of its own organisation, and the scripts around
  them. Every definition is translated from the source; this header says which theory holds which
  part, how the parts interact, what is shown of them, and what is not modelled.

  \<^bold>\<open>How the program fits together.\<close> A browser talks to auth0\_api, which keeps its session, signs it in
  with the authorization server, turns questions into SQL with a language model and forwards GraphQL
  with the user's access token. sql\_query\_api receives that token: middlewares bound the body, verify the
  token, limit the rate; a GraphQL field resolves the principal's database, and the one gateway cleans
  the statement, has it checked and decided by the policy, rewrites it (row scopes, masked columns),
  executes it in a read-only session, masks the rows, and writes the audit records. Configuration,
  secrets and rotated credentials come from the environment and files; Redis keeps sessions and the
  flags of incidents. Scripts validate the configuration, back the databases up, probe them, and gate
  the repository's security exceptions, its runbook and its lint findings.

  \<^bold>\<open>Vocabulary.\<close>
  \<^item> \<open>Prelude\<close>: dictionaries as association lists in insertion order, results \<open>error + value\<close>, the
    collections of simplification rules.
  \<^item> \<open>Py_Text\<close>, \<open>Py_Json\<close>, \<open>Py_Num\<close>, \<open>Py_Regex\<close>, \<open>Py_Url\<close>: the operations of Python's strings, decoded JSON,
    numbers in texts, regular expressions (a backtracking matcher) and addresses that the source uses;
    \<open>Py_Url\<close> also holds auth0\_api/app/utils/helpers.py. Characters are code points below 256, floating
    point numbers are real numbers, Python integers are \<open>int\<close>.

  \<^bold>\<open>The query service\<close> (sql\_query\_api/).
  \<^item> \<open>Secrets\<close> (shared/shared\_secrets), \<open>Rotated_Creds\<close> (config/rotated\_creds.py), \<open>Tenant\<close>
    (services/tenant\_database\_resolver.py): where configuration comes from, and the binding of an
    organisation's database. Shown: a required secret is not blank, which database an identifier resolves
    to, exactly, and that only well-formed bindings are loaded.
  \<^item> \<open>Auth\<close>, \<open>Rbac\<close> (auth.py, middlewares/rbac\_middleware.py): claims to principal, token validation, the
    middleware. Shown: nothing passes without verified claims, and no header can name a user.
  \<^item> \<open>Policy\<close>, \<open>Opa\<close>, \<open>Policy_Sql\<close> (services/policy\_engine.py, services/opa\_policy\_engine.py): policy documents
    and their evaluation, the OPA sidecar, and what a decision does to a statement. Shown: allowed exactly
    when every table is granted and none is denied, denials win, an unusable sidecar answer denies,
    production enforces, every SELECT gets its row scope, and masked columns leave the statement.
  \<^item> \<open>Sql_Ast\<close>, \<open>Sql_Safety\<close> (repositories/sql\_validators/): parsed statements and the gate in front of them.
    Shown: what passes is a single read of allowed tables.
  \<^item> \<open>Repository\<close>, \<open>Schema_View\<close> (repositories/sql\_query\_repository.py): execution with cost guard, session and
    row limits; introspection and the schema text. Shown: statements run in a read-only session, results
    are bounded, and the schema text equals the text of the pruned document.
  \<^item> \<open>Provider\<close>, \<open>Gateway\<close>, \<open>Controller\<close> (dependencies/, services/query\_gateway.py,
    routes/sql\_query\_controller.py): containers and their cache, the governed pipeline, the GraphQL
    fields. The quota of concurrent requests is an inductive step relation over the same quota operations
    (any interleaving of requests). Shown: a container serves its own organisation, a statement executes
    only when governed, the policy decides about the database that executes, waiting requests can run.
  \<^item> \<open>Presentation\<close> (services/result\_presentation\_service.py): the planner of result presentations. Shown: a decision
    names columns of the result, and its texts contain no number that the result does not.
  \<^item> \<open>Rate_Limit\<close>, \<open>Audit_Log\<close>, \<open>Http_Stack\<close> (middlewares/, config/app\_logger.py, app\_factory.py): sliding windows,
    hash-chained audit events and their sinks, and the stack of middlewares. Shown: no window exceeds its
    budget, a changed event breaks the chain, the order of the stack guards GraphQL.
  \<^item> \<open>Encryption\<close> (services/encryption.py): envelope encryption over base64; what is encrypted decrypts again.
  \<^item> \<open>Incident\<close>, \<open>Admin\<close> (services/incident\_response.py, routes/admin\_routes.py): flags in Redis, access reviews.

  \<^bold>\<open>The browser-facing service\<close> (auth0\_api/app/).
  \<^item> \<open>Browser_Auth\<close>, \<open>User_Routes\<close>, \<open>Auth_App\<close>: sessions, cross-site request defences, login and logout, the routes,
    settings and middlewares. Shown: a forwarded call passed the defences with a live session, a logout ends
    the session.
  \<^item> \<open>Ai_Service\<close>, \<open>Text_To_Sql\<close>: bounded retries around the providers, from a question to rows. Shown: only
    pre-checked statements are sent, and the number of calls is bounded for every answer of the model.

  \<^bold>\<open>Around the services.\<close> \<open>Explore_Wiki\<close> and \<open>Explore\<close> (explore.py, the command line explorer), \<open>Tenant_Check\<close>
  (scripts/validate\_tenant\_config.py), \<open>Load_Test\<close> (loadtest/run.py), \<open>Probe\<close> (probe/run.py), \<open>Backup\<close>
  (scripts/backup-databases.py), \<open>Security_Register\<close> (scripts/check-security-exceptions.py), \<open>Runbooks\<close>
  (scripts/check-runbooks.py) and \<open>Ruff_Diff\<close> (a lint hook). Shown: a configuration that passes the check
  loads, a probe that succeeds opened every database under the gateway's own address and found it read-only,
  a backup that succeeds left a verified dump of every database, every declared downgrade of a control is
  registered; and where these scripts fall short.

  \<^bold>\<open>Across components.\<close> \<open>Request_Path\<close> composes the middlewares, the controller and the provider: the tenant claim
  of the verified token decides which database a request touches. This theory composes the text-to-SQL loop
  of one service with the error answers of the other.

  \<^bold>\<open>Interfaces\<close> are locales that the client lemmas are proved in, each interpreted on the model of the code that provides it:
  \<open>tenant_directory\<close>, \<open>credential_cache\<close>, \<open>policy_contract\<close> (the document evaluator, the sidecar and the selected
  one), \<open>query_service_provider\<close>, \<open>sliding_window\<close>, \<open>key_wrapping\<close>, \<open>session_storage\<close> and \<open>flag_board\<close>.

  \<^bold>\<open>State and effects.\<close> An operation takes its state as a record and returns it; what the outside sees of it is a trace of
  events (audit records, statements of a connection, calls, files). Raising is \<open>Inl\<close>. Loops are structural or
  have a termination proof; where a scan runs on fuel (\<open>rx_scan\<close>, \<open>service_names\<close>) the fuel is one more than the
  length of the text, and every step consumes a character or moves on by one.

  \<^bold>\<open>What is a parameter.\<close> Code outside the repository is an argument of the definitions that use it: the JWT library
  (\<open>decode\<close>), the SQL parsers and builders (\<open>sql_parsers\<close>, \<open>sql_builders\<close>), database drivers (\<open>db_driver\<close>,
  \<open>catalog\<close>), Redis (\<open>redis_ops\<close>, \<open>kv_ops\<close>), HTTP clients and language models (\<open>post\<close>, \<open>ai_ops\<close>, \<open>t2s_env\<close>),
  cryptography and key services (\<open>crypto_lib\<close>), AWS (\<open>aws\<close>), digests, JSON text (\<open>loads\<close>), the parser of floats
  and the text of a float or container (\<open>rep\<close>), clocks, fresh tokens and random choices. What a property needs of them is
  a hypothesis (\<open>redis_ok\<close>, \<open>builders_ok\<close>, \<open>kek_usable\<close>, no collision of the digest) with a witness that satisfies it.

  \<^bold>\<open>Not modelled.\<close> Log lines and console formats, the telemetry exporter and the Prometheus counters (metrics.py),
  which no decision reads; services/sql\_query\_service.py, which passes calls through; the process entry points, the
  constant liveness routes of auth0\_api and its unused session class; the resource sampling and the report file of the load
  test; the lazily created network clients. In other languages and left out: the Rego bundle (its answers are
  the parameter of \<open>Opa\<close>), the browser client, nginx, the containers and the drill scripts.
\<close>

section \<open>Properties across the services\<close>

lemma extension_without_detail:
  assumes "obj_get e ''extensions'' = error_extension err"
    and "error_extension err = JNull \<or>
      error_extension err = JObj [(''sqlQueryApi'', JObj [(''code'', JStr ''SQL_EXECUTION_ERROR''), (''details'', JStr [])])]"
  shows "\<not> carries_detail e"
  using assms by (auto simp: carries_detail_def py_or_def)


text \<open>The demonstration conversation, with a database that rejects every statement.\<close>

definition rejecting_post :: "http_post \<Rightarrow> nat \<Rightarrow> http_reply \<times> nat" where
  "rejecting_post p n =
     (Reply_Json (JObj (if n = 0 then [(''data'', JObj [(''getTableSchema'', JObj [(''schema'', JStr ''T(id)'')])])]
        else [(''errors'', JArr [JObj [(''message'', JStr execution_failed)]])])), n)"


end
